(* ===== verification/Prelude.thy ===== *)
theory Prelude
  imports Main "HOL-Library.Word"
begin

unbundle bit_operations_syntax

text \<open>
  The vocabulary the whole development shares: the machine integers of the C code as words, byte
  strings, the little-endian reading and writing of integers in a payload, and the outcome type
  of operations that C leaves undefined on some inputs.
\<close>

section \<open>Types\<close>

type_synonym u8 = "8 word"
type_synonym u16 = "16 word"
type_synonym u32 = "32 word"
type_synonym u64 = "64 word"
type_synonym bytes = "8 word list"

text \<open>
  \<open>float\<close> and \<open>double\<close> fields are carried as their bit patterns: the code moves them between
  payloads and structures without computing on them wherever they occur in this development.
\<close>

type_synonym float32 = "32 word"
type_synonym float64 = "64 word"

text \<open>
  Where C leaves the behaviour undefined the model does not choose one: the outcome names the
  reason.
\<close>

datatype ub = Oob_read | Oob_write | Null_deref | Int_overflow | Shift_range | Uninit_read

datatype 'a outcome = Defined 'a | Undefined ub

fun bind_outcome :: "'a outcome \<Rightarrow> ('a \<Rightarrow> 'b outcome) \<Rightarrow> 'b outcome" where
  "bind_outcome (Defined x) f = f x"
| "bind_outcome (Undefined u) f = Undefined u"

fun is_defined :: "'a outcome \<Rightarrow> bool" where
  "is_defined (Defined x) = True"
| "is_defined (Undefined u) = False"

lemma bind_outcome_assoc:
  "bind_outcome (bind_outcome m f) g = bind_outcome m (\<lambda>x. bind_outcome (f x) g)"
  by (cases m) simp_all

lemma bind_outcome_Defined_iff:
  "bind_outcome m f = Defined y \<longleftrightarrow> (\<exists>x. m = Defined x \<and> f x = Defined y)"
  by (cases m) auto

lemma is_defined_iff: "is_defined m \<longleftrightarrow> (\<exists>x. m = Defined x)"
  by (cases m) auto

section \<open>Collections of rewrite rules\<close>

named_theorems codec_simps \<open>reading and writing integers in byte strings\<close>
named_theorems layout_simps \<open>sizes of the wire structures\<close>

section \<open>Little-endian integers\<close>

primrec le_enc :: "nat \<Rightarrow> nat \<Rightarrow> bytes" where
  "le_enc 0 v = []"
| "le_enc (Suc n) v = of_nat (v mod 256) # le_enc n (v div 256)"

primrec le_dec :: "bytes \<Rightarrow> nat" where
  "le_dec [] = 0"
| "le_dec (b # bs) = unat b + 256 * le_dec bs"

lemma length_le_enc [simp]: "length (le_enc n v) = n"
  by (induction n arbitrary: v) auto

lemma unat_of_nat_byte [simp]: "unat (of_nat (v mod 256) :: u8) = v mod 256"
  by (simp add: unat_of_nat)

lemma unat_byte_less: "unat (b :: u8) < 256"
  using unsigned_less[of b, where ?'a = nat] by simp

lemma le_dec_enc [codec_simps]: "le_dec (le_enc n v) = v mod 256 ^ n"
proof (induction n arbitrary: v)
  case 0
  show ?case by simp
next
  case (Suc n)
  have "v mod 256 + 256 * (v div 256 mod 256 ^ n) = v mod (256 * 256 ^ n)"
    by (metis mod_mult2_eq add.commute)
  with Suc show ?case by simp
qed

lemma le_dec_bound: "le_dec bs < 256 ^ length bs"
proof (induction bs)
  case Nil
  show ?case by simp
next
  case (Cons b bs)
  have "unat b < 256" by (rule unat_byte_less)
  with Cons show ?case by simp
qed

lemma le_enc_dec [codec_simps]: "le_enc (length bs) (le_dec bs) = bs"
proof (induction bs)
  case Nil
  show ?case by simp
next
  case (Cons b bs)
  have "unat b < 256" by (rule unat_byte_less)
  then have "(unat b + 256 * le_dec bs) mod 256 = unat b"
    and "(unat b + 256 * le_dec bs) div 256 = le_dec bs" by simp_all
  with Cons show ?case by simp
qed

lemma le_enc_mod: "le_enc n (v mod 256 ^ n) = le_enc n v"
  by (metis le_dec_enc le_enc_dec length_le_enc)

lemma le_enc_inj: "le_enc n v = le_enc n w \<Longrightarrow> v < 256 ^ n \<Longrightarrow> w < 256 ^ n \<Longrightarrow> v = w"
  by (metis le_dec_enc mod_less)

text \<open>The fixed widths.\<close>

definition enc16 :: "u16 \<Rightarrow> bytes" where "enc16 w = le_enc 2 (unat w)"
definition enc32 :: "u32 \<Rightarrow> bytes" where "enc32 w = le_enc 4 (unat w)"
definition enc64 :: "u64 \<Rightarrow> bytes" where "enc64 w = le_enc 8 (unat w)"

lemma length_enc [simp]: "length (enc16 a) = 2" "length (enc32 b) = 4" "length (enc64 c) = 8"
  by (simp_all add: enc16_def enc32_def enc64_def)

text \<open>
  A structure member of \<open>n\<close> bytes at offset \<open>off\<close> of a payload. The payload buffers of the code
  are always allocated at full size, so the slices below are never short.
\<close>

definition bslice :: "nat \<Rightarrow> nat \<Rightarrow> bytes \<Rightarrow> bytes" where
  "bslice off n bs = take n (drop off bs)"

definition rd8 :: "nat \<Rightarrow> bytes \<Rightarrow> u8" where "rd8 off bs = of_nat (le_dec (bslice off 1 bs))"
definition rd16 :: "nat \<Rightarrow> bytes \<Rightarrow> u16" where "rd16 off bs = of_nat (le_dec (bslice off 2 bs))"
definition rd32 :: "nat \<Rightarrow> bytes \<Rightarrow> u32" where "rd32 off bs = of_nat (le_dec (bslice off 4 bs))"
definition rd64 :: "nat \<Rightarrow> bytes \<Rightarrow> u64" where "rd64 off bs = of_nat (le_dec (bslice off 8 bs))"

text \<open>An array of \<open>n\<close> members, each \<open>w\<close> bytes wide, starting at \<open>off\<close>.\<close>

definition rd_array :: "(nat \<Rightarrow> bytes \<Rightarrow> 'a) \<Rightarrow> nat \<Rightarrow> nat \<Rightarrow> nat \<Rightarrow> bytes \<Rightarrow> 'a list" where
  "rd_array rd w off n bs = map (\<lambda>i. rd (off + w * i) bs) [0..<n]"

lemma length_rd_array [simp]: "length (rd_array rd w off n bs) = n"
  by (simp add: rd_array_def)

lemma length_bslice: "off + n \<le> length bs \<Longrightarrow> length (bslice off n bs) = n"
  by (simp add: bslice_def)

lemma bslice_append_skip [codec_simps]:
  "length xs \<le> off \<Longrightarrow> bslice off n (xs @ ys) = bslice (off - length xs) n ys"
  by (simp add: bslice_def)

lemma bslice_append_hit [codec_simps]: "length xs = n \<Longrightarrow> bslice 0 n (xs @ ys) = xs"
  by (simp add: bslice_def)

lemma bslice_all [codec_simps]: "length xs = n \<Longrightarrow> bslice 0 n xs = xs"
  by (simp add: bslice_def)

lemma bslice_Cons_Suc [codec_simps]: "0 < off \<Longrightarrow> bslice off n (x # xs) = bslice (off - 1) n xs"
  by (cases off) (simp_all add: bslice_def)

lemma bslice_Cons_0 [codec_simps]: "bslice 0 (Suc n) (x # xs) = x # bslice 0 n xs"
  by (simp add: bslice_def)

lemma bslice_zero [codec_simps]: "bslice off 0 xs = []"
  by (simp add: bslice_def)

text \<open>Reading members that end before \<open>m\<close> looks only at the first \<open>m\<close> bytes.\<close>

lemma bslice_take: "off + n \<le> m \<Longrightarrow> bslice off n (take m b) = bslice off n b"
  by (simp add: bslice_def take_drop min_def)

lemma rd_take:
  "off + 1 \<le> m \<Longrightarrow> rd8 off (take m b) = rd8 off b"
  "off + 2 \<le> m \<Longrightarrow> rd16 off (take m b) = rd16 off b"
  "off + 4 \<le> m \<Longrightarrow> rd32 off (take m b) = rd32 off b"
  "off + 8 \<le> m \<Longrightarrow> rd64 off (take m b) = rd64 off b"
  by (simp_all only: rd8_def rd16_def rd32_def rd64_def bslice_take)

lemma rd_array_take:
  assumes "\<And>o1. o1 + w \<le> m \<Longrightarrow> rd o1 (take m b) = rd o1 b" and "off + w * n \<le> m"
  shows "rd_array rd w off n (take m b) = rd_array rd w off n b"
  unfolding rd_array_def
proof (rule map_cong[OF refl])
  fix i assume "i \<in> set [0..<n]"
  then have "Suc i \<le> n" by simp
  then have "w * Suc i \<le> w * n" by (rule mult_le_mono2)
  with assms(2) show "rd (off + w * i) (take m b) = rd (off + w * i) b"
    by (intro assms(1)) simp
qed

lemma of_nat_mod_256_power:
  "256 ^ n = (2::nat) ^ LENGTH('a) \<Longrightarrow> (of_nat (unat w mod 256 ^ n) :: 'a::len word) = w"
  by (metis mod_less of_nat_unat ucast_id unsigned_less)

lemma dec_enc16 [codec_simps]: "(of_nat (le_dec (enc16 w)) :: u16) = w"
  unfolding enc16_def le_dec_enc by (rule of_nat_mod_256_power) simp

lemma dec_enc32 [codec_simps]: "(of_nat (le_dec (enc32 w)) :: u32) = w"
  unfolding enc32_def le_dec_enc by (rule of_nat_mod_256_power) simp

lemma dec_enc64 [codec_simps]: "(of_nat (le_dec (enc64 w)) :: u64) = w"
  unfolding enc64_def le_dec_enc by (rule of_nat_mod_256_power) simp

lemma enc_inj [codec_simps]:
  "enc16 a = enc16 b \<longleftrightarrow> a = b" "enc32 c = enc32 d \<longleftrightarrow> c = d" "enc64 e = enc64 f \<longleftrightarrow> e = f"
  by (metis dec_enc16) (metis dec_enc32, metis dec_enc64)

section \<open>Integers of C and bit fields\<close>

text \<open>
  \<open>int\<close> is 32 bits wide and two's complement: a value converted to \<open>int\<close> keeps its low 32 bits.
\<close>

definition to_int32 :: "int \<Rightarrow> int" where
  "to_int32 v = (v + 2 ^ 31) mod 2 ^ 32 - 2 ^ 31"

definition int32_range :: "int \<Rightarrow> bool" where
  "int32_range v \<longleftrightarrow> - (2 ^ 31) \<le> v \<and> v < 2 ^ 31"

lemma to_int32_range: "int32_range (to_int32 v)"
proof -
  have "0 \<le> (v + 2 ^ 31) mod (2 ^ 32 :: int)" by (rule pos_mod_sign) simp
  moreover have "(v + 2 ^ 31) mod 2 ^ 32 < (2 ^ 32 :: int)" by (rule pos_mod_bound) simp
  ultimately show ?thesis unfolding int32_range_def to_int32_def by simp
qed

lemma to_int32_id: "int32_range v \<Longrightarrow> to_int32 v = v"
  unfolding int32_range_def to_int32_def by simp

text \<open>A field of \<open>n\<close> bits that starts at bit \<open>k\<close>.\<close>

definition bitfield :: "nat \<Rightarrow> nat \<Rightarrow> 'a::len word \<Rightarrow> nat" where
  "bitfield k n w = unat w div 2 ^ k mod 2 ^ n"

lemma bitfield_bound: "bitfield k n w < 2 ^ n"
  by (simp add: bitfield_def)

lemma unat_and_mask [simp]: "unat (w AND mask n) = unat w mod 2 ^ n"
  by (metis take_bit_eq_mask take_bit_eq_mod unsigned_take_bit_eq)

lemma unat_drop_bit: "unat (drop_bit k w) = unat w div 2 ^ k"
  by (metis drop_bit_eq_div unat_drop_bit_eq)

end
