(* ===== verification/Transport.thy ===== *)
theory Transport
  imports Prelude
begin

text \<open>
  The mailbox transport under \<open>vendor_meta/src/vendor_commands.c\<close>. The functions
  \<open>arm_cci_request\<close> and \<open>send_cmd_cci\<close>, the message header and the allocator are not part of the
  repository: they are the fields of the record \<open>os\<close>, a parameter of every command. The state \<open>'s\<close>
  is everything behind them (device, heap). The three procedures at the end are the three shapes
  every vendor command has: allocate, arm, send, test the return code, copy the response.
\<close>

section \<open>The parameters\<close>

text \<open>
  One armed request: what \<open>arm_cci_request\<close> is given (declared payload length, command set,
  opcode), the bytes behind the header, and the room for response bytes behind the header of the
  response buffer.
\<close>

record cci_req =
  rq_pl_sz :: nat
  rq_cmdset :: nat
  rq_opcode :: nat
  rq_payload :: bytes
  rq_rsp_cap :: nat

text \<open>
  \<open>os_calloc n\<close> says whether \<open>calloc(1, n)\<close> succeeds, \<open>os_send\<close> is \<open>send_cmd_cci\<close> with the return
  code and the payload bytes it wrote, \<open>os_msg_sz\<close> is \<open>sizeof(struct cxlmi_cci_msg)\<close>.
\<close>

record 's os =
  os_calloc :: "nat \<Rightarrow> 's \<Rightarrow> bool \<times> 's"
  os_send :: "cci_req \<Rightarrow> 's \<Rightarrow> int \<times> bytes \<times> 's"
  os_msg_sz :: nat

text \<open>
  The response buffer is zeroed by \<open>calloc\<close> and has room for \<open>n\<close> payload bytes: what the device
  wrote, then zeros.
\<close>

definition rsp_buffer :: "nat \<Rightarrow> bytes \<Rightarrow> bytes" where
  "rsp_buffer n bs = take n (bs @ replicate n 0)"

lemma length_rsp_buffer [simp]: "length (rsp_buffer n bs) = n"
  by (simp add: rsp_buffer_def)

lemma rsp_buffer_exact [simp]: "length bs = n \<Longrightarrow> rsp_buffer n bs = bs"
  by (simp add: rsp_buffer_def)

lemma rsp_buffer_0 [simp]: "rsp_buffer 0 bs = []"
  by (simp add: rsp_buffer_def)

section \<open>The result of a command\<close>

text \<open>
  Return code, the out-parameter (\<open>None\<close> where the command leaves it untouched) and the state.
\<close>

type_synonym ('r, 's) cmd_result = "int \<times> 'r option \<times> 's"

definition ret_code :: "('r, 's) cmd_result \<Rightarrow> int" where "ret_code r = fst r"
definition ret_out :: "('r, 's) cmd_result \<Rightarrow> 'r option" where "ret_out r = fst (snd r)"
definition ret_state :: "('r, 's) cmd_result \<Rightarrow> 's" where "ret_state r = snd (snd r)"

lemma ret_simps [simp]:
  "ret_code (a, b, c) = a" "ret_out (a, b, c) = b" "ret_state (a, b, c) = c"
  by (simp_all add: ret_code_def ret_out_def ret_state_def)

section \<open>The shapes of a command\<close>

definition send_only :: "'s os \<Rightarrow> cci_req \<Rightarrow> 's \<Rightarrow> (unit, 's) cmd_result" where
  "send_only os rq s = (case os_send os rq s of (rc, pl, s') \<Rightarrow> (rc, Some (), s'))"

text \<open>
  The common tail of every command with a response: allocate the response buffer for \<open>n\<close> payload
  bytes (\<open>-1\<close> when that fails), send, return the code if it is not 0, otherwise copy the payload
  out with \<open>dec\<close>.
\<close>

definition exchange ::
  "'s os \<Rightarrow> nat \<Rightarrow> nat \<Rightarrow> bytes \<Rightarrow> nat \<Rightarrow> nat \<Rightarrow> (bytes \<Rightarrow> 'r) \<Rightarrow> 's \<Rightarrow> ('r, 's) cmd_result" where
  "exchange os cs opc payload declared n dec s =
     (case os_calloc os (os_msg_sz os + n) s of (ok, s1) \<Rightarrow>
        if \<not> ok then (-1, None, s1)
        else case os_send os \<lparr>rq_pl_sz = declared, rq_cmdset = cs, rq_opcode = opc,
                              rq_payload = payload, rq_rsp_cap = n\<rparr> s1 of (rc, pl, s2) \<Rightarrow>
          if rc \<noteq> 0 then (rc, None, s2) else (rc, Some (dec (rsp_buffer n pl)), s2))"

text \<open>No request payload: the request header is on the stack.\<close>

definition get_cmd ::
  "'s os \<Rightarrow> nat \<Rightarrow> nat \<Rightarrow> nat \<Rightarrow> (bytes \<Rightarrow> 'r) \<Rightarrow> 's \<Rightarrow> ('r, 's) cmd_result" where
  "get_cmd os cs opc n dec s = exchange os cs opc [] 0 n dec s"

text \<open>
  A request payload and no response payload: the request is on the heap, the response header on
  the stack. The out-parameter is absent, so a completed send yields \<open>Some ()\<close>.
\<close>

definition set_cmd :: "'s os \<Rightarrow> nat \<Rightarrow> nat \<Rightarrow> bytes \<Rightarrow> 's \<Rightarrow> (unit, 's) cmd_result" where
  "set_cmd os cs opc payload s =
     (case os_calloc os (length payload + os_msg_sz os) s of (ok, s1) \<Rightarrow>
        if \<not> ok then (-1, None, s1)
        else send_only os \<lparr>rq_pl_sz = length payload, rq_cmdset = cs, rq_opcode = opc,
                           rq_payload = payload, rq_rsp_cap = 0\<rparr> s1)"

text \<open>Both payloads: the request is allocated first, then the response.\<close>

definition xfer_cmd ::
  "'s os \<Rightarrow> nat \<Rightarrow> nat \<Rightarrow> bytes \<Rightarrow> nat \<Rightarrow> (bytes \<Rightarrow> 'r) \<Rightarrow> 's \<Rightarrow> ('r, 's) cmd_result" where
  "xfer_cmd os cs opc payload n dec s =
     (case os_calloc os (os_msg_sz os + length payload) s of (ok, s1) \<Rightarrow>
        if \<not> ok then (-1, None, s1)
        else exchange os cs opc payload (length payload) n dec s1)"

text \<open>Neither payload: request and response headers are on the stack, nothing is allocated.\<close>

definition bare_cmd :: "'s os \<Rightarrow> nat \<Rightarrow> nat \<Rightarrow> 's \<Rightarrow> (unit, 's) cmd_result" where
  "bare_cmd os cs opc s =
     send_only os \<lparr>rq_pl_sz = 0, rq_cmdset = cs, rq_opcode = opc, rq_payload = [],
                   rq_rsp_cap = 0\<rparr> s"

lemmas shape_defs = get_cmd_def xfer_cmd_def set_cmd_def bare_cmd_def exchange_def send_only_def

section \<open>The contract of a query\<close>

text \<open>
  What a caller of a command with an out-parameter relies on: the parameter is written exactly
  when the return code is 0.
\<close>

locale query =
  fixes run :: "'s \<Rightarrow> ('r, 's) cmd_result"
  assumes out_iff: "ret_out (run s) \<noteq> None \<longleftrightarrow> ret_code (run s) = 0"
begin

lemma out_defined: "ret_code (run s) = 0 \<Longrightarrow> \<exists>r. ret_out (run s) = Some r"
  using out_iff by blast

lemma out_untouched: "ret_code (run s) \<noteq> 0 \<Longrightarrow> ret_out (run s) = None"
  using out_iff by blast

end

lemma exchange_out_iff:
  "ret_out (exchange os cs opc p d n dec s) \<noteq> None \<longleftrightarrow>
   ret_code (exchange os cs opc p d n dec s) = 0"
  by (simp add: exchange_def split: prod.split)

lemma xfer_out_iff:
  "ret_out (xfer_cmd os cs opc p n dec s) \<noteq> None \<longleftrightarrow>
   ret_code (xfer_cmd os cs opc p n dec s) = 0"
  unfolding xfer_cmd_def
  by (simp add: exchange_out_iff[simplified] split: prod.split)

section \<open>Observing what a command sends\<close>

text \<open>
  A transport that records the requests it is given and answers each with \<open>rc\<close> and \<open>pl\<close>: it shows
  the traffic of a command as a list. Allocation answers \<open>ok\<close>.
\<close>

definition probe :: "bool \<Rightarrow> int \<Rightarrow> bytes \<Rightarrow> cci_req list os" where
  "probe ok rc pl = \<lparr>os_calloc = (\<lambda>n s. (ok, s)), os_send = (\<lambda>rq s. (rc, pl, s @ [rq])),
                     os_msg_sz = 0\<rparr>"

lemma probe_simps [simp]:
  "os_calloc (probe ok rc pl) n s = (ok, s)"
  "os_send (probe ok rc pl) rq s = (rc, pl, s @ [rq])"
  "os_msg_sz (probe ok rc pl) = 0"
  by (simp_all add: probe_def)

definition traffic :: "(cci_req list os \<Rightarrow> cci_req list \<Rightarrow> ('r, cci_req list) cmd_result) \<Rightarrow> cci_req list" where
  "traffic c = ret_state (c (probe True 0 []) [])"

definition opcode_of :: "cci_req \<Rightarrow> nat \<times> nat" where
  "opcode_of rq = (rq_cmdset rq, rq_opcode rq)"

end
