(* ===== verification/Vendor_Types.thy ===== *)
theory Vendor_Types
  imports Transport
begin

text \<open>
  The wire structures of \<open>vendor_meta/inc/vendor_types.h\<close> and \<open>vendor_meta/inc/ddr.h\<close>: the command
  sets and opcodes, a record per response structure with its size and its reading from the
  payload bytes, and a record per request structure with its writing. Offsets are those of the
  x86-64 ABI, with the padding the structures have there; integers are little-endian, as on the
  hosts the tool runs on, because the code copies them without conversion. A field of type
  \<open>int\<close> or \<open>int8_t\<close> is carried as the word that holds it.
\<close>

section \<open>Command sets and opcodes\<close>

named_theorems opcode_simps \<open>the numbers of the command sets and opcodes\<close>

definition VENDOR_CMD_DDR_DIMM_MGMT :: nat where [opcode_simps]: "VENDOR_CMD_DDR_DIMM_MGMT = 0xc5"
definition DIMM_SPD_READ :: nat where [opcode_simps]: "DIMM_SPD_READ = 0x10"
definition DIMM_SLOT_INFO :: nat where [opcode_simps]: "DIMM_SLOT_INFO = 0x20"
definition READ_DDR_TEMP :: nat where [opcode_simps]: "READ_DDR_TEMP = 0x31"
definition VENDOR_CMD_OEM_MGMT :: nat where [opcode_simps]: "VENDOR_CMD_OEM_MGMT = 0xcd"
definition OEM_HBO_STATUS :: nat where [opcode_simps]: "OEM_HBO_STATUS = 0x00"
definition TRANSFER_FW :: nat where [opcode_simps]: "TRANSFER_FW = 0x01"
definition ACTIVATE_FW :: nat where [opcode_simps]: "ACTIVATE_FW = 0x02"
definition GET_OS_INFO :: nat where [opcode_simps]: "GET_OS_INFO = 0x03"
definition TRANSFER_OS :: nat where [opcode_simps]: "TRANSFER_OS = 0x04"
definition VENDOR_CMD_HEALTH_MGMT :: nat where [opcode_simps]: "VENDOR_CMD_HEALTH_MGMT = 0xce"
definition HEALTH_COUNTERS_CLEAR :: nat where [opcode_simps]: "HEALTH_COUNTERS_CLEAR = 0x00"
definition HEALTH_COUNTERS_GET :: nat where [opcode_simps]: "HEALTH_COUNTERS_GET = 0x01"
definition VENDOR_CMD_OTHERS :: nat where [opcode_simps]: "VENDOR_CMD_OTHERS = 0xfb"
definition PMIC_VTMON_INFO :: nat where [opcode_simps]: "PMIC_VTMON_INFO = 0x00"
definition READ_LTSSM_STATES :: nat where [opcode_simps]: "READ_LTSSM_STATES = 0x01"
definition PCIE_EYE_RUN :: nat where [opcode_simps]: "PCIE_EYE_RUN = 0x02"
definition PCIE_EYE_STATUS :: nat where [opcode_simps]: "PCIE_EYE_STATUS = 0x03"
definition PCIE_EYE_GET_SW :: nat where [opcode_simps]: "PCIE_EYE_GET_SW = 0x04"
definition PCIE_EYE_GET_HW :: nat where [opcode_simps]: "PCIE_EYE_GET_HW = 0x05"
definition PCIE_EYE_GET_SW_BER :: nat where [opcode_simps]: "PCIE_EYE_GET_SW_BER = 0x06"
definition CXL_LINK_STATUS :: nat where [opcode_simps]: "CXL_LINK_STATUS = 0x07"
definition DEVICE_INFO :: nat where [opcode_simps]: "DEVICE_INFO = 0x08"
definition GET_DDR_BW :: nat where [opcode_simps]: "GET_DDR_BW = 0x09"
definition DDR_MARGIN_RUN :: nat where [opcode_simps]: "DDR_MARGIN_RUN = 0x0a"
definition DDR_MARGIN_STATUS :: nat where [opcode_simps]: "DDR_MARGIN_STATUS = 0x0b"
definition DDR_MARGIN_GET :: nat where [opcode_simps]: "DDR_MARGIN_GET = 0x0c"
definition REBOOT_MODE_SET :: nat where [opcode_simps]: "REBOOT_MODE_SET = 0x0d"
definition CURR_CXL_BOOT_MODE_GET :: nat where [opcode_simps]: "CURR_CXL_BOOT_MODE_GET = 0x0e"
definition GET_DDR_ECC_ERR_INFO :: nat where [opcode_simps]: "GET_DDR_ECC_ERR_INFO = 0x0f"
definition I2C_READ :: nat where [opcode_simps]: "I2C_READ = 0x10"
definition I2C_WRITE :: nat where [opcode_simps]: "I2C_WRITE = 0x11"
definition GET_DDR_LATENCY :: nat where [opcode_simps]: "GET_DDR_LATENCY = 0x12"
definition GET_MEMBRIDGE_ERRORS :: nat where [opcode_simps]: "GET_MEMBRIDGE_ERRORS = 0x13"
definition HPA_TO_DPA :: nat where [opcode_simps]: "HPA_TO_DPA = 0x14"
definition START_DDR_ECC_SCRUB :: nat where [opcode_simps]: "START_DDR_ECC_SCRUB = 0x15"
definition DDR_ECC_SCRUB_STATUS :: nat where [opcode_simps]: "DDR_ECC_SCRUB_STATUS = 0x16"
definition DDR_INIT_STATUS :: nat where [opcode_simps]: "DDR_INIT_STATUS = 0x17"
definition GET_MEMBRIDGE_STATS :: nat where [opcode_simps]: "GET_MEMBRIDGE_STATS = 0x18"
definition DDR_ERR_INJ_EN :: nat where [opcode_simps]: "DDR_ERR_INJ_EN = 0x19"
definition TRIGGER_COREDUMP :: nat where [opcode_simps]: "TRIGGER_COREDUMP = 0x1a"
definition DDR_STATS_RUN :: nat where [opcode_simps]: "DDR_STATS_RUN = 0x1b"
definition DDR_STATS_STATUS :: nat where [opcode_simps]: "DDR_STATS_STATUS = 0x1c"
definition DDR_STATS_GET :: nat where [opcode_simps]: "DDR_STATS_GET = 0x1d"
definition DDR_PARAM_SET :: nat where [opcode_simps]: "DDR_PARAM_SET = 0x1e"
definition DDR_PARAM_GET :: nat where [opcode_simps]: "DDR_PARAM_GET = 0x1f"
definition DIMM_LEVEL_TRAINING_STATUS :: nat where [opcode_simps]: "DIMM_LEVEL_TRAINING_STATUS = 0x20"
definition CXL_VIRAL_INJ_EN :: nat where [opcode_simps]: "CXL_VIRAL_INJ_EN = 0x21"
definition CXL_MEM_LL_ERR_INJ_EN :: nat where [opcode_simps]: "CXL_MEM_LL_ERR_INJ_EN = 0x22"
definition CXL_IO_LL_ERR_INJ_EN :: nat where [opcode_simps]: "CXL_IO_LL_ERR_INJ_EN = 0x23"
definition CXL_PHY_ERR_INJ_EN :: nat where [opcode_simps]: "CXL_PHY_ERR_INJ_EN = 0x24"
definition PCI_RAS_DES_ERR_INJ_EN :: nat where [opcode_simps]: "PCI_RAS_DES_ERR_INJ_EN = 0x25"
definition CORE_VOLT_SET :: nat where [opcode_simps]: "CORE_VOLT_SET = 0x26"
definition CORE_VOLT_GET :: nat where [opcode_simps]: "CORE_VOLT_GET = 0x27"
definition DDR_CONT_SCRUB_STATUS :: nat where [opcode_simps]: "DDR_CONT_SCRUB_STATUS = 0x28"
definition DDR_CONT_SCRUB_SET :: nat where [opcode_simps]: "DDR_CONT_SCRUB_SET = 0x29"
definition DDR_PAGE_SELECT_SET :: nat where [opcode_simps]: "DDR_PAGE_SELECT_SET = 0x2a"
definition DDR_PAGE_SELECT_GET :: nat where [opcode_simps]: "DDR_PAGE_SELECT_GET = 0x2b"
definition DDR_HPPR_SET :: nat where [opcode_simps]: "DDR_HPPR_SET = 0x2c"
definition DDR_HPPR_GET :: nat where [opcode_simps]: "DDR_HPPR_GET = 0x2d"
definition DDR_HPPR_ADDR_INFO_SET :: nat where [opcode_simps]: "DDR_HPPR_ADDR_INFO_SET = 0x2e"
definition DDR_HPPR_ADDR_INFO_GET :: nat where [opcode_simps]: "DDR_HPPR_ADDR_INFO_GET = 0x2f"
definition DDR_HPPR_ADDR_INFO_CLEAR :: nat where [opcode_simps]: "DDR_HPPR_ADDR_INFO_CLEAR = 0x30"
definition DDR_PPR_GET_STATUS :: nat where [opcode_simps]: "DDR_PPR_GET_STATUS = 0x31"
definition DDR_REFRESH_MODE_SET :: nat where [opcode_simps]: "DDR_REFRESH_MODE_SET = 0x32"
definition DDR_REFRESH_MODE_GET :: nat where [opcode_simps]: "DDR_REFRESH_MODE_GET = 0x33"
definition CXL_ERR_CNTR_GET :: nat where [opcode_simps]: "CXL_ERR_CNTR_GET = 0x34"
definition DDR_FREQUENCY_GET :: nat where [opcode_simps]: "DDR_FREQUENCY_GET = 0x35"
definition DDR_INIT_ERR_INFO_GET :: nat where [opcode_simps]: "DDR_INIT_ERR_INFO_GET = 0x36"

section \<open>Response structures of the management commands\<close>

record hbo_status_out =
  bo_status :: u64

definition sizeof_hbo_status_out :: nat where [layout_simps]: "sizeof_hbo_status_out = 8"

definition dec_hbo_status_out :: "bytes \<Rightarrow> hbo_status_out" where
  "dec_hbo_status_out b = \<lparr>
     bo_status = rd64 0 b\<rparr>"

record dimm_spd_read_rsp =
  dimm_spd_data :: bytes

definition sizeof_dimm_spd_read_rsp :: nat where [layout_simps]: "sizeof_dimm_spd_read_rsp = 512"

definition dec_dimm_spd_read_rsp :: "bytes \<Rightarrow> dimm_spd_read_rsp" where
  "dec_dimm_spd_read_rsp b = \<lparr>
     dimm_spd_data = bslice 0 512 b\<rparr>"

text \<open>
  The handler of the slot information also reads this structure as an array of bytes; the last
  member is that view of it.
\<close>

record dimm_slot_info =
  num_dimm_slots :: u8
  slot0_spd_i2c_addr :: u8
  slot0_channel_id :: u8
  slot0_dimm_silk_screen :: u8
  slot0_dimm_present :: u8
  slot1_spd_i2c_addr :: u8
  slot1_channel_id :: u8
  slot1_dimm_silk_screen :: u8
  slot1_dimm_present :: u8
  slot2_spd_i2c_addr :: u8
  slot2_channel_id :: u8
  slot2_dimm_silk_screen :: u8
  slot2_dimm_present :: u8
  slot3_spd_i2c_addr :: u8
  slot3_channel_id :: u8
  slot3_dimm_silk_screen :: u8
  slot3_dimm_present :: u8
  slot_info_bytes :: bytes

definition sizeof_dimm_slot_info :: nat where [layout_simps]: "sizeof_dimm_slot_info = 68"

definition dec_dimm_slot_info :: "bytes \<Rightarrow> dimm_slot_info" where
  "dec_dimm_slot_info b = \<lparr>
     num_dimm_slots = rd8 0 b,
     slot0_spd_i2c_addr = rd8 4 b,
     slot0_channel_id = rd8 5 b,
     slot0_dimm_silk_screen = rd8 6 b,
     slot0_dimm_present = rd8 7 b,
     slot1_spd_i2c_addr = rd8 20 b,
     slot1_channel_id = rd8 21 b,
     slot1_dimm_silk_screen = rd8 22 b,
     slot1_dimm_present = rd8 23 b,
     slot2_spd_i2c_addr = rd8 36 b,
     slot2_channel_id = rd8 37 b,
     slot2_dimm_silk_screen = rd8 38 b,
     slot2_dimm_present = rd8 39 b,
     slot3_spd_i2c_addr = rd8 52 b,
     slot3_channel_id = rd8 53 b,
     slot3_dimm_silk_screen = rd8 54 b,
     slot3_dimm_present = rd8 55 b,
     slot_info_bytes = bslice 0 68 b\<rparr>"

record ddr_temp =
  ddr_temp_valid :: u8
  temp_dimm_id :: u8
  temp_spd_idx :: u8
  dimm_temp :: float32

definition sizeof_ddr_temp :: nat where [layout_simps]: "sizeof_ddr_temp = 8"

definition dec_ddr_temp :: "bytes \<Rightarrow> ddr_temp" where
  "dec_ddr_temp b = \<lparr>
     ddr_temp_valid = rd8 0 b,
     temp_dimm_id = rd8 1 b,
     temp_spd_idx = rd8 2 b,
     dimm_temp = rd32 4 b\<rparr>"

record read_ddr_temp =
  ddr_dimm_temp_info :: "ddr_temp list"

definition sizeof_read_ddr_temp :: nat where [layout_simps]: "sizeof_read_ddr_temp = 32"

definition dec_read_ddr_temp :: "bytes \<Rightarrow> read_ddr_temp" where
  "dec_read_ddr_temp b = \<lparr>
     ddr_dimm_temp_info = rd_array (\<lambda>o1 x. dec_ddr_temp (bslice o1 8 x)) 8 0 4 b\<rparr>"

record health_counters =
  hc_critical_over_temperature_exceeded :: u32
  hc_power_on_events :: u32
  hc_power_on_hours :: u32
  hc_cxl_mem_link_crc_errors :: u32
  hc_cxl_io_link_lcrc_errors :: u32
  hc_cxl_io_link_ecrc_errors :: u32
  hc_num_ddr_correctable_ecc_errors :: u32
  hc_num_ddr_uncorrectable_ecc_errors :: u32
  hc_link_recovery_events :: u32
  hc_time_in_throttled :: u32
  hc_over_temperature_warning_level_exceeded :: u32
  hc_critical_under_temperature_exceeded :: u32
  hc_under_temperature_warning_level_exceeded :: u32
  hc_rx_retry_request :: u32
  hc_rcmd_qs0_hi_threshold_detect :: u32
  hc_rcmd_qs1_hi_threshold_detect :: u32
  hc_num_pscan_correctable_ecc_errors :: u32
  hc_num_pscan_uncorrectable_ecc_errors :: u32
  hc_num_ddr_dimm0_correctable_ecc_errors :: u32
  hc_num_ddr_dimm0_uncorrectable_ecc_errors :: u32
  hc_num_ddr_dimm1_correctable_ecc_errors :: u32
  hc_num_ddr_dimm1_uncorrectable_ecc_errors :: u32
  hc_num_ddr_dimm2_correctable_ecc_errors :: u32
  hc_num_ddr_dimm2_uncorrectable_ecc_errors :: u32
  hc_num_ddr_dimm3_correctable_ecc_errors :: u32
  hc_num_ddr_dimm3_uncorrectable_ecc_errors :: u32

definition sizeof_health_counters :: nat where [layout_simps]: "sizeof_health_counters = 104"

definition dec_health_counters :: "bytes \<Rightarrow> health_counters" where
  "dec_health_counters b = \<lparr>
     hc_critical_over_temperature_exceeded = rd32 0 b,
     hc_power_on_events = rd32 4 b,
     hc_power_on_hours = rd32 8 b,
     hc_cxl_mem_link_crc_errors = rd32 12 b,
     hc_cxl_io_link_lcrc_errors = rd32 16 b,
     hc_cxl_io_link_ecrc_errors = rd32 20 b,
     hc_num_ddr_correctable_ecc_errors = rd32 24 b,
     hc_num_ddr_uncorrectable_ecc_errors = rd32 28 b,
     hc_link_recovery_events = rd32 32 b,
     hc_time_in_throttled = rd32 36 b,
     hc_over_temperature_warning_level_exceeded = rd32 40 b,
     hc_critical_under_temperature_exceeded = rd32 44 b,
     hc_under_temperature_warning_level_exceeded = rd32 48 b,
     hc_rx_retry_request = rd32 52 b,
     hc_rcmd_qs0_hi_threshold_detect = rd32 56 b,
     hc_rcmd_qs1_hi_threshold_detect = rd32 60 b,
     hc_num_pscan_correctable_ecc_errors = rd32 64 b,
     hc_num_pscan_uncorrectable_ecc_errors = rd32 68 b,
     hc_num_ddr_dimm0_correctable_ecc_errors = rd32 72 b,
     hc_num_ddr_dimm0_uncorrectable_ecc_errors = rd32 76 b,
     hc_num_ddr_dimm1_correctable_ecc_errors = rd32 80 b,
     hc_num_ddr_dimm1_uncorrectable_ecc_errors = rd32 84 b,
     hc_num_ddr_dimm2_correctable_ecc_errors = rd32 88 b,
     hc_num_ddr_dimm2_uncorrectable_ecc_errors = rd32 92 b,
     hc_num_ddr_dimm3_correctable_ecc_errors = rd32 96 b,
     hc_num_ddr_dimm3_uncorrectable_ecc_errors = rd32 100 b\<rparr>"

record pmic_data =
  pmic_name :: bytes
  pmic_vin :: float32
  pmic_vout :: float32
  pmic_iout :: float32
  pmic_powr :: float32
  pmic_temp :: float32

definition sizeof_pmic_data :: nat where [layout_simps]: "sizeof_pmic_data = 40"

definition dec_pmic_data :: "bytes \<Rightarrow> pmic_data" where
  "dec_pmic_data b = \<lparr>
     pmic_name = bslice 0 20 b,
     pmic_vin = rd32 20 b,
     pmic_vout = rd32 24 b,
     pmic_iout = rd32 28 b,
     pmic_powr = rd32 32 b,
     pmic_temp = rd32 36 b\<rparr>"

record pmic_vtmon_info =
  pmic_list :: "pmic_data list"

definition sizeof_pmic_vtmon_info :: nat where [layout_simps]: "sizeof_pmic_vtmon_info = 320"

definition dec_pmic_vtmon_info :: "bytes \<Rightarrow> pmic_vtmon_info" where
  "dec_pmic_vtmon_info b = \<lparr>
     pmic_list = rd_array (\<lambda>o1 x. dec_pmic_data (bslice o1 40 x)) 40 0 8 b\<rparr>"

section \<open>Response structures of the link commands\<close>

record read_ltssm_states =
  ltssm_states :: "u32 list"

definition sizeof_read_ltssm_states :: nat where [layout_simps]: "sizeof_read_ltssm_states = 512"

definition dec_read_ltssm_states :: "bytes \<Rightarrow> read_ltssm_states" where
  "dec_read_ltssm_states b = \<lparr>
     ltssm_states = rd_array rd32 4 0 128 b\<rparr>"

record pcie_eye_run_rsp =
  pcie_eye_run_status :: u32

definition sizeof_pcie_eye_run_rsp :: nat where [layout_simps]: "sizeof_pcie_eye_run_rsp = 4"

definition dec_pcie_eye_run_rsp :: "bytes \<Rightarrow> pcie_eye_run_rsp" where
  "dec_pcie_eye_run_rsp b = \<lparr>
     pcie_eye_run_status = rd32 0 b\<rparr>"

record pcie_eye_status =
  eye_status_running :: u32
  eye_status_error :: u32

definition sizeof_pcie_eye_status :: nat where [layout_simps]: "sizeof_pcie_eye_status = 8"

definition dec_pcie_eye_status :: "bytes \<Rightarrow> pcie_eye_status" where
  "dec_pcie_eye_status b = \<lparr>
     eye_status_running = rd32 0 b,
     eye_status_error = rd32 4 b\<rparr>"

record pcie_eye_get_sw_rsp =
  pcie_eye_data :: bytes

definition sizeof_pcie_eye_get_sw_rsp :: nat where [layout_simps]: "sizeof_pcie_eye_get_sw_rsp = 82"

definition dec_pcie_eye_get_sw_rsp :: "bytes \<Rightarrow> pcie_eye_get_sw_rsp" where
  "dec_pcie_eye_get_sw_rsp b = \<lparr>
     pcie_eye_data = bslice 0 82 b\<rparr>"

record eyescope_results =
  merged_horizontal_eye_left :: float64
  merged_horizontal_eye_right :: float64
  merged_vertical_eye_top :: float64
  merged_vertical_eye_bottom :: float64

definition sizeof_eyescope_results :: nat where [layout_simps]: "sizeof_eyescope_results = 32"

definition dec_eyescope_results :: "bytes \<Rightarrow> eyescope_results" where
  "dec_eyescope_results b = \<lparr>
     merged_horizontal_eye_left = rd64 0 b,
     merged_horizontal_eye_right = rd64 8 b,
     merged_vertical_eye_top = rd64 16 b,
     merged_vertical_eye_bottom = rd64 24 b\<rparr>"

record rx_settings =
  rx_iskew_signed :: u32
  rx_qskew_signed :: u32
  rx_dlev00_signed :: u32
  rx_dlev01_signed :: u32
  rx_dlev10_signed :: u32
  rx_dlev11_signed :: u32
  rx_irphase_signed :: u32
  rx_h1po :: u32
  rx_h1no :: u32
  rx_h1pe :: u32
  rx_h1ne :: u32
  rx_h2 :: u32
  rx_h3 :: u32
  rx_h4 :: u32
  rx_h5 :: u32
  rx_h6 :: u32
  rx_h7 :: u32
  rx_h8 :: u32
  rx_h9 :: u32
  rx_aeq :: u32
  rx_vga :: u32
  rx_appmd :: u32
  rx_rxrt :: u32
  rx_shd :: u32
  rx_step :: u32
  rx_wm :: u32

definition sizeof_rx_settings :: nat where [layout_simps]: "sizeof_rx_settings = 104"

definition dec_rx_settings :: "bytes \<Rightarrow> rx_settings" where
  "dec_rx_settings b = \<lparr>
     rx_iskew_signed = rd32 0 b,
     rx_qskew_signed = rd32 4 b,
     rx_dlev00_signed = rd32 8 b,
     rx_dlev01_signed = rd32 12 b,
     rx_dlev10_signed = rd32 16 b,
     rx_dlev11_signed = rd32 20 b,
     rx_irphase_signed = rd32 24 b,
     rx_h1po = rd32 28 b,
     rx_h1no = rd32 32 b,
     rx_h1pe = rd32 36 b,
     rx_h1ne = rd32 40 b,
     rx_h2 = rd32 44 b,
     rx_h3 = rd32 48 b,
     rx_h4 = rd32 52 b,
     rx_h5 = rd32 56 b,
     rx_h6 = rd32 60 b,
     rx_h7 = rd32 64 b,
     rx_h8 = rd32 68 b,
     rx_h9 = rd32 72 b,
     rx_aeq = rd32 76 b,
     rx_vga = rd32 80 b,
     rx_appmd = rd32 84 b,
     rx_rxrt = rd32 88 b,
     rx_shd = rd32 92 b,
     rx_step = rd32 96 b,
     rx_wm = rd32 100 b\<rparr>"

record pcie_eye_get_hw =
  eye_results :: eyescope_results
  eye_rx_settings :: rx_settings
  eyescope_request_status :: u32

definition sizeof_pcie_eye_get_hw :: nat where [layout_simps]: "sizeof_pcie_eye_get_hw = 144"

definition dec_pcie_eye_get_hw :: "bytes \<Rightarrow> pcie_eye_get_hw" where
  "dec_pcie_eye_get_hw b = \<lparr>
     eye_results = (\<lambda>o1 x. dec_eyescope_results (bslice o1 32 x)) 0 b,
     eye_rx_settings = (\<lambda>o1 x. dec_rx_settings (bslice o1 104 x)) 32 b,
     eyescope_request_status = rd32 136 b\<rparr>"

record pcie_eye_get_sw_ber =
  horiz_margin :: float32
  vert_margin :: float32

definition sizeof_pcie_eye_get_sw_ber :: nat where [layout_simps]: "sizeof_pcie_eye_get_sw_ber = 8"

definition dec_pcie_eye_get_sw_ber :: "bytes \<Rightarrow> pcie_eye_get_sw_ber" where
  "dec_pcie_eye_get_sw_ber b = \<lparr>
     horiz_margin = rd32 0 b,
     vert_margin = rd32 4 b\<rparr>"

record get_cxl_link_status =
  cxl_link_status :: float32
  link_width :: u32
  link_speed :: u32
  link_ltssm_val :: u32

definition sizeof_get_cxl_link_status :: nat where [layout_simps]: "sizeof_get_cxl_link_status = 16"

definition dec_get_cxl_link_status :: "bytes \<Rightarrow> get_cxl_link_status" where
  "dec_get_cxl_link_status b = \<lparr>
     cxl_link_status = rd32 0 b,
     link_width = rd32 4 b,
     link_speed = rd32 8 b,
     link_ltssm_val = rd32 12 b\<rparr>"

record get_device_info =
  device_id :: u16
  revision_id :: u8

definition sizeof_get_device_info :: nat where [layout_simps]: "sizeof_get_device_info = 3"

definition dec_get_device_info :: "bytes \<Rightarrow> get_device_info" where
  "dec_get_device_info b = \<lparr>
     device_id = rd16 0 b,
     revision_id = rd8 2 b\<rparr>"

section \<open>Response structures of the DDR commands\<close>

record get_ddr_bw_rsp =
  peak_bw :: "float32 list"

definition sizeof_get_ddr_bw_rsp :: nat where [layout_simps]: "sizeof_get_ddr_bw_rsp = 8"

definition dec_get_ddr_bw_rsp :: "bytes \<Rightarrow> get_ddr_bw_rsp" where
  "dec_get_ddr_bw_rsp b = \<lparr>
     peak_bw = rd_array rd32 4 0 2 b\<rparr>"

record ddr_margin_status =
  margin_run_status :: u32

definition sizeof_ddr_margin_status :: nat where [layout_simps]: "sizeof_ddr_margin_status = 4"

definition dec_ddr_margin_status :: "bytes \<Rightarrow> ddr_margin_status" where
  "dec_ddr_margin_status b = \<lparr>
     margin_run_status = rd32 0 b\<rparr>"

record ddr_margin_info =
  slicenumber :: u32
  bitnumber :: u32
  vreflevel :: u32
  margin_low :: u32
  margin_high :: u32
  min_delay_ps :: float64
  max_delay_ps :: float64

definition sizeof_ddr_margin_info :: nat where [layout_simps]: "sizeof_ddr_margin_info = 36"

definition dec_ddr_margin_info :: "bytes \<Rightarrow> ddr_margin_info" where
  "dec_ddr_margin_info b = \<lparr>
     slicenumber = rd32 0 b,
     bitnumber = rd32 4 b,
     vreflevel = rd32 8 b,
     margin_low = rd32 12 b,
     margin_high = rd32 16 b,
     min_delay_ps = rd64 20 b,
     max_delay_ps = rd64 28 b\<rparr>"

record curr_cxl_boot_mode_get =
  curr_cxl_boot :: u8

definition sizeof_curr_cxl_boot_mode_get :: nat where [layout_simps]: "sizeof_curr_cxl_boot_mode_get = 1"

definition dec_curr_cxl_boot_mode_get :: "bytes \<Rightarrow> curr_cxl_boot_mode_get" where
  "dec_curr_cxl_boot_mode_get b = \<lparr>
     curr_cxl_boot = rd8 0 b\<rparr>"

record ddr_parity_err =
  parity_crit_bit2_cnt :: u32
  parity_crit_bit1_cnt :: u32
  parity_crit_bit0_cnt :: u32

definition sizeof_ddr_parity_err :: nat where [layout_simps]: "sizeof_ddr_parity_err = 12"

definition dec_ddr_parity_err :: "bytes \<Rightarrow> ddr_parity_err" where
  "dec_ddr_parity_err b = \<lparr>
     parity_crit_bit2_cnt = rd32 0 b,
     parity_crit_bit1_cnt = rd32 4 b,
     parity_crit_bit0_cnt = rd32 8 b\<rparr>"

record ddr_dfi_err =
  dfi_crit_bit5_cnt :: u32
  dfi_crit_bit2_cnt :: u32
  dfi_warn_bit1_cnt :: u32
  dfi_warn_bit0_cnt :: u32

definition sizeof_ddr_dfi_err :: nat where [layout_simps]: "sizeof_ddr_dfi_err = 16"

definition dec_ddr_dfi_err :: "bytes \<Rightarrow> ddr_dfi_err" where
  "dec_ddr_dfi_err b = \<lparr>
     dfi_crit_bit5_cnt = rd32 0 b,
     dfi_crit_bit2_cnt = rd32 4 b,
     dfi_warn_bit1_cnt = rd32 8 b,
     dfi_warn_bit0_cnt = rd32 12 b\<rparr>"

record ddr_crc_err =
  crc_crit_bit1_cnt :: u32
  crc_crit_bit0_cnt :: u32

definition sizeof_ddr_crc_err :: nat where [layout_simps]: "sizeof_ddr_crc_err = 8"

definition dec_ddr_crc_err :: "bytes \<Rightarrow> ddr_crc_err" where
  "dec_ddr_crc_err b = \<lparr>
     crc_crit_bit1_cnt = rd32 0 b,
     crc_crit_bit0_cnt = rd32 4 b\<rparr>"

record ddr_userif_err =
  userif_crit_bit2_cnt :: u32
  userif_crit_bit1_cnt :: u32
  userif_crit_bit0_cnt :: u32

definition sizeof_ddr_userif_err :: nat where [layout_simps]: "sizeof_ddr_userif_err = 12"

definition dec_ddr_userif_err :: "bytes \<Rightarrow> ddr_userif_err" where
  "dec_ddr_userif_err b = \<lparr>
     userif_crit_bit2_cnt = rd32 0 b,
     userif_crit_bit1_cnt = rd32 4 b,
     userif_crit_bit0_cnt = rd32 8 b\<rparr>"

record ddr_ecc_err =
  ecc_warn_bit6_cnt :: u32
  ecc_crit_bit3_cnt :: u32
  ecc_crit_bit2_cnt :: u32
  ecc_crit_bit8_cnt :: u32
  ecc_warn_bit1_cnt :: u32
  ecc_warn_bit0_cnt :: u32

definition sizeof_ddr_ecc_err :: nat where [layout_simps]: "sizeof_ddr_ecc_err = 24"

definition dec_ddr_ecc_err :: "bytes \<Rightarrow> ddr_ecc_err" where
  "dec_ddr_ecc_err b = \<lparr>
     ecc_warn_bit6_cnt = rd32 0 b,
     ecc_crit_bit3_cnt = rd32 4 b,
     ecc_crit_bit2_cnt = rd32 8 b,
     ecc_crit_bit8_cnt = rd32 12 b,
     ecc_warn_bit1_cnt = rd32 16 b,
     ecc_warn_bit0_cnt = rd32 20 b\<rparr>"

record ddr_controller_errors =
  err_parity :: ddr_parity_err
  err_dfi :: ddr_dfi_err
  err_crc :: ddr_crc_err
  err_userif :: ddr_userif_err
  err_ecc :: ddr_ecc_err

definition sizeof_ddr_controller_errors :: nat where [layout_simps]: "sizeof_ddr_controller_errors = 72"

definition dec_ddr_controller_errors :: "bytes \<Rightarrow> ddr_controller_errors" where
  "dec_ddr_controller_errors b = \<lparr>
     err_parity = (\<lambda>o1 x. dec_ddr_parity_err (bslice o1 12 x)) 0 b,
     err_dfi = (\<lambda>o1 x. dec_ddr_dfi_err (bslice o1 16 x)) 12 b,
     err_crc = (\<lambda>o1 x. dec_ddr_crc_err (bslice o1 8 x)) 28 b,
     err_userif = (\<lambda>o1 x. dec_ddr_userif_err (bslice o1 12 x)) 36 b,
     err_ecc = (\<lambda>o1 x. dec_ddr_ecc_err (bslice o1 24 x)) 48 b\<rparr>"

record get_ddr_ecc_err_info =
  ddr_ctrl_err :: "ddr_controller_errors list"

definition sizeof_get_ddr_ecc_err_info :: nat where [layout_simps]: "sizeof_get_ddr_ecc_err_info = 144"

definition dec_get_ddr_ecc_err_info :: "bytes \<Rightarrow> get_ddr_ecc_err_info" where
  "dec_get_ddr_ecc_err_info b = \<lparr>
     ddr_ctrl_err = rd_array (\<lambda>o1 x. dec_ddr_controller_errors (bslice o1 72 x)) 72 0 2 b\<rparr>"

record i2c_read_rsp =
  i2c_buf :: bytes
  i2c_num_bytes :: u8

definition sizeof_i2c_read_rsp :: nat where [layout_simps]: "sizeof_i2c_read_rsp = 129"

definition dec_i2c_read_rsp :: "bytes \<Rightarrow> i2c_read_rsp" where
  "dec_i2c_read_rsp b = \<lparr>
     i2c_buf = bslice 0 128 b,
     i2c_num_bytes = rd8 128 b\<rparr>"

record ddr_lat_op =
  readlat :: u64
  writelat :: u64
  rdsamplecnt :: u32
  wrsamplecnt :: u32
  avg_rdlatency :: float32
  avg_wrlatency :: float32

definition sizeof_ddr_lat_op :: nat where [layout_simps]: "sizeof_ddr_lat_op = 32"

definition dec_ddr_lat_op :: "bytes \<Rightarrow> ddr_lat_op" where
  "dec_ddr_lat_op b = \<lparr>
     readlat = rd64 0 b,
     writelat = rd64 8 b,
     rdsamplecnt = rd32 16 b,
     wrsamplecnt = rd32 20 b,
     avg_rdlatency = rd32 24 b,
     avg_wrlatency = rd32 28 b\<rparr>"

record get_ddr_latency_rsp =
  lat_ops :: "ddr_lat_op list"

definition sizeof_get_ddr_latency_rsp :: nat where [layout_simps]: "sizeof_get_ddr_latency_rsp = 64"

definition dec_get_ddr_latency_rsp :: "bytes \<Rightarrow> get_ddr_latency_rsp" where
  "dec_get_ddr_latency_rsp b = \<lparr>
     lat_ops = rd_array (\<lambda>o1 x. dec_ddr_lat_op (bslice o1 32 x)) 32 0 2 b\<rparr>"

record membridge_errors =
  fifo_overflow :: u32
  fifo_overflows :: "u32 list"
  fifo_underflow :: u32
  fifo_underflows :: "u32 list"
  ddr0_parity_error :: u32
  ddr0_parity_errors :: "u32 list"
  ddr1_parity_error :: u32
  ddr1_parity_errors :: "u32 list"
  mb_parity_error :: u32
  mb_parity_errors :: "u32 list"
  mb_common_errors :: "u32 list"

definition sizeof_membridge_errors :: nat where [layout_simps]: "sizeof_membridge_errors = 468"

definition dec_membridge_errors :: "bytes \<Rightarrow> membridge_errors" where
  "dec_membridge_errors b = \<lparr>
     fifo_overflow = rd32 0 b,
     fifo_overflows = rd_array rd32 4 4 16 b,
     fifo_underflow = rd32 68 b,
     fifo_underflows = rd_array rd32 4 72 16 b,
     ddr0_parity_error = rd32 136 b,
     ddr0_parity_errors = rd_array rd32 4 140 22 b,
     ddr1_parity_error = rd32 228 b,
     ddr1_parity_errors = rd_array rd32 4 232 22 b,
     mb_parity_error = rd32 320 b,
     mb_parity_errors = rd_array rd32 4 324 13 b,
     mb_common_errors = rd_array rd32 4 376 23 b\<rparr>"

record hpa_to_dpa_rsp =
  dpa_address :: u64

definition sizeof_hpa_to_dpa_rsp :: nat where [layout_simps]: "sizeof_hpa_to_dpa_rsp = 8"

definition dec_hpa_to_dpa_rsp :: "bytes \<Rightarrow> hpa_to_dpa_rsp" where
  "dec_hpa_to_dpa_rsp b = \<lparr>
     dpa_address = rd64 0 b\<rparr>"

record ddr_ecc_scrub_status =
  ecc_scrub_status :: "u32 list"

definition sizeof_ddr_ecc_scrub_status :: nat where [layout_simps]: "sizeof_ddr_ecc_scrub_status = 8"

definition dec_ddr_ecc_scrub_status :: "bytes \<Rightarrow> ddr_ecc_scrub_status" where
  "dec_ddr_ecc_scrub_status b = \<lparr>
     ecc_scrub_status = rd_array rd32 4 0 2 b\<rparr>"

record ddr_init_boot_status =
  ddr_init_code :: u8
  failed_channel_id :: u8
  failed_dimm_silk_screen :: u8

definition sizeof_ddr_init_boot_status :: nat where [layout_simps]: "sizeof_ddr_init_boot_status = 3"

definition dec_ddr_init_boot_status :: "bytes \<Rightarrow> ddr_init_boot_status" where
  "dec_ddr_init_boot_status b = \<lparr>
     ddr_init_code = rd8 0 b,
     failed_channel_id = rd8 1 b,
     failed_dimm_silk_screen = rd8 2 b\<rparr>"

record ddr_init_status =
  init_status :: ddr_init_boot_status

definition sizeof_ddr_init_status :: nat where [layout_simps]: "sizeof_ddr_init_status = 3"

definition dec_ddr_init_status :: "bytes \<Rightarrow> ddr_init_status" where
  "dec_ddr_init_status b = \<lparr>
     init_status = (\<lambda>o1 x. dec_ddr_init_boot_status (bslice o1 3 x)) 0 b\<rparr>"

record membridge_stats =
  ms_m2s_req_count :: u64
  ms_m2s_rwd_count :: u64
  ms_s2m_drs_count :: u64
  ms_s2m_ndr_count :: u64
  ms_rwd_first_poison_hpa_log :: u64
  ms_rwd_latest_poison_hpa_log :: u64
  ms_req_first_hpa_log :: u64
  ms_rwd_first_hpa_log :: u64
  ms_mst_m2s_req_corr_err_count :: u32
  ms_mst_m2s_rwd_corr_err_count :: u32
  ms_fifo_full_status :: u32
  ms_fifo_empty_status :: u32
  ms_m2s_rwd_credit_count :: u8
  ms_m2s_req_credit_count :: u8
  ms_s2m_ndr_credit_count :: u8
  ms_s2m_drc_credit_count :: u8
  ms_rx_fsm_status_rx_deinit :: u8
  ms_rx_fsm_status_m2s_req :: u8
  ms_rx_fsm_status_m2s_rwd :: u8
  ms_rx_fsm_status_ddr0_ar_req :: u8
  ms_rx_fsm_status_ddr0_aw_req :: u8
  ms_rx_fsm_status_ddr0_w_req :: u8
  ms_rx_fsm_status_ddr1_ar_req :: u8
  ms_rx_fsm_status_ddr1_aw_req :: u8
  ms_rx_fsm_status_ddr1_w_req :: u8
  ms_tx_fsm_status_tx_deinit :: u8
  ms_tx_fsm_status_s2m_ndr :: u8
  ms_tx_fsm_status_s2m_drc :: u8
  ms_stat_qos_tel_dev_load_read :: u8
  ms_stat_qos_tel_dev_load_type2_read :: u8
  ms_stat_qos_tel_dev_load_write :: u8

definition sizeof_membridge_stats :: nat where [layout_simps]: "sizeof_membridge_stats = 104"

definition dec_membridge_stats :: "bytes \<Rightarrow> membridge_stats" where
  "dec_membridge_stats b = \<lparr>
     ms_m2s_req_count = rd64 0 b,
     ms_m2s_rwd_count = rd64 8 b,
     ms_s2m_drs_count = rd64 16 b,
     ms_s2m_ndr_count = rd64 24 b,
     ms_rwd_first_poison_hpa_log = rd64 32 b,
     ms_rwd_latest_poison_hpa_log = rd64 40 b,
     ms_req_first_hpa_log = rd64 48 b,
     ms_rwd_first_hpa_log = rd64 56 b,
     ms_mst_m2s_req_corr_err_count = rd32 64 b,
     ms_mst_m2s_rwd_corr_err_count = rd32 68 b,
     ms_fifo_full_status = rd32 72 b,
     ms_fifo_empty_status = rd32 76 b,
     ms_m2s_rwd_credit_count = rd8 80 b,
     ms_m2s_req_credit_count = rd8 81 b,
     ms_s2m_ndr_credit_count = rd8 82 b,
     ms_s2m_drc_credit_count = rd8 83 b,
     ms_rx_fsm_status_rx_deinit = rd8 84 b,
     ms_rx_fsm_status_m2s_req = rd8 85 b,
     ms_rx_fsm_status_m2s_rwd = rd8 86 b,
     ms_rx_fsm_status_ddr0_ar_req = rd8 87 b,
     ms_rx_fsm_status_ddr0_aw_req = rd8 88 b,
     ms_rx_fsm_status_ddr0_w_req = rd8 89 b,
     ms_rx_fsm_status_ddr1_ar_req = rd8 90 b,
     ms_rx_fsm_status_ddr1_aw_req = rd8 91 b,
     ms_rx_fsm_status_ddr1_w_req = rd8 92 b,
     ms_tx_fsm_status_tx_deinit = rd8 93 b,
     ms_tx_fsm_status_s2m_ndr = rd8 94 b,
     ms_tx_fsm_status_s2m_drc = rd8 95 b,
     ms_stat_qos_tel_dev_load_read = rd8 96 b,
     ms_stat_qos_tel_dev_load_type2_read = rd8 97 b,
     ms_stat_qos_tel_dev_load_write = rd8 98 b\<rparr>"

record ddr_stats_status =
  stats_run_status :: u32
  stats_loop_count :: u32

definition sizeof_ddr_stats_status :: nat where [layout_simps]: "sizeof_ddr_stats_status = 8"

definition dec_ddr_stats_status :: "bytes \<Rightarrow> ddr_stats_status" where
  "dec_ddr_stats_status b = \<lparr>
     stats_run_status = rd32 0 b,
     stats_loop_count = rd32 4 b\<rparr>"

record ddr_interleave_options =
  ddr_interleave_sz :: u8
  ddr_interleave_ctrl_choice :: u8

definition sizeof_ddr_interleave_options :: nat where [layout_simps]: "sizeof_ddr_interleave_options = 2"

definition dec_ddr_interleave_options :: "bytes \<Rightarrow> ddr_interleave_options" where
  "dec_ddr_interleave_options b = \<lparr>
     ddr_interleave_sz = rd8 0 b,
     ddr_interleave_ctrl_choice = rd8 1 b\<rparr>"

record ddr_param_get =
  param_inter :: ddr_interleave_options

definition sizeof_ddr_param_get :: nat where [layout_simps]: "sizeof_ddr_param_get = 2"

definition dec_ddr_param_get :: "bytes \<Rightarrow> ddr_param_get" where
  "dec_ddr_param_get b = \<lparr>
     param_inter = (\<lambda>o1 x. dec_ddr_interleave_options (bslice o1 2 x)) 0 b\<rparr>"

record core_volt_get =
  core_volt :: float32

definition sizeof_core_volt_get :: nat where [layout_simps]: "sizeof_core_volt_get = 4"

definition dec_core_volt_get :: "bytes \<Rightarrow> core_volt_get" where
  "dec_core_volt_get b = \<lparr>
     core_volt = rd32 0 b\<rparr>"

record ddr_cont_scrub_status =
  cont_scrub_status :: u32

definition sizeof_ddr_cont_scrub_status :: nat where [layout_simps]: "sizeof_ddr_cont_scrub_status = 4"

definition dec_ddr_cont_scrub_status :: "bytes \<Rightarrow> ddr_cont_scrub_status" where
  "dec_ddr_cont_scrub_status b = \<lparr>
     cont_scrub_status = rd32 0 b\<rparr>"

record page_policy_selection =
  page_policy_reg_val :: u8

definition sizeof_page_policy_selection :: nat where [layout_simps]: "sizeof_page_policy_selection = 1"

definition dec_page_policy_selection :: "bytes \<Rightarrow> page_policy_selection" where
  "dec_page_policy_selection b = \<lparr>
     page_policy_reg_val = rd8 0 b\<rparr>"

record ddr_page_select_get =
  pp_select :: page_policy_selection

definition sizeof_ddr_page_select_get :: nat where [layout_simps]: "sizeof_ddr_page_select_get = 1"

definition dec_ddr_page_select_get :: "bytes \<Rightarrow> ddr_page_select_get" where
  "dec_ddr_page_select_get b = \<lparr>
     pp_select = (\<lambda>o1 x. dec_page_policy_selection (bslice o1 1 x)) 0 b\<rparr>"

record ddr_hppr_get =
  hppr_enable :: "u8 list"

definition sizeof_ddr_hppr_get :: nat where [layout_simps]: "sizeof_ddr_hppr_get = 2"

definition dec_ddr_hppr_get :: "bytes \<Rightarrow> ddr_hppr_get" where
  "dec_ddr_hppr_get b = \<lparr>
     hppr_enable = rd_array rd8 1 0 2 b\<rparr>"

record ddr_addr_info_out =
  ao_ddr_id :: u8
  ao_chip_select :: u8
  ao_bank :: u8
  ao_bank_group :: u8
  ao_row :: u32
  ao_channel :: u8
  ao_ppr_state :: u8

definition sizeof_ddr_addr_info_out :: nat where [layout_simps]: "sizeof_ddr_addr_info_out = 10"

definition dec_ddr_addr_info_out :: "bytes \<Rightarrow> ddr_addr_info_out" where
  "dec_ddr_addr_info_out b = \<lparr>
     ao_ddr_id = rd8 0 b,
     ao_chip_select = rd8 1 b,
     ao_bank = rd8 2 b,
     ao_bank_group = rd8 3 b,
     ao_row = rd32 4 b,
     ao_channel = rd8 8 b,
     ao_ppr_state = rd8 9 b\<rparr>"

record ddr_hppr_addr_info_get =
  hppr_addr_infos :: "ddr_addr_info_out list"

definition sizeof_ddr_hppr_addr_info_get :: nat where [layout_simps]: "sizeof_ddr_hppr_addr_info_get = 160"

definition dec_ddr_hppr_addr_info_get :: "bytes \<Rightarrow> ddr_hppr_addr_info_get" where
  "dec_ddr_hppr_addr_info_get b = \<lparr>
     hppr_addr_infos = rd_array (\<lambda>o1 x. dec_ddr_addr_info_out (bslice o1 10 x)) 10 0 16 b\<rparr>"

record ddr_ppr_get_status =
  ppr_status :: u8

definition sizeof_ddr_ppr_get_status :: nat where [layout_simps]: "sizeof_ddr_ppr_get_status = 1"

definition dec_ddr_ppr_get_status :: "bytes \<Rightarrow> ddr_ppr_get_status" where
  "dec_ddr_ppr_get_status b = \<lparr>
     ppr_status = rd8 0 b\<rparr>"

record ddr_refresh_mode_get =
  ddr_refresh_val :: u8

definition sizeof_ddr_refresh_mode_get :: nat where [layout_simps]: "sizeof_ddr_refresh_mode_get = 1"

definition dec_ddr_refresh_mode_get :: "bytes \<Rightarrow> ddr_refresh_mode_get" where
  "dec_ddr_refresh_mode_get b = \<lparr>
     ddr_refresh_val = rd8 0 b\<rparr>"

record cxl_err_cntr =
  total_err_cnt :: u64
  total_corr_err_cnt :: u64
  total_uncorr_err_cnt :: u64
  total_cxl_cfg_err_cnt :: u64
  corr_err :: "u32 list"
  uncorr_err :: "u32 list"
  cxl_conf_err :: "u32 list"

definition sizeof_cxl_err_cntr :: nat where [layout_simps]: "sizeof_cxl_err_cntr = 180"

definition dec_cxl_err_cntr :: "bytes \<Rightarrow> cxl_err_cntr" where
  "dec_cxl_err_cntr b = \<lparr>
     total_err_cnt = rd64 0 b,
     total_corr_err_cnt = rd64 8 b,
     total_uncorr_err_cnt = rd64 16 b,
     total_cxl_cfg_err_cnt = rd64 24 b,
     corr_err = rd_array rd32 4 32 7 b,
     uncorr_err = rd_array rd32 4 60 17 b,
     cxl_conf_err = rd_array rd32 4 128 13 b\<rparr>"

record ddr_freq_get =
  ddr_freq :: float32

definition sizeof_ddr_freq_get :: nat where [layout_simps]: "sizeof_ddr_freq_get = 4"

definition dec_ddr_freq_get :: "bytes \<Rightarrow> ddr_freq_get" where
  "dec_ddr_freq_get b = \<lparr>
     ddr_freq = rd32 0 b\<rparr>"

record ddr_init_bist_err_info =
  bist_err_cnt :: u32
  bist_err_col :: u32
  bist_err_row :: u32
  bist_err_bank :: u16
  bist_err_cs :: u16

definition sizeof_ddr_init_bist_err_info :: nat where [layout_simps]: "sizeof_ddr_init_bist_err_info = 16"

definition dec_ddr_init_bist_err_info :: "bytes \<Rightarrow> ddr_init_bist_err_info" where
  "dec_ddr_init_bist_err_info b = \<lparr>
     bist_err_cnt = rd32 0 b,
     bist_err_col = rd32 4 b,
     bist_err_row = rd32 8 b,
     bist_err_bank = rd16 12 b,
     bist_err_cs = rd16 14 b\<rparr>"

record ddr_init_err_info_get =
  ddr_bist_err_info :: "ddr_init_bist_err_info list"

definition sizeof_ddr_init_err_info_get :: nat where [layout_simps]: "sizeof_ddr_init_err_info_get = 32"

definition dec_ddr_init_err_info_get :: "bytes \<Rightarrow> ddr_init_err_info_get" where
  "dec_ddr_init_err_info_get b = \<lparr>
     ddr_bist_err_info = rd_array (\<lambda>o1 x. dec_ddr_init_bist_err_info (bslice o1 16 x)) 16 0 2 b\<rparr>"

section \<open>Response structures of the DIMM training status\<close>

record ddr_phy_pll_status =
  bs0_status :: u32
  bs1_status :: u32

definition sizeof_ddr_phy_pll_status :: nat where [layout_simps]: "sizeof_ddr_phy_pll_status = 8"

definition dec_ddr_phy_pll_status :: "bytes \<Rightarrow> ddr_phy_pll_status" where
  "dec_ddr_phy_pll_status b = \<lparr>
     bs0_status = rd32 0 b,
     bs1_status = rd32 4 b\<rparr>"

record ddr_wr_levelling_status =
  wl_lower_nibble_err :: "u32 list"
  wl_upper_nibble_err :: "u32 list"

definition sizeof_ddr_wr_levelling_status :: nat where [layout_simps]: "sizeof_ddr_wr_levelling_status = 72"

definition dec_ddr_wr_levelling_status :: "bytes \<Rightarrow> ddr_wr_levelling_status" where
  "dec_ddr_wr_levelling_status b = \<lparr>
     wl_lower_nibble_err = rd_array rd32 4 0 9 b,
     wl_upper_nibble_err = rd_array rd32 4 36 9 b\<rparr>"

record ddr_read_gate_training_status =
  lower_nibble_min_err :: "u32 list"
  lower_nibble_max_err :: "u32 list"
  upper_nibble_min_err :: "u32 list"
  upper_nibble_max_err :: "u32 list"

definition sizeof_ddr_read_gate_training_status :: nat where [layout_simps]: "sizeof_ddr_read_gate_training_status = 144"

definition dec_ddr_read_gate_training_status :: "bytes \<Rightarrow> ddr_read_gate_training_status" where
  "dec_ddr_read_gate_training_status b = \<lparr>
     lower_nibble_min_err = rd_array rd32 4 0 9 b,
     lower_nibble_max_err = rd_array rd32 4 36 9 b,
     upper_nibble_min_err = rd_array rd32 4 72 9 b,
     upper_nibble_max_err = rd_array rd32 4 108 9 b\<rparr>"

record ddr_margin_vref_data =
  lower_nibble_vref_low_volt :: "float32 list"
  lower_nibble_vref_high_volt :: "float32 list"
  upper_nibble_vref_low_volt :: "float32 list"
  upper_nibble_vref_high_volt :: "float32 list"

definition sizeof_ddr_margin_vref_data :: nat where [layout_simps]: "sizeof_ddr_margin_vref_data = 144"

definition dec_ddr_margin_vref_data :: "bytes \<Rightarrow> ddr_margin_vref_data" where
  "dec_ddr_margin_vref_data b = \<lparr>
     lower_nibble_vref_low_volt = rd_array rd32 4 0 9 b,
     lower_nibble_vref_high_volt = rd_array rd32 4 36 9 b,
     upper_nibble_vref_low_volt = rd_array rd32 4 72 9 b,
     upper_nibble_vref_high_volt = rd_array rd32 4 108 9 b\<rparr>"

record ddr_margin_write_dq_vref_data =
  vref_low_volt :: "float32 list"
  vref_high_volt :: "float32 list"

definition sizeof_ddr_margin_write_dq_vref_data :: nat where [layout_simps]: "sizeof_ddr_margin_write_dq_vref_data = 144"

definition dec_ddr_margin_write_dq_vref_data :: "bytes \<Rightarrow> ddr_margin_write_dq_vref_data" where
  "dec_ddr_margin_write_dq_vref_data b = \<lparr>
     vref_low_volt = rd_array rd32 4 0 18 b,
     vref_high_volt = rd_array rd32 4 72 18 b\<rparr>"

record ddr_margin_write_dq_vref_data_cs =
  vref_low_volt_cs :: "float32 list"
  vref_high_volt_cs :: "float32 list"

definition sizeof_ddr_margin_write_dq_vref_data_cs :: nat where [layout_simps]: "sizeof_ddr_margin_write_dq_vref_data_cs = 576"

definition dec_ddr_margin_write_dq_vref_data_cs :: "bytes \<Rightarrow> ddr_margin_write_dq_vref_data_cs" where
  "dec_ddr_margin_write_dq_vref_data_cs b = \<lparr>
     vref_low_volt_cs = rd_array rd32 4 0 72 b,
     vref_high_volt_cs = rd_array rd32 4 288 72 b\<rparr>"

record ddr_margin_rdlvl_delay_dqs_rise_data =
  rise_te_delay_data :: "u32 list"
  rise_le_delay_data :: "u32 list"
  rise_te_delay_time :: "float32 list"
  rise_le_delay_time :: "float32 list"

definition sizeof_ddr_margin_rdlvl_delay_dqs_rise_data :: nat where [layout_simps]: "sizeof_ddr_margin_rdlvl_delay_dqs_rise_data = 1152"

definition dec_ddr_margin_rdlvl_delay_dqs_rise_data :: "bytes \<Rightarrow> ddr_margin_rdlvl_delay_dqs_rise_data" where
  "dec_ddr_margin_rdlvl_delay_dqs_rise_data b = \<lparr>
     rise_te_delay_data = rd_array rd32 4 0 72 b,
     rise_le_delay_data = rd_array rd32 4 288 72 b,
     rise_te_delay_time = rd_array rd32 4 576 72 b,
     rise_le_delay_time = rd_array rd32 4 864 72 b\<rparr>"

record ddr_margin_rdlvl_delay_dqs_fall_data =
  fall_te_delay_data :: "u32 list"
  fall_le_delay_data :: "u32 list"
  fall_te_delay_time :: "float32 list"
  fall_le_delay_time :: "float32 list"

definition sizeof_ddr_margin_rdlvl_delay_dqs_fall_data :: nat where [layout_simps]: "sizeof_ddr_margin_rdlvl_delay_dqs_fall_data = 1152"

definition dec_ddr_margin_rdlvl_delay_dqs_fall_data :: "bytes \<Rightarrow> ddr_margin_rdlvl_delay_dqs_fall_data" where
  "dec_ddr_margin_rdlvl_delay_dqs_fall_data b = \<lparr>
     fall_te_delay_data = rd_array rd32 4 0 72 b,
     fall_le_delay_data = rd_array rd32 4 288 72 b,
     fall_te_delay_time = rd_array rd32 4 576 72 b,
     fall_le_delay_time = rd_array rd32 4 864 72 b\<rparr>"

record ddr_margin_wrdqlvl_delay_data =
  wrdq_te_delay_data :: "u32 list"
  wrdq_le_delay_data :: "u32 list"
  wrdq_te_delay_time :: "float32 list"
  wrdq_le_delay_time :: "float32 list"

definition sizeof_ddr_margin_wrdqlvl_delay_data :: nat where [layout_simps]: "sizeof_ddr_margin_wrdqlvl_delay_data = 1152"

definition dec_ddr_margin_wrdqlvl_delay_data :: "bytes \<Rightarrow> ddr_margin_wrdqlvl_delay_data" where
  "dec_ddr_margin_wrdqlvl_delay_data b = \<lparr>
     wrdq_te_delay_data = rd_array rd32 4 0 72 b,
     wrdq_le_delay_data = rd_array rd32 4 288 72 b,
     wrdq_te_delay_time = rd_array rd32 4 576 72 b,
     wrdq_le_delay_time = rd_array rd32 4 864 72 b\<rparr>"

record ddr_dimm_training_status =
  phy_pll_status :: ddr_phy_pll_status
  wr_levl_status :: ddr_wr_levelling_status
  rd_gate_tr_status :: ddr_read_gate_training_status
  vref_data :: ddr_margin_vref_data
  wdq_vref_data :: ddr_margin_write_dq_vref_data
  wdq_vref_data_cs :: ddr_margin_write_dq_vref_data_cs
  rddqslvl_rise_data :: ddr_margin_rdlvl_delay_dqs_rise_data
  rddqslvl_fall_data :: ddr_margin_rdlvl_delay_dqs_fall_data
  wrdqlvl_delay_data :: ddr_margin_wrdqlvl_delay_data
  train_err_status :: u32

definition sizeof_ddr_dimm_training_status :: nat where [layout_simps]: "sizeof_ddr_dimm_training_status = 4548"

definition dec_ddr_dimm_training_status :: "bytes \<Rightarrow> ddr_dimm_training_status" where
  "dec_ddr_dimm_training_status b = \<lparr>
     phy_pll_status = (\<lambda>o1 x. dec_ddr_phy_pll_status (bslice o1 8 x)) 0 b,
     wr_levl_status = (\<lambda>o1 x. dec_ddr_wr_levelling_status (bslice o1 72 x)) 8 b,
     rd_gate_tr_status = (\<lambda>o1 x. dec_ddr_read_gate_training_status (bslice o1 144 x)) 80 b,
     vref_data = (\<lambda>o1 x. dec_ddr_margin_vref_data (bslice o1 144 x)) 224 b,
     wdq_vref_data = (\<lambda>o1 x. dec_ddr_margin_write_dq_vref_data (bslice o1 144 x)) 368 b,
     wdq_vref_data_cs = (\<lambda>o1 x. dec_ddr_margin_write_dq_vref_data_cs (bslice o1 576 x)) 512 b,
     rddqslvl_rise_data = (\<lambda>o1 x. dec_ddr_margin_rdlvl_delay_dqs_rise_data (bslice o1 1152 x)) 1088 b,
     rddqslvl_fall_data = (\<lambda>o1 x. dec_ddr_margin_rdlvl_delay_dqs_fall_data (bslice o1 1152 x)) 2240 b,
     wrdqlvl_delay_data = (\<lambda>o1 x. dec_ddr_margin_wrdqlvl_delay_data (bslice o1 1152 x)) 3392 b,
     train_err_status = rd32 4544 b\<rparr>"

record dimm_level_training_status =
  dimm_training_status :: "ddr_dimm_training_status list"

definition sizeof_dimm_level_training_status :: nat where [layout_simps]: "sizeof_dimm_level_training_status = 9096"

definition dec_dimm_level_training_status :: "bytes \<Rightarrow> dimm_level_training_status" where
  "dec_dimm_level_training_status b = \<lparr>
     dimm_training_status = rd_array (\<lambda>o1 x. dec_ddr_dimm_training_status (bslice o1 4548 x)) 4548 0 2 b\<rparr>"

section \<open>Request structures\<close>

text \<open>
  The device reads a request at the offsets of its structure; \<open>enc_\<close> writes the members in order.
\<close>

record dimm_spd_read_req =
  spd_id :: u32
  spd_offset :: u32
  spd_num_bytes :: u32

definition enc_dimm_spd_read_req :: "dimm_spd_read_req \<Rightarrow> bytes" where
  "enc_dimm_spd_read_req r = enc32 (spd_id r) @ enc32 (spd_offset r) @ enc32 (spd_num_bytes r)"

record health_counters_clear_req =
  hc_bitmask :: u32

definition enc_health_counters_clear_req :: "health_counters_clear_req \<Rightarrow> bytes" where
  "enc_health_counters_clear_req r = enc32 (hc_bitmask r)"

record pcie_eye_run_req =
  eye_lane :: u8
  eye_sw_scan :: u8
  eye_ber :: u8

definition enc_pcie_eye_run_req :: "pcie_eye_run_req \<Rightarrow> bytes" where
  "enc_pcie_eye_run_req r = [eye_lane r] @ [eye_sw_scan r] @ [eye_ber r]"

record pcie_eye_get_sw_req =
  eye_offset :: u32

definition enc_pcie_eye_get_sw_req :: "pcie_eye_get_sw_req \<Rightarrow> bytes" where
  "enc_pcie_eye_get_sw_req r = enc32 (eye_offset r)"

record get_ddr_bw_req =
  bw_timeout :: u32
  bw_iterations :: u32

definition enc_get_ddr_bw_req :: "get_ddr_bw_req \<Rightarrow> bytes" where
  "enc_get_ddr_bw_req r = enc32 (bw_timeout r) @ enc32 (bw_iterations r)"

record ddr_margin_run_req =
  mr_slice_num :: u8
  mr_rd_wr_margin :: u8
  mr_ddr_id :: u8

definition enc_ddr_margin_run_req :: "ddr_margin_run_req \<Rightarrow> bytes" where
  "enc_ddr_margin_run_req r = [mr_slice_num r] @ [mr_rd_wr_margin r] @ [mr_ddr_id r]"

record reboot_mode_set_req =
  reboot_mode :: u8

definition enc_reboot_mode_set_req :: "reboot_mode_set_req \<Rightarrow> bytes" where
  "enc_reboot_mode_set_req r = [reboot_mode r]"

record i2c_read_req =
  ir_slave_addr :: u16
  ir_reg_addr :: u8
  ir_num_bytes :: u8

definition enc_i2c_read_req :: "i2c_read_req \<Rightarrow> bytes" where
  "enc_i2c_read_req r = enc16 (ir_slave_addr r) @ [ir_reg_addr r] @ [ir_num_bytes r]"

record i2c_write_req =
  iw_slave_addr :: u16
  iw_reg_addr :: u8
  iw_data :: u8

definition enc_i2c_write_req :: "i2c_write_req \<Rightarrow> bytes" where
  "enc_i2c_write_req r = enc16 (iw_slave_addr r) @ [iw_reg_addr r] @ [iw_data r]"

record get_ddr_latency_req =
  measure_time :: u32

definition enc_get_ddr_latency_req :: "get_ddr_latency_req \<Rightarrow> bytes" where
  "enc_get_ddr_latency_req r = enc32 (measure_time r)"

record hpa_to_dpa_req =
  hpa_address :: u64

definition enc_hpa_to_dpa_req :: "hpa_to_dpa_req \<Rightarrow> bytes" where
  "enc_hpa_to_dpa_req r = enc64 (hpa_address r)"

record ddr_err_inj_en_req =
  ei_ddr_id :: u32
  ei_err_type :: u32
  ei_ecc_fwc_mask :: u64

definition enc_ddr_err_inj_en_req :: "ddr_err_inj_en_req \<Rightarrow> bytes" where
  "enc_ddr_err_inj_en_req r = enc32 (ei_ddr_id r) @ enc32 (ei_err_type r) @ enc64 (ei_ecc_fwc_mask r)"

record ddr_stats_run_req =
  sr_ddr_id :: u8
  sr_monitor_time :: u32
  sr_loop_count :: u32

definition enc_ddr_stats_run_req :: "ddr_stats_run_req \<Rightarrow> bytes" where
  "enc_ddr_stats_run_req r = [sr_ddr_id r] @ enc32 (sr_monitor_time r) @ enc32 (sr_loop_count r)"

record ddr_stats_get_req =
  sg_offset :: u32
  sg_transfer_sz :: u32

definition enc_ddr_stats_get_req :: "ddr_stats_get_req \<Rightarrow> bytes" where
  "enc_ddr_stats_get_req r = enc32 (sg_offset r) @ enc32 (sg_transfer_sz r)"

record ddr_param_set_req =
  ps_interleave_sz :: u8
  ps_interleave_ctrl_choice :: u8

definition enc_ddr_param_set_req :: "ddr_param_set_req \<Rightarrow> bytes" where
  "enc_ddr_param_set_req r = [ps_interleave_sz r] @ [ps_interleave_ctrl_choice r]"

record viral_inj_en_req =
  viral_type :: u32

definition enc_viral_inj_en_req :: "viral_inj_en_req \<Rightarrow> bytes" where
  "enc_viral_inj_en_req r = enc32 (viral_type r)"

record mem_ll_err_inj_en_req =
  ll_en_dis :: u32
  ll_err_type :: u32

definition enc_mem_ll_err_inj_en_req :: "mem_ll_err_inj_en_req \<Rightarrow> bytes" where
  "enc_mem_ll_err_inj_en_req r = enc32 (ll_en_dis r) @ enc32 (ll_err_type r)"

record pci_err_inj_en_req =
  pe_en_dis :: u32
  pe_err_type :: u32
  pe_err_subtype :: u32
  pe_count :: u32
  pe_opt_param1 :: u32
  pe_opt_param2 :: u32

definition enc_pci_err_inj_en_req :: "pci_err_inj_en_req \<Rightarrow> bytes" where
  "enc_pci_err_inj_en_req r = enc32 (pe_en_dis r) @ enc32 (pe_err_type r) @ enc32 (pe_err_subtype r) @ enc32 (pe_count r) @ enc32 (pe_opt_param1 r) @ enc32 (pe_opt_param2 r)"

record core_volt_set_req =
  cv_core_volt :: float32

definition enc_core_volt_set_req :: "core_volt_set_req \<Rightarrow> bytes" where
  "enc_core_volt_set_req r = enc32 (cv_core_volt r)"

record ddr_cont_scrub_set_req =
  cs_cont_scrub_status :: u32

definition enc_ddr_cont_scrub_set_req :: "ddr_cont_scrub_set_req \<Rightarrow> bytes" where
  "enc_ddr_cont_scrub_set_req r = enc32 (cs_cont_scrub_status r)"

record ddr_page_select_set_req =
  pss_page_policy_reg_val :: u8

definition enc_ddr_page_select_set_req :: "ddr_page_select_set_req \<Rightarrow> bytes" where
  "enc_ddr_page_select_set_req r = [pss_page_policy_reg_val r]"

record ddr_hppr_set_req =
  hppr_set_enable :: u16

definition enc_ddr_hppr_set_req :: "ddr_hppr_set_req \<Rightarrow> bytes" where
  "enc_ddr_hppr_set_req r = enc16 (hppr_set_enable r)"

record ddr_hppr_addr_info_set_req =
  ai_ddr_id :: u8
  ai_chip_select :: u8
  ai_bank :: u8
  ai_bank_group :: u8
  ai_row :: u32

definition enc_ddr_hppr_addr_info_set_req :: "ddr_hppr_addr_info_set_req \<Rightarrow> bytes" where
  "enc_ddr_hppr_addr_info_set_req r = [ai_ddr_id r] @ [ai_chip_select r] @ [ai_bank r] @ [ai_bank_group r] @ enc32 (ai_row r)"

record ddr_hppr_addr_info_clear_req =
  ac_ddr_id :: u8
  ac_channel_id :: u8

definition enc_ddr_hppr_addr_info_clear_req :: "ddr_hppr_addr_info_clear_req \<Rightarrow> bytes" where
  "enc_ddr_hppr_addr_info_clear_req r = [ac_ddr_id r] @ [ac_channel_id r]"

record ddr_refresh_mode_set_req =
  rm_ddr_refresh_val :: u8

definition enc_ddr_refresh_mode_set_req :: "ddr_refresh_mode_set_req \<Rightarrow> bytes" where
  "enc_ddr_refresh_mode_set_req r = [rm_ddr_refresh_val r]"

lemmas enc_req_defs =
  enc_dimm_spd_read_req_def enc_health_counters_clear_req_def
  enc_pcie_eye_run_req_def enc_pcie_eye_get_sw_req_def
  enc_get_ddr_bw_req_def enc_ddr_margin_run_req_def
  enc_reboot_mode_set_req_def enc_i2c_read_req_def
  enc_i2c_write_req_def enc_get_ddr_latency_req_def
  enc_hpa_to_dpa_req_def enc_ddr_err_inj_en_req_def
  enc_ddr_stats_run_req_def enc_ddr_stats_get_req_def
  enc_ddr_param_set_req_def enc_viral_inj_en_req_def
  enc_mem_ll_err_inj_en_req_def enc_pci_err_inj_en_req_def
  enc_core_volt_set_req_def enc_ddr_cont_scrub_set_req_def
  enc_ddr_page_select_set_req_def enc_ddr_hppr_set_req_def
  enc_ddr_hppr_addr_info_set_req_def enc_ddr_hppr_addr_info_clear_req_def
  enc_ddr_refresh_mode_set_req_def

lemma length_enc_req [layout_simps]:
  "length (enc_dimm_spd_read_req r0) = 12"
  "length (enc_health_counters_clear_req r1) = 4"
  "length (enc_pcie_eye_run_req r2) = 3"
  "length (enc_pcie_eye_get_sw_req r3) = 4"
  "length (enc_get_ddr_bw_req r4) = 8"
  "length (enc_ddr_margin_run_req r5) = 3"
  "length (enc_reboot_mode_set_req r6) = 1"
  "length (enc_i2c_read_req r7) = 4"
  "length (enc_i2c_write_req r8) = 4"
  "length (enc_get_ddr_latency_req r9) = 4"
  "length (enc_hpa_to_dpa_req r10) = 8"
  "length (enc_ddr_err_inj_en_req r11) = 16"
  "length (enc_ddr_stats_run_req r12) = 9"
  "length (enc_ddr_stats_get_req r13) = 8"
  "length (enc_ddr_param_set_req r14) = 2"
  "length (enc_viral_inj_en_req r15) = 4"
  "length (enc_mem_ll_err_inj_en_req r16) = 8"
  "length (enc_pci_err_inj_en_req r17) = 24"
  "length (enc_core_volt_set_req r18) = 4"
  "length (enc_ddr_cont_scrub_set_req r19) = 4"
  "length (enc_ddr_page_select_set_req r20) = 1"
  "length (enc_ddr_hppr_set_req r21) = 2"
  "length (enc_ddr_hppr_addr_info_set_req r22) = 8"
  "length (enc_ddr_hppr_addr_info_clear_req r23) = 2"
  "length (enc_ddr_refresh_mode_set_req r24) = 1"
  by (simp_all add: enc_req_defs)

end
