(* ===== verification/Cstdlib.thy ===== *)
theory Cstdlib
  imports Prelude
begin

text \<open>
  The part of the C library the program computes with: \<open>strtol\<close> and \<open>strtoull\<close> as the option parser
  and the sysfs reader call them, and the prefix tests of \<open>vendor_util/src/strbuf.c\<close> and
  \<open>vendor_util/inc/util.h\<close>. A C string is the list of its characters before the terminator.
\<close>

section \<open>Characters\<close>

definition code :: "char \<Rightarrow> nat" where "code c = of_char c"

lemma code_less: "code c < 256"
  unfolding code_def by (cases c) (auto simp: of_char_Char split: bool.splits)

definition is_space :: "char \<Rightarrow> bool" where
  "is_space c \<longleftrightarrow> code c = 32 \<or> (9 \<le> code c \<and> code c \<le> 13)"

definition digit_val :: "char \<Rightarrow> nat" where
  "digit_val c =
     (if 48 \<le> code c \<and> code c \<le> 57 then code c - 48
      else if 97 \<le> code c \<and> code c \<le> 122 then code c - 87
      else if 65 \<le> code c \<and> code c \<le> 90 then code c - 55
      else 36)"

section \<open>Number scanning\<close>

fun scan_digits :: "nat \<Rightarrow> nat \<Rightarrow> string \<Rightarrow> nat \<times> string" where
  "scan_digits base acc [] = (acc, [])"
| "scan_digits base acc (c # cs) =
     (if digit_val c < base then scan_digits base (acc * base + digit_val c) cs
      else (acc, c # cs))"

fun scan_sign :: "string \<Rightarrow> bool \<times> string" where
  "scan_sign [] = (False, [])"
| "scan_sign (c # cs) =
     (if c = CHR ''-'' then (True, cs) else if c = CHR ''+'' then (False, cs)
      else (False, c # cs))"

text \<open>An optional \<open>0x\<close> counts only when a hexadecimal digit follows it.\<close>

fun hex_prefix :: "string \<Rightarrow> bool" where
  "hex_prefix (a # b # c # cs) \<longleftrightarrow>
     a = CHR ''0'' \<and> (b = CHR ''x'' \<or> b = CHR ''X'') \<and> digit_val c < 16"
| "hex_prefix _ \<longleftrightarrow> False"

definition base_and_rest :: "nat \<Rightarrow> string \<Rightarrow> nat \<times> string" where
  "base_and_rest base s =
     (if (base = 0 \<or> base = 16) \<and> hex_prefix s then (16, drop 2 s)
      else if base = 0 then (if s \<noteq> [] \<and> hd s = CHR ''0'' then (8, s) else (10, s))
      else (base, s))"

text \<open>Sign, magnitude and rest; \<open>None\<close> when no digit was found.\<close>

definition strto_core :: "nat \<Rightarrow> string \<Rightarrow> (bool \<times> nat \<times> string) option" where
  "strto_core base s =
     (case scan_sign (dropWhile is_space s) of (neg, s1) \<Rightarrow>
      case base_and_rest base s1 of (b, s2) \<Rightarrow>
        if s2 = [] \<or> \<not> digit_val (hd s2) < b then None
        else case scan_digits b 0 s2 of (m, r) \<Rightarrow> Some (neg, m, r))"

text \<open>The value saturates at the limits of \<open>long\<close>, or of \<open>unsigned long long\<close>.\<close>

definition strtol :: "nat \<Rightarrow> string \<Rightarrow> int \<times> string" where
  "strtol base s =
     (case strto_core base s of None \<Rightarrow> (0, s)
      | Some (neg, m, r) \<Rightarrow>
          (max (- (2 ^ 63)) (min (2 ^ 63 - 1) (if neg then - int m else int m)), r))"

definition strtoull :: "nat \<Rightarrow> string \<Rightarrow> u64 \<times> string" where
  "strtoull base s =
     (case strto_core base s of None \<Rightarrow> (0, s)
      | Some (neg, m, r) \<Rightarrow>
          (if 2 ^ 64 \<le> m then (of_nat (2 ^ 64 - 1), r)
           else (if neg then - of_nat m else of_nat m, r)))"

section \<open>Printing a decimal number\<close>

definition digit_char :: "nat \<Rightarrow> char" where
  "digit_char d = char_of (48 + d)"

fun dec_string :: "nat \<Rightarrow> string" where
  "dec_string n = (if n < 10 then [digit_char n]
                   else dec_string (n div 10) @ [digit_char (n mod 10)])"

declare dec_string.simps [simp del]

lemma code_digit_char [simp]: "d < 10 \<Longrightarrow> code (digit_char d) = 48 + d"
  by (simp add: code_def digit_char_def)

lemma digit_val_digit_char [simp]: "d < 10 \<Longrightarrow> digit_val (digit_char d) = d"
  by (simp add: digit_val_def)

lemma dec_string_ne [simp]: "dec_string n \<noteq> []"
  by (subst dec_string.simps) simp

lemma dec_string_length: "n < 10 ^ k \<Longrightarrow> 0 < k \<Longrightarrow> length (dec_string n) \<le> k"
proof (induction k arbitrary: n)
  case (Suc k)
  show ?case
  proof (cases "n < 10")
    case True
    then show ?thesis by (simp add: dec_string.simps[of n])
  next
    case False
    then have "0 < k" using Suc.prems by (cases k) auto
    moreover have "n div 10 < 10 ^ k" using Suc.prems by (simp add: div_less_iff_less_mult mult.commute)
    ultimately have "length (dec_string (n div 10)) \<le> k" using Suc.IH by blast
    then show ?thesis using False by (simp add: dec_string.simps[of n])
  qed
qed simp

lemma scan_digits_append_digit:
  "\<forall>c \<in> set s. digit_val c < b \<Longrightarrow>
   scan_digits b acc (s @ r) = scan_digits b (fst (scan_digits b acc s)) r"
  by (induction s arbitrary: acc) auto

lemma dec_string_digits: "c \<in> set (dec_string n) \<Longrightarrow> \<exists>d < 10. c = digit_char d"
proof (induction n arbitrary: c rule: dec_string.induct)
  case (1 n)
  show ?case
  proof (cases "n < 10")
    case True
    with "1.prems" show ?thesis by (auto simp: dec_string.simps[of n])
  next
    case False
    with "1.prems" consider "c \<in> set (dec_string (n div 10))" | "c = digit_char (n mod 10)"
      by (auto simp: dec_string.simps[of n])
    then show ?thesis
    proof cases
      case 1
      with "1.IH" False show ?thesis by blast
    next
      case 2
      then show ?thesis by (intro exI[of _ "n mod 10"]) simp
    qed
  qed
qed

lemma dec_string_digit_val: "c \<in> set (dec_string n) \<Longrightarrow> digit_val c < 10"
  by (auto dest!: dec_string_digits)

lemma scan_dec_string:
  "fst (scan_digits 10 acc (dec_string n)) = acc * 10 ^ length (dec_string n) + n"
proof (induction n arbitrary: acc rule: dec_string.induct)
  case (1 n)
  show ?case
  proof (cases "n < 10")
    case True
    then show ?thesis by (simp add: dec_string.simps[of n])
  next
    case False
    let ?s = "dec_string (n div 10)"
    have "fst (scan_digits 10 acc (?s @ [digit_char (n mod 10)])) =
          (acc * 10 ^ length ?s + n div 10) * 10 + n mod 10"
      using "1.IH"[OF False, of acc]
      by (simp add: scan_digits_append_digit dec_string_digit_val)
    also have "\<dots> = acc * 10 ^ Suc (length ?s) + n" by (simp add: algebra_simps)
    finally show ?thesis using False by (simp add: dec_string.simps[of n])
  qed
qed

lemma scan_digits_dec:
  assumes "r = [] \<or> 10 \<le> digit_val (hd r)"
  shows "scan_digits 10 0 (dec_string n @ r) = (n, r)"
proof -
  have "scan_digits 10 0 (dec_string n @ r) = scan_digits 10 n r"
    by (simp add: scan_digits_append_digit dec_string_digit_val scan_dec_string)
  also have "\<dots> = (n, r)" using assms by (cases r) auto
  finally show ?thesis .
qed

lemma hd_dec_string: "\<exists>d < 10. hd (dec_string n @ r) = digit_char d"
proof -
  have "hd (dec_string n @ r) \<in> set (dec_string n)" by simp
  then show ?thesis by (rule dec_string_digits)
qed

lemma digit_char_plain:
  assumes "d < 10"
  shows "\<not> is_space (digit_char d)" "digit_char d \<noteq> CHR ''-''" "digit_char d \<noteq> CHR ''+''"
proof -
  have c: "code (digit_char d) = 48 + d" using assms by simp
  then show "\<not> is_space (digit_char d)" by (simp add: is_space_def)
  have "code CHR ''-'' = 45" "code CHR ''+'' = 43" by (simp_all add: code_def)
  with c show "digit_char d \<noteq> CHR ''-''" "digit_char d \<noteq> CHR ''+''" by auto
qed

lemma scan_sign_dec: "scan_sign (dropWhile is_space (dec_string n @ r)) = (False, dec_string n @ r)"
proof -
  obtain d where d: "d < 10" "hd (dec_string n @ r) = digit_char d" using hd_dec_string by blast
  then obtain ys where "dec_string n @ r = digit_char d # ys"
    by (metis append_is_Nil_conv dec_string_ne list.collapse)
  then show ?thesis using digit_char_plain[OF d(1)] by simp
qed

lemma strto_core_dec:
  assumes "r = [] \<or> 10 \<le> digit_val (hd r)"
  shows "strto_core 10 (dec_string n @ r) = Some (False, n, r)"
proof -
  obtain d where d: "d < 10" "hd (dec_string n @ r) = digit_char d" using hd_dec_string by blast
  then show ?thesis
    using scan_digits_dec[OF assms, of n]
    by (simp add: strto_core_def scan_sign_dec base_and_rest_def)
qed

lemma strtol_dec: "int n < 2 ^ 63 \<Longrightarrow> strtol 10 (dec_string n) = (int n, [])"
  using strto_core_dec[of "[]" n] by (simp add: strtol_def)

lemma strtoull_dec: "n < 2 ^ 64 \<Longrightarrow> strtoull 10 (dec_string n) = (of_nat n, [])"
  using strto_core_dec[of "[]" n] by (simp add: strtoull_def)

section \<open>Bounds of a scanned number\<close>

lemma strtol_range: "- (2 ^ 63) \<le> fst (strtol b s) \<and> fst (strtol b s) < 2 ^ 63"
  by (auto simp: strtol_def split: option.split prod.split)

section \<open>Prefix tests\<close>

text \<open>
  \<open>prefixcmp(str, prefix)\<close> walks both strings to the first difference: 0 when \<open>prefix\<close> ends first,
  otherwise the difference of the bytes; the terminator of \<open>str\<close> counts as 0.
\<close>

fun prefixcmp :: "string \<Rightarrow> string \<Rightarrow> int" where
  "prefixcmp str [] = 0"
| "prefixcmp [] (p # ps) = int (code p)"
| "prefixcmp (c # cs) (p # ps) =
     (if c \<noteq> p then int (code p) - int (code c) else prefixcmp cs ps)"

text \<open>\<open>skip_prefix(str, prefix)\<close>: the rest of \<open>str\<close> behind \<open>prefix\<close>, or \<open>NULL\<close>.\<close>

fun skip_prefix :: "string \<Rightarrow> string \<Rightarrow> string option" where
  "skip_prefix str [] = Some str"
| "skip_prefix [] (p # ps) = None"
| "skip_prefix (c # cs) (p # ps) = (if c = p then skip_prefix cs ps else None)"

definition is_absolute_path :: "string \<Rightarrow> bool" where
  "is_absolute_path path \<longleftrightarrow> path \<noteq> [] \<and> hd path = CHR ''/''"

lemma skip_prefix_Some_iff: "skip_prefix s p = Some r \<longleftrightarrow> s = p @ r"
  by (induction s p rule: skip_prefix.induct) auto

lemma skip_prefix_append [simp]: "skip_prefix (p @ r) p = Some r"
  by (simp add: skip_prefix_Some_iff)

lemma skip_prefix_self [simp]: "skip_prefix p p = Some []"
  by (simp add: skip_prefix_Some_iff)

lemma code_inj: "code a = code b \<longleftrightarrow> a = b"
  by (simp add: code_def)

lemma prefixcmp_0_iff:
  assumes "\<forall>c \<in> set p. c \<noteq> CHR 0x00"
  shows "prefixcmp s p = 0 \<longleftrightarrow> (\<exists>r. s = p @ r)"
  using assms
proof (induction s p rule: prefixcmp.induct)
  case (2 q ps)
  then have "code q \<noteq> 0" using code_inj[of q "CHR 0x00"] by (auto simp: code_def)
  then show ?case by simp
next
  case (3 c cs q ps)
  then show ?case by (auto simp: code_inj)
qed simp

end
