(* ===== verification/Vendor_Commands.thy ===== *)
theory Vendor_Commands
  imports Vendor_Types Cstdlib
begin

text \<open>
  The vendor commands of \<open>vendor_meta/src/vendor_commands.c\<close>, one definition per function, over
  the shapes of theory \<open>Transport\<close>, and the two sysfs helpers at the head of that file. The
  endpoint and tunnel arguments only select the device behind the transport and are part of it,
  except where a function reads \<open>ep\<close> itself.
\<close>

section \<open>Reading a sysfs attribute\<close>

text \<open>
  What the file system answers for a path: \<open>open\<close> fails, \<open>read\<close> fails, or \<open>read\<close> delivers the
  bytes of the attribute, up to the count it was given; the last number is \<open>errno\<close> as the test
  after \<open>close\<close> finds it.
\<close>

datatype file_read = Open_error int | Read_error int | Read_ok string int

definition SYSFS_ATTR_SIZE :: nat where "SYSFS_ATTR_SIZE = 1024"

text \<open>
  Return code, and the C string the buffer holds afterwards (\<open>None\<close> where it is not written).
\<close>

definition read_sysfs_attr :: "(string \<Rightarrow> file_read) \<Rightarrow> string \<Rightarrow> bool \<Rightarrow> int \<times> string option" where
  "read_sysfs_attr fs path buf_given =
     (if \<not> buf_given then (-12, None)
      else case fs path of
        Open_error e \<Rightarrow> (- e, None)
      | Read_error e \<Rightarrow> (- e, Some [])
      | Read_ok text e \<Rightarrow>
          (let got = take SYSFS_ATTR_SIZE text; n = length got in
           if SYSFS_ATTR_SIZE \<le> n then (- e, Some [])
           else (0, Some (takeWhile (\<lambda>c. c \<noteq> CHR 0x00)
                       (if n \<noteq> 0 \<and> got ! (n - 1) = CHR 0x0A then butlast got else got)))))"

definition MAX_PATH_LEN :: nat where "MAX_PATH_LEN = 64"

text \<open>
  \<open>devname\<close> is the name in the endpoint, \<open>None\<close> for a null endpoint. \<open>sprintf\<close> writes the path and
  its terminator without a bound. The number read is converted from \<open>unsigned long long\<close> to
  \<open>int\<close>.
\<close>

definition payload_path :: "string \<Rightarrow> string" where
  "payload_path devname = ''/sys/bus/cxl/devices/'' @ devname @ ''/payload_max''"

definition get_cxl_maxpayload :: "(string \<Rightarrow> file_read) \<Rightarrow> string option \<Rightarrow> int outcome" where
  "get_cxl_maxpayload fs ep =
     (case ep of
        None \<Rightarrow> Defined (-19)
      | Some devname \<Rightarrow>
          if MAX_PATH_LEN < length (payload_path devname) + 1 then Undefined Oob_write
          else case read_sysfs_attr fs (payload_path devname) True of (rc, buf) \<Rightarrow>
            (let max_payload =
               (if rc = 0 then to_int32 (uint (fst (strtoull 0 (the buf)))) else rc)
             in Defined (if max_payload < 0 then 0 else max_payload)))"

section \<open>Firmware commands\<close>

text \<open>
  The structures \<open>cxlmi_cmd_get_fw_info\<close> and \<open>cxlmi_cmd_transfer_fw\<close> belong to libcxlmi. The first
  has 0x50 bytes (the code asserts it) and is read by the parameter \<open>dec_fw\<close>. Of the second the
  code uses its size, the size \<open>struct_size(in, data, 0)\<close>, and the bytes of its header, which
  \<open>fw_hdr\<close> gives.
\<close>

definition cxlmi_cmd_get_os_fw_info ::
  "'s os \<Rightarrow> (bytes \<Rightarrow> 'fw) \<Rightarrow> 's \<Rightarrow> ('fw, 's) cmd_result" where
  "cxlmi_cmd_get_os_fw_info os dec_fw s =
     get_cmd os VENDOR_CMD_OEM_MGMT GET_OS_INFO 0x50 dec_fw s"

record fw_abi =
  fw_hdr_size :: nat
  fw_data_size :: nat
  fw_hdr :: "u8 \<Rightarrow> u8 \<Rightarrow> u32 \<Rightarrow> bytes"

record transfer_fw =
  tf_action :: u8
  tf_slot :: u8
  tf_offset :: u32
  tf_data :: bytes

text \<open>
  \<open>tf_data\<close> is the memory the caller owns behind \<open>in->data\<close>; \<open>memcpy\<close> reads \<open>fw_data_size\<close> bytes of
  it.
\<close>

definition cxlmi_cmd_vendor_transfer_fw ::
  "'s os \<Rightarrow> fw_abi \<Rightarrow> transfer_fw \<Rightarrow> nat \<Rightarrow> 's \<Rightarrow> (unit, 's) cmd_result outcome" where
  "cxlmi_cmd_vendor_transfer_fw os abi inp opc s =
     (case os_calloc os (fw_hdr_size abi + fw_data_size abi + os_msg_sz os) s of (ok, s1) \<Rightarrow>
        if \<not> ok then Defined (-1, None, s1)
        else if length (tf_data inp) < fw_data_size abi then Undefined Oob_read
        else Defined (send_only os
               \<lparr>rq_pl_sz = fw_hdr_size abi, rq_cmdset = VENDOR_CMD_OEM_MGMT, rq_opcode = opc,
                rq_payload = fw_hdr abi (tf_action inp) (tf_slot inp) (tf_offset inp) @
                             take (fw_data_size abi) (tf_data inp),
                rq_rsp_cap = 0\<rparr> s1))"

section \<open>Background operation status\<close>

record hbo_status_fields =
  hb_opcode :: u16
  hb_percent_complete :: u8
  hb_is_running :: u8
  hb_return_code :: u16
  hb_extended_status :: u16

text \<open>
  The masks are built from \<open>1 << n\<close> on \<open>int\<close>. For \<open>n\<close> of 32 and 48 C leaves that undefined, so the
  shift is a parameter \<open>shl1\<close> of the model; for \<open>n < 31\<close> it is \<open>2 ^ n\<close>.
\<close>

definition hbo_fields :: "(nat \<Rightarrow> int) \<Rightarrow> u64 \<Rightarrow> hbo_status_fields" where
  "hbo_fields shl1 w =
     (let opcode_mask = of_int (shl1 16 - shl1 0);
          percent_mask = of_int (shl1 23 - shl1 16);
          running_mask = of_int (shl1 23);
          retcode_mask = of_int (shl1 48 - shl1 32);
          extended_mask = 0xffffffffffffffff - of_int (shl1 48) + 1
      in \<lparr>hb_opcode = ucast (drop_bit 0 (w AND opcode_mask)),
          hb_percent_complete = ucast (drop_bit 16 (w AND percent_mask)),
          hb_is_running = ucast (drop_bit 23 (w AND running_mask)),
          hb_return_code = ucast (drop_bit 32 (w AND retcode_mask)),
          hb_extended_status = ucast (drop_bit 48 (w AND extended_mask))\<rparr>)"

definition cxlmi_cmd_get_hbo_status ::
  "'s os \<Rightarrow> (nat \<Rightarrow> int) \<Rightarrow> 's \<Rightarrow> (hbo_status_fields, 's) cmd_result" where
  "cxlmi_cmd_get_hbo_status os shl1 s =
     (case get_cmd os VENDOR_CMD_OEM_MGMT OEM_HBO_STATUS sizeof_hbo_status_out
             (\<lambda>b. hbo_fields shl1 (bo_status (dec_hbo_status_out b))) s of
        (rc, None, s1) \<Rightarrow> (rc, None, s1)
      | (rc, Some f, s1) \<Rightarrow> (if hb_is_running f \<noteq> 0 then 1 else rc, Some f, s1))"

section \<open>The margin data\<close>

text \<open>
  The result can be larger than the mailbox: the response is cut to the maximum payload of the
  device, and only that prefix of the caller's structure \<open>old\<close> is overwritten. With a null
  endpoint the length is negative and the response buffer smaller than the header written to it.
\<close>

definition sizeof_ddr_margin_get :: nat where [layout_simps]: "sizeof_ddr_margin_get = 294916"

definition cxlmi_cmd_ddr_margin_get ::
  "'s os \<Rightarrow> (string \<Rightarrow> file_read) \<Rightarrow> string option \<Rightarrow> bytes \<Rightarrow> 's \<Rightarrow> (bytes, 's) cmd_result outcome" where
  "cxlmi_cmd_ddr_margin_get os fs ep old s =
     bind_outcome (get_cxl_maxpayload fs ep) (\<lambda>max_payload.
       if max_payload < 0 then Undefined Oob_write
       else let payload_len = nat (min (int sizeof_ddr_margin_get) max_payload) in
       Defined (get_cmd os VENDOR_CMD_OTHERS DDR_MARGIN_GET payload_len
                  (\<lambda>b. b @ drop payload_len old) s))"

section \<open>The commands that copy whole structures\<close>

definition cxlmi_cmd_dimm_spd_read ::
  "'s os \<Rightarrow> dimm_spd_read_req \<Rightarrow> 's \<Rightarrow> (dimm_spd_read_rsp, 's) cmd_result" where
  "cxlmi_cmd_dimm_spd_read os inp s =
     xfer_cmd os VENDOR_CMD_DDR_DIMM_MGMT DIMM_SPD_READ (enc_dimm_spd_read_req inp) sizeof_dimm_spd_read_rsp dec_dimm_spd_read_rsp s"

definition cxlmi_cmd_dimm_slot_info ::
  "'s os \<Rightarrow> 's \<Rightarrow> (dimm_slot_info, 's) cmd_result" where
  "cxlmi_cmd_dimm_slot_info os s =
     get_cmd os VENDOR_CMD_DDR_DIMM_MGMT DIMM_SLOT_INFO sizeof_dimm_slot_info dec_dimm_slot_info s"

definition cxlmi_cmd_read_ddr_temp ::
  "'s os \<Rightarrow> 's \<Rightarrow> (read_ddr_temp, 's) cmd_result" where
  "cxlmi_cmd_read_ddr_temp os s =
     get_cmd os VENDOR_CMD_DDR_DIMM_MGMT READ_DDR_TEMP sizeof_read_ddr_temp dec_read_ddr_temp s"

definition cxlmi_cmd_health_counters_clear ::
  "'s os \<Rightarrow> health_counters_clear_req \<Rightarrow> 's \<Rightarrow> (unit, 's) cmd_result" where
  "cxlmi_cmd_health_counters_clear os inp s =
     set_cmd os VENDOR_CMD_HEALTH_MGMT HEALTH_COUNTERS_CLEAR (enc_health_counters_clear_req inp) s"

definition cxlmi_cmd_health_counters_get ::
  "'s os \<Rightarrow> 's \<Rightarrow> (health_counters, 's) cmd_result" where
  "cxlmi_cmd_health_counters_get os s =
     get_cmd os VENDOR_CMD_HEALTH_MGMT HEALTH_COUNTERS_GET sizeof_health_counters dec_health_counters s"

definition cxlmi_cmd_pmic_vtmon_info ::
  "'s os \<Rightarrow> 's \<Rightarrow> (pmic_vtmon_info, 's) cmd_result" where
  "cxlmi_cmd_pmic_vtmon_info os s =
     get_cmd os VENDOR_CMD_OTHERS PMIC_VTMON_INFO sizeof_pmic_vtmon_info dec_pmic_vtmon_info s"

definition cxlmi_cmd_read_ltssm_states ::
  "'s os \<Rightarrow> 's \<Rightarrow> (read_ltssm_states, 's) cmd_result" where
  "cxlmi_cmd_read_ltssm_states os s =
     get_cmd os VENDOR_CMD_OTHERS READ_LTSSM_STATES sizeof_read_ltssm_states dec_read_ltssm_states s"

definition cxlmi_cmd_pcie_eye_run ::
  "'s os \<Rightarrow> pcie_eye_run_req \<Rightarrow> 's \<Rightarrow> (pcie_eye_run_rsp, 's) cmd_result" where
  "cxlmi_cmd_pcie_eye_run os inp s =
     xfer_cmd os VENDOR_CMD_OTHERS PCIE_EYE_RUN (enc_pcie_eye_run_req inp) sizeof_pcie_eye_run_rsp dec_pcie_eye_run_rsp s"

definition cxlmi_cmd_pcie_eye_status ::
  "'s os \<Rightarrow> 's \<Rightarrow> (pcie_eye_status, 's) cmd_result" where
  "cxlmi_cmd_pcie_eye_status os s =
     get_cmd os VENDOR_CMD_OTHERS PCIE_EYE_STATUS sizeof_pcie_eye_status dec_pcie_eye_status s"

definition cxlmi_cmd_pcie_eye_get_sw ::
  "'s os \<Rightarrow> pcie_eye_get_sw_req \<Rightarrow> 's \<Rightarrow> (pcie_eye_get_sw_rsp, 's) cmd_result" where
  "cxlmi_cmd_pcie_eye_get_sw os inp s =
     xfer_cmd os VENDOR_CMD_OTHERS PCIE_EYE_GET_SW (enc_pcie_eye_get_sw_req inp) sizeof_pcie_eye_get_sw_rsp dec_pcie_eye_get_sw_rsp s"

definition cxlmi_cmd_pcie_eye_get_hw ::
  "'s os \<Rightarrow> 's \<Rightarrow> (pcie_eye_get_hw, 's) cmd_result" where
  "cxlmi_cmd_pcie_eye_get_hw os s =
     get_cmd os VENDOR_CMD_OTHERS PCIE_EYE_GET_HW sizeof_pcie_eye_get_hw dec_pcie_eye_get_hw s"

definition cxlmi_cmd_pcie_eye_get_sw_ber ::
  "'s os \<Rightarrow> 's \<Rightarrow> (pcie_eye_get_sw_ber, 's) cmd_result" where
  "cxlmi_cmd_pcie_eye_get_sw_ber os s =
     get_cmd os VENDOR_CMD_OTHERS PCIE_EYE_GET_SW_BER sizeof_pcie_eye_get_sw_ber dec_pcie_eye_get_sw_ber s"

definition cxlmi_cmd_get_cxl_link_status ::
  "'s os \<Rightarrow> 's \<Rightarrow> (get_cxl_link_status, 's) cmd_result" where
  "cxlmi_cmd_get_cxl_link_status os s =
     get_cmd os VENDOR_CMD_OTHERS CXL_LINK_STATUS sizeof_get_cxl_link_status dec_get_cxl_link_status s"

definition cxlmi_cmd_get_device_info ::
  "'s os \<Rightarrow> 's \<Rightarrow> (get_device_info, 's) cmd_result" where
  "cxlmi_cmd_get_device_info os s =
     get_cmd os VENDOR_CMD_OTHERS DEVICE_INFO sizeof_get_device_info dec_get_device_info s"

definition cxlmi_cmd_get_ddr_bw ::
  "'s os \<Rightarrow> get_ddr_bw_req \<Rightarrow> 's \<Rightarrow> (get_ddr_bw_rsp, 's) cmd_result" where
  "cxlmi_cmd_get_ddr_bw os inp s =
     xfer_cmd os VENDOR_CMD_OTHERS GET_DDR_BW (enc_get_ddr_bw_req inp) sizeof_get_ddr_bw_rsp dec_get_ddr_bw_rsp s"

definition cxlmi_cmd_ddr_margin_run ::
  "'s os \<Rightarrow> ddr_margin_run_req \<Rightarrow> 's \<Rightarrow> (unit, 's) cmd_result" where
  "cxlmi_cmd_ddr_margin_run os inp s =
     set_cmd os VENDOR_CMD_OTHERS DDR_MARGIN_RUN (enc_ddr_margin_run_req inp) s"

definition cxlmi_cmd_ddr_margin_status ::
  "'s os \<Rightarrow> 's \<Rightarrow> (ddr_margin_status, 's) cmd_result" where
  "cxlmi_cmd_ddr_margin_status os s =
     get_cmd os VENDOR_CMD_OTHERS DDR_MARGIN_STATUS sizeof_ddr_margin_status dec_ddr_margin_status s"

definition cxlmi_cmd_reboot_mode_set ::
  "'s os \<Rightarrow> reboot_mode_set_req \<Rightarrow> 's \<Rightarrow> (unit, 's) cmd_result" where
  "cxlmi_cmd_reboot_mode_set os inp s =
     set_cmd os VENDOR_CMD_OTHERS REBOOT_MODE_SET (enc_reboot_mode_set_req inp) s"

definition cxlmi_cmd_curr_cxl_boot_mode_get ::
  "'s os \<Rightarrow> 's \<Rightarrow> (curr_cxl_boot_mode_get, 's) cmd_result" where
  "cxlmi_cmd_curr_cxl_boot_mode_get os s =
     get_cmd os VENDOR_CMD_OTHERS CURR_CXL_BOOT_MODE_GET sizeof_curr_cxl_boot_mode_get dec_curr_cxl_boot_mode_get s"

definition cxlmi_cmd_get_ddr_ecc_err_info ::
  "'s os \<Rightarrow> 's \<Rightarrow> (get_ddr_ecc_err_info, 's) cmd_result" where
  "cxlmi_cmd_get_ddr_ecc_err_info os s =
     get_cmd os VENDOR_CMD_OTHERS GET_DDR_ECC_ERR_INFO sizeof_get_ddr_ecc_err_info dec_get_ddr_ecc_err_info s"

definition cxlmi_cmd_i2c_read ::
  "'s os \<Rightarrow> i2c_read_req \<Rightarrow> 's \<Rightarrow> (i2c_read_rsp, 's) cmd_result" where
  "cxlmi_cmd_i2c_read os inp s =
     xfer_cmd os VENDOR_CMD_OTHERS I2C_READ (enc_i2c_read_req inp) sizeof_i2c_read_rsp dec_i2c_read_rsp s"

definition cxlmi_cmd_i2c_write ::
  "'s os \<Rightarrow> i2c_write_req \<Rightarrow> 's \<Rightarrow> (unit, 's) cmd_result" where
  "cxlmi_cmd_i2c_write os inp s = set_cmd os VENDOR_CMD_OTHERS I2C_WRITE (enc_i2c_write_req inp) s"

definition cxlmi_cmd_get_ddr_latency ::
  "'s os \<Rightarrow> get_ddr_latency_req \<Rightarrow> 's \<Rightarrow> (get_ddr_latency_rsp, 's) cmd_result" where
  "cxlmi_cmd_get_ddr_latency os inp s =
     xfer_cmd os VENDOR_CMD_OTHERS GET_DDR_LATENCY (enc_get_ddr_latency_req inp) sizeof_get_ddr_latency_rsp dec_get_ddr_latency_rsp s"

definition cxlmi_cmd_get_membridge_errors ::
  "'s os \<Rightarrow> 's \<Rightarrow> (membridge_errors, 's) cmd_result" where
  "cxlmi_cmd_get_membridge_errors os s =
     get_cmd os VENDOR_CMD_OTHERS GET_MEMBRIDGE_ERRORS sizeof_membridge_errors dec_membridge_errors s"

definition cxlmi_cmd_hpa_to_dpa ::
  "'s os \<Rightarrow> hpa_to_dpa_req \<Rightarrow> 's \<Rightarrow> (hpa_to_dpa_rsp, 's) cmd_result" where
  "cxlmi_cmd_hpa_to_dpa os inp s =
     xfer_cmd os VENDOR_CMD_OTHERS HPA_TO_DPA (enc_hpa_to_dpa_req inp) sizeof_hpa_to_dpa_rsp dec_hpa_to_dpa_rsp s"

definition cxlmi_cmd_start_ddr_ecc_scrub ::
  "'s os \<Rightarrow> 's \<Rightarrow> (unit, 's) cmd_result" where
  "cxlmi_cmd_start_ddr_ecc_scrub os s = bare_cmd os VENDOR_CMD_OTHERS START_DDR_ECC_SCRUB s"

definition cxlmi_cmd_ddr_ecc_scrub_status ::
  "'s os \<Rightarrow> 's \<Rightarrow> (ddr_ecc_scrub_status, 's) cmd_result" where
  "cxlmi_cmd_ddr_ecc_scrub_status os s =
     get_cmd os VENDOR_CMD_OTHERS DDR_ECC_SCRUB_STATUS sizeof_ddr_ecc_scrub_status dec_ddr_ecc_scrub_status s"

definition cxlmi_cmd_ddr_init_status ::
  "'s os \<Rightarrow> 's \<Rightarrow> (ddr_init_status, 's) cmd_result" where
  "cxlmi_cmd_ddr_init_status os s =
     get_cmd os VENDOR_CMD_OTHERS DDR_INIT_STATUS sizeof_ddr_init_status dec_ddr_init_status s"

definition cxlmi_cmd_get_membridge_stats ::
  "'s os \<Rightarrow> 's \<Rightarrow> (membridge_stats, 's) cmd_result" where
  "cxlmi_cmd_get_membridge_stats os s =
     get_cmd os VENDOR_CMD_OTHERS GET_MEMBRIDGE_STATS sizeof_membridge_stats dec_membridge_stats s"

definition cxlmi_cmd_ddr_err_inj_en ::
  "'s os \<Rightarrow> ddr_err_inj_en_req \<Rightarrow> 's \<Rightarrow> (unit, 's) cmd_result" where
  "cxlmi_cmd_ddr_err_inj_en os inp s =
     set_cmd os VENDOR_CMD_OTHERS DDR_ERR_INJ_EN (enc_ddr_err_inj_en_req inp) s"

definition cxlmi_cmd_trigger_coredump ::
  "'s os \<Rightarrow> 's \<Rightarrow> (unit, 's) cmd_result" where
  "cxlmi_cmd_trigger_coredump os s = bare_cmd os VENDOR_CMD_OTHERS TRIGGER_COREDUMP s"

definition cxlmi_cmd_ddr_stats_run ::
  "'s os \<Rightarrow> ddr_stats_run_req \<Rightarrow> 's \<Rightarrow> (unit, 's) cmd_result" where
  "cxlmi_cmd_ddr_stats_run os inp s =
     set_cmd os VENDOR_CMD_OTHERS DDR_STATS_RUN (enc_ddr_stats_run_req inp) s"

definition cxlmi_cmd_ddr_stats_status ::
  "'s os \<Rightarrow> 's \<Rightarrow> (ddr_stats_status, 's) cmd_result" where
  "cxlmi_cmd_ddr_stats_status os s =
     get_cmd os VENDOR_CMD_OTHERS DDR_STATS_STATUS sizeof_ddr_stats_status dec_ddr_stats_status s"

text \<open>
  The response room of \<open>cxlmi_cmd_ddr_stats_get\<close> is the transfer size asked for; the bytes go to the
  caller's buffer as they are.
\<close>

definition cxlmi_cmd_ddr_stats_get ::
  "'s os \<Rightarrow> ddr_stats_get_req \<Rightarrow> 's \<Rightarrow> (bytes, 's) cmd_result" where
  "cxlmi_cmd_ddr_stats_get os inp s =
     xfer_cmd os VENDOR_CMD_OTHERS DDR_STATS_GET (enc_ddr_stats_get_req inp)
       (unat (sg_transfer_sz inp)) (\<lambda>b. b) s"

definition cxlmi_cmd_ddr_param_set ::
  "'s os \<Rightarrow> ddr_param_set_req \<Rightarrow> 's \<Rightarrow> (unit, 's) cmd_result" where
  "cxlmi_cmd_ddr_param_set os inp s =
     set_cmd os VENDOR_CMD_OTHERS DDR_PARAM_SET (enc_ddr_param_set_req inp) s"

definition cxlmi_cmd_ddr_param_get ::
  "'s os \<Rightarrow> 's \<Rightarrow> (ddr_param_get, 's) cmd_result" where
  "cxlmi_cmd_ddr_param_get os s =
     get_cmd os VENDOR_CMD_OTHERS DDR_PARAM_GET sizeof_ddr_param_get dec_ddr_param_get s"

definition cxlmi_cmd_dimm_level_training_status ::
  "'s os \<Rightarrow> 's \<Rightarrow> (dimm_level_training_status, 's) cmd_result" where
  "cxlmi_cmd_dimm_level_training_status os s =
     get_cmd os VENDOR_CMD_OTHERS DIMM_LEVEL_TRAINING_STATUS sizeof_dimm_level_training_status dec_dimm_level_training_status s"

definition cxlmi_cmd_viral_inj_en ::
  "'s os \<Rightarrow> viral_inj_en_req \<Rightarrow> 's \<Rightarrow> (unit, 's) cmd_result" where
  "cxlmi_cmd_viral_inj_en os inp s =
     set_cmd os VENDOR_CMD_OTHERS CXL_VIRAL_INJ_EN (enc_viral_inj_en_req inp) s"

definition cxlmi_cmd_mem_ll_err_inj_en ::
  "'s os \<Rightarrow> mem_ll_err_inj_en_req \<Rightarrow> 's \<Rightarrow> (unit, 's) cmd_result" where
  "cxlmi_cmd_mem_ll_err_inj_en os inp s =
     set_cmd os VENDOR_CMD_OTHERS CXL_MEM_LL_ERR_INJ_EN (enc_mem_ll_err_inj_en_req inp) s"

definition cxlmi_cmd_pci_err_inj_en ::
  "'s os \<Rightarrow> pci_err_inj_en_req \<Rightarrow> 's \<Rightarrow> (unit, 's) cmd_result" where
  "cxlmi_cmd_pci_err_inj_en os inp s =
     set_cmd os VENDOR_CMD_OTHERS PCI_RAS_DES_ERR_INJ_EN (enc_pci_err_inj_en_req inp) s"

definition cxlmi_cmd_core_volt_set ::
  "'s os \<Rightarrow> core_volt_set_req \<Rightarrow> 's \<Rightarrow> (unit, 's) cmd_result" where
  "cxlmi_cmd_core_volt_set os inp s =
     set_cmd os VENDOR_CMD_OTHERS CORE_VOLT_SET (enc_core_volt_set_req inp) s"

definition cxlmi_cmd_core_volt_get ::
  "'s os \<Rightarrow> 's \<Rightarrow> (core_volt_get, 's) cmd_result" where
  "cxlmi_cmd_core_volt_get os s =
     get_cmd os VENDOR_CMD_OTHERS CORE_VOLT_GET sizeof_core_volt_get dec_core_volt_get s"

definition cxlmi_cmd_ddr_cont_scrub_status ::
  "'s os \<Rightarrow> 's \<Rightarrow> (ddr_cont_scrub_status, 's) cmd_result" where
  "cxlmi_cmd_ddr_cont_scrub_status os s =
     get_cmd os VENDOR_CMD_OTHERS DDR_CONT_SCRUB_STATUS sizeof_ddr_cont_scrub_status dec_ddr_cont_scrub_status s"

definition cxlmi_cmd_ddr_cont_scrub_set ::
  "'s os \<Rightarrow> ddr_cont_scrub_set_req \<Rightarrow> 's \<Rightarrow> (unit, 's) cmd_result" where
  "cxlmi_cmd_ddr_cont_scrub_set os inp s =
     set_cmd os VENDOR_CMD_OTHERS DDR_CONT_SCRUB_SET (enc_ddr_cont_scrub_set_req inp) s"

definition cxlmi_cmd_ddr_page_select_set ::
  "'s os \<Rightarrow> ddr_page_select_set_req \<Rightarrow> 's \<Rightarrow> (unit, 's) cmd_result" where
  "cxlmi_cmd_ddr_page_select_set os inp s =
     set_cmd os VENDOR_CMD_OTHERS DDR_PAGE_SELECT_SET (enc_ddr_page_select_set_req inp) s"

definition cxlmi_cmd_ddr_page_select_get ::
  "'s os \<Rightarrow> 's \<Rightarrow> (ddr_page_select_get, 's) cmd_result" where
  "cxlmi_cmd_ddr_page_select_get os s =
     get_cmd os VENDOR_CMD_OTHERS DDR_PAGE_SELECT_GET sizeof_ddr_page_select_get dec_ddr_page_select_get s"

definition cxlmi_cmd_ddr_hppr_set ::
  "'s os \<Rightarrow> ddr_hppr_set_req \<Rightarrow> 's \<Rightarrow> (unit, 's) cmd_result" where
  "cxlmi_cmd_ddr_hppr_set os inp s =
     set_cmd os VENDOR_CMD_OTHERS DDR_HPPR_SET (enc_ddr_hppr_set_req inp) s"

definition cxlmi_cmd_ddr_hppr_get ::
  "'s os \<Rightarrow> 's \<Rightarrow> (ddr_hppr_get, 's) cmd_result" where
  "cxlmi_cmd_ddr_hppr_get os s =
     get_cmd os VENDOR_CMD_OTHERS DDR_HPPR_GET sizeof_ddr_hppr_get dec_ddr_hppr_get s"

definition cxlmi_cmd_ddr_hppr_addr_info_set ::
  "'s os \<Rightarrow> ddr_hppr_addr_info_set_req \<Rightarrow> 's \<Rightarrow> (unit, 's) cmd_result" where
  "cxlmi_cmd_ddr_hppr_addr_info_set os inp s =
     set_cmd os VENDOR_CMD_OTHERS DDR_HPPR_ADDR_INFO_SET (enc_ddr_hppr_addr_info_set_req inp) s"

definition cxlmi_cmd_ddr_hppr_addr_info_get ::
  "'s os \<Rightarrow> 's \<Rightarrow> (ddr_hppr_addr_info_get, 's) cmd_result" where
  "cxlmi_cmd_ddr_hppr_addr_info_get os s =
     get_cmd os VENDOR_CMD_OTHERS DDR_HPPR_ADDR_INFO_GET sizeof_ddr_hppr_addr_info_get dec_ddr_hppr_addr_info_get s"

definition cxlmi_cmd_ddr_hppr_addr_info_clear ::
  "'s os \<Rightarrow> ddr_hppr_addr_info_clear_req \<Rightarrow> 's \<Rightarrow> (unit, 's) cmd_result" where
  "cxlmi_cmd_ddr_hppr_addr_info_clear os inp s =
     set_cmd os VENDOR_CMD_OTHERS DDR_HPPR_ADDR_INFO_CLEAR (enc_ddr_hppr_addr_info_clear_req inp) s"

definition cxlmi_cmd_ddr_ppr_get_status ::
  "'s os \<Rightarrow> 's \<Rightarrow> (ddr_ppr_get_status, 's) cmd_result" where
  "cxlmi_cmd_ddr_ppr_get_status os s =
     get_cmd os VENDOR_CMD_OTHERS DDR_PPR_GET_STATUS sizeof_ddr_ppr_get_status dec_ddr_ppr_get_status s"

definition cxlmi_cmd_ddr_refresh_mode_set ::
  "'s os \<Rightarrow> ddr_refresh_mode_set_req \<Rightarrow> 's \<Rightarrow> (unit, 's) cmd_result" where
  "cxlmi_cmd_ddr_refresh_mode_set os inp s =
     set_cmd os VENDOR_CMD_OTHERS DDR_REFRESH_MODE_SET (enc_ddr_refresh_mode_set_req inp) s"

definition cxlmi_cmd_ddr_refresh_mode_get ::
  "'s os \<Rightarrow> 's \<Rightarrow> (ddr_refresh_mode_get, 's) cmd_result" where
  "cxlmi_cmd_ddr_refresh_mode_get os s =
     get_cmd os VENDOR_CMD_OTHERS DDR_REFRESH_MODE_GET sizeof_ddr_refresh_mode_get dec_ddr_refresh_mode_get s"

definition cxlmi_cmd_cxl_err_cntr_get ::
  "'s os \<Rightarrow> 's \<Rightarrow> (cxl_err_cntr, 's) cmd_result" where
  "cxlmi_cmd_cxl_err_cntr_get os s =
     get_cmd os VENDOR_CMD_OTHERS CXL_ERR_CNTR_GET sizeof_cxl_err_cntr dec_cxl_err_cntr s"

definition cxlmi_cmd_ddr_freq_get ::
  "'s os \<Rightarrow> 's \<Rightarrow> (ddr_freq_get, 's) cmd_result" where
  "cxlmi_cmd_ddr_freq_get os s =
     get_cmd os VENDOR_CMD_OTHERS DDR_FREQUENCY_GET sizeof_ddr_freq_get dec_ddr_freq_get s"

definition cxlmi_cmd_ddr_init_err_info_get ::
  "'s os \<Rightarrow> 's \<Rightarrow> (ddr_init_err_info_get, 's) cmd_result" where
  "cxlmi_cmd_ddr_init_err_info_get os s =
     get_cmd os VENDOR_CMD_OTHERS DDR_INIT_ERR_INFO_GET sizeof_ddr_init_err_info_get dec_ddr_init_err_info_get s"

lemmas vendor_command_defs =
  cxlmi_cmd_dimm_slot_info_def cxlmi_cmd_read_ddr_temp_def cxlmi_cmd_health_counters_get_def
  cxlmi_cmd_pmic_vtmon_info_def cxlmi_cmd_read_ltssm_states_def cxlmi_cmd_pcie_eye_status_def
  cxlmi_cmd_pcie_eye_get_hw_def cxlmi_cmd_pcie_eye_get_sw_ber_def
  cxlmi_cmd_get_cxl_link_status_def cxlmi_cmd_get_device_info_def
  cxlmi_cmd_ddr_margin_status_def cxlmi_cmd_curr_cxl_boot_mode_get_def
  cxlmi_cmd_get_ddr_ecc_err_info_def cxlmi_cmd_get_membridge_errors_def
  cxlmi_cmd_ddr_ecc_scrub_status_def cxlmi_cmd_ddr_init_status_def
  cxlmi_cmd_get_membridge_stats_def cxlmi_cmd_ddr_stats_status_def cxlmi_cmd_ddr_param_get_def
  cxlmi_cmd_dimm_level_training_status_def cxlmi_cmd_core_volt_get_def
  cxlmi_cmd_ddr_cont_scrub_status_def cxlmi_cmd_ddr_page_select_get_def
  cxlmi_cmd_ddr_hppr_get_def cxlmi_cmd_ddr_hppr_addr_info_get_def
  cxlmi_cmd_ddr_ppr_get_status_def cxlmi_cmd_ddr_refresh_mode_get_def
  cxlmi_cmd_cxl_err_cntr_get_def cxlmi_cmd_ddr_freq_get_def cxlmi_cmd_ddr_init_err_info_get_def
  cxlmi_cmd_health_counters_clear_def cxlmi_cmd_ddr_margin_run_def
  cxlmi_cmd_reboot_mode_set_def cxlmi_cmd_i2c_write_def cxlmi_cmd_ddr_err_inj_en_def
  cxlmi_cmd_ddr_stats_run_def cxlmi_cmd_ddr_param_set_def cxlmi_cmd_viral_inj_en_def
  cxlmi_cmd_mem_ll_err_inj_en_def cxlmi_cmd_pci_err_inj_en_def cxlmi_cmd_core_volt_set_def
  cxlmi_cmd_ddr_cont_scrub_set_def cxlmi_cmd_ddr_page_select_set_def cxlmi_cmd_ddr_hppr_set_def
  cxlmi_cmd_ddr_hppr_addr_info_set_def cxlmi_cmd_ddr_hppr_addr_info_clear_def
  cxlmi_cmd_ddr_refresh_mode_set_def cxlmi_cmd_dimm_spd_read_def cxlmi_cmd_pcie_eye_run_def
  cxlmi_cmd_pcie_eye_get_sw_def cxlmi_cmd_get_ddr_bw_def cxlmi_cmd_i2c_read_def
  cxlmi_cmd_get_ddr_latency_def cxlmi_cmd_hpa_to_dpa_def cxlmi_cmd_ddr_stats_get_def
  cxlmi_cmd_start_ddr_ecc_scrub_def cxlmi_cmd_trigger_coredump_def

section \<open>What every command keeps\<close>

text \<open>The two shapes with an out-parameter keep the contract of a query.\<close>

interpretation get_query: query "\<lambda>s. get_cmd os cs opc n dec s" for os cs opc n dec
  by unfold_locales (simp add: get_cmd_def exchange_out_iff[simplified])

interpretation xfer_query: query "\<lambda>s. xfer_cmd os cs opc p n dec s" for os cs opc p n dec
  by unfold_locales (rule xfer_out_iff)

text \<open>The traffic of each shape.\<close>

lemma traffic_shapes [simp]:
  "traffic (\<lambda>os. get_cmd os cs opc n dec) =
     [\<lparr>rq_pl_sz = 0, rq_cmdset = cs, rq_opcode = opc, rq_payload = [], rq_rsp_cap = n\<rparr>]"
  "traffic (\<lambda>os. xfer_cmd os cs opc p n dec') =
     [\<lparr>rq_pl_sz = length p, rq_cmdset = cs, rq_opcode = opc, rq_payload = p, rq_rsp_cap = n\<rparr>]"
  "traffic (\<lambda>os. set_cmd os cs opc p) =
     [\<lparr>rq_pl_sz = length p, rq_cmdset = cs, rq_opcode = opc, rq_payload = p, rq_rsp_cap = 0\<rparr>]"
  "traffic (\<lambda>os. bare_cmd os cs opc) =
     [\<lparr>rq_pl_sz = 0, rq_cmdset = cs, rq_opcode = opc, rq_payload = [], rq_rsp_cap = 0\<rparr>]"
  by (simp_all add: traffic_def shape_defs)

text \<open>Without memory nothing is sent.\<close>

lemma no_buffer_no_traffic:
  "get_cmd (probe False rc pl) cs opc n dec s = (-1, None, s)"
  "xfer_cmd (probe False rc pl) cs opc p n dec' s = (-1, None, s)"
  "set_cmd (probe False rc pl) cs opc p s = (-1, None, s)"
  by (simp_all add: shape_defs)

section \<open>All commands at once\<close>

text \<open>
  One input for each command that takes one, and the requests each command sends for them.
\<close>

record vendor_inputs =
  in_health_counters_clear_req :: health_counters_clear_req
  in_ddr_margin_run_req :: ddr_margin_run_req
  in_reboot_mode_set_req :: reboot_mode_set_req
  in_i2c_write_req :: i2c_write_req
  in_ddr_err_inj_en_req :: ddr_err_inj_en_req
  in_ddr_stats_run_req :: ddr_stats_run_req
  in_ddr_param_set_req :: ddr_param_set_req
  in_viral_inj_en_req :: viral_inj_en_req
  in_mem_ll_err_inj_en_req :: mem_ll_err_inj_en_req
  in_pci_err_inj_en_req :: pci_err_inj_en_req
  in_core_volt_set_req :: core_volt_set_req
  in_ddr_cont_scrub_set_req :: ddr_cont_scrub_set_req
  in_ddr_page_select_set_req :: ddr_page_select_set_req
  in_ddr_hppr_set_req :: ddr_hppr_set_req
  in_ddr_hppr_addr_info_set_req :: ddr_hppr_addr_info_set_req
  in_ddr_hppr_addr_info_clear_req :: ddr_hppr_addr_info_clear_req
  in_ddr_refresh_mode_set_req :: ddr_refresh_mode_set_req
  in_dimm_spd_read_req :: dimm_spd_read_req
  in_pcie_eye_run_req :: pcie_eye_run_req
  in_pcie_eye_get_sw_req :: pcie_eye_get_sw_req
  in_get_ddr_bw_req :: get_ddr_bw_req
  in_i2c_read_req :: i2c_read_req
  in_get_ddr_latency_req :: get_ddr_latency_req
  in_hpa_to_dpa_req :: hpa_to_dpa_req
  in_ddr_stats_get_req :: ddr_stats_get_req

definition command_traffic :: "vendor_inputs \<Rightarrow> cci_req list list" where
  "command_traffic i = [
     traffic cxlmi_cmd_dimm_slot_info,
     traffic cxlmi_cmd_read_ddr_temp,
     traffic cxlmi_cmd_health_counters_get,
     traffic cxlmi_cmd_pmic_vtmon_info,
     traffic cxlmi_cmd_read_ltssm_states,
     traffic cxlmi_cmd_pcie_eye_status,
     traffic cxlmi_cmd_pcie_eye_get_hw,
     traffic cxlmi_cmd_pcie_eye_get_sw_ber,
     traffic cxlmi_cmd_get_cxl_link_status,
     traffic cxlmi_cmd_get_device_info,
     traffic cxlmi_cmd_ddr_margin_status,
     traffic cxlmi_cmd_curr_cxl_boot_mode_get,
     traffic cxlmi_cmd_get_ddr_ecc_err_info,
     traffic cxlmi_cmd_get_membridge_errors,
     traffic cxlmi_cmd_ddr_ecc_scrub_status,
     traffic cxlmi_cmd_ddr_init_status,
     traffic cxlmi_cmd_get_membridge_stats,
     traffic cxlmi_cmd_ddr_stats_status,
     traffic cxlmi_cmd_ddr_param_get,
     traffic cxlmi_cmd_dimm_level_training_status,
     traffic cxlmi_cmd_core_volt_get,
     traffic cxlmi_cmd_ddr_cont_scrub_status,
     traffic cxlmi_cmd_ddr_page_select_get,
     traffic cxlmi_cmd_ddr_hppr_get,
     traffic cxlmi_cmd_ddr_hppr_addr_info_get,
     traffic cxlmi_cmd_ddr_ppr_get_status,
     traffic cxlmi_cmd_ddr_refresh_mode_get,
     traffic cxlmi_cmd_cxl_err_cntr_get,
     traffic cxlmi_cmd_ddr_freq_get,
     traffic cxlmi_cmd_ddr_init_err_info_get,
     traffic (\<lambda>os. cxlmi_cmd_health_counters_clear os (in_health_counters_clear_req i)),
     traffic (\<lambda>os. cxlmi_cmd_ddr_margin_run os (in_ddr_margin_run_req i)),
     traffic (\<lambda>os. cxlmi_cmd_reboot_mode_set os (in_reboot_mode_set_req i)),
     traffic (\<lambda>os. cxlmi_cmd_i2c_write os (in_i2c_write_req i)),
     traffic (\<lambda>os. cxlmi_cmd_ddr_err_inj_en os (in_ddr_err_inj_en_req i)),
     traffic (\<lambda>os. cxlmi_cmd_ddr_stats_run os (in_ddr_stats_run_req i)),
     traffic (\<lambda>os. cxlmi_cmd_ddr_param_set os (in_ddr_param_set_req i)),
     traffic (\<lambda>os. cxlmi_cmd_viral_inj_en os (in_viral_inj_en_req i)),
     traffic (\<lambda>os. cxlmi_cmd_mem_ll_err_inj_en os (in_mem_ll_err_inj_en_req i)),
     traffic (\<lambda>os. cxlmi_cmd_pci_err_inj_en os (in_pci_err_inj_en_req i)),
     traffic (\<lambda>os. cxlmi_cmd_core_volt_set os (in_core_volt_set_req i)),
     traffic (\<lambda>os. cxlmi_cmd_ddr_cont_scrub_set os (in_ddr_cont_scrub_set_req i)),
     traffic (\<lambda>os. cxlmi_cmd_ddr_page_select_set os (in_ddr_page_select_set_req i)),
     traffic (\<lambda>os. cxlmi_cmd_ddr_hppr_set os (in_ddr_hppr_set_req i)),
     traffic (\<lambda>os. cxlmi_cmd_ddr_hppr_addr_info_set os (in_ddr_hppr_addr_info_set_req i)),
     traffic (\<lambda>os. cxlmi_cmd_ddr_hppr_addr_info_clear os (in_ddr_hppr_addr_info_clear_req i)),
     traffic (\<lambda>os. cxlmi_cmd_ddr_refresh_mode_set os (in_ddr_refresh_mode_set_req i)),
     traffic (\<lambda>os. cxlmi_cmd_dimm_spd_read os (in_dimm_spd_read_req i)),
     traffic (\<lambda>os. cxlmi_cmd_pcie_eye_run os (in_pcie_eye_run_req i)),
     traffic (\<lambda>os. cxlmi_cmd_pcie_eye_get_sw os (in_pcie_eye_get_sw_req i)),
     traffic (\<lambda>os. cxlmi_cmd_get_ddr_bw os (in_get_ddr_bw_req i)),
     traffic (\<lambda>os. cxlmi_cmd_i2c_read os (in_i2c_read_req i)),
     traffic (\<lambda>os. cxlmi_cmd_get_ddr_latency os (in_get_ddr_latency_req i)),
     traffic (\<lambda>os. cxlmi_cmd_hpa_to_dpa os (in_hpa_to_dpa_req i)),
     traffic (\<lambda>os. cxlmi_cmd_ddr_stats_get os (in_ddr_stats_get_req i)),
     traffic cxlmi_cmd_start_ddr_ecc_scrub,
     traffic cxlmi_cmd_trigger_coredump]"

end
