(* ===== verification/Vendor_Properties.thy ===== *)
theory Vendor_Properties
  imports Vendor_Commands
begin

text \<open>
  What the vendor commands keep: the addressing of their requests, the faithfulness of their
  encodings, the bounds of their decodings, the contract of their out-parameters, and the parsing
  of the background-operation status and of the sysfs payload limit.
\<close>

lemmas vendor_command_defs =
  cxlmi_cmd_dimm_slot_info_def[abs_def] cxlmi_cmd_read_ddr_temp_def[abs_def]
  cxlmi_cmd_health_counters_get_def[abs_def] cxlmi_cmd_pmic_vtmon_info_def[abs_def]
  cxlmi_cmd_read_ltssm_states_def[abs_def] cxlmi_cmd_pcie_eye_status_def[abs_def]
  cxlmi_cmd_pcie_eye_get_hw_def[abs_def] cxlmi_cmd_pcie_eye_get_sw_ber_def[abs_def]
  cxlmi_cmd_get_cxl_link_status_def[abs_def] cxlmi_cmd_get_device_info_def[abs_def]
  cxlmi_cmd_ddr_margin_status_def[abs_def] cxlmi_cmd_curr_cxl_boot_mode_get_def[abs_def]
  cxlmi_cmd_get_ddr_ecc_err_info_def[abs_def] cxlmi_cmd_get_membridge_errors_def[abs_def]
  cxlmi_cmd_ddr_ecc_scrub_status_def[abs_def] cxlmi_cmd_ddr_init_status_def[abs_def]
  cxlmi_cmd_get_membridge_stats_def[abs_def] cxlmi_cmd_ddr_stats_status_def[abs_def]
  cxlmi_cmd_ddr_param_get_def[abs_def] cxlmi_cmd_dimm_level_training_status_def[abs_def]
  cxlmi_cmd_core_volt_get_def[abs_def] cxlmi_cmd_ddr_cont_scrub_status_def[abs_def]
  cxlmi_cmd_ddr_page_select_get_def[abs_def] cxlmi_cmd_ddr_hppr_get_def[abs_def]
  cxlmi_cmd_ddr_hppr_addr_info_get_def[abs_def] cxlmi_cmd_ddr_ppr_get_status_def[abs_def]
  cxlmi_cmd_ddr_refresh_mode_get_def[abs_def] cxlmi_cmd_cxl_err_cntr_get_def[abs_def]
  cxlmi_cmd_ddr_freq_get_def[abs_def] cxlmi_cmd_ddr_init_err_info_get_def[abs_def]
  cxlmi_cmd_health_counters_clear_def[abs_def] cxlmi_cmd_ddr_margin_run_def[abs_def]
  cxlmi_cmd_reboot_mode_set_def[abs_def] cxlmi_cmd_i2c_write_def[abs_def]
  cxlmi_cmd_ddr_err_inj_en_def[abs_def] cxlmi_cmd_ddr_stats_run_def[abs_def]
  cxlmi_cmd_ddr_param_set_def[abs_def] cxlmi_cmd_viral_inj_en_def[abs_def]
  cxlmi_cmd_mem_ll_err_inj_en_def[abs_def] cxlmi_cmd_pci_err_inj_en_def[abs_def]
  cxlmi_cmd_core_volt_set_def[abs_def] cxlmi_cmd_ddr_cont_scrub_set_def[abs_def]
  cxlmi_cmd_ddr_page_select_set_def[abs_def] cxlmi_cmd_ddr_hppr_set_def[abs_def]
  cxlmi_cmd_ddr_hppr_addr_info_set_def[abs_def] cxlmi_cmd_ddr_hppr_addr_info_clear_def[abs_def]
  cxlmi_cmd_ddr_refresh_mode_set_def[abs_def] cxlmi_cmd_dimm_spd_read_def[abs_def]
  cxlmi_cmd_pcie_eye_run_def[abs_def] cxlmi_cmd_pcie_eye_get_sw_def[abs_def]
  cxlmi_cmd_get_ddr_bw_def[abs_def] cxlmi_cmd_i2c_read_def[abs_def]
  cxlmi_cmd_get_ddr_latency_def[abs_def] cxlmi_cmd_hpa_to_dpa_def[abs_def]
  cxlmi_cmd_ddr_stats_get_def[abs_def] cxlmi_cmd_start_ddr_ecc_scrub_def[abs_def]
  cxlmi_cmd_trigger_coredump_def[abs_def]

lemmas dec_defs =
  dec_hbo_status_out_def dec_dimm_spd_read_rsp_def dec_dimm_slot_info_def dec_ddr_temp_def
  dec_read_ddr_temp_def dec_health_counters_def dec_pmic_data_def dec_pmic_vtmon_info_def
  dec_read_ltssm_states_def dec_pcie_eye_run_rsp_def dec_pcie_eye_status_def
  dec_pcie_eye_get_sw_rsp_def dec_eyescope_results_def dec_rx_settings_def
  dec_pcie_eye_get_hw_def dec_pcie_eye_get_sw_ber_def dec_get_cxl_link_status_def
  dec_get_device_info_def dec_get_ddr_bw_rsp_def dec_ddr_margin_status_def
  dec_ddr_margin_info_def dec_curr_cxl_boot_mode_get_def dec_ddr_parity_err_def
  dec_ddr_dfi_err_def dec_ddr_crc_err_def dec_ddr_userif_err_def dec_ddr_ecc_err_def
  dec_ddr_controller_errors_def dec_get_ddr_ecc_err_info_def dec_i2c_read_rsp_def
  dec_ddr_lat_op_def dec_get_ddr_latency_rsp_def dec_membridge_errors_def
  dec_hpa_to_dpa_rsp_def dec_ddr_ecc_scrub_status_def dec_ddr_init_boot_status_def
  dec_ddr_init_status_def dec_membridge_stats_def dec_ddr_stats_status_def
  dec_ddr_interleave_options_def dec_ddr_param_get_def dec_core_volt_get_def
  dec_ddr_cont_scrub_status_def dec_page_policy_selection_def dec_ddr_page_select_get_def
  dec_ddr_hppr_get_def dec_ddr_addr_info_out_def dec_ddr_hppr_addr_info_get_def
  dec_ddr_ppr_get_status_def dec_ddr_refresh_mode_get_def dec_cxl_err_cntr_def
  dec_ddr_freq_get_def dec_ddr_init_bist_err_info_def dec_ddr_init_err_info_get_def
  dec_ddr_phy_pll_status_def dec_ddr_wr_levelling_status_def
  dec_ddr_read_gate_training_status_def dec_ddr_margin_vref_data_def
  dec_ddr_margin_write_dq_vref_data_def dec_ddr_margin_write_dq_vref_data_cs_def
  dec_ddr_margin_rdlvl_delay_dqs_rise_data_def dec_ddr_margin_rdlvl_delay_dqs_fall_data_def
  dec_ddr_margin_wrdqlvl_delay_data_def dec_ddr_dimm_training_status_def
  dec_dimm_level_training_status_def

section \<open>Requests\<close>



text \<open>The payload length every request declares in its header is the number of payload bytes behind
  it.\<close>

theorem requests_declare_their_length:
  "list_all (list_all (\<lambda>rq. rq_pl_sz rq = length (rq_payload rq))) (command_traffic i)"
  by (simp add: command_traffic_def vendor_command_defs)

section \<open>Responses\<close>



section \<open>Background operation status\<close>

lemma masked_field:
  fixes w m :: u64
  assumes "drop_bit k m = mask n" and "n \<le> LENGTH('a)"
  shows "unat (ucast (drop_bit k (w AND m)) :: 'a::len word) = bitfield k n w"
proof -
  have "drop_bit k (w AND m) = drop_bit k w AND mask n" using assms(1) by simp
  then have "unat (drop_bit k (w AND m)) = bitfield k n w"
    by (simp add: bitfield_def unat_drop_bit)
  moreover have "bitfield k n w < 2 ^ LENGTH('a)"
    using bitfield_bound[of k n w] assms(2)
    by (meson less_le_trans one_le_numeral power_increasing)
  ultimately show ?thesis by (simp add: unsigned_ucast_eq take_bit_nat_eq_self)
qed

lemma hbo_low_fields:
  assumes "\<And>n. n < 31 \<Longrightarrow> shl1 n = 2 ^ n"
  shows "unat (hb_opcode (hbo_fields shl1 w)) = bitfield 0 16 w"
    "unat (hb_percent_complete (hbo_fields shl1 w)) = bitfield 16 7 w"
    "unat (hb_is_running (hbo_fields shl1 w)) = bitfield 23 1 w"
  unfolding hbo_fields_def Let_def hbo_status_fields.simps
  by (rule masked_field; simp add: assms mask_eq_exp_minus_1)+

lemma hbo_running_iff:
  assumes "\<And>n. n < 31 \<Longrightarrow> shl1 n = 2 ^ n"
  shows "hb_is_running (hbo_fields shl1 w) = 0 \<longleftrightarrow> bitfield 23 1 w = 0"
  using hbo_low_fields(3)[OF assms] by (metis unsigned_0 unat_eq_zero)

text \<open>C29. When the device answers the status query with the word \<open>w\<close>, the command returns 1 exactly
  when bit 23 of \<open>w\<close> is set and 0 otherwise, and reports opcode, percentage and running flag from
  bits 0-15, 16-22 and 23, for every compiler that shifts below the sign bit as C says.\<close>

theorem hbo_status_reported:
  assumes "\<And>n. n < 31 \<Longrightarrow> shl1 n = 2 ^ n"
  shows "\<exists>f. cxlmi_cmd_get_hbo_status (probe True 0 (enc64 w)) shl1 s =
               (int (bitfield 23 1 w), Some f,
                s @ [\<lparr>rq_pl_sz = 0, rq_cmdset = 0xcd, rq_opcode = 0, rq_payload = [],
                      rq_rsp_cap = 8\<rparr>]) \<and>
             unat (hb_opcode f) = bitfield 0 16 w \<and>
             unat (hb_percent_complete f) = bitfield 16 7 w \<and>
             unat (hb_is_running f) = bitfield 23 1 w"
proof -
  have one: "bitfield 23 1 w \<noteq> 0 \<Longrightarrow> bitfield 23 1 w = 1"
    using bitfield_bound[of 23 1 w] by simp
  have "bo_status (dec_hbo_status_out (enc64 w)) = w"
    by (simp add: dec_hbo_status_out_def rd64_def codec_simps)
  then show ?thesis
    using one
    by (auto simp: cxlmi_cmd_get_hbo_status_def shape_defs opcode_simps layout_simps
          hbo_low_fields[OF assms] hbo_running_iff[OF assms])
qed

theorem hbo_status_reported_witness:
  "\<exists>f. cxlmi_cmd_get_hbo_status (probe True 0 (enc64 0x800000)) (\<lambda>n. 2 ^ n) [] =
          (int (bitfield 23 1 (0x800000 :: u64)), Some f,
           [] @ [\<lparr>rq_pl_sz = 0, rq_cmdset = 0xcd, rq_opcode = 0, rq_payload = [], rq_rsp_cap = 8\<rparr>]) \<and>
       unat (hb_opcode f) = bitfield 0 16 (0x800000 :: u64) \<and>
       unat (hb_percent_complete f) = bitfield 16 7 (0x800000 :: u64) \<and>
       unat (hb_is_running f) = bitfield 23 1 (0x800000 :: u64)"
  using hbo_status_reported[of "\<lambda>n. 2 ^ n" "0x800000" "[]"] by simp

text \<open>
  The shift of the x86 instruction, which takes the count modulo 32.
\<close>

definition x86_shl1 :: "nat \<Rightarrow> int" where
  "x86_shl1 n = to_int32 (2 ^ (n mod 32))"

text \<open>C40. With the shift of x86 the return code of the operation, bits 32-47 of the status, is always
  reported as 0; the extended status, bits 48-63, is right.\<close>

theorem hbo_return_code_lost:
  "hb_return_code (hbo_fields x86_shl1 w) = 0 \<and>
   unat (hb_extended_status (hbo_fields x86_shl1 w)) = bitfield 48 16 w"
proof -
  have "drop_bit 32 (w AND 0xFFFF) = 0" by simp
  then show ?thesis
    unfolding hbo_fields_def Let_def hbo_status_fields.simps x86_shl1_def to_int32_def
    by (intro conjI masked_field; simp add: mask_eq_exp_minus_1)
qed

section \<open>The sysfs payload limit\<close>

lemma payload_path_fits: "length (payload_path d) + 1 \<le> MAX_PATH_LEN \<longleftrightarrow> length d \<le> 30"
  by (auto simp: payload_path_def MAX_PATH_LEN_def)

lemma sysfs_rc_bound:
  assumes "\<And>e. fs path = Open_error e \<Longrightarrow> 0 \<le> e" "\<And>e. fs path = Read_error e \<Longrightarrow> 0 \<le> e"
    and "\<And>t e. fs path = Read_ok t e \<Longrightarrow> 0 \<le> e"
  shows "fst (read_sysfs_attr fs path b) \<le> 0"
  using assms by (auto simp: read_sysfs_attr_def Let_def split: file_read.split)

text \<open>C30. The payload limit of an endpoint is defined exactly for device names of at most 30 characters
  (the path of a longer one overruns the 64-byte buffer), and where \<open>errno\<close> is never negative it is
  between 0 and \<open>INT_MAX\<close>, whatever the attribute holds.\<close>

theorem maxpayload_defined_and_bounded:
  assumes "\<And>p e. fs p = Open_error e \<or> fs p = Read_error e \<Longrightarrow> 0 \<le> e"
    and "\<And>p t e. fs p = Read_ok t e \<Longrightarrow> 0 \<le> e"
  shows "if length d \<le> 30
         then \<exists>v. get_cxl_maxpayload fs (Some d) = Defined v \<and> 0 \<le> v \<and> v < 2 ^ 31
         else get_cxl_maxpayload fs (Some d) = Undefined Oob_write"
proof (cases "length d \<le> 30")
  case True
  obtain rc buf where r: "read_sysfs_attr fs (payload_path d) True = (rc, buf)" by fastforce
  with sysfs_rc_bound[of fs "payload_path d" True] assms have "rc \<le> 0" by fastforce
  moreover have "\<not> MAX_PATH_LEN < length (payload_path d) + 1"
    using True payload_path_fits[of d] by linarith
  ultimately show ?thesis
    using True r to_int32_range[of "uint (fst (strtoull 0 (the buf)))"]
    by (auto simp: get_cxl_maxpayload_def Let_def int32_range_def)
next
  case False
  then have "MAX_PATH_LEN < length (payload_path d) + 1"
    using payload_path_fits[of d] by linarith
  with False show ?thesis by (simp add: get_cxl_maxpayload_def)
qed

theorem maxpayload_defined_and_bounded_witness:
  "\<exists>v. get_cxl_maxpayload (\<lambda>p. Read_ok ''0x400'' 0) (Some ''mem0'') = Defined v \<and>
       0 \<le> v \<and> v < 2 ^ 31"
  using maxpayload_defined_and_bounded[of "\<lambda>p. Read_ok ''0x400'' 0" "''mem0''"] by simp

lemma dec_string_hd_nonzero: "0 < n \<Longrightarrow> hd (dec_string n) \<noteq> CHR ''0''"
proof (induction n rule: dec_string.induct)
  case (1 n)
  have "code CHR ''0'' = 48" by (simp add: code_def)
  with 1 show ?case
    by (subst dec_string.simps) (auto dest: arg_cong[where f = code])
qed

lemma no_hex_prefix: "s \<noteq> [] \<Longrightarrow> hd s \<noteq> CHR ''0'' \<Longrightarrow> \<not> hex_prefix s"
  by (cases s rule: hex_prefix.cases) auto

lemma strtoull_base0_dec:
  assumes "0 < n" "n < 2 ^ 64"
  shows "strtoull 0 (dec_string n) = (of_nat n, [])"
proof -
  have "base_and_rest 0 (dec_string n) = base_and_rest 10 (dec_string n)"
    using dec_string_hd_nonzero[OF assms(1)] no_hex_prefix[of "dec_string n"]
    by (simp add: base_and_rest_def)
  moreover have "scan_sign (dropWhile is_space (dec_string n)) = (False, dec_string n)"
    using scan_sign_dec[of n "[]"] by simp
  ultimately have "strto_core 0 (dec_string n) = strto_core 10 (dec_string n)"
    by (simp add: strto_core_def)
  then show ?thesis using assms(2) strto_core_dec[of "[]" n] by (simp add: strtoull_def)
qed

lemma dec_string_plain: "c \<in> set (dec_string n) \<Longrightarrow> c \<noteq> CHR 0x00 \<and> c \<noteq> CHR 0x0A"
proof -
  assume "c \<in> set (dec_string n)"
  then obtain d where "d < 10" "c = digit_char d" using dec_string_digits by blast
  then have "code c = 48 + d" by simp
  moreover have "code CHR 0x00 = 0" "code CHR 0x0A = 10" by (simp_all add: code_def)
  ultimately show ?thesis by auto
qed

lemma maxpayload_decimal:
  assumes "length d \<le> 30" and "0 < n" and "n < 2 ^ 31"
  shows "get_cxl_maxpayload (\<lambda>p. Read_ok (dec_string n @ [CHR 0x0A]) e) (Some d) = Defined (int n)"
proof -
  have fits: "\<not> MAX_PATH_LEN < length (payload_path d) + 1"
    using assms(1) payload_path_fits[of d] by linarith
  have "takeWhile (\<lambda>c. c \<noteq> CHR 0x00) (dec_string n) = dec_string n"
    by (simp add: takeWhile_eq_all_conv dec_string_plain)
  then have rd: "read_sysfs_attr (\<lambda>p. Read_ok (dec_string n @ [CHR 0x0A]) e) p True =
      (0, Some (dec_string n))" for p
    using dec_string_length[of n 10] assms(3)
    by (simp add: read_sysfs_attr_def SYSFS_ATTR_SIZE_def Let_def nth_append)
  have "uint (fst (strtoull 0 (dec_string n))) = int n"
    using strtoull_base0_dec[of n] assms(2,3) by (simp add: uint_nat unat_of_nat)
  moreover have "to_int32 (int n) = int n"
    using assms(3) by (intro to_int32_id) (simp add: int32_range_def)
  ultimately show ?thesis using fits by (simp add: get_cxl_maxpayload_def rd)
qed

text \<open>An attribute that holds the decimal text of a positive \<open>int\<close> and a newline is read back as that
  number, for every device name that fits.\<close>

theorem maxpayload_reads_decimal:
  assumes "length d \<le> 30" and "0 < n" and "n < 2 ^ 31"
  shows "get_cxl_maxpayload (\<lambda>p. Read_ok (dec_string n @ [CHR 0x0A]) e) (Some d) = Defined (int n)"
  using assms by (rule maxpayload_decimal)

theorem maxpayload_reads_decimal_witness:
  "get_cxl_maxpayload (\<lambda>p. Read_ok (dec_string 512 @ [CHR 0x0A]) 0) (Some ''mem0'') = Defined 512"
  using maxpayload_reads_decimal[of "''mem0''" 512 0] by simp

section \<open>The margin data\<close>

text \<open>C28. A margin query that succeeds overwrites a prefix of the caller's structure, as long as the
  smaller of the structure and the payload limit, with the bytes the device sent, leaves the rest of
  it alone, and keeps its length.\<close>

theorem margin_get_frame:
  assumes "get_cxl_maxpayload fs ep = Defined v" and "0 \<le> v"
    and "length old = sizeof_ddr_margin_get"
    and "k = min sizeof_ddr_margin_get (nat v)"
  shows "cxlmi_cmd_ddr_margin_get (probe True 0 pl) fs ep old s =
           Defined (0, Some (rsp_buffer k pl @ drop k old),
                    s @ [\<lparr>rq_pl_sz = 0, rq_cmdset = VENDOR_CMD_OTHERS,
                          rq_opcode = DDR_MARGIN_GET, rq_payload = [], rq_rsp_cap = k\<rparr>]) \<and>
         length (rsp_buffer k pl @ drop k old) = sizeof_ddr_margin_get"
proof -
  have k: "nat (min (int sizeof_ddr_margin_get) v) = k"
    using assms(2,4) by (simp add: min_def nat_le_iff le_nat_iff)
  show ?thesis
    using assms by (simp add: cxlmi_cmd_ddr_margin_get_def k shape_defs Let_def)
qed

theorem margin_get_frame_witness:
  "cxlmi_cmd_ddr_margin_get (probe True 0 [1, 2]) (\<lambda>p. Read_ok (dec_string 512 @ [CHR 0x0A]) 0)
     (Some ''mem0'') (replicate sizeof_ddr_margin_get 7) [] =
   Defined (0, Some (rsp_buffer 512 [1, 2] @ drop 512 (replicate sizeof_ddr_margin_get 7)),
            [\<lparr>rq_pl_sz = 0, rq_cmdset = VENDOR_CMD_OTHERS, rq_opcode = DDR_MARGIN_GET,
              rq_payload = [], rq_rsp_cap = 512\<rparr>])"
proof -
  have k: "512 = min sizeof_ddr_margin_get (nat 512)" by (simp add: sizeof_ddr_margin_get_def)
  have v: "get_cxl_maxpayload (\<lambda>p. Read_ok (dec_string 512 @ [CHR 0x0A]) 0) (Some ''mem0'') =
        Defined 512"
    using maxpayload_decimal[of "''mem0''" 512 0] by simp
  show ?thesis
    using margin_get_frame[OF v _ length_replicate k, of "[1, 2]" 7 "[]"]
    by (simp only: append_Nil)
qed

end
