(* ===== verification/Output.thy ===== *)
theory Output
  imports Vendor_Commands
begin

text \<open>
  What the handlers of \<open>cxl/src/cxl_cmd.c\<close> print. A call of \<open>printf\<close> is its format and its
  arguments; the escapes \<open>n\<close>, \<open>t\<close> and \<open>r\<close> of the source are written with a caret instead of a
  backslash.
\<close>

section \<open>Printed lines\<close>

text \<open>
  Arguments as they are passed: integers narrower than \<open>int\<close> are promoted (zero-extended from the
  unsigned types, sign-extended from \<open>char\<close> and \<open>int8_t\<close>), a \<open>float\<close> is carried as its own bits.
\<close>

datatype arg = I32 u32 | I64 u64 | F32 float32 | F64 float64 | Str string

type_synonym line = "string \<times> arg list"

definition U8 :: "u8 \<Rightarrow> arg" where "U8 x = I32 (ucast x)"
definition S8 :: "u8 \<Rightarrow> arg" where "S8 x = I32 (scast x)"
definition U16 :: "u16 \<Rightarrow> arg" where "U16 x = I32 (ucast x)"
definition Idx :: "nat \<Rightarrow> arg" where "Idx i = I32 (of_nat i)"

text \<open>The string in an array of characters: reading it stops at the first zero byte.\<close>

definition c_string :: "bytes \<Rightarrow> string outcome" where
  "c_string b = (if 0 \<in> set b then Defined (map (\<lambda>x. char_of (unat x)) (takeWhile (\<lambda>x. x \<noteq> 0) b))
                 else Undefined Oob_read)"

text \<open>An array read at an index that the device chooses.\<close>

definition at :: "'a list \<Rightarrow> nat \<Rightarrow> 'a outcome" where
  "at xs i = (if i < length xs then Defined (xs ! i) else Undefined Oob_read)"

lemma at_Defined [simp]: "i < length xs \<Longrightarrow> at xs i = Defined (xs ! i)"
  by (simp add: at_def)

fun each :: "('a \<Rightarrow> 'b outcome) \<Rightarrow> 'a list \<Rightarrow> 'b list outcome" where
  "each f [] = Defined []"
| "each f (x # xs) = bind_outcome (f x) (\<lambda>y. bind_outcome (each f xs) (\<lambda>ys. Defined (y # ys)))"

lemma each_Defined:
  "\<forall>x \<in> set xs. f x = Defined (g x) \<Longrightarrow> each f xs = Defined (map g xs)"
  by (induction xs) simp_all

lemma each_defined_iff: "is_defined (each f xs) \<longleftrightarrow> (\<forall>x \<in> set xs. is_defined (f x))"
proof (induction xs)
  case (Cons x xs)
  then show ?case by (cases "f x"; cases "each f xs") auto
qed simp

lemma is_defined_bind: "is_defined (bind_outcome m f) \<longleftrightarrow> (\<exists>x. m = Defined x \<and> is_defined (f x))"
  by (cases m) auto

lemma is_defined_bind_total:
  "(\<And>x. is_defined (f x)) \<Longrightarrow> is_defined (bind_outcome m f) \<longleftrightarrow> is_defined m"
  by (cases m) auto

section \<open>The result of a handler\<close>

text \<open>Its return code, what it printed, and the state; or undefined behaviour.\<close>

type_synonym 's printed = "(int \<times> line list \<times> 's) outcome"

text \<open>
  The shape most handlers have: run a command, print what \<open>show\<close> says when it returned 0, return its
  code.
\<close>

definition report ::
  "('s \<Rightarrow> ('r, 's) cmd_result) \<Rightarrow> ('r \<Rightarrow> line list outcome) \<Rightarrow> 's \<Rightarrow> 's printed" where
  "report run show s =
     (case run s of (rc, out, s') \<Rightarrow>
        if rc \<noteq> 0 then Defined (rc, [], s')
        else bind_outcome (show (the out)) (\<lambda>ls. Defined (rc, ls, s')))"

text \<open>What a handler in this shape keeps when the command keeps the contract of a query.\<close>

context query
begin

lemma report_fails: "ret_code (run s) \<noteq> 0 \<Longrightarrow> report run show s = Defined (ret_code (run s), [], ret_state (run s))"
  by (cases "run s") (simp add: report_def)

lemma report_shows:
  assumes "ret_code (run s) = 0"
  obtains r where "ret_out (run s) = Some r"
    "report run show s = bind_outcome (show r) (\<lambda>ls. Defined (0, ls, ret_state (run s)))"
proof -
  obtain r where r: "ret_out (run s) = Some r" using out_defined[OF assms] by blast
  show ?thesis
  proof (rule that[OF r])
    show "report run show s = bind_outcome (show r) (\<lambda>ls. Defined (0, ls, ret_state (run s)))"
      using r assms by (cases "run s") (simp add: report_def)
  qed
qed

lemma report_defined:
  assumes "\<And>r. ret_out (run s) = Some r \<Longrightarrow> is_defined (show r)"
  shows "is_defined (report run show s)"
proof (cases "ret_code (run s) = 0")
  case True
  then obtain r where "ret_out (run s) = Some r"
    "report run show s = bind_outcome (show r) (\<lambda>ls. Defined (0, ls, ret_state (run s)))"
    using report_shows by metis
  with assms show ?thesis by (cases "show r") auto
next
  case False
  then show ?thesis by (simp add: report_fails)
qed

end

section \<open>Floating point\<close>

text \<open>
  The few operations the program does on \<open>float\<close> values are not modelled: they are the fields of
  this record, a parameter. \<open>f_volt\<close> is \<open>a + b / 10.0 + c / 100.0\<close> rounded to \<open>float\<close>, \<open>f_speed\<close> the
  transfer rate of theory \<open>Dimm_Mgmt\<close>.
\<close>

record fpu =
  f_add :: "float32 \<Rightarrow> float32 \<Rightarrow> float32"
  f_sub :: "float32 \<Rightarrow> float32 \<Rightarrow> float32"
  f_volt :: "u32 \<Rightarrow> u32 \<Rightarrow> u32 \<Rightarrow> float32"
  f_speed :: "u8 \<Rightarrow> u8 \<Rightarrow> int"

text \<open>
  Comparison with a positive constant is done on the bits: positive values are ordered like their
  bit patterns, up to the one of infinity.
\<close>

definition f32_above :: "u32 \<Rightarrow> float32 \<Rightarrow> bool" where
  "f32_above limit x \<longleftrightarrow> limit < x \<and> x \<le> 0x7F800000"

end
