(* ===== verification/Fw_Update.thy ===== *)
theory Fw_Update
  imports Output "HOL-Library.Signed_Division"
begin

text \<open>
  The firmware update \<open>cxl_cmd_update_device_fw\<close> of \<open>cxl/src/cxl_cmd.c\<close>: reading the image, the
  loop over its 128-byte blocks, the retry loops around each transfer and each poll of the
  background operation, and the abort. The operations it calls are the fields of a port; the two
  ports of the code (the command of the CXL specification, in libcxlmi, and the vendor command)
  are built from the parameters of the transport.
\<close>

section \<open>The port and the parameters\<close>

text \<open>
  \<open>fp_transfer\<close> is one attempt to send a block, \<open>fp_status\<close> one poll of the background operation,
  \<open>fp_print\<close> a line on the terminal.
\<close>

record 's fw_port =
  fp_calloc :: "nat \<Rightarrow> 's \<Rightarrow> bool \<times> 's"
  fp_transfer :: "transfer_fw \<Rightarrow> 's \<Rightarrow> (int \<times> 's) outcome"
  fp_status :: "'s \<Rightarrow> int \<times> 's"
  fp_sleep :: "nat \<Rightarrow> 's \<Rightarrow> 's"
  fp_print :: "line \<Rightarrow> 's \<Rightarrow> 's"

record update_fw_params =
  up_filepath :: string
  up_slot :: u32
  up_hbo :: bool
  up_mock :: bool

definition FW_BYTE_ALIGN :: nat where "FW_BYTE_ALIGN = 128"
definition FW_BLOCK_SIZE :: nat where "FW_BLOCK_SIZE = 128"
definition INITIATE_TRANSFER :: u8 where "INITIATE_TRANSFER = 1"
definition CONTINUE_TRANSFER :: u8 where "CONTINUE_TRANSFER = 2"
definition END_TRANSFER :: u8 where "END_TRANSFER = 3"
definition ABORT_TRANSFER :: u8 where "ABORT_TRANSFER = 4"
definition max_retries :: nat where "max_retries = 10"

lemmas fw_consts =
  FW_BYTE_ALIGN_def FW_BLOCK_SIZE_def INITIATE_TRANSFER_def CONTINUE_TRANSFER_def END_TRANSFER_def
  ABORT_TRANSFER_def max_retries_def

section \<open>The request of a block\<close>

definition num_blocks :: "int \<Rightarrow> int" where
  "num_blocks filesize =
     filesize sdiv int FW_BLOCK_SIZE + (if filesize smod int FW_BLOCK_SIZE \<noteq> 0 then 1 else 0)"

definition block_size :: "int \<Rightarrow> nat \<Rightarrow> nat" where
  "block_size filesize i =
     (if int i = num_blocks filesize - 1 \<and> filesize smod int FW_BLOCK_SIZE \<noteq> 0
      then nat (filesize smod int FW_BLOCK_SIZE) else FW_BLOCK_SIZE)"

definition block_offset :: "nat \<Rightarrow> u32" where
  "block_offset i = of_nat (i * (FW_BLOCK_SIZE div FW_BYTE_ALIGN))"

definition block_request :: "update_fw_params \<Rightarrow> bytes \<Rightarrow> int \<Rightarrow> nat \<Rightarrow> transfer_fw" where
  "block_request params rom filesize i =
     \<lparr>tf_action = (if i = 0 then INITIATE_TRANSFER
                   else if int i = num_blocks filesize - 1 then END_TRANSFER
                   else CONTINUE_TRANSFER),
      tf_slot = ucast (up_slot params),
      tf_offset = block_offset i,
      tf_data = bslice (i * FW_BLOCK_SIZE) (block_size filesize i) rom\<rparr>"

section \<open>The loops\<close>

text \<open>
  The loop \<open>while (rc != 0)\<close> around a transfer or a poll: it gives up, with a code that is not 0,
  once \<open>retry_count\<close> exceeds \<open>max_retries\<close>.
\<close>

function retry_loop ::
  "('s \<Rightarrow> (int \<times> 's) outcome) \<Rightarrow> (nat \<Rightarrow> 's \<Rightarrow> 's) \<Rightarrow> nat \<Rightarrow> int \<Rightarrow> 's \<Rightarrow> (int \<times> 's) outcome" where
  "retry_loop attempt pause retry_count rc s =
     (if rc = 0 \<or> max_retries < retry_count then Defined (rc, s)
      else bind_outcome (attempt (pause 10 s)) (\<lambda>(rc', s').
             retry_loop attempt pause (Suc retry_count) rc' s'))"
  by pat_completeness auto

termination
  by (relation "measure (\<lambda>(a, p, n, rc, s). 12 - n)") (auto simp: max_retries_def)

declare retry_loop.simps [simp del]

definition with_retries ::
  "('s \<Rightarrow> (int \<times> 's) outcome) \<Rightarrow> (nat \<Rightarrow> 's \<Rightarrow> 's) \<Rightarrow> 's \<Rightarrow> (int \<times> 's) outcome" where
  "with_retries attempt pause s =
     bind_outcome (attempt s) (\<lambda>(rc, s'). retry_loop attempt pause 0 rc s')"

text \<open>The label \<open>abort\<close>: the request of the current block is reused as the abort request.\<close>

definition abort_request :: "transfer_fw \<Rightarrow> transfer_fw" where
  "abort_request rq = rq\<lparr>tf_action := ABORT_TRANSFER, tf_offset := of_nat FW_BLOCK_SIZE\<rparr>"

definition abort_transfer :: "'s fw_port \<Rightarrow> transfer_fw \<Rightarrow> 's \<Rightarrow> (int \<times> 's) outcome" where
  "abort_transfer port rq s = fp_transfer port (abort_request rq) (fp_sleep port 2 s)"

text \<open>
  The loop over the blocks from \<open>i\<close>; \<open>percent\<close> is \<open>percent_to_print\<close>, \<open>hdr\<close> the size of the
  request structure. The loop ends with the code of the last poll, or of the abort.
\<close>

definition progress :: "'s fw_port \<Rightarrow> int \<Rightarrow> nat \<Rightarrow> int \<Rightarrow> 's \<Rightarrow> int \<times> 's" where
  "progress port nb i percent s =
     (if percent \<le> (int i * 100) sdiv nb
      then (percent + 10,
            fp_print port (''%d percent complete. Transfering block %d of %d at offset 0x%x^n'',
              [I32 (of_int percent), Idx i, I32 (of_int nb), I32 (block_offset i)]) s)
      else (percent, s))"

definition no_memory :: line where "no_memory = (''Failed to allocate memory^r^n'', [])"

definition given_up :: "string \<Rightarrow> nat \<Rightarrow> line" where
  "given_up what i =
     (''Maximum %d retries exceeded '' @ what @ '' block %d^n'', [Idx max_retries, Idx i])"

function transfer_blocks ::
  "'s fw_port \<Rightarrow> nat \<Rightarrow> update_fw_params \<Rightarrow> bytes \<Rightarrow> int \<Rightarrow> nat \<Rightarrow> int \<Rightarrow> int \<Rightarrow> 's \<Rightarrow>
   (int \<times> 's) outcome" where
  "transfer_blocks port hdr params rom filesize i percent rc s =
     (if num_blocks filesize \<le> int i then Defined (rc, s)
      else case progress port (num_blocks filesize) i percent s of (percent', s1) \<Rightarrow>
        case fp_calloc port (hdr + block_size filesize i) s1 of (ok, s2) \<Rightarrow>
          if \<not> ok then Defined (-12, fp_print port no_memory s2)
          else let rq = block_request params rom filesize i in
            bind_outcome (with_retries (fp_transfer port rq) (fp_sleep port) s2) (\<lambda>(rc3, s3).
              if rc3 \<noteq> 0 then abort_transfer port rq (fp_print port (given_up ''while transferring'' i) s3)
              else bind_outcome (with_retries (\<lambda>t. Defined (fp_status port t)) (fp_sleep port) s3)
                (\<lambda>(rc4, s4).
                  if rc4 \<noteq> 0 then abort_transfer port rq (fp_print port (given_up ''for hbo_status of'' i) s4)
                  else if up_mock params then abort_transfer port rq s4
                  else transfer_blocks port hdr params rom filesize (Suc i) percent' rc4 s4)))"
  by pat_completeness auto

termination
  by (relation "measure (\<lambda>(po, h, pa, rom, fs, i, pc, rc, s). nat (num_blocks fs - int i))") auto

declare transfer_blocks.simps [simp del]

section \<open>The command\<close>

text \<open>
  What the file system and the allocator answer for the image: whether \<open>fopen\<close>, \<open>fstat\<close> and
  \<open>malloc\<close> succeed, the text of the error when \<open>fopen\<close> does not, \<open>st_size\<close>, and the bytes \<open>fread\<close>
  finds.
\<close>

record rom_file =
  rom_fopen :: bool
  rom_error :: string
  rom_fstat :: bool
  rom_st_size :: int
  rom_malloc :: bool
  rom_bytes :: bytes

definition fw_opcode :: "nat \<Rightarrow> bool \<Rightarrow> update_fw_params \<Rightarrow> nat" where
  "fw_opcode std_opcode is_os params =
     (if is_os then VENDOR_CMD_OEM_MGMT * 256 + TRANSFER_OS
      else if up_hbo params then VENDOR_CMD_OEM_MGMT * 256 + TRANSFER_FW
      else std_opcode)"

text \<open>
  The opcode selects the port. The count \<open>fread\<close> is given is \<open>filesize\<close> converted to \<open>size_t\<close>; the
  number it returns is converted to \<open>int\<close>.
\<close>

definition cxl_cmd_update_device_fw ::
  "(nat \<Rightarrow> 's fw_port) \<Rightarrow> nat \<Rightarrow> nat \<Rightarrow> (string \<Rightarrow> rom_file) \<Rightarrow> bool \<Rightarrow> update_fw_params \<Rightarrow> 's \<Rightarrow>
   (int \<times> 's) outcome" where
  "cxl_cmd_update_device_fw ports std_opcode hdr files is_os params s =
     (let f = files (up_filepath params); filesize = to_int32 (rom_st_size f);
          port = ports (fw_opcode std_opcode is_os params) in
      if \<not> rom_fopen f then
        Defined (-2, fp_print port (''Error: File open returned %s^nCould not open file %s^n'',
                       [Str (rom_error f), Str (up_filepath params)]) s)
      else let s1 = fp_print port (''Rom filepath: %s^n'', [Str (up_filepath params)]) s in
      if \<not> rom_fstat f then Defined (-2, s1)
      else if \<not> rom_malloc f then Defined (-12, fp_print port no_memory s1)
      else let rom = take (nat (filesize mod 2 ^ 64)) (rom_bytes f) in
        if filesize \<noteq> to_int32 (int (length rom)) then
          Defined (-2, fp_print port (''Number of bytes read: %d^nNumber of bytes expected: %d^n'',
                         [Idx (length rom), I32 (of_int (num_blocks filesize))]) s1)
        else transfer_blocks port hdr params rom filesize 0 0 0
               (if is_os then fp_print port (''firmware update selected for OS Image^n'', []) s1 else s1))"

section \<open>The ports of the code\<close>

text \<open>
  \<open>std_opcode\<close> and \<open>std_transfer\<close> are the opcode and the command of the CXL specification, which
  libcxlmi provides; \<open>abi\<close> and \<open>shl1\<close> are the parameters of the vendor commands. The state is the one
  behind the transport with the lines printed so far.
\<close>

definition attempt_transfer ::
  "'s os \<Rightarrow> fw_abi \<Rightarrow> nat \<Rightarrow> (transfer_fw \<Rightarrow> 's \<Rightarrow> int \<times> 's) \<Rightarrow> nat \<Rightarrow> transfer_fw \<Rightarrow> 's \<Rightarrow>
   (int \<times> 's) outcome" where
  "attempt_transfer os abi std_opcode std_transfer opc rq s =
     (if opc = std_opcode then Defined (std_transfer rq s)
      else bind_outcome (cxlmi_cmd_vendor_transfer_fw os abi rq opc s) (\<lambda>r.
             Defined (ret_code r, ret_state r)))"

definition fw_port_of ::
  "'s os \<Rightarrow> fw_abi \<Rightarrow> (nat \<Rightarrow> int) \<Rightarrow> nat \<Rightarrow> (transfer_fw \<Rightarrow> 's \<Rightarrow> int \<times> 's) \<Rightarrow> (nat \<Rightarrow> 's \<Rightarrow> 's) \<Rightarrow> nat \<Rightarrow>
   ('s \<times> line list) fw_port" where
  "fw_port_of os abi shl1 std_opcode std_transfer pause opc =
     \<lparr>fp_calloc = (\<lambda>n (s, ls). case os_calloc os n s of (ok, s') \<Rightarrow> (ok, s', ls)),
      fp_transfer = (\<lambda>rq (s, ls).
        bind_outcome (attempt_transfer os abi std_opcode std_transfer opc rq s) (\<lambda>(rc, s').
          Defined (rc, s', ls))),
      fp_status = (\<lambda>(s, ls). let r = cxlmi_cmd_get_hbo_status os shl1 s in (ret_code r, ret_state r, ls)),
      fp_sleep = (\<lambda>n (s, ls). (pause n s, ls)),
      fp_print = (\<lambda>l (s, ls). (s, ls @ [l]))\<rparr>"

end
