(* ===== verification/Fw_Properties.thy ===== *)
theory Fw_Properties
  imports Fw_Update
begin

text \<open>
  What the firmware update keeps: an abstract description of the runs of the protocol, the
  refinement of the update loop to it for every device, the facts of every run by rule induction,
  the freedom from undefined behaviour on a total port, the completion of the update of a device that
  recovers in time, and the two cases where the update goes
  wrong.
\<close>

section \<open>Total ports\<close>

text \<open>The interface of the loops: every attempt to send a block has a result.\<close>

locale total_port =
  fixes port :: "'s fw_port"
  assumes transfer_total: "is_defined (fp_transfer port rq s)"
begin

lemma retry_total:
  assumes "\<And>t. is_defined (attempt t)"
  shows "is_defined (retry_loop attempt pause n rc s)"
proof (induction "12 - n" arbitrary: n rc s rule: less_induct)
  case less
  show ?case
  proof (cases "rc = 0 \<or> max_retries < n")
    case True
    then show ?thesis by (subst retry_loop.simps) simp
  next
    case False
    then have "12 - Suc n < 12 - n" unfolding max_retries_def by linarith
    moreover obtain rc' s' where "attempt (pause 10 s) = Defined (rc', s')"
      using assms is_defined_iff by (metis surj_pair)
    ultimately show ?thesis using less False by (subst retry_loop.simps) simp
  qed
qed

lemma with_retries_total:
  assumes "\<And>t. is_defined (attempt t)"
  shows "\<exists>rc s'. with_retries attempt pause s = Defined (rc, s')"
proof -
  obtain rc s1 where "attempt s = Defined (rc, s1)"
    using assms is_defined_iff by (metis surj_pair)
  then have "is_defined (with_retries attempt pause s)"
    using retry_total[OF assms] by (simp add: with_retries_def)
  then show ?thesis by (simp add: is_defined_iff)
qed

lemma blocks_total: "is_defined (transfer_blocks port hdr params rom fs i percent rc s)"
proof (induction "nat (num_blocks fs - int i)" arbitrary: i percent rc s rule: less_induct)
  case less
  show ?case
  proof (cases "num_blocks fs \<le> int i")
    case True
    then show ?thesis by (subst transfer_blocks.simps) simp
  next
    case False
    then have smaller: "nat (num_blocks fs - int (Suc i)) < nat (num_blocks fs - int i)" by simp
    let ?rq = "block_request params rom fs i"
    obtain p1 s1 where p: "progress port (num_blocks fs) i percent s = (p1, s1)" by fastforce
    obtain ok s2 where c: "fp_calloc port (hdr + block_size fs i) s1 = (ok, s2)" by fastforce
    obtain rc3 s3 where t: "with_retries (fp_transfer port ?rq) (fp_sleep port) s2 = Defined (rc3, s3)"
      using with_retries_total[of "fp_transfer port ?rq"] transfer_total by blast
    obtain rc4 s4 where
      "with_retries (\<lambda>t. Defined (fp_status port t)) (fp_sleep port) s3 = Defined (rc4, s4)"
      using with_retries_total[of "\<lambda>t. Defined (fp_status port t)" "fp_sleep port" s3] by auto
    then show ?thesis
      using False less[OF smaller] transfer_total
      by (subst transfer_blocks.simps) (simp add: p c t abort_transfer_def Let_def)
  qed
qed

lemma update_total:
  "ports (fw_opcode std_opcode is_os params) = port \<Longrightarrow>
     is_defined (cxl_cmd_update_device_fw ports std_opcode hdr files is_os params s)"
  using blocks_total by (simp add: cxl_cmd_update_device_fw_def Let_def)

end

text \<open>The port of the command of the CXL specification is total, whatever the transport does.\<close>

interpretation std: total_port
  "fw_port_of os abi shl1 opc std_transfer pause opc"
  for os abi shl1 opc std_transfer pause
  by unfold_locales (auto simp: fw_port_of_def attempt_transfer_def split: prod.split)


section \<open>The abstract protocol\<close>

text \<open>
  A run from block \<open>i\<close> of \<open>n\<close>: the requests sent, the number of blocks started, and whether it was
  aborted. Each block is sent between once and \<open>tries\<close> times, the next only after it; an aborted
  run ends with the abort request of its last block.
\<close>

inductive fw_run ::
  "nat \<Rightarrow> nat \<Rightarrow> (nat \<Rightarrow> 'q) \<Rightarrow> ('q \<Rightarrow> 'q) \<Rightarrow> nat \<Rightarrow> 'q list \<Rightarrow> nat \<Rightarrow> bool \<Rightarrow> bool"
  for tries n req ab where
  fw_done: "fw_run tries n req ab n [] n False"
| fw_stop: "i < n \<Longrightarrow> 0 < c \<Longrightarrow> c \<le> tries \<Longrightarrow>
    fw_run tries n req ab i (replicate c (req i) @ [ab (req i)]) (Suc i) True"
| fw_next: "i < n \<Longrightarrow> 0 < c \<Longrightarrow> c \<le> tries \<Longrightarrow> fw_run tries n req ab (Suc i) l k b \<Longrightarrow>
    fw_run tries n req ab i (replicate c (req i) @ l) k b"

inductive_cases fw_runE: "fw_run tries n req ab i l k b"

lemma fw_run_bounds:
  "fw_run tries n req ab i l k b \<Longrightarrow>
     i \<le> k \<and> k \<le> n \<and> length l \<le> tries * (k - i) + (if b then 1 else 0) \<and> (b \<longrightarrow> i < k) \<and> (\<not> b \<longrightarrow> k = n)"
proof (induction rule: fw_run.induct)
  case (fw_next i c l k b)
  then have "Suc i \<le> k" by simp
  then obtain d where "k = Suc (i + d)" using less_eqE by (metis add_Suc)
  with fw_next show ?case by (auto simp: algebra_simps)
qed auto

lemma remdups_adj_replicate_append:
  "0 < c \<Longrightarrow> ys = [] \<or> hd ys \<noteq> x \<Longrightarrow> remdups_adj (replicate c x @ ys) = x # remdups_adj ys"
proof (induction c)
  case (Suc c)
  then show ?case by (cases c; cases ys) auto
qed simp

lemma fw_run_hd:
  "fw_run tries n req ab i l k b \<Longrightarrow> l \<noteq> [] \<Longrightarrow> hd l = req i"
  by (erule fw_runE) (auto simp: hd_append)

lemma fw_run_order:
  assumes "\<And>i. req i \<noteq> req (Suc i)" and "\<And>i. ab (req i) \<noteq> req i"
  shows "fw_run tries n req ab i l k b \<Longrightarrow>
    remdups_adj l = map req [i..<k] @ (if b then [ab (req (k - 1))] else [])"
proof (induction rule: fw_run.induct)
  case (fw_stop i c)
  then show ?case by (simp add: remdups_adj_replicate_append assms(2))
next
  case (fw_next i c l k b)
  have "l = [] \<or> hd l \<noteq> req i"
    using fw_run_hd[OF fw_next.hyps(4)] assms(1)[of i] by metis
  moreover have "i < k" using fw_run_bounds[OF fw_next.hyps(4)] by simp
  ultimately show ?case using fw_next by (simp add: remdups_adj_replicate_append upt_conv_Cons)
qed simp

section \<open>The loop implements the protocol\<close>

text \<open>
  A port over an arbitrary device (its transfer and its status as functions of its own state) that
  records the requests it is given.
\<close>

definition log_port ::
  "(transfer_fw \<Rightarrow> 'd \<Rightarrow> int \<times> 'd) \<Rightarrow> ('d \<Rightarrow> int \<times> 'd) \<Rightarrow> ('d \<times> transfer_fw list) fw_port" where
  "log_port tr st =
     \<lparr>fp_calloc = (\<lambda>n s. (True, s)),
      fp_transfer = (\<lambda>rq (d, l). case tr rq d of (rc, d') \<Rightarrow> Defined (rc, d', l @ [rq])),
      fp_status = (\<lambda>(d, l). case st d of (rc, d') \<Rightarrow> (rc, d', l)),
      fp_sleep = (\<lambda>n s. s), fp_print = (\<lambda>l s. s)\<rparr>"

interpretation log: total_port "log_port tr st" for tr st
  by unfold_locales (auto simp: log_port_def split: prod.split)

lemma log_retry:
  "\<exists>rc' d' c. retry_loop (fp_transfer (log_port tr st) rq) (fp_sleep (log_port tr st)) n rc (d, l) =
     Defined (rc', d', l @ replicate c rq) \<and> c \<le> 11 - n"
proof (induction "12 - n" arbitrary: n rc d l rule: less_induct)
  case less
  show ?case
  proof (cases "rc = 0 \<or> max_retries < n")
    case True
    then show ?thesis
      by (subst retry_loop.simps) (auto intro!: exI[of _ "0::nat"])
  next
    case False
    then have m: "12 - Suc n < 12 - n" "n \<le> 10" unfolding max_retries_def by linarith+
    obtain rc1 d1 where t: "tr rq d = (rc1, d1)" by fastforce
    obtain rc' d' c where "retry_loop (fp_transfer (log_port tr st) rq) (fp_sleep (log_port tr st))
        (Suc n) rc1 (d1, l @ [rq]) = Defined (rc', d', (l @ [rq]) @ replicate c rq)" "c \<le> 11 - Suc n"
      using less[OF m(1), of rc1 d1 "l @ [rq]"] by blast
    then show ?thesis
      using False m(2) t
      by (subst retry_loop.simps) (auto simp: log_port_def intro!: exI[of _ "Suc c"])
  qed
qed

lemma log_transfer:
  "\<exists>rc' d' c. with_retries (fp_transfer (log_port tr st) rq) (fp_sleep (log_port tr st)) (d, l) =
     Defined (rc', d', l @ replicate c rq) \<and> 0 < c \<and> c \<le> 12"
proof -
  obtain rc1 d1 where t: "tr rq d = (rc1, d1)" by fastforce
  obtain rc' d' c where "retry_loop (fp_transfer (log_port tr st) rq) (fp_sleep (log_port tr st))
      0 rc1 (d1, l @ [rq]) = Defined (rc', d', (l @ [rq]) @ replicate c rq)" "c \<le> 11"
    using log_retry[of tr st rq 0 rc1 d1 "l @ [rq]"] by auto
  then show ?thesis
    by (auto simp: with_retries_def log_port_def t intro!: exI[of _ "Suc c"])
qed

lemma log_poll_retry:
  "\<exists>rc' d'. retry_loop (\<lambda>t. Defined (fp_status (log_port tr st) t)) (fp_sleep (log_port tr st))
     n rc (d, l) = Defined (rc', d', l)"
proof (induction "12 - n" arbitrary: n rc d rule: less_induct)
  case less
  show ?case
  proof (cases "rc = 0 \<or> max_retries < n")
    case False
    then have m: "12 - Suc n < 12 - n" unfolding max_retries_def by linarith
    obtain rc1 d1 where "st d = (rc1, d1)" by fastforce
    with False less[OF m, of rc1 d1] show ?thesis
      by (subst retry_loop.simps) (simp add: log_port_def)
  qed (subst retry_loop.simps, simp)
qed

lemma log_poll:
  "\<exists>rc' d'. with_retries (\<lambda>t. Defined (fp_status (log_port tr st) t)) (fp_sleep (log_port tr st))
     (d, l) = Defined (rc', d', l)"
proof -
  obtain rc1 d1 where "fp_status (log_port tr st) (d, l) = (rc1, d1, l)"
    by (cases "st d") (simp add: log_port_def)
  then show ?thesis using log_poll_retry[of tr st 0 rc1 d1 l] by (simp add: with_retries_def)
qed

lemma log_abort:
  "\<exists>rc' d'. abort_transfer (log_port tr st) rq (d, l) = Defined (rc', d', l @ [abort_request rq])"
  by (auto simp: abort_transfer_def log_port_def split: prod.split)

lemma blocks_implement_run:
  assumes "int i \<le> num_blocks fs"
  shows "\<exists>rc' d' log k b.
    transfer_blocks (log_port tr st) hdr params rom fs i percent rc (d, l) = Defined (rc', d', l @ log) \<and>
    fw_run 12 (nat (num_blocks fs)) (block_request params rom fs) abort_request i log k b \<and>
    (\<not> b \<and> rc = 0 \<longrightarrow> rc' = 0)"
  using assms
proof (induction "nat (num_blocks fs - int i)" arbitrary: i percent rc d l rule: less_induct)
  case less
  let ?P = "log_port tr st" and ?rq = "block_request params rom fs i" and ?n = "nat (num_blocks fs)"
  show ?case
  proof (cases "num_blocks fs \<le> int i")
    case True
    with less.prems have n: "i = ?n" by simp
    have "fw_run 12 ?n (block_request params rom fs) abort_request i [] ?n False"
      unfolding n by (rule fw_done)
    moreover have "transfer_blocks ?P hdr params rom fs i percent rc (d, l) = Defined (rc, d, l @ [])"
      using True by (subst transfer_blocks.simps) simp
    ultimately show ?thesis by blast
  next
    case False
    then have i: "i < ?n" "int (Suc i) \<le> num_blocks fs"
      "nat (num_blocks fs - int (Suc i)) < nat (num_blocks fs - int i)" by simp_all
    have "\<exists>p1. progress ?P (num_blocks fs) i percent (d, l) = (p1, d, l)"
      by (simp add: progress_def log_port_def)
    then obtain p1 where p: "progress ?P (num_blocks fs) i percent (d, l) = (p1, d, l)" ..
    obtain rc3 d3 c where t: "with_retries (fp_transfer ?P ?rq) (fp_sleep ?P) (d, l) =
        Defined (rc3, d3, l @ replicate c ?rq)" "0 < c" "c \<le> 12"
      using log_transfer[of tr st ?rq d l] by blast
    let ?l3 = "l @ replicate c ?rq"
    obtain rc4 d4 where s: "with_retries (\<lambda>t. Defined (fp_status ?P t)) (fp_sleep ?P) (d3, ?l3) =
        Defined (rc4, d4, ?l3)"
      using log_poll[of tr st d3 ?l3] by blast
    have alloc: "fp_calloc ?P m x = (True, x)" "fp_print ?P y x = x" for m x y by (simp_all add: log_port_def)
    note run = transfer_blocks.simps[of ?P hdr params rom fs i percent rc "(d, l)"]
    consider (abort) d5 where "(rc3 \<noteq> 0 \<and> d5 = d3) \<or> (rc3 = 0 \<and> (rc4 \<noteq> 0 \<or> up_mock params) \<and> d5 = d4)"
      | (go) "rc3 = 0" "rc4 = 0" "\<not> up_mock params" by blast
    then show ?thesis
    proof cases
      case abort
      then have "transfer_blocks ?P hdr params rom fs i percent rc (d, l) = abort_transfer ?P ?rq (d5, ?l3)"
        using False by (auto simp: run p alloc t s Let_def)
      moreover obtain rc' d' where
        "abort_transfer ?P ?rq (d5, ?l3) = Defined (rc', d', ?l3 @ [abort_request ?rq])"
        using log_abort[of tr st ?rq d5 ?l3] by blast
      ultimately show ?thesis
        using fw_stop[OF i(1) t(2,3), of "block_request params rom fs" abort_request] by fastforce
    next
      case go
      then have "transfer_blocks ?P hdr params rom fs i percent rc (d, l) =
          transfer_blocks ?P hdr params rom fs (Suc i) p1 0 (d4, ?l3)"
        using False by (simp add: run p alloc t s Let_def)
      moreover obtain rc' d' log k b where
        "transfer_blocks ?P hdr params rom fs (Suc i) p1 0 (d4, ?l3) = Defined (rc', d', ?l3 @ log)"
        "fw_run 12 ?n (block_request params rom fs) abort_request (Suc i) log k b"
        "\<not> b \<longrightarrow> rc' = 0"
        using less.hyps[OF i(3,2), of p1 0 d4 ?l3] by blast
      ultimately show ?thesis
        using fw_next[OF i(1) t(2,3)] by fastforce
    qed
  qed
qed


section \<open>A patient loop finishes\<close>

text \<open>
  The action \<open>a\<close> on the device succeeds within \<open>k\<close> further tries after the first.
\<close>

fun succeeds_within :: "('d \<Rightarrow> int \<times> 'd) \<Rightarrow> nat \<Rightarrow> 'd \<Rightarrow> bool" where
  "succeeds_within a 0 d \<longleftrightarrow> fst (a d) = 0"
| "succeeds_within a (Suc k) d \<longleftrightarrow> fst (a d) = 0 \<or> succeeds_within a k (snd (a d))"

lemma retry_succeeds:
  assumes "\<And>d l. attempt (d, l) = Defined (fst (a d), snd (a d), l @ w)" "\<And>k x. pause k x = x"
  shows "rc = 0 \<or> n \<le> 10 \<and> succeeds_within a (10 - n) d \<Longrightarrow>
    \<exists>d' l'. retry_loop attempt pause n rc (d, l) = Defined (0, d', l')"
proof (induction "11 - n" arbitrary: n rc d l)
  case 0
  then show ?case by (subst retry_loop.simps) auto
next
  case (Suc k)
  show ?case
  proof (cases "rc = 0")
    case False
    with Suc.prems have n: "n \<le> 10" "succeeds_within a (10 - n) d" by simp_all
    have "fst (a d) = 0 \<or> Suc n \<le> 10 \<and> succeeds_within a (10 - Suc n) (snd (a d))"
    proof (cases "10 - n")
      case (Suc m)
      then have "m = 10 - Suc n" "Suc n \<le> 10" by simp_all
      with n(2) Suc show ?thesis by auto
    qed (use n in auto)
    moreover have "k = 11 - Suc n" using Suc.hyps(2) by simp
    ultimately obtain d' l' where
      "retry_loop attempt pause (Suc n) (fst (a d)) (snd (a d), l @ w) = Defined (0, d', l')"
      using Suc.hyps(1) by blast
    with False n(1) show ?thesis by (subst retry_loop.simps) (simp add: assms max_retries_def)
  qed (subst retry_loop.simps, simp)
qed

lemma with_retries_succeeds:
  assumes "\<And>d l. attempt (d, l) = Defined (fst (a d), snd (a d), l @ w)" "\<And>k x. pause k x = x"
    and "succeeds_within a 11 d"
  shows "\<exists>d' l'. with_retries attempt pause (d, l) = Defined (0, d', l')"
proof -
  have "fst (a d) = 0 \<or> 0 \<le> (10 :: nat) \<and> succeeds_within a (10 - 0) (snd (a d))"
    using assms(3) by (simp add: numeral_eq_Suc)
  from retry_succeeds[OF assms(1,2) this] show ?thesis by (simp add: with_retries_def assms(1))
qed

text \<open>The device of a logging port recovers in time from every state.\<close>

definition recovers ::
  "(transfer_fw \<Rightarrow> 'd \<Rightarrow> int \<times> 'd) \<Rightarrow> ('d \<Rightarrow> int \<times> 'd) \<Rightarrow> bool" where
  "recovers tr st \<longleftrightarrow> (\<forall>rq d. succeeds_within (tr rq) 11 d) \<and> (\<forall>d. succeeds_within st 11 d)"

lemma recovering_transfer:
  assumes "recovers tr st"
  obtains d' c where "with_retries (fp_transfer (log_port tr st) rq) (fp_sleep (log_port tr st)) (d, l) =
      Defined (0, d', l @ replicate c rq)" "0 < c" "c \<le> 12"
proof -
  have "\<exists>d' l'. with_retries (fp_transfer (log_port tr st) rq) (fp_sleep (log_port tr st)) (d, l) =
      Defined (0, d', l')"
    by (rule with_retries_succeeds[where a = "tr rq" and w = "[rq]"])
      (use assms in \<open>auto simp: log_port_def recovers_def split: prod.split\<close>)
  with log_transfer[of tr st rq d l] that show thesis by auto
qed

lemma recovering_poll:
  assumes "recovers tr st"
  obtains d' where "with_retries (\<lambda>t. Defined (fp_status (log_port tr st) t)) (fp_sleep (log_port tr st)) (d, l) =
      Defined (0, d', l)"
proof -
  have "\<exists>d' l'. with_retries (\<lambda>t. Defined (fp_status (log_port tr st) t)) (fp_sleep (log_port tr st)) (d, l) =
      Defined (0, d', l')"
    by (rule with_retries_succeeds[where a = st and w = "[]"])
      (use assms in \<open>auto simp: log_port_def recovers_def split: prod.split\<close>)
  with log_poll[of tr st d l] that show thesis by auto
qed

lemma blocks_complete:
  assumes "recovers tr st" "\<not> up_mock params" "int i \<le> num_blocks fs"
  shows "\<exists>d' log. transfer_blocks (log_port tr st) hdr params rom fs i percent 0 (d, l) = Defined (0, d', l @ log) \<and>
    fw_run 12 (nat (num_blocks fs)) (block_request params rom fs) abort_request i log (nat (num_blocks fs)) False"
  using assms(3)
proof (induction "nat (num_blocks fs - int i)" arbitrary: i percent d l rule: less_induct)
  case less
  let ?P = "log_port tr st" and ?rq = "block_request params rom fs i" and ?n = "nat (num_blocks fs)"
  note run = transfer_blocks.simps[of ?P hdr params rom fs i percent 0 "(d, l)"]
  show ?case
  proof (cases "num_blocks fs \<le> int i")
    case True
    with less.prems have "?n = i" by simp
    with True show ?thesis using fw_done[of 12 i] by (auto simp: run)
  next
    case False
    then have i: "i < ?n" "int (Suc i) \<le> num_blocks fs"
      "nat (num_blocks fs - int (Suc i)) < nat (num_blocks fs - int i)" by simp_all
    obtain p1 where p: "progress ?P (num_blocks fs) i percent (d, l) = (p1, d, l)"
      by (cases "percent \<le> (int i * 100) sdiv num_blocks fs") (simp_all add: progress_def log_port_def)
    have alloc: "fp_calloc ?P m x = (True, x)" for m x by (simp add: log_port_def)
    obtain d3 c where t: "with_retries (fp_transfer ?P ?rq) (fp_sleep ?P) (d, l) =
        Defined (0, d3, l @ replicate c ?rq)" "0 < c" "c \<le> 12"
      by (rule recovering_transfer[OF assms(1)])
    obtain d4 where s: "with_retries (\<lambda>t. Defined (fp_status ?P t)) (fp_sleep ?P) (d3, l @ replicate c ?rq) =
        Defined (0, d4, l @ replicate c ?rq)"
      by (rule recovering_poll[OF assms(1)])
    have "transfer_blocks ?P hdr params rom fs i percent 0 (d, l) =
        transfer_blocks ?P hdr params rom fs (Suc i) p1 0 (d4, l @ replicate c ?rq)"
      using False assms(2) by (simp add: run p alloc t s Let_def)
    moreover obtain d' log where
      "transfer_blocks ?P hdr params rom fs (Suc i) p1 0 (d4, l @ replicate c ?rq) =
         Defined (0, d', (l @ replicate c ?rq) @ log)"
      "fw_run 12 ?n (block_request params rom fs) abort_request (Suc i) log ?n False"
      using less.hyps[OF i(3,2), of p1 d4 "l @ replicate c ?rq"] by blast
    ultimately show ?thesis using fw_next[OF i(1) t(2,3)] by fastforce
  qed
qed

section \<open>The requests of an image\<close>

lemma signed_128 [simp]:
  "int m sdiv 128 = int (m div 128)" "int m smod 128 = int (m mod 128)"
  by (cases "m = 0"; simp add: signed_divide_int_def signed_modulo_int_def zdiv_int zmod_int)+

lemma ceil_bounds: "128 * ((m + 127) div 128) \<le> m + 127" "m \<le> 128 * ((m + 127) div (128 :: nat))"
proof -
  have "m + 127 < 128 + 128 * ((m + 127) div 128)" by (rule dividend_less_times_div) simp
  then show "m \<le> 128 * ((m + 127) div 128)" by linarith
qed (rule times_div_less_eq_dividend)

lemma ceil_div_128: "m div 128 + (if m mod 128 \<noteq> 0 then 1 else 0) = (m + 127) div (128::nat)"
proof -
  define q r where "q = m div 128" and "r = m mod 128"
  then have m: "m = 128 * q + r" "r < 128" by simp_all
  have "(m + 127) div 128 = q + (if r \<noteq> 0 then 1 else 0)"
    by (rule div_nat_eqI) (use m in \<open>simp_all split: if_split\<close>)
  then show ?thesis by (simp add: q_def r_def)
qed

lemma num_blocks_nat: "num_blocks (int m) = int ((m + 127) div 128)"
  unfolding ceil_div_128[symmetric] by (simp add: num_blocks_def FW_BLOCK_SIZE_def)

lemma block_index_iff: "i < (m + 127) div 128 \<longleftrightarrow> 128 * i < (m :: nat)"
  using ceil_bounds[of m] by linarith

lemma last_block_iff: "128 * i < m \<Longrightarrow> Suc i = (m + 127) div 128 \<longleftrightarrow> m \<le> 128 * i + (128::nat)"
  using ceil_bounds[of m] by linarith

lemma last_block_rest:
  assumes "128 * i < m" "m \<le> 128 * i + 128"
  shows "(if m mod 128 \<noteq> 0 then m mod 128 else 128) = m - 128 * (i::nat)"
proof (cases "m = 128 * i + 128")
  case False
  with assms have "m = (m - 128 * i) + 128 * i" "m - 128 * i < 128" "0 < m - 128 * i" by simp_all
  then have "m mod 128 = m - 128 * i" by (metis mod_less mod_mult_self2)
  with assms show ?thesis by simp
qed simp

lemma block_size_eq:
  assumes "128 * i < m"
  shows "block_size (int m) i = min 128 (m - 128 * i)"
proof -
  have last: "int i = num_blocks (int m) - 1 \<longleftrightarrow> m \<le> 128 * i + 128"
    unfolding num_blocks_nat last_block_iff[OF assms, symmetric] by linarith
  show ?thesis
  proof (cases "m \<le> 128 * i + 128")
    case True
    with last_block_rest[OF assms True] show ?thesis
      by (auto simp: block_size_def FW_BLOCK_SIZE_def last min_def)
  next
    case False
    then show ?thesis by (simp add: block_size_def FW_BLOCK_SIZE_def last)
  qed
qed

lemma block_data_eq:
  assumes "128 * i < length rom"
  shows "tf_data (block_request params rom (int (length rom)) i) = take 128 (drop (128 * i) rom)"
proof -
  have "take (min 128 (length rom - 128 * i)) (drop (128 * i) rom) = take 128 (drop (128 * i) rom)"
    by (cases "128 \<le> length rom - 128 * i") (simp_all add: min_def)
  then show ?thesis
    using block_size_eq[OF assms]
    by (simp add: block_request_def bslice_def FW_BLOCK_SIZE_def mult.commute)
qed

lemma blocks_concat:
  "128 * k \<le> length rom + 127 \<Longrightarrow>
   concat (map (\<lambda>i. tf_data (block_request params rom (int (length rom)) i)) [0..<k]) = take (128 * k) rom"
proof (induction k)
  case (Suc k)
  then have "128 * k < length rom" by simp
  then have "take (128 * Suc k) rom = take (128 * k) rom @ take 128 (drop (128 * k) rom)"
    by (simp add: take_add[symmetric] add.commute)
  then show ?case using Suc \<open>128 * k < length rom\<close> block_data_eq[of k rom params] by simp
qed simp

lemma block_request_differ: "block_request params rom fs i \<noteq> block_request params rom fs (Suc i)"
  and abort_request_differ: "abort_request (block_request params rom fs i) \<noteq> block_request params rom fs i"
proof -
  have "(of_nat (Suc i) :: u32) \<noteq> of_nat i" by (simp add: add.commute)
  then show "block_request params rom fs i \<noteq> block_request params rom fs (Suc i)"
    by (auto simp: block_request_def block_offset_def fw_consts)
  show "abort_request (block_request params rom fs i) \<noteq> block_request params rom fs i"
    by (auto simp: block_request_def abort_request_def fw_consts)
qed

lemma blocks_from_start:
  obtains rc' d' log k b where
    "transfer_blocks (log_port tr st) hdr params rom (int (length rom)) 0 percent 0 (d, []) =
       Defined (rc', d', log)"
    "fw_run 12 ((length rom + 127) div 128) (block_request params rom (int (length rom)))
       abort_request 0 log k b"
    "\<not> b \<longrightarrow> rc' = 0"
proof -
  have "int 0 \<le> num_blocks (int (length rom))" by (simp add: num_blocks_nat)
  from blocks_implement_run[OF this, of tr st hdr params rom percent 0 d "[]"]
  obtain rc' d' log k b where
    "transfer_blocks (log_port tr st) hdr params rom (int (length rom)) 0 percent 0 (d, []) =
       Defined (rc', d', log)"
    "fw_run 12 ((length rom + 127) div 128) (block_request params rom (int (length rom)))
       abort_request 0 log k b" "\<not> b \<longrightarrow> rc' = 0"
    unfolding num_blocks_nat nat_int append_Nil by blast
  then show thesis by (rule that)
qed


text \<open>C13. The blocks partition the image: the data of the requests, joined in the order they are sent, is
  the file, each block carries at most 128 bytes, and its offset counts the 128-byte units before it.\<close>

theorem blocks_partition_image:
  "let reqs = map (block_request params rom (int (length rom))) [0..<(length rom + 127) div 128]
   in concat (map tf_data reqs) = rom \<and> list_all (\<lambda>r. length (tf_data r) \<le> 128) reqs \<and>
      map tf_offset reqs = map of_nat [0..<length reqs]"
proof -
  define reqs where
    "reqs = map (block_request params rom (int (length rom))) [0..<(length rom + 127) div 128]"
  have "concat (map tf_data reqs) = rom"
    using ceil_bounds[of "length rom"] blocks_concat[of "(length rom + 127) div 128" rom params] by (simp add: reqs_def comp_def)
  moreover have "length (tf_data (block_request params rom (int (length rom)) i)) \<le> 128"
    if "i < (length rom + 127) div 128" for i
  proof -
    from that have "128 * i < length rom" by (simp only: block_index_iff)
    then show ?thesis by (simp add: block_data_eq)
  qed
  ultimately show ?thesis
    unfolding reqs_def[symmetric] Let_def
    by (simp add: reqs_def list_all_iff block_request_def block_offset_def fw_consts)
qed

text \<open>A transfer is opened by its first block and closed by its last: with at least two blocks the
  first request initiates, the last one ends and those between continue; an image of a single block
  is only initiated, no request ends it.\<close>

theorem block_actions:
  "let n = (length rom + 127) div 128
   in map tf_action (map (block_request params rom (int (length rom))) [0..<n]) =
      (if n = 0 then [] else if n = 1 then [INITIATE_TRANSFER]
       else [INITIATE_TRANSFER] @ replicate (n - 2) CONTINUE_TRANSFER @ [END_TRANSFER])"
proof -
  define n where "n = (length rom + 127) div 128"
  have act: "tf_action (block_request params rom (int (length rom)) i) =
      (if i = 0 then INITIATE_TRANSFER else if Suc i = n then END_TRANSFER else CONTINUE_TRANSFER)" for i
    by (auto simp: block_request_def num_blocks_nat n_def)
  have "map tf_action (map (block_request params rom (int (length rom))) [0..<n]) =
      (if n = 0 then [] else if n = 1 then [INITIATE_TRANSFER]
       else [INITIATE_TRANSFER] @ replicate (n - 2) CONTINUE_TRANSFER @ [END_TRANSFER])"
  proof (cases "n < 2")
    case True
    then have "n = 0 \<or> n = 1" by linarith
    then show ?thesis by (auto simp: act)
  next
    case False
    show ?thesis
    proof (rule nth_equalityI)
      fix i
      assume "i < length (map tf_action (map (block_request params rom (int (length rom))) [0..<n]))"
      then have "i < n" by simp
      with False show "map tf_action (map (block_request params rom (int (length rom))) [0..<n]) ! i =
          (if n = 0 then [] else if n = 1 then [INITIATE_TRANSFER]
           else [INITIATE_TRANSFER] @ replicate (n - 2) CONTINUE_TRANSFER @ [END_TRANSFER]) ! i"
        by (cases i) (auto simp: act nth_append nth_Cons')
    qed (use False in simp)
  qed
  then show ?thesis by (simp only: Let_def n_def)
qed

section \<open>Two ways an update goes wrong\<close>

definition rom_ok :: "bytes \<Rightarrow> rom_file" where
  "rom_ok rom = \<lparr>rom_fopen = True, rom_error = [], rom_fstat = True, rom_st_size = int (length rom),
                 rom_malloc = True, rom_bytes = rom\<rparr>"

lemma update_reads_rom:
  assumes "length rom < 2 ^ 31" "files (up_filepath params) = rom_ok rom"
  shows "cxl_cmd_update_device_fw ports std_opcode hdr files is_os params s =
    (let port = ports (fw_opcode std_opcode is_os params);
         s1 = fp_print port (''Rom filepath: %s^n'', [Str (up_filepath params)]) s in
     transfer_blocks port hdr params rom (int (length rom)) 0 0 0
       (if is_os then fp_print port (''firmware update selected for OS Image^n'', []) s1 else s1))"
proof -
  have "to_int32 (int (length rom)) = int (length rom)"
    using assms by (intro to_int32_id) (simp add: int32_range_def)
  moreover have "nat (int (length rom) mod 2 ^ 64) = length rom" using assms by simp
  ultimately show ?thesis by (simp add: cxl_cmd_update_device_fw_def assms(2) rom_ok_def Let_def)
qed

text \<open>A logging port, whatever the opcode is, ignores what is printed.\<close>

lemma log_update:
  assumes "length rom < 2 ^ 31"
  shows "cxl_cmd_update_device_fw (\<lambda>opc. log_port tr st) std_opcode hdr (\<lambda>path. rom_ok rom) is_os params s =
         transfer_blocks (log_port tr st) hdr params rom (int (length rom)) 0 0 0 s"
  by (simp add: update_reads_rom[where files = "\<lambda>path. rom_ok rom", OF assms refl] Let_def) (simp add: log_port_def)

text \<open>C7. An update of a device that recovers in time finishes: if from every state each transfer and each
  poll succeeds within twelve attempts, the command sends every block of the image, in order, ends
  without an abort and returns 0.\<close>

theorem patient_update_completes:
  assumes "recovers tr st" "\<not> up_mock params" "length rom < 2 ^ 31"
  shows "\<exists>d' log.
    cxl_cmd_update_device_fw (\<lambda>opc. log_port tr st) std_opcode hdr (\<lambda>path. rom_ok rom) is_os params (d, []) = Defined (0, d', log) \<and>
    remdups_adj log = map (block_request params rom (int (length rom))) [0..<(length rom + 127) div 128]"
proof -
  have "int 0 \<le> num_blocks (int (length rom))" by (simp add: num_blocks_nat)
  from blocks_complete[OF assms(1,2) this, of hdr rom 0 d "[]"] obtain d' log where
    r: "transfer_blocks (log_port tr st) hdr params rom (int (length rom)) 0 0 0 (d, []) = Defined (0, d', log)"
    "fw_run 12 ((length rom + 127) div 128) (block_request params rom (int (length rom)))
       abort_request 0 log ((length rom + 127) div 128) False"
    unfolding num_blocks_nat nat_int append_Nil by blast
  from fw_run_order[OF block_request_differ abort_request_differ r(2)] r(1)
  show ?thesis by (simp add: log_update[OF assms(3)])
qed

text \<open>A device that is busy every other time.\<close>

theorem patient_update_completes_witness:
  "\<exists>d' log. cxl_cmd_update_device_fw
      (\<lambda>opc. log_port (\<lambda>rq busy. (if busy then 5 else 0, \<not> busy)) (\<lambda>busy. (if busy then 2 else 0, \<not> busy)))
      0x201 128 (\<lambda>path. rom_ok [1, 2, 3]) False \<lparr>up_filepath = [], up_slot = 1, up_hbo = False, up_mock = False\<rparr> (True, [])
    = Defined (0, d', log) \<and> length (remdups_adj log) = 1"
proof -
  have "recovers (\<lambda>rq busy. (if busy then 5 else 0, \<not> busy)) (\<lambda>busy. (if busy then 2 else 0, \<not> busy))"
    by (simp add: recovers_def numeral_eq_Suc)
  from patient_update_completes[OF this, of "\<lparr>up_filepath = [], up_slot = 1, up_hbo = False, up_mock = False\<rparr>"
      "[1, 2, 3]" "0x201" 128 False True]
  show ?thesis by auto
qed

text \<open>A device that refuses every block with \<open>e\<close> and accepts the abort.\<close>

definition refusing :: "int \<Rightarrow> transfer_fw \<Rightarrow> unit \<Rightarrow> int \<times> unit" where
  "refusing e rq d = (if tf_action rq = ABORT_TRANSFER then 0 else e, d)"

lemma refused_retry:
  assumes "tf_action rq \<noteq> ABORT_TRANSFER" "e \<noteq> 0" "n \<le> 11"
  shows "retry_loop (fp_transfer (log_port (refusing e) st) rq) (fp_sleep (log_port (refusing e) st)) n e ((), l) =
    Defined (e, (), l @ replicate (11 - n) rq)"
  using assms(3)
proof (induction "11 - n" arbitrary: n l)
  case 0
  with assms show ?case by (subst retry_loop.simps) (simp add: max_retries_def)
next
  case (Suc k)
  then have "k = 11 - Suc n" "Suc n \<le> 11" "11 - n = Suc (11 - Suc n)" by simp_all
  with assms Suc.hyps(1)[of "Suc n" "l @ [rq]"] show ?case
    by (subst retry_loop.simps) (auto simp: max_retries_def log_port_def refusing_def)
qed

text \<open>C31. A failed update is reported as a success: when the device refuses every block of a non-empty
  image and accepts the abort, the first block is sent twelve times (one attempt and eleven
  retries), then the abort, and the command returns 0.\<close>

theorem refused_update_returns_0:
  assumes "e \<noteq> 0" and "rom \<noteq> []" and "length rom < 2 ^ 31"
  shows "cxl_cmd_update_device_fw (\<lambda>opc. log_port (refusing e) st) std_opcode hdr (\<lambda>path. rom_ok rom) is_os params ((), []) =
    Defined (0, (), replicate 12 (block_request params rom (int (length rom)) 0) @
                    [abort_request (block_request params rom (int (length rom)) 0)])"
proof -
  let ?P = "log_port (refusing e) st" and ?fs = "int (length rom)"
  let ?rq = "block_request params rom ?fs 0"
  have act: "tf_action ?rq \<noteq> ABORT_TRANSFER" by (simp add: block_request_def fw_consts)
  have "fp_transfer ?P ?rq ((), []) = Defined (e, (), [?rq])"
    using act by (simp add: log_port_def refusing_def)
  then have t: "with_retries (fp_transfer ?P ?rq) (fp_sleep ?P) ((), []) =
      Defined (e, (), [?rq] @ replicate 11 ?rq)"
    using refused_retry[OF act assms(1), of 0 st "[?rq]"] by (simp add: with_retries_def)
  have ab: "abort_transfer ?P ?rq ((), l) = Defined (0, (), l @ [abort_request ?rq])" for l
    by (simp add: abort_transfer_def log_port_def refusing_def abort_request_def)
  have nb: "\<not> num_blocks ?fs \<le> int 0"
    using block_index_iff[of 0 "length rom"] assms(2) by (simp add: num_blocks_nat)
  have pr: "progress ?P (num_blocks ?fs) 0 0 ((), []) = (10, (), [])"
    by (simp add: progress_def log_port_def)
  have al: "fp_calloc ?P m x = (True, x)" "fp_print ?P y x = x" for m x y by (simp_all add: log_port_def)
  have "[?rq] @ replicate 11 ?rq = replicate 12 ?rq" by (simp add: numeral_eq_Suc)
  then show ?thesis
    using nb assms(1)
    by (simp only: log_update[OF assms(3)] transfer_blocks.simps[of _ _ _ _ _ 0] pr al t ab
        if_True if_False not_True_eq_False prod.case Let_def bind_outcome.simps simp_thms)
qed

theorem refused_update_returns_0_witness:
  "cxl_cmd_update_device_fw (\<lambda>opc. log_port (refusing 5) (Pair 0)) 0x201 128 (\<lambda>path. rom_ok [1, 2, 3]) False
     \<lparr>up_filepath = [], up_slot = 1, up_hbo = False, up_mock = False\<rparr> ((), []) =
   Defined (0, (), replicate 12 (block_request \<lparr>up_filepath = [], up_slot = 1, up_hbo = False,
                     up_mock = False\<rparr> [1, 2, 3] 3 0) @
       [abort_request (block_request \<lparr>up_filepath = [], up_slot = 1, up_hbo = False,
                     up_mock = False\<rparr> [1, 2, 3] 3 0)])"
  using refused_update_returns_0[of 5 "[1, 2, 3]" "Pair 0" "0x201" 128 False
      "\<lparr>up_filepath = [], up_slot = 1, up_hbo = False, up_mock = False\<rparr>"] by simp

text \<open>The same for any port over a device that refuses every block and accepts the abort.\<close>

lemma refusing_retries:
  assumes "\<And>t. \<exists>t'. attempt t = Defined (e, t')" "e \<noteq> 0"
  shows "n \<le> 11 \<Longrightarrow> \<exists>t'. retry_loop attempt pause n e t = Defined (e, t')"
proof (induction "11 - n" arbitrary: n t)
  case 0
  with assms show ?case by (subst retry_loop.simps) (simp add: max_retries_def)
next
  case (Suc k)
  obtain t1 where t1: "attempt (pause 10 t) = Defined (e, t1)" using assms(1) by blast
  from Suc have "k = 11 - Suc n" "Suc n \<le> 11" by simp_all
  from Suc.hyps(1)[OF this, of t1] t1 Suc.prems Suc.hyps(2) assms(2) show ?case
    by (subst retry_loop.simps) (simp add: max_retries_def)
qed

lemma refused_blocks_return_0:
  assumes "\<And>rq t. tf_action rq \<noteq> ABORT_TRANSFER \<Longrightarrow> \<exists>t'. fp_transfer port rq t = Defined (e, t')"
    and "\<And>rq t. tf_action rq = ABORT_TRANSFER \<Longrightarrow> \<exists>t'. fp_transfer port rq t = Defined (0, t')"
    and "\<And>k t. fst (fp_calloc port k t)" "e \<noteq> 0" "rom \<noteq> []"
  shows "\<exists>t'. transfer_blocks port hdr params rom (int (length rom)) 0 percent 0 t = Defined (0, t')"
proof -
  let ?fs = "int (length rom)" and ?rq = "block_request params rom (int (length rom)) 0"
  have act: "tf_action ?rq \<noteq> ABORT_TRANSFER" by (simp add: block_request_def fw_consts)
  have ab: "tf_action (abort_request ?rq) = ABORT_TRANSFER" by (simp add: abort_request_def)
  have nb: "\<not> num_blocks ?fs \<le> int 0"
    using block_index_iff[of 0 "length rom"] assms(5) by (simp add: num_blocks_nat)
  obtain p1 t1 where p: "progress port (num_blocks ?fs) 0 percent t = (p1, t1)" by fastforce
  obtain t2 where c: "fp_calloc port (hdr + block_size ?fs 0) t1 = (True, t2)"
    using assms(3)[of "hdr + block_size ?fs 0" t1] by (metis prod.collapse)
  obtain t3 where a: "fp_transfer port ?rq t2 = Defined (e, t3)" using assms(1)[OF act] by blast
  obtain t4 where r: "with_retries (fp_transfer port ?rq) (fp_sleep port) t2 = Defined (e, t4)"
    using refusing_retries[where attempt = "fp_transfer port ?rq", OF assms(1)[OF act] assms(4), of 0 "fp_sleep port" t3] a by (auto simp: with_retries_def)
  obtain t5 where "abort_transfer port ?rq (fp_print port (given_up ''while transferring'' 0) t4) = Defined (0, t5)"
    using assms(2)[OF ab] by (metis abort_transfer_def)
  with nb p c r assms(4) show ?thesis
    by (subst transfer_blocks.simps) (simp add: Let_def)
qed

text \<open>The vendor port over a transport that accepts everything.\<close>

definition vendor_port :: "fw_abi \<Rightarrow> (nat \<Rightarrow> int) \<Rightarrow> nat \<Rightarrow> nat \<Rightarrow> (cci_req list \<times> line list) fw_port" where
  "vendor_port abi shl std_opcode opc =
     fw_port_of (probe True 0 []) abi shl std_opcode (\<lambda>rq s. (0, s)) (\<lambda>n s. s) opc"

lemma vendor_poll:
  "\<exists>s'. with_retries (\<lambda>t. Defined (fp_status (vendor_port abi shl std opc) t)) pause s = Defined (0, s')"
proof -
  have "bo_status (dec_hbo_status_out (replicate 8 0)) = 0"
    by (simp add: dec_hbo_status_out_def rd64_def bslice_def numeral_eq_Suc)
  then have "ret_code (cxlmi_cmd_get_hbo_status (probe True 0 []) shl (fst s)) = 0"
    by (simp add: cxlmi_cmd_get_hbo_status_def shape_defs layout_simps rsp_buffer_def hbo_fields_def Let_def)
  then show ?thesis
    by (cases s) (simp add: with_retries_def vendor_port_def fw_port_of_def Let_def retry_loop.simps)
qed

lemma vendor_attempt:
  assumes "opc \<noteq> std"
  shows "with_retries (fp_transfer (vendor_port abi shl std opc) rq) pause (s, ls) =
    (if length (tf_data rq) < fw_data_size abi then Undefined Oob_read
     else Defined (0, s @ [\<lparr>rq_pl_sz = fw_hdr_size abi, rq_cmdset = VENDOR_CMD_OEM_MGMT, rq_opcode = opc,
                  rq_payload = fw_hdr abi (tf_action rq) (tf_slot rq) (tf_offset rq) @
                               take (fw_data_size abi) (tf_data rq), rq_rsp_cap = 0\<rparr>], ls))"
  using assms
  by (simp add: with_retries_def vendor_port_def fw_port_of_def attempt_transfer_def
      cxlmi_cmd_vendor_transfer_fw_def send_only_def retry_loop.simps)

lemma vendor_blocks:
  assumes "opc \<noteq> std" "fw_data_size abi = 128" "\<not> up_mock params" "128 * i \<le> length rom + 127"
  shows "is_defined (transfer_blocks (vendor_port abi shl std opc) hdr params rom (int (length rom)) i pct 0 s)
    \<longleftrightarrow> 128 * i \<ge> length rom \<or> length rom mod 128 = 0"
  using assms(4)
proof (induction "(length rom + 127) div 128 - i" arbitrary: i pct s)
  case 0
  then have "\<not> i < (length rom + 127) div 128" by simp
  then have "\<not> 128 * i < length rom" "num_blocks (int (length rom)) \<le> int i"
    by (simp_all only: block_index_iff num_blocks_nat) simp
  then show ?case by (subst transfer_blocks.simps) simp
next
  case (Suc k)
  let ?P = "vendor_port abi shl std opc" and ?fs = "int (length rom)"
  let ?rq = "block_request params rom ?fs i"
  have i: "i < (length rom + 127) div 128" using Suc.hyps(2) by simp
  then have lt: "128 * i < length rom" by (simp only: block_index_iff)
  have nb: "\<not> num_blocks ?fs \<le> int i" using i by (simp add: num_blocks_nat)
  obtain p1 s1 where pr: "progress ?P (num_blocks ?fs) i pct s = (p1, s1)" by (metis surj_pair)
  have al: "fp_calloc ?P m x = (True, x)" for m x by (cases x) (simp add: vendor_port_def fw_port_of_def)
  have len: "length (tf_data ?rq) = min 128 (length rom - 128 * i)"
    using block_data_eq[OF lt, of params] by simp
  note run = transfer_blocks.simps[of ?P hdr params rom ?fs i pct 0 s]
  show ?case
  proof (cases "128 * Suc i \<le> length rom")
    case True
    then obtain s3 where t: "with_retries (fp_transfer ?P ?rq) (fp_sleep ?P) s1 = Defined (0, s3)"
      using vendor_attempt[OF assms(1)] assms(2) len by (cases s1) simp
    obtain s4 where p: "with_retries (\<lambda>t. Defined (fp_status ?P t)) (fp_sleep ?P) s3 = Defined (0, s4)"
      using vendor_poll by blast
    have "k = (length rom + 127) div 128 - Suc i" "128 * Suc i \<le> length rom + 127"
      using Suc.hyps(2) True by simp_all
    from Suc.hyps(1)[OF this, of p1 s4] True lt nb assms(3) show ?thesis
      by (auto simp: run pr al t p Let_def)
  next
    case False
    then have "length (tf_data ?rq) < 128" using len by simp
    then have "with_retries (fp_transfer ?P ?rq) (fp_sleep ?P) s1 = Undefined Oob_read"
      using vendor_attempt[OF assms(1)] assms(2) by (cases s1) simp
    moreover have "length rom mod 128 \<noteq> 0"
      using last_block_rest[OF lt] False lt by (auto split: if_splits)
    ultimately show ?thesis using nb lt by (simp add: run pr al Let_def)
  qed
qed



end
