(* ===== verification/Parse_Option.thy ===== *)
theory Parse_Option
  imports Cstdlib
begin

unbundle bit_operations_syntax

text \<open>
  The option parser of \<open>vendor_util/src/parse_option.c\<close>: values, short and long options with
  abbreviation and negation, the loop over the arguments, and the UUID text form. The program's
  variables behind the \<open>value\<close> pointers are slots of a store; what the parser reports on the error
  stream is a list of diagnostics; \<open>exit\<close> and \<open>die\<close> end the run. What the help text looks like is in theory \<open>Usage\<close>.
\<close>

section \<open>Options\<close>

datatype parse_opt_type =
  OPTION_END | OPTION_ARGUMENT | OPTION_GROUP | OPTION_BIT | OPTION_BOOLEAN | OPTION_INCR
  | OPTION_SET_UINT | OPTION_SET_PTR | OPTION_STRING | OPTION_INTEGER | OPTION_LONG
  | OPTION_CALLBACK | OPTION_U64 | OPTION_UINTEGER | OPTION_FILENAME

text \<open>
  \<open>short_name\<close> is the character 0 where there is none; \<open>value\<close> and \<open>set\<close> name variables. An array of
  options is the list of its entries before \<open>OPTION_END\<close>.
\<close>

type_synonym var = string

record opt_spec =
  o_type :: parse_opt_type
  short_name :: char
  long_name :: "string option"
  o_value :: var
  o_set :: "var option"

datatype opt_val =
  VBool bool | VInt int | VUint u32 | VLong int | VU64 u64 | VStr "string option"

text \<open>
  What is written on the error stream: the messages, the whole usage, and the usage with the help of the
  option that an argument is about (a short one or a long one).
\<close>

datatype diag =
  Switch_error char string
  | Option_error string string
  | No_option_error string string
  | Ambiguous string bool string bool string
  | Did_you_mean string
  | Unknown_option string
  | Unknown_switch char
  | Whole_usage
  | Usage_for string bool

text \<open>A run of the program that may end in \<open>exit\<close>.\<close>

datatype 'a run = Ret 'a | Exit int

section \<open>The context\<close>

text \<open>
  \<open>px_argv\<close> holds the arguments from the current one on; \<open>px_out\<close> those kept in place at the front
  of the same array, always behind the current one. \<open>px_opt\<close> is the rest of a short option group, or
  the text behind \<open>=\<close>.
\<close>

record parse_ctx =
  px_argv :: "string list"
  px_out :: "string list"
  px_opt :: "string option"
  px_flags :: nat
  px_prefix :: "string option"
  px_store :: "var \<Rightarrow> opt_val"
  px_err :: "diag list"

definition PARSE_OPT_KEEP_DASHDASH :: nat where "PARSE_OPT_KEEP_DASHDASH = 1"
definition PARSE_OPT_STOP_AT_NON_OPTION :: nat where "PARSE_OPT_STOP_AT_NON_OPTION = 2"
definition PARSE_OPT_KEEP_ARGV0 :: nat where "PARSE_OPT_KEEP_ARGV0 = 4"
definition PARSE_OPT_KEEP_UNKNOWN :: nat where "PARSE_OPT_KEEP_UNKNOWN = 8"
definition PARSE_OPT_NO_INTERNAL_HELP :: nat where "PARSE_OPT_NO_INTERNAL_HELP = 16"

lemmas parse_flag_defs =
  PARSE_OPT_KEEP_DASHDASH_def PARSE_OPT_STOP_AT_NON_OPTION_def PARSE_OPT_KEEP_ARGV0_def
  PARSE_OPT_KEEP_UNKNOWN_def PARSE_OPT_NO_INTERNAL_HELP_def

definition flag_on :: "nat \<Rightarrow> parse_ctx \<Rightarrow> bool" where
  "flag_on f p \<longleftrightarrow> px_flags p AND f \<noteq> 0"

text \<open>Store a value in a variable.\<close>

definition put :: "var \<Rightarrow> opt_val \<Rightarrow> parse_ctx \<Rightarrow> parse_ctx" where
  "put slot v p = p\<lparr>px_store := (px_store p)(slot := v)\<rparr>"

section \<open>Values\<close>

text \<open>\<open>opterror\<close>; the flag word is given by its two bits.\<close>

definition opterror :: "opt_spec \<Rightarrow> string \<Rightarrow> bool \<Rightarrow> bool \<Rightarrow> parse_ctx \<Rightarrow> int \<times> parse_ctx" where
  "opterror opt reason short unset p =
     (-1, p\<lparr>px_err := px_err p @
        [if short then Switch_error (short_name opt) reason
         else if unset then No_option_error (the (long_name opt)) reason
         else Option_error (the (long_name opt)) reason]\<rparr>)"

definition get_arg ::
  "opt_spec \<Rightarrow> bool \<Rightarrow> bool \<Rightarrow> parse_ctx \<Rightarrow> int \<times> string option \<times> parse_ctx" where
  "get_arg opt short unset p =
     (case px_opt p of
        Some a \<Rightarrow> (0, Some a, p\<lparr>px_opt := None\<rparr>)
      | None \<Rightarrow>
          (case px_argv p of
             a # b # r \<Rightarrow> (0, Some b, p\<lparr>px_argv := b # r\<rparr>)
           | _ \<Rightarrow> (case opterror opt ''requires a value'' short unset p of (rc, p') \<Rightarrow> (rc, None, p'))))"

text \<open>\<open>prefix_filename\<close> and \<open>fix_filename\<close> of \<open>vendor_util/src/abspath.c\<close>.\<close>

definition prefix_filename :: "string option \<Rightarrow> string \<Rightarrow> string" where
  "prefix_filename pfx arg =
     (case pfx of None \<Rightarrow> arg
      | Some q \<Rightarrow> if q \<noteq> [] \<and> \<not> is_absolute_path arg then q @ arg else arg)"

definition fix_filename :: "string option \<Rightarrow> string option \<Rightarrow> string option" where
  "fix_filename pfx file =
     (case (pfx, file) of
        (Some q, Some f) \<Rightarrow>
          if is_absolute_path f \<or> f = ''-'' then Some f else Some (prefix_filename (Some q) f)
      | _ \<Rightarrow> file)"

text \<open>
  The numeric types: the value is stored before the rest of the argument is looked at, the unsigned
  types try base 16 when base 10 leaves a rest.
\<close>

definition store_number ::
  "opt_spec \<Rightarrow> bool \<Rightarrow> (nat \<Rightarrow> string \<Rightarrow> opt_val \<times> string) \<Rightarrow> bool \<Rightarrow> string \<Rightarrow> parse_ctx \<Rightarrow> int \<times> parse_ctx" where
  "store_number opt short conv hex arg p =
     (case conv 10 arg of (v, s) \<Rightarrow>
        if s \<noteq> [] \<and> hex then
          (case conv 16 arg of (v', s') \<Rightarrow>
             if s' \<noteq> [] then opterror opt ''expects a numerical value'' short False (put (o_value opt) v' p)
             else (0, put (o_value opt) v' p))
        else if s \<noteq> [] then opterror opt ''expects a numerical value'' short False (put (o_value opt) v p)
        else (0, put (o_value opt) v p))"

definition conv_int :: "nat \<Rightarrow> string \<Rightarrow> opt_val \<times> string" where
  "conv_int base s = (case strtol base s of (v, r) \<Rightarrow> (VInt (to_int32 v), r))"

definition conv_uint :: "nat \<Rightarrow> string \<Rightarrow> opt_val \<times> string" where
  "conv_uint base s = (case strtol base s of (v, r) \<Rightarrow> (VUint (of_int v), r))"

definition conv_long :: "nat \<Rightarrow> string \<Rightarrow> opt_val \<times> string" where
  "conv_long base s = (case strtol base s of (v, r) \<Rightarrow> (VLong v, r))"

definition conv_u64 :: "nat \<Rightarrow> string \<Rightarrow> opt_val \<times> string" where
  "conv_u64 base s = (case strtoull base s of (v, r) \<Rightarrow> (VU64 v, r))"

definition numeric_value ::
  "opt_spec \<Rightarrow> bool \<Rightarrow> bool \<Rightarrow> opt_val \<Rightarrow> (nat \<Rightarrow> string \<Rightarrow> opt_val \<times> string) \<Rightarrow> bool \<Rightarrow> parse_ctx \<Rightarrow>
   int \<times> parse_ctx" where
  "numeric_value opt short unset zero conv hex p =
     (if unset then (0, put (o_value opt) zero p)
      else case get_arg opt short unset p of (rc, a, p') \<Rightarrow>
        (if rc \<noteq> 0 then (-1, p') else store_number opt short conv hex (the a) p'))"

definition get_value :: "opt_spec \<Rightarrow> bool \<Rightarrow> bool \<Rightarrow> parse_ctx \<Rightarrow> (int \<times> parse_ctx) run" where
  "get_value opt short unset p =
     (if unset \<and> px_opt p \<noteq> None then Ret (opterror opt ''takes no value'' short unset p)
      else if \<not> short \<and> px_opt p \<noteq> None \<and>
              o_type opt \<in> {OPTION_CALLBACK, OPTION_BOOLEAN, OPTION_INCR, OPTION_BIT,
                             OPTION_SET_UINT, OPTION_SET_PTR}
      then Ret (opterror opt ''takes no value'' short unset p)
      else case o_type opt of
        OPTION_BIT \<Rightarrow> Ret (0, p)
      | OPTION_BOOLEAN \<Rightarrow>
          (let p1 = put (o_value opt) (VBool (\<not> unset)) p in
           Ret (0, case o_set opt of None \<Rightarrow> p1 | Some slot \<Rightarrow> put slot (VBool True) p1))
      | OPTION_INCR \<Rightarrow>
          Ret (0, put (o_value opt)
                 (VInt (if unset then 0 else
                    (case px_store p (o_value opt) of VInt k \<Rightarrow> to_int32 (k + 1) | _ \<Rightarrow> 1))) p)
      | OPTION_SET_UINT \<Rightarrow> Ret (0, p)
      | OPTION_SET_PTR \<Rightarrow> Ret (0, p)
      | OPTION_STRING \<Rightarrow>
          (if unset then Ret (0, put (o_value opt) (VStr None) p)
           else case get_arg opt short unset p of (rc, a, p') \<Rightarrow>
             Ret (rc, if rc = 0 then put (o_value opt) (VStr a) p' else p'))
      | OPTION_FILENAME \<Rightarrow>
          (if unset then Ret (0, put (o_value opt) (VStr (fix_filename (px_prefix p) None)) p)
           else case get_arg opt short unset p of (rc, a, p') \<Rightarrow>
             Ret (rc, if rc = 0 then put (o_value opt) (VStr (fix_filename (px_prefix p) a)) p' else p'))
      | OPTION_INTEGER \<Rightarrow> Ret (numeric_value opt short unset (VInt 0) conv_int False p)
      | OPTION_UINTEGER \<Rightarrow> Ret (numeric_value opt short unset (VUint 0) conv_uint True p)
      | OPTION_LONG \<Rightarrow> Ret (numeric_value opt short unset (VLong 0) conv_long False p)
      | OPTION_U64 \<Rightarrow> Ret (numeric_value opt short unset (VU64 0) conv_u64 True p)
      | _ \<Rightarrow> Exit 128)"

section \<open>Short options\<close>

definition parse_short_opt :: "opt_spec list \<Rightarrow> parse_ctx \<Rightarrow> (int \<times> parse_ctx) run" where
  "parse_short_opt options p =
     (case px_opt p of
        Some (c # cs) \<Rightarrow>
          (case find (\<lambda>opt. short_name opt = c) options of
             Some opt \<Rightarrow> get_value opt True False (p\<lparr>px_opt := if cs = [] then None else Some cs\<rparr>)
           | None \<Rightarrow> Ret (-2, p))
      | _ \<Rightarrow> Ret (-2, p))"

text \<open>
  Parsing a short option never lengthens what is left: the arguments do not grow, and the rest of
  the group is gone or shorter. The two loops over them end by these facts.
\<close>

fun opt_size :: "parse_ctx \<Rightarrow> nat" where
  "opt_size p = (case px_opt p of None \<Rightarrow> 0 | Some s \<Rightarrow> Suc (length s))"

definition no_longer :: "parse_ctx \<Rightarrow> parse_ctx \<Rightarrow> bool" where
  "no_longer p' p \<longleftrightarrow> length (px_argv p') \<le> length (px_argv p) \<and> opt_size p' \<le> opt_size p"

lemma no_longer_refl [simp]: "no_longer p p"
  by (simp add: no_longer_def)

lemma no_longer_trans: "no_longer c b \<Longrightarrow> no_longer b a \<Longrightarrow> no_longer c a"
  by (auto simp: no_longer_def)

lemma no_longer_put [simp]:
  "no_longer (put slot v p) q \<longleftrightarrow> no_longer p q" "no_longer q (put slot v p) \<longleftrightarrow> no_longer q p"
  by (simp_all add: no_longer_def put_def)

lemma no_longer_opterror: "opterror opt r sh un p = (rc, p') \<Longrightarrow> no_longer p' p"
  by (auto simp: opterror_def no_longer_def)

lemma no_longer_get_arg: "get_arg opt sh un p = (rc, a, p') \<Longrightarrow> no_longer p' p"
  by (auto simp: get_arg_def opterror_def no_longer_def split: option.splits list.splits)

lemma no_longer_store_number:
  "store_number opt sh conv hex arg p = (rc, p') \<Longrightarrow> no_longer p' p"
  by (auto simp: store_number_def dest!: no_longer_opterror split: prod.splits if_splits)

lemma no_longer_numeric_value:
  "numeric_value opt sh un z conv hex p = (rc, p') \<Longrightarrow> no_longer p' p"
  unfolding numeric_value_def
  by (auto split: if_splits prod.splits
      dest!: no_longer_store_number dest: no_longer_get_arg no_longer_trans)

lemmas no_longer_intros =
  no_longer_opterror no_longer_get_arg no_longer_store_number no_longer_numeric_value

lemma no_longer_get_value: "get_value opt sh un p = Ret (rc, p') \<Longrightarrow> no_longer p' p"
  by (cases "o_type opt")
    (auto simp: get_value_def Let_def split: if_splits prod.splits option.splits
      dest: no_longer_intros no_longer_intros[OF sym])

text \<open>A value is never reported as an unknown option.\<close>

lemma get_value_not_unknown: "get_value opt sh un p = Ret (rc, p') \<Longrightarrow> rc \<noteq> -2"
  by (cases "o_type opt")
    (auto simp: get_value_def Let_def opterror_def get_arg_def numeric_value_def store_number_def
      split: if_splits prod.splits option.splits list.splits)

lemma parse_short_opt_shrinks:
  assumes "parse_short_opt options p = Ret (rc, p')" "rc \<noteq> -2" "px_opt p = Some s"
  shows "length (px_argv p') \<le> length (px_argv p) \<and> opt_size p' < opt_size p"
proof -
  from assms obtain c cs opt where
    s: "s = c # cs" and
    g: "get_value opt True False (p\<lparr>px_opt := if cs = [] then None else Some cs\<rparr>) = Ret (rc, p')"
    by (auto simp: parse_short_opt_def split: list.splits option.splits)
  from no_longer_get_value[OF g] s assms(3) show ?thesis
    by (auto simp: no_longer_def split: if_splits)
qed

lemma parse_short_opt_argv:
  "parse_short_opt options p = Ret (rc, p') \<Longrightarrow> length (px_argv p') \<le> length (px_argv p)"
  by (auto simp: parse_short_opt_def no_longer_def split: option.splits list.splits
      dest!: no_longer_get_value)

section \<open>Long options\<close>

text \<open>
  What one option makes of the argument \<open>arg\<close> (the text behind the two dashes): a match with the
  rest behind the name, an abbreviation, or nothing; the flag says whether it is negated.
\<close>

datatype long_match = Match string bool | Abbrev bool | No_match

definition before_eq :: "string \<Rightarrow> string" where "before_eq = takeWhile (\<lambda>c. c \<noteq> CHR ''='')"
definition from_eq :: "string \<Rightarrow> string" where "from_eq = dropWhile (\<lambda>c. c \<noteq> CHR ''='')"

definition match_plain :: "string \<Rightarrow> string \<Rightarrow> long_match" where
  "match_plain arg name =
     (if take (length (before_eq arg)) name = before_eq arg then Abbrev False
      else if prefixcmp ''no-'' arg = 0 then Abbrev True
      else if take 3 arg \<noteq> ''no-'' then No_match
      else case skip_prefix (drop 3 arg) name of
        Some rest \<Rightarrow> Match rest True
      | None \<Rightarrow> if prefixcmp name (drop 3 arg) = 0 then Abbrev True else No_match)"

definition match_long :: "string \<Rightarrow> string \<Rightarrow> long_match" where
  "match_long arg name =
     (case skip_prefix arg name of
        Some rest \<Rightarrow> Match rest False
      | None \<Rightarrow>
          if prefixcmp name ''no-'' = 0 then
            (case skip_prefix arg (drop 3 name) of
               Some rest \<Rightarrow> Match rest True
             | None \<Rightarrow> if prefixcmp (drop 3 name) arg = 0 then Abbrev True
                        else match_plain arg name)
          else match_plain arg name)"

text \<open>
  The loop of \<open>parse_long_opt\<close> over the options; \<open>ab\<close> is the last abbreviated option with its flag,
  \<open>am\<close> the one before it. An abbreviation that is not negated leaves the text behind \<open>=\<close> in
  \<open>px_opt\<close>.
\<close>

fun parse_long_opt ::
  "string \<Rightarrow> (opt_spec \<times> bool) option \<Rightarrow> (opt_spec \<times> bool) option \<Rightarrow> opt_spec list \<Rightarrow> parse_ctx \<Rightarrow>
   (int \<times> parse_ctx) run" where
  "parse_long_opt arg ab am [] p =
     (case (am, ab) of
        (Some (o1, u1), Some (o2, u2)) \<Rightarrow>
          Ret (-1, p\<lparr>px_err := px_err p @
            [Ambiguous arg u1 (the (long_name o1)) u2 (the (long_name o2))]\<rparr>)
      | (_, Some (o2, u2)) \<Rightarrow> get_value o2 False u2 p
      | _ \<Rightarrow> Ret (-2, p))"
| "parse_long_opt arg ab am (opt # options) p =
     (case long_name opt of
        None \<Rightarrow> parse_long_opt arg ab am options p
      | Some name \<Rightarrow>
          if o_type opt = OPTION_ARGUMENT then
            (case skip_prefix arg name of
               None \<Rightarrow> parse_long_opt arg ab am options p
             | Some rest \<Rightarrow>
                 if rest \<noteq> [] \<and> hd rest = CHR ''='' then
                   Ret (opterror opt ''takes no value'' False False p)
                 else if rest \<noteq> [] then parse_long_opt arg ab am options p
                 else Ret (0, p\<lparr>px_out := px_out p @ [''--'' @ arg]\<rparr>))
          else case match_long arg name of
            No_match \<Rightarrow> parse_long_opt arg ab am options p
          | Abbrev un \<Rightarrow>
              parse_long_opt arg (Some (opt, un)) (if ab \<noteq> None then ab else am) options
                (if \<not> un \<and> from_eq arg \<noteq> [] then p\<lparr>px_opt := Some (tl (from_eq arg))\<rparr> else p)
          | Match rest un \<Rightarrow>
              if rest = [] then get_value opt False un p
              else if hd rest \<noteq> CHR ''='' then parse_long_opt arg ab am options p
              else get_value opt False un (p\<lparr>px_opt := Some (tl rest)\<rparr>))"

section \<open>The loop over the arguments\<close>

definition log_diag :: "diag \<Rightarrow> parse_ctx \<Rightarrow> parse_ctx" where
  "log_diag d p = p\<lparr>px_err := px_err p @ [d]\<rparr>"

lemma log_diag_simps [simp]:
  "px_argv (log_diag d p) = px_argv p" "px_store (log_diag d p) = px_store p" "px_out (log_diag d p) = px_out p"
  "px_opt (log_diag d p) = px_opt p" "px_err (log_diag d p) = px_err p @ [d]"
  by (simp_all add: log_diag_def)

definition check_typos :: "string \<Rightarrow> opt_spec list \<Rightarrow> parse_ctx \<Rightarrow> unit run" where
  "check_typos arg options p =
     (if length arg < 3 then Ret ()
      else if prefixcmp arg ''no-'' = 0 then Exit 129
      else if list_ex (\<lambda>opt. case long_name opt of None \<Rightarrow> False
                           | Some name \<Rightarrow> prefixcmp name arg = 0) options
      then Exit 129 else Ret ())"

datatype step_result =
  PARSE_OPT_HELP | PARSE_OPT_DONE | PARSE_OPT_LIST_OPTS | PARSE_OPT_LIST_SUBCMDS | PARSE_OPT_UNKNOWN

definition internal_help :: "parse_ctx \<Rightarrow> bool" where
  "internal_help p \<longleftrightarrow> \<not> flag_on PARSE_OPT_NO_INTERNAL_HELP p"

text \<open>What became of one group of short options.\<close>

datatype group_result = Group_done | Group_result step_result | Group_unknown

text \<open>
  The loop \<open>while (ctx->opt)\<close> over the rest of a group. An unknown switch replaces the current
  argument by a fresh group of the letters from it on.
\<close>

function short_group :: "opt_spec list \<Rightarrow> parse_ctx \<Rightarrow> (group_result \<times> parse_ctx) run" where
  "short_group options p =
     (case px_opt p of
        None \<Rightarrow> Ret (Group_done, p)
      | Some s \<Rightarrow>
          if internal_help p \<and> s \<noteq> [] \<and> hd s = CHR ''h''
          then Ret (Group_result PARSE_OPT_HELP, log_diag Whole_usage p)
          else case parse_short_opt options p of
            Exit n \<Rightarrow> Exit n
          | Ret (rc, p') \<Rightarrow>
              if rc = -1 then Ret (Group_result PARSE_OPT_HELP, log_diag (Usage_for s True) p')
              else if rc = -2 then
                Ret (Group_unknown, p'\<lparr>px_argv := (CHR ''-'' # s) # tl (px_argv p')\<rparr>)
              else short_group options p')"
  by pat_completeness auto

termination
  by (relation "measure (\<lambda>(options, p). opt_size p)")
    (auto dest: parse_short_opt_shrinks simp del: opt_size.simps)

declare short_group.simps [simp del]

text \<open>An argument that starts with a single dash.\<close>

definition short_arg :: "opt_spec list \<Rightarrow> string \<Rightarrow> parse_ctx \<Rightarrow> (group_result \<times> parse_ctx) run" where
  "short_arg options arg p =
     (let p1 = p\<lparr>px_opt := Some (tl arg)\<rparr> in
      if internal_help p1 \<and> arg ! 1 = CHR ''h'' then Ret (Group_result PARSE_OPT_HELP, log_diag Whole_usage p1)
      else case parse_short_opt options p1 of
        Exit n \<Rightarrow> Exit n
      | Ret (rc, p2) \<Rightarrow>
          if rc = -1 then Ret (Group_result PARSE_OPT_HELP, log_diag (Usage_for (tl arg) True) p2)
          else if rc = -2 then Ret (Group_unknown, p2)
          else if px_opt p2 = None then Ret (Group_done, p2)
          else case check_typos (tl arg) options p2 of
            Exit n \<Rightarrow> Exit n
          | Ret u \<Rightarrow> short_group options p2)"

text \<open>An argument that starts with two dashes and has more behind them.\<close>

definition long_arg :: "opt_spec list \<Rightarrow> string \<Rightarrow> parse_ctx \<Rightarrow> (group_result \<times> parse_ctx) run" where
  "long_arg options name p =
     (if internal_help p \<and> name = ''help-all'' then Ret (Group_result PARSE_OPT_HELP, log_diag Whole_usage p)
      else if internal_help p \<and> name = ''help'' then Ret (Group_result PARSE_OPT_HELP, log_diag Whole_usage p)
      else if name = ''list-opts'' then Ret (Group_result PARSE_OPT_LIST_OPTS, p)
      else if name = ''list-cmds'' then Ret (Group_result PARSE_OPT_LIST_SUBCMDS, p)
      else case parse_long_opt name None None options p of
        Exit n \<Rightarrow> Exit n
      | Ret (rc, p') \<Rightarrow>
          if rc = -1 then Ret (Group_result PARSE_OPT_HELP, log_diag (Usage_for name False) p')
          else if rc = -2 then Ret (Group_unknown, p')
          else Ret (Group_done, p'))"

lemma parse_long_opt_shrinks:
  "parse_long_opt arg ab am options p = Ret (rc, p') \<Longrightarrow> length (px_argv p') \<le> length (px_argv p)"
proof (induction options arbitrary: ab am p)
  case Nil
  then show ?case
    by (auto split: option.splits dest!: no_longer_get_value simp: no_longer_def)
next
  case (Cons opt options)
  show ?case
  proof (cases "long_name opt")
    case None
    with Cons show ?thesis by simp
  next
    case (Some name)
    show ?thesis
    proof (cases "o_type opt = OPTION_ARGUMENT")
      case True
      with Cons Some show ?thesis
        by (auto simp: opterror_def split: option.splits if_splits)
    next
      case False
      with Cons.prems Some Cons.IH show ?thesis
        by (cases "match_long arg name")
          (fastforce split: if_splits dest!: no_longer_get_value simp: no_longer_def)+
    qed
  qed
qed

lemma short_group_shrinks:
  "short_group options p = Ret (r, p') \<Longrightarrow> length (px_argv p') \<le> max 1 (length (px_argv p))"
proof (induction options p rule: short_group.induct)
  case (1 options p)
  show ?case
  proof (cases "px_opt p")
    case None
    with "1.prems" show ?thesis by (subst (asm) short_group.simps) simp
  next
    case (Some s)
    note run = "1.prems"[unfolded short_group.simps[of options p]]
    show ?thesis
    proof (cases "parse_short_opt options p")
      case (Ret x)
      obtain rc p1 where x: "x = (rc, p1)" by fastforce
      show ?thesis
      proof (cases "rc = -2")
        case True
        with Ret x have "p1 = p"
          by (auto simp: parse_short_opt_def dest!: get_value_not_unknown
              split: option.splits list.splits)
        with run Some Ret x True show ?thesis by (cases "px_argv p") (auto split: if_splits)
      next
        case False
        with parse_short_opt_shrinks[OF Ret[unfolded x] False Some]
        have le: "length (px_argv p1) \<le> length (px_argv p)" by simp
        consider "px_argv p' = px_argv p" | "px_argv p' = px_argv p1" | "short_group options p1 = Ret (r, p')"
          "\<not> (internal_help p \<and> s \<noteq> [] \<and> hd s = CHR ''h'')" "rc \<noteq> -1"
          using run Some Ret x False by (auto split: if_splits)
        then show ?thesis
        proof cases
          case 3
          from "1.IH"[OF Some 3(2) Ret x[symmetric] 3(3) False 3(1)] le show ?thesis by simp
        qed (use le in auto)
      qed
    qed (use run Some in \<open>auto split: if_splits\<close>)
  qed
qed

lemma short_arg_shrinks:
  "short_arg options arg p = Ret (r, p') \<Longrightarrow> length (px_argv p') \<le> max 1 (length (px_argv p))"
  by (auto simp: short_arg_def Let_def split: run.splits if_splits prod.splits
      dest!: short_group_shrinks dest: parse_short_opt_argv)

lemma long_arg_shrinks:
  "long_arg options arg p = Ret (r, p') \<Longrightarrow> length (px_argv p') \<le> max 1 (length (px_argv p))"
  by (auto simp: long_arg_def split: run.splits if_splits prod.splits dest!: parse_long_opt_shrinks)

text \<open>
  An argument with a dash: its group of short options or its long option, and the label \<open>unknown\<close>.
  \<open>Inl\<close> is a return from \<open>parse_options_step\<close>, \<open>Inr\<close> the context at the head of the next turn.
\<close>

definition after_arg ::
  "(group_result \<times> parse_ctx) run \<Rightarrow> ((step_result \<times> parse_ctx) + parse_ctx) run" where
  "after_arg r =
     (case r of
        Exit n \<Rightarrow> Exit n
      | Ret (Group_result res, p) \<Rightarrow> Ret (Inl (res, p))
      | Ret (Group_done, p) \<Rightarrow> Ret (Inr (p\<lparr>px_argv := tl (px_argv p)\<rparr>))
      | Ret (Group_unknown, p) \<Rightarrow>
          if \<not> flag_on PARSE_OPT_KEEP_UNKNOWN p then Ret (Inl (PARSE_OPT_UNKNOWN, p))
          else Ret (Inr (p\<lparr>px_out := px_out p @ [hd (px_argv p)], px_opt := None,
                          px_argv := tl (px_argv p)\<rparr>)))"

definition one_arg ::
  "opt_spec list \<Rightarrow> string \<Rightarrow> parse_ctx \<Rightarrow> ((step_result \<times> parse_ctx) + parse_ctx) run" where
  "one_arg options arg p =
     (if arg = [] \<or> hd arg \<noteq> CHR ''-'' \<or> length arg = 1 then
        (if flag_on PARSE_OPT_STOP_AT_NON_OPTION p then Ret (Inl (PARSE_OPT_DONE, p))
         else Ret (Inr (p\<lparr>px_out := px_out p @ [arg], px_argv := tl (px_argv p)\<rparr>)))
      else if arg ! 1 \<noteq> CHR ''-'' then after_arg (short_arg options arg p)
      else if length arg = 2 then
        Ret (Inl (PARSE_OPT_DONE,
          if flag_on PARSE_OPT_KEEP_DASHDASH p then p else p\<lparr>px_argv := tl (px_argv p)\<rparr>))
      else after_arg (long_arg options (drop 2 arg) p))"

lemma one_arg_shrinks:
  assumes "one_arg options arg p = Ret (Inr p')" "px_argv p \<noteq> []"
  shows "length (px_argv p') < length (px_argv p)"
proof -
  have tl: "k - Suc 0 < length xs" if "k \<le> max (Suc 0) (length xs)" "xs \<noteq> []"
    for k and xs :: "string list"
    using that by (cases xs) auto
  from assms show ?thesis
    by (auto simp: one_arg_def after_arg_def split: if_splits run.splits group_result.splits prod.splits
        dest!: short_arg_shrinks long_arg_shrinks intro!: tl)
qed

function args_loop :: "opt_spec list \<Rightarrow> parse_ctx \<Rightarrow> (step_result \<times> parse_ctx) run" where
  "args_loop options p =
     (case px_argv p of
        [] \<Rightarrow> Ret (PARSE_OPT_DONE, p)
      | arg # args \<Rightarrow>
          (case one_arg options arg p of
             Exit n \<Rightarrow> Exit n
           | Ret (Inl r) \<Rightarrow> Ret r
           | Ret (Inr p') \<Rightarrow> args_loop options p'))"
  by pat_completeness auto

termination
  by (relation "measure (\<lambda>(options, p). length (px_argv p))") (auto dest!: one_arg_shrinks)

declare args_loop.simps [simp del]

definition parse_options_step :: "opt_spec list \<Rightarrow> parse_ctx \<Rightarrow> (step_result \<times> parse_ctx) run" where
  "parse_options_step options p = args_loop options (p\<lparr>px_opt := None\<rparr>)"

definition parse_options_start ::
  "string list \<Rightarrow> string option \<Rightarrow> nat \<Rightarrow> (var \<Rightarrow> opt_val) \<Rightarrow> parse_ctx run" where
  "parse_options_start argv prefix flags store =
     (let p = \<lparr>px_argv = tl argv,
               px_out = (if flags AND PARSE_OPT_KEEP_ARGV0 \<noteq> 0 then [hd argv] else []),
               px_opt = None, px_flags = flags, px_prefix = prefix, px_store = store, px_err = []\<rparr>
      in if flag_on PARSE_OPT_KEEP_UNKNOWN p \<and> flag_on PARSE_OPT_STOP_AT_NON_OPTION p then Exit 128
         else Ret p)"

definition parse_options_end :: "parse_ctx \<Rightarrow> string list" where
  "parse_options_end p = px_out p @ px_argv p"

text \<open>
  \<open>parse_options\<close> passes neither a prefix nor subcommands. Its result is the arguments left in
  \<open>argv\<close>, whose number it returns, and the variables.
\<close>

definition parse_options ::
  "string list \<Rightarrow> opt_spec list \<Rightarrow> nat \<Rightarrow> (var \<Rightarrow> opt_val) \<Rightarrow> (string list \<times> (var \<Rightarrow> opt_val)) run" where
  "parse_options argv options flags store =
     (case parse_options_start argv None flags store of
        Exit n \<Rightarrow> Exit n
      | Ret p \<Rightarrow>
          (case parse_options_step options p of
             Exit n \<Rightarrow> Exit n
           | Ret (PARSE_OPT_HELP, q) \<Rightarrow> Exit 129
           | Ret (PARSE_OPT_DONE, q) \<Rightarrow> Ret (parse_options_end q, px_store q)
           | Ret (PARSE_OPT_LIST_OPTS, q) \<Rightarrow> Exit 130
           | Ret (PARSE_OPT_LIST_SUBCMDS, q) \<Rightarrow> Exit 130
           | Ret (PARSE_OPT_UNKNOWN, q) \<Rightarrow> Exit 129))"

section \<open>The text form of a UUID\<close>

definition hexdigit_lower :: "nat \<Rightarrow> char" where
  "hexdigit_lower d = ''0123456789abcdef'' ! d"

fun unparse_from :: "nat \<Rightarrow> bytes \<Rightarrow> string" where
  "unparse_from i [] = []"
| "unparse_from i (b # bs) =
     (if i = 4 \<or> i = 6 \<or> i = 8 \<or> i = 10 then [CHR ''-''] else []) @
     [hexdigit_lower (unat b div 16), hexdigit_lower (unat b mod 16)] @ unparse_from (Suc i) bs"

definition uuid_unparse :: "bytes \<Rightarrow> string" where
  "uuid_unparse uuid_arr = unparse_from 0 (take 16 uuid_arr)"

text \<open>
  The character at an index of a C string: the terminator stands at its length, and reading behind
  it is undefined.
\<close>

definition char_at :: "string \<Rightarrow> nat \<Rightarrow> char outcome" where
  "char_at s i = (if i < length s then Defined (s ! i)
                  else if i = length s then Defined (CHR 0x00) else Undefined Oob_read)"

text \<open>
  \<open>strtoul\<close> of two characters in base 16, stored in a byte. The string it reads ends at the first
  terminator.
\<close>

definition hex_byte :: "char \<Rightarrow> char \<Rightarrow> u8" where
  "hex_byte a b = ucast (fst (strtoull 16 (takeWhile (\<lambda>c. c \<noteq> CHR 0x00) [a, b])))"

text \<open>
  The loop from index \<open>i\<close>: the bytes written to the array, in order. A missing dash ends it early.
\<close>

function uuid_parse_from :: "string \<Rightarrow> nat \<Rightarrow> bytes outcome" where
  "uuid_parse_from s i =
     (if 36 \<le> i then Defined []
      else bind_outcome (char_at s i) (\<lambda>c.
        if i \<in> {8, 13, 18, 23} \<and> c \<noteq> CHR ''-'' then Defined []
        else let k = (if i \<in> {8, 13, 18, 23} then Suc i else i) in
          bind_outcome (char_at s k) (\<lambda>a. bind_outcome (char_at s (Suc k)) (\<lambda>b.
            bind_outcome (uuid_parse_from s (k + 2)) (\<lambda>r. Defined (hex_byte a b # r))))))"
  by pat_completeness auto

termination
  by (relation "measure (\<lambda>(s, i). 36 - i)") auto

declare uuid_parse_from.simps [simp del]

definition uuid_parse :: "string \<Rightarrow> bytes outcome" where
  "uuid_parse uuid_str = uuid_parse_from uuid_str 0"

end
