(* ===== verification/Parse_Properties.thy ===== *)
theory Parse_Properties
  imports Parse_Option
begin

text \<open>
  What the option parser keeps: UUIDs survive printing and parsing, a command line printed from
  assignments and positional arguments is parsed back to them, and \<open>-h\<close> always asks for help.
\<close>

section \<open>UUIDs\<close>

lemma hexdigit_props:
  assumes "d < 16"
  shows "digit_val (hexdigit_lower d) = d" "\<not> is_space (hexdigit_lower d)"
    "hexdigit_lower d \<noteq> CHR ''-''" "hexdigit_lower d \<noteq> CHR ''+''" "hexdigit_lower d \<noteq> CHR 0x00"
proof -
  have "list_all (\<lambda>d. digit_val (hexdigit_lower d) = d \<and> \<not> is_space (hexdigit_lower d) \<and>
      hexdigit_lower d \<noteq> CHR ''-'' \<and> hexdigit_lower d \<noteq> CHR ''+'' \<and> hexdigit_lower d \<noteq> CHR 0x00) [0..<16]"
    by code_simp
  with assms show "digit_val (hexdigit_lower d) = d" "\<not> is_space (hexdigit_lower d)"
    "hexdigit_lower d \<noteq> CHR ''-''" "hexdigit_lower d \<noteq> CHR ''+''" "hexdigit_lower d \<noteq> CHR 0x00"
    by (auto simp: list_all_iff)
qed

lemma hex_byte_digits:
  assumes "a < 16" "b < 16"
  shows "hex_byte (hexdigit_lower a) (hexdigit_lower b) = of_nat (16 * a + b)"
proof -
  let ?s = "[hexdigit_lower a, hexdigit_lower b]"
  have "strto_core 16 ?s = Some (False, 16 * a + b, [])"
    using hexdigit_props[OF assms(1)] hexdigit_props[OF assms(2)] assms
    by (simp add: strto_core_def base_and_rest_def)
  moreover have "16 * a + b < 2 ^ 64" using assms by simp
  ultimately have "fst (strtoull 16 ?s) = of_nat (16 * a + b)"
    by (simp add: strtoull_def del: of_nat_add of_nat_mult)
  moreover have "(ucast (of_nat (16 * a + b) :: u64) :: u8) = of_nat (16 * a + b)"
    using \<open>16 * a + b < 2 ^ 64\<close>
    by (simp add: unsigned_of_nat take_bit_nat_eq_self del: of_nat_add of_nat_mult)
  ultimately show ?thesis
    using hexdigit_props[OF assms(1)] hexdigit_props[OF assms(2)] by (simp add: hex_byte_def)
qed

lemma hex_byte_of_byte: "hex_byte (hexdigit_lower (unat b div 16)) (hexdigit_lower (unat b mod 16)) = (b :: u8)"
proof -
  have "unat b div 16 < 16" using unat_byte_less[of b] by simp
  then show ?thesis by (simp add: hex_byte_digits)
qed

lemma uuid_plain:
  assumes "i < 36" "i \<notin> {8, 13, 18, 23}" "Suc i < length s"
  shows "uuid_parse_from s i =
    bind_outcome (uuid_parse_from s (i + 2)) (\<lambda>r. Defined (hex_byte (s ! i) (s ! Suc i) # r))"
  using assms by (subst uuid_parse_from.simps) (auto simp: char_at_def Let_def)

lemma uuid_dash:
  assumes "i \<in> {8, 13, 18, 23}" "s ! i = CHR ''-''" "i + 2 < length s"
  shows "uuid_parse_from s i =
    bind_outcome (uuid_parse_from s (i + 3)) (\<lambda>r. Defined (hex_byte (s ! (i + 1)) (s ! (i + 2)) # r))"
  using assms by (subst uuid_parse_from.simps) (auto simp: char_at_def Let_def numeral_eq_Suc)

lemma uuid_end: "36 \<le> i \<Longrightarrow> uuid_parse_from s i = Defined []"
  by (subst uuid_parse_from.simps) simp

text \<open>
  Which texts give a UUID: the loop reads the characters 0 to 35, the last of which may be the
  terminator, and leaves early at a missing dash.
\<close>

definition parses :: "string \<Rightarrow> nat \<Rightarrow> nat \<Rightarrow> bool" where
  "parses s i n \<longleftrightarrow> (\<exists>u. uuid_parse_from s i = Defined u \<and> length u = n)"

lemma char_at_Defined_iff: "(\<exists>c. char_at s i = Defined c) \<longleftrightarrow> i \<le> length s"
  by (auto simp: char_at_def)

lemma parses_step:
  "(\<exists>u. bind_outcome (char_at s k) (\<lambda>a. bind_outcome (char_at s (Suc k)) (\<lambda>b.
      bind_outcome (uuid_parse_from s j) (\<lambda>r. Defined (hex_byte a b # r)))) = Defined u \<and> length u = Suc n)
   \<longleftrightarrow> Suc k \<le> length s \<and> parses s j n"
proof (cases "Suc k \<le> length s")
  case True
  then have "char_at s k = Defined (s ! k)" by (simp add: char_at_def)
  moreover obtain b where "char_at s (Suc k) = Defined b" using True char_at_Defined_iff by blast
  ultimately show ?thesis using True
    by (cases "uuid_parse_from s j") (auto simp: parses_def)
next
  case False
  then have "char_at s (Suc k) = Undefined Oob_read" by (simp add: char_at_def)
  with False show ?thesis by (cases "char_at s k") simp_all
qed

lemma parses_plain:
  assumes "i < 36" "i \<notin> {8, 13, 18, 23}"
  shows "parses s i (Suc n) \<longleftrightarrow> Suc i \<le> length s \<and> parses s (i + 2) n"
proof -
  have "uuid_parse_from s i = bind_outcome (char_at s i) (\<lambda>a. bind_outcome (char_at s (Suc i)) (\<lambda>b.
      bind_outcome (uuid_parse_from s (i + 2)) (\<lambda>r. Defined (hex_byte a b # r))))"
    using assms by (subst uuid_parse_from.simps) (cases "char_at s i"; simp add: Let_def)
  then show ?thesis unfolding parses_def[of s i] by (simp only: parses_step)
qed

lemma parses_dash:
  assumes "i \<in> {8, 13, 18, 23}"
  shows "parses s i (Suc n) \<longleftrightarrow> i + 2 \<le> length s \<and> s ! i = CHR ''-'' \<and> parses s (i + 3) n"
proof (cases "i < length s")
  case True
  then have c: "char_at s i = Defined (s ! i)" by (simp add: char_at_def)
  have i: "i < 36" using assms by auto
  have "uuid_parse_from s i = (if s ! i \<noteq> CHR ''-'' then Defined []
      else bind_outcome (char_at s (Suc i)) (\<lambda>a. bind_outcome (char_at s (Suc (Suc i))) (\<lambda>b.
        bind_outcome (uuid_parse_from s (i + 3)) (\<lambda>r. Defined (hex_byte a b # r)))))"
    using assms i by (subst uuid_parse_from.simps) (simp add: c Let_def numeral_eq_Suc)
  then show ?thesis
    unfolding parses_def[of s i] by (simp add: parses_step numeral_eq_Suc)
next
  case False
  have i: "i < 36" using assms by auto
  show ?thesis
  proof (cases "i = length s")
    case True
    then have c: "char_at s i = Defined (CHR 0x00)" by (simp add: char_at_def)
    have "uuid_parse_from s i = Defined []"
      using assms i by (subst uuid_parse_from.simps) (simp add: c)
    with True show ?thesis by (simp add: parses_def)
  next
    case f: False
    with False have c: "char_at s i = Undefined Oob_read" by (simp add: char_at_def)
    have "uuid_parse_from s i = Undefined Oob_read"
      using i by (subst uuid_parse_from.simps) (simp add: c)
    with False show ?thesis by (simp add: parses_def)
  qed
qed

lemma parses_end: "36 \<le> i \<Longrightarrow> parses s i n \<longleftrightarrow> n = 0"
  by (auto simp: parses_def uuid_end)

definition uuid_text :: "string \<Rightarrow> bool" where
  "uuid_text s \<longleftrightarrow> 35 \<le> length s \<and> (\<forall>i \<in> {8, 13, 18, 23}. s ! i = CHR ''-'')"

lemma uuid_parse_complete_iff:
  "(\<exists>u. uuid_parse s = Defined u \<and> length u = 16) \<longleftrightarrow> uuid_text s"
proof -
  have n: "16 = Suc (Suc (Suc (Suc (Suc (Suc (Suc (Suc (Suc (Suc (Suc (Suc (Suc (Suc (Suc (Suc 0)))))))))))))))"
    by simp
  have e: "s ! Suc (Suc (Suc (Suc (Suc (Suc (Suc (Suc 0))))))) = s ! 8" by (simp add: numeral_eq_Suc)
  have "parses s 0 16 \<longleftrightarrow> uuid_text s"
    unfolding n by (simp add: parses_plain parses_dash parses_end uuid_text_def e) linarith
  then show ?thesis by (simp add: parses_def uuid_parse_def)
qed

text \<open>C26. A UUID of 16 bytes survives being printed and parsed.\<close>

theorem uuid_roundtrip:
  assumes "length u = 16"
  shows "uuid_parse (uuid_unparse u) = Defined u"
proof -
  obtain b0 b1 b2 b3 b4 b5 b6 b7 b8 b9 b10 b11 b12 b13 b14 b15 where
    u: "u = [b0, b1, b2, b3, b4, b5, b6, b7, b8, b9, b10, b11, b12, b13, b14, b15]"
    using assms by (auto simp: length_Suc_conv numeral_eq_Suc)
  let ?h = "\<lambda>b :: u8. hexdigit_lower (unat b div 16)" and ?l = "\<lambda>b :: u8. hexdigit_lower (unat b mod 16)"
  have s: "uuid_unparse u =
    [?h b0, ?l b0, ?h b1, ?l b1, ?h b2, ?l b2, ?h b3, ?l b3, CHR ''-'', ?h b4, ?l b4, ?h b5, ?l b5,
     CHR ''-'', ?h b6, ?l b6, ?h b7, ?l b7, CHR ''-'', ?h b8, ?l b8, ?h b9, ?l b9, CHR ''-'',
     ?h b10, ?l b10, ?h b11, ?l b11, ?h b12, ?l b12, ?h b13, ?l b13, ?h b14, ?l b14, ?h b15, ?l b15]"
    by (simp add: u uuid_unparse_def)
  show ?thesis
    unfolding uuid_parse_def s by (simp add: uuid_plain uuid_dash uuid_end hex_byte_of_byte u)
qed

theorem uuid_roundtrip_witness:
  "uuid_parse (uuid_unparse [0x0d, 0xa9, 0xc0, 0xb5, 0xbf, 0x41, 0x4b, 0x78,
                             0x8f, 0x79, 0x96, 0xb1, 0x62, 0x3b, 0x3f, 0x17]) =
   Defined [0x0d, 0xa9, 0xc0, 0xb5, 0xbf, 0x41, 0x4b, 0x78,
            0x8f, 0x79, 0x96, 0xb1, 0x62, 0x3b, 0x3f, 0x17]"
  by (rule uuid_roundtrip) simp

section \<open>An exact long name\<close>

text \<open>
  The names the tables of the program use: not empty, without \<open>=\<close> and zero bytes, and not starting with \<open>no-\<close>.
\<close>

definition plain_name :: "string \<Rightarrow> bool" where
  "plain_name n \<longleftrightarrow> n \<noteq> [] \<and> CHR ''='' \<notin> set n \<and> CHR 0x00 \<notin> set n \<and> take 3 n \<noteq> ''no-''"

definition plain_options :: "opt_spec list \<Rightarrow> bool" where
  "plain_options options \<longleftrightarrow>
     list_all (\<lambda>opt. o_type opt \<noteq> OPTION_ARGUMENT \<and>
                (case long_name opt of None \<Rightarrow> True | Some n \<Rightarrow> plain_name n)) options \<and>
     distinct (map long_name options)"

lemma take3_append_eq:
  "take 3 n \<noteq> ''no-'' \<Longrightarrow> CHR ''='' \<notin> set n \<Longrightarrow> take 3 (n @ CHR ''='' # v) \<noteq> ''no-''"
  by (cases n; cases "tl n"; cases "tl (tl n)") (auto simp: numeral_eq_Suc)

lemma prefixcmp_no: "prefixcmp n ''no-'' = 0 \<longleftrightarrow> take 3 n = ''no-''"
proof -
  have "prefixcmp n ''no-'' = 0 \<longleftrightarrow> (\<exists>r. n = ''no-'' @ r)"
    by (rule prefixcmp_0_iff) simp
  also have "\<dots> \<longleftrightarrow> take 3 n = ''no-''"
  proof
    assume "take 3 n = ''no-''"
    then have "n = ''no-'' @ drop 3 n" by (metis append_take_drop_id)
    then show "\<exists>r. n = ''no-'' @ r" ..
  qed auto
  finally show ?thesis .
qed

lemma match_other_name:
  assumes "plain_name n" "plain_name n'" "n \<noteq> n'" "match_long (n @ CHR ''='' # v) n' = Match q un"
  shows "q \<noteq> [] \<and> hd q \<noteq> CHR ''=''"
proof (cases "skip_prefix (n @ CHR ''='' # v) n'")
  case None
  have "prefixcmp n' ''no-'' \<noteq> 0" using assms(2) by (simp add: prefixcmp_no plain_name_def)
  moreover have "take 3 (n @ CHR ''='' # v) \<noteq> ''no-''"
    using assms(1) by (intro take3_append_eq) (auto simp: plain_name_def)
  ultimately show ?thesis
    using None assms(4) by (simp add: match_long_def match_plain_def split: if_splits)
next
  case (Some r)
  then have "n @ CHR ''='' # v = n' @ r" by (simp add: skip_prefix_Some_iff)
  then obtain us where "n = n' @ us \<and> us @ CHR ''='' # v = r \<or> n @ us = n' \<and> CHR ''='' # v = us @ r"
    by (auto simp: append_eq_append_conv2)
  then show ?thesis
  proof
    assume us: "n = n' @ us \<and> us @ CHR ''='' # v = r"
    then have "us \<noteq> []" using assms(3) by auto
    moreover have "hd us \<noteq> CHR ''=''" using us assms(1) \<open>us \<noteq> []\<close>
      by (metis Un_iff hd_in_set plain_name_def set_append)
    ultimately show ?thesis using Some us assms(4) by (auto simp: match_long_def hd_append)
  next
    assume us: "n @ us = n' \<and> CHR ''='' # v = us @ r"
    then have "us \<noteq> []" using assms(3) by auto
    then have "CHR ''='' \<in> set n'" using us by (cases us) auto
    with assms(2) show ?thesis by (simp add: plain_name_def)
  qed
qed

text \<open>The exact name wins over every abbreviation, wherever it stands in the table.\<close>

lemma exact_name_wins:
  assumes "plain_options options" "opt \<in> set options" "long_name opt = Some n"
  shows "parse_long_opt (n @ CHR ''='' # v) ab am options p =
         get_value opt False False (p\<lparr>px_opt := Some v\<rparr>)"
  using assms
proof (induction options arbitrary: ab am p)
  case (Cons o1 os)
  show ?case
  proof (cases "o1 = opt")
    case True
    with Cons.prems have "o_type opt \<noteq> OPTION_ARGUMENT" by (simp add: plain_options_def)
    with True Cons.prems show ?thesis by (simp add: match_long_def)
  next
    case False
    then have rest: "plain_options os" "opt \<in> set os"
      using Cons.prems by (auto simp: plain_options_def)
    note IH = Cons.IH[OF rest Cons.prems(3)]
    show ?thesis
    proof (cases "long_name o1")
      case None
      with IH show ?thesis by simp
    next
      case (Some n')
      have "plain_name n" "plain_name n'" "n \<noteq> n'" "o_type o1 \<noteq> OPTION_ARGUMENT"
        using Cons.prems Some rest(2) by (auto simp: plain_options_def list_all_iff image_iff)
      with match_other_name[of n n' v] Some IH show ?thesis
        by (cases "match_long (n @ CHR ''='' # v) n'") auto
    qed
  qed
qed simp

text \<open>The same for a name without a value, and for its negation.\<close>

lemma match_other_plain:
  assumes "plain_name n" "plain_name n'" "n \<noteq> n'" "match_long n n' = Match q un"
  shows "q \<noteq> [] \<and> hd q \<noteq> CHR ''=''"
proof (cases "skip_prefix n n'")
  case None
  have "prefixcmp n' ''no-'' \<noteq> 0" "take 3 n \<noteq> ''no-''"
    using assms(1,2) by (simp_all add: prefixcmp_no plain_name_def)
  then show ?thesis using None assms(4) by (simp add: match_long_def match_plain_def split: if_splits)
next
  case (Some r)
  then have n: "n = n' @ r" by (simp add: skip_prefix_Some_iff)
  with assms(3) have "r \<noteq> []" by auto
  moreover have "hd r \<noteq> CHR ''=''" using n assms(1) \<open>r \<noteq> []\<close>
    by (metis Un_iff hd_in_set plain_name_def set_append)
  ultimately show ?thesis using Some assms(4) by (auto simp: match_long_def)
qed

text \<open>A name that the text \<open>no-\<close> of its own negation starts with cannot be negated.\<close>

definition negatable :: "string \<Rightarrow> bool" where
  "negatable n \<longleftrightarrow> n \<noteq> ''n'' \<and> n \<noteq> ''no''"

lemma no_name_prefix:
  assumes "plain_name n'" "skip_prefix (''no-'' @ n) n' = Some r"
  shows "n' = ''n'' \<and> r = ''o-'' @ n \<or> n' = ''no'' \<and> r = CHR ''-'' # n"
proof -
  have e: "''no-'' @ n = n' @ r" using assms(2) by (simp add: skip_prefix_Some_iff)
  have "n' \<noteq> []" "take 3 n' \<noteq> ''no-''" using assms(1) by (simp_all add: plain_name_def)
  with e show ?thesis
    by (cases n'; cases "tl n'"; cases "tl (tl n')") (auto simp: numeral_eq_Suc)
qed

lemma match_negated:
  assumes "plain_name n" "plain_name n'" "match_long (''no-'' @ n) n' = Match q un"
  shows "n = n' \<and> negatable n \<and> q = [] \<and> un \<or> q \<noteq> [] \<and> hd q \<noteq> CHR ''=''"
proof (cases "skip_prefix (''no-'' @ n) n'")
  case None
  have "prefixcmp n' ''no-'' \<noteq> 0" using assms(2) by (simp add: prefixcmp_no plain_name_def)
  with None assms(3) have q: "skip_prefix n n' = Some q" "un"
    by (simp_all add: match_long_def match_plain_def split: if_splits option.splits)
  then have n: "n = n' @ q" by (simp add: skip_prefix_Some_iff)
  show ?thesis
  proof (cases q)
    case Nil
    have "negatable n"
    proof (rule ccontr)
      assume "\<not> negatable n"
      with n Nil None show False by (auto simp: negatable_def)
    qed
    with n Nil q(2) show ?thesis by simp
  next
    case (Cons c cs)
    with n assms(1) show ?thesis by (auto simp: plain_name_def)
  qed
next
  case (Some r)
  with assms(3) have "q = r" by (simp add: match_long_def)
  with no_name_prefix[OF assms(2) Some] show ?thesis by auto
qed

lemma match_own_negation:
  assumes "plain_name n" "negatable n"
  shows "match_long (''no-'' @ n) n = Match [] True"
proof -
  have "skip_prefix (''no-'' @ n) n = None"
    using no_name_prefix[OF assms(1), of n] assms(2) by (cases "skip_prefix (''no-'' @ n) n") (auto simp: negatable_def)
  moreover have "prefixcmp n ''no-'' \<noteq> 0" using assms(1) by (simp add: prefixcmp_no plain_name_def)
  moreover have "take (length (before_eq (''no-'' @ n))) n \<noteq> before_eq (''no-'' @ n)"
  proof
    assume e: "take (length (before_eq (''no-'' @ n))) n = before_eq (''no-'' @ n)"
    have "before_eq (''no-'' @ n) = ''no-'' @ n"
      using assms(1) by (auto simp: before_eq_def plain_name_def takeWhile_eq_all_conv)
    with e have "length (''no-'' @ n) \<le> length n" by (metis length_take min.cobounded1 min.commute)
    then show False by simp
  qed
  moreover have "prefixcmp ''no-'' (''no-'' @ n) \<noteq> 0"
    using assms(1) by (subst prefixcmp_0_iff) (auto simp: plain_name_def)
  ultimately show ?thesis by (simp add: match_long_def match_plain_def skip_prefix_Some_iff[THEN iffD2])
qed

lemma exact_match_wins:
  assumes "opt \<in> set options" "long_name opt = Some n" "match_long body n = Match [] un" "from_eq body = []"
    and "\<And>o1. o1 \<in> set options \<Longrightarrow> o_type o1 \<noteq> OPTION_ARGUMENT"
    and "\<And>o1 n' q un'. o1 \<in> set options \<Longrightarrow> o1 \<noteq> opt \<Longrightarrow> long_name o1 = Some n' \<Longrightarrow>
           match_long body n' = Match q un' \<Longrightarrow> q \<noteq> [] \<and> hd q \<noteq> CHR ''=''"
  shows "parse_long_opt body ab am options p = get_value opt False un p"
  using assms(1,5,6)
proof (induction options arbitrary: ab am)
  case (Cons o1 os)
  show ?case
  proof (cases "o1 = opt")
    case True
    with Cons.prems(2)[of o1] assms(2,3) show ?thesis by simp
  next
    case False
    then have "opt \<in> set os" using Cons.prems(1) by simp
    then have IH: "parse_long_opt body ab am os p = get_value opt False un p" for ab am
    proof (rule Cons.IH)
      fix o2
      assume "o2 \<in> set os"
      then show "o_type o2 \<noteq> OPTION_ARGUMENT" using Cons.prems(2) by simp
    next
      fix o2 n' q un'
      assume "o2 \<in> set os" "o2 \<noteq> opt" "long_name o2 = Some n'" "match_long body n' = Match q un'"
      then show "q \<noteq> [] \<and> hd q \<noteq> CHR ''=''" using Cons.prems(3)[of o2 n' q un'] by simp
    qed
    show ?thesis
    proof (cases "long_name o1")
      case (Some n')
      have "o_type o1 \<noteq> OPTION_ARGUMENT" using Cons.prems(2) by simp
      with Cons.prems(3)[of o1 n'] False Some IH assms(4) show ?thesis
        by (cases "match_long body n'") auto
    qed (use IH in simp)
  qed
qed simp

lemma from_eq_none: "CHR ''='' \<notin> set s \<Longrightarrow> from_eq s = []"
  by (auto simp: from_eq_def dropWhile_eq_Nil_conv)

lemma plain_options_names:
  assumes "plain_options options" "o1 \<in> set options"
  shows "o_type o1 \<noteq> OPTION_ARGUMENT" "long_name o1 = Some n' \<Longrightarrow> plain_name n'"
    "opt \<in> set options \<Longrightarrow> o1 \<noteq> opt \<Longrightarrow> long_name o1 = Some n' \<Longrightarrow> long_name opt \<noteq> Some n'"
proof -
  show "o_type o1 \<noteq> OPTION_ARGUMENT" "long_name o1 = Some n' \<Longrightarrow> plain_name n'"
    using assms by (auto simp: plain_options_def list_all_iff split: option.splits)
  show "opt \<in> set options \<Longrightarrow> o1 \<noteq> opt \<Longrightarrow> long_name o1 = Some n' \<Longrightarrow> long_name opt \<noteq> Some n'"
    using assms inj_onD[of long_name "set options" o1 opt] by (auto simp: plain_options_def distinct_map)
qed

text \<open>A flag as it is written.\<close>

definition flag_text :: "string \<Rightarrow> bool \<Rightarrow> string" where
  "flag_text n on = (if on then n else ''no-'' @ n)"

lemma exact_flag_wins:
  assumes "plain_options options" "opt \<in> set options" "long_name opt = Some n" "on \<or> negatable n"
  shows "parse_long_opt (flag_text n on) ab am options p = get_value opt False (\<not> on) p"
proof -
  have n: "plain_name n" using plain_options_names(2)[OF assms(1-3)] .
  have own: "match_long (flag_text n on) n = Match [] (\<not> on)"
  proof (cases on)
    case True
    have "skip_prefix n n = Some []" by (simp add: skip_prefix_Some_iff)
    with True show ?thesis by (simp add: flag_text_def match_long_def)
  qed (use match_own_negation[OF n] assms(4) in \<open>simp add: flag_text_def\<close>)
  have "CHR ''='' \<notin> set (flag_text n on)" using n by (auto simp: flag_text_def plain_name_def)
  note eq = from_eq_none[OF this]
  have other: "q \<noteq> [] \<and> hd q \<noteq> CHR ''=''"
    if "o1 \<in> set options" "o1 \<noteq> opt" "long_name o1 = Some n'" "match_long (flag_text n on) n' = Match q un'"
    for o1 n' q un'
  proof -
    have "plain_name n'" "n \<noteq> n'"
      using plain_options_names(2,3)[OF assms(1) that(1)] that(2,3) assms(2,3) by auto
    with that(4) match_other_plain[OF n, of n'] match_negated[OF n, of n'] show ?thesis
      by (cases on) (auto simp: flag_text_def)
  qed
  show ?thesis
    by (rule exact_match_wins[OF assms(2,3) own eq plain_options_names(1)[OF assms(1)] other])
qed

section \<open>Command lines\<close>

text \<open>
  The parts of a command line: a number or a text assigned to a long option, a flag that is set or
  negated, and a positional argument; how they are written, what they store, and when they are in
  range.
\<close>

datatype cli_item = Assign opt_spec nat | Text opt_spec string | Flag opt_spec bool | Positional string

fun show_item :: "cli_item \<Rightarrow> string" where
  "show_item (Assign opt v) = ''--'' @ the (long_name opt) @ ''='' @ dec_string v"
| "show_item (Text opt t) = ''--'' @ the (long_name opt) @ ''='' @ t"
| "show_item (Flag opt on) = ''--'' @ flag_text (the (long_name opt)) on"
| "show_item (Positional s) = s"

fun store_item :: "cli_item \<Rightarrow> (var \<Rightarrow> opt_val) \<Rightarrow> var \<Rightarrow> opt_val" where
  "store_item (Assign opt v) st =
     st(o_value opt := (if o_type opt = OPTION_UINTEGER then VUint (of_nat v)
                        else if o_type opt = OPTION_INTEGER then VInt (int v)
                        else VU64 (of_nat v)))"
| "store_item (Text opt t) st = st(o_value opt := VStr (Some t))"
| "store_item (Flag opt on) st = st(o_value opt := VBool on)"
| "store_item (Positional s) st = st"

fun positional :: "cli_item \<Rightarrow> string list" where
  "positional (Positional s) = [s]"
| "positional i = []"

fun item_ok :: "opt_spec list \<Rightarrow> cli_item \<Rightarrow> bool" where
  "item_ok options (Assign opt v) \<longleftrightarrow>
     opt \<in> set options \<and> long_name opt \<noteq> None \<and>
     (o_type opt = OPTION_UINTEGER \<and> v < 2 ^ 32 \<or> o_type opt = OPTION_U64 \<and> v < 2 ^ 64 \<or>
      o_type opt = OPTION_INTEGER \<and> v < 2 ^ 31)"
| "item_ok options (Text opt t) \<longleftrightarrow>
     opt \<in> set options \<and> long_name opt \<noteq> None \<and> (o_type opt = OPTION_STRING \<or> o_type opt = OPTION_FILENAME)"
| "item_ok options (Flag opt on) \<longleftrightarrow>
     opt \<in> set options \<and> o_type opt = OPTION_BOOLEAN \<and> o_set opt = None \<and>
     (\<exists>n. long_name opt = Some n \<and>
        (if on then n \<notin> {''help'', ''help-all'', ''list-opts'', ''list-cmds''} else negatable n))"
| "item_ok options (Positional s) \<longleftrightarrow> s = [] \<or> hd s \<noteq> CHR ''-'' \<or> length s = 1"

lemma number_stored:
  assumes "item_ok options (Assign opt v)"
  shows "get_value opt False False (p\<lparr>px_opt := Some (dec_string v)\<rparr>) =
         Ret (0, p\<lparr>px_opt := None, px_store := store_item (Assign opt v) (px_store p)\<rparr>)"
proof -
  from assms have "o_type opt = OPTION_UINTEGER \<and> v < 2 ^ 32 \<or> o_type opt = OPTION_U64 \<and> v < 2 ^ 64 \<or>
      o_type opt = OPTION_INTEGER \<and> v < 2 ^ 31 \<and> to_int32 (int v) = int v"
    using to_int32_id[of "int v"] by (auto simp: int32_range_def)
  then show ?thesis
    by (auto simp: get_value_def numeric_value_def get_arg_def store_number_def conv_uint_def
        conv_u64_def conv_int_def strtol_dec strtoull_dec put_def)
qed

lemma text_stored:
  assumes "item_ok options (Text opt t)" "px_prefix p = None"
  shows "get_value opt False False (p\<lparr>px_opt := Some t\<rparr>) =
         Ret (0, p\<lparr>px_opt := None, px_store := store_item (Text opt t) (px_store p)\<rparr>)"
  using assms by (auto simp: get_value_def get_arg_def put_def fix_filename_def)

lemma flag_stored:
  assumes "item_ok options (Flag opt on)" "px_opt p = None"
  shows "get_value opt False (\<not> on) p = Ret (0, p\<lparr>px_store := store_item (Flag opt on) (px_store p)\<rparr>)"
  using assms by (auto simp: get_value_def put_def Let_def)

text \<open>One argument with a long option, from the parse of its text.\<close>

lemma long_option_arg:
  assumes "parse_long_opt body None None options p = Ret (0, p')" "body \<noteq> []"
    and "body \<notin> {''help'', ''help-all'', ''list-opts'', ''list-cmds''}" "px_argv p' = px_argv p"
  shows "one_arg options (''--'' @ body) p = Ret (Inr (p'\<lparr>px_argv := tl (px_argv p)\<rparr>))"
proof -
  have "long_arg options body p = Ret (Group_done, p')" using assms(1,3) by (simp add: long_arg_def)
  with assms(2,4) show ?thesis by (simp add: one_arg_def after_arg_def)
qed

lemma assigned_arg:
  assumes "plain_options options" "opt \<in> set options" "long_name opt = Some n" "px_opt p = None"
    and "get_value opt False False (p\<lparr>px_opt := Some t\<rparr>) = Ret (0, p\<lparr>px_opt := None, px_store := st\<rparr>)"
  shows "one_arg options (''--'' @ n @ ''='' @ t) p = Ret (Inr (p\<lparr>px_argv := tl (px_argv p), px_store := st\<rparr>))"
proof -
  have eq: "CHR ''='' \<in> set (n @ CHR ''='' # t)" by simp
  have w: "n @ CHR ''='' # t \<noteq> w" if "CHR ''='' \<notin> set w" for w
    using eq that by metis
  have "parse_long_opt (n @ CHR ''='' # t) None None options p = Ret (0, p\<lparr>px_opt := None, px_store := st\<rparr>)"
    using exact_name_wins[OF assms(1-3)] assms(5) by simp
  then have "one_arg options (''--'' @ (n @ CHR ''='' # t)) p =
      Ret (Inr ((p\<lparr>px_opt := None, px_store := st\<rparr>)\<lparr>px_argv := tl (px_argv p)\<rparr>))"
    by (rule long_option_arg) (simp_all add: w)
  with assms(4) show ?thesis by simp
qed

lemma item_arg:
  assumes "plain_options options" "item_ok options item"
    and "px_argv p = show_item item # args" "px_opt p = None" "px_prefix p = None"
    and "\<not> flag_on PARSE_OPT_STOP_AT_NON_OPTION p"
  shows "one_arg options (show_item item) p =
         Ret (Inr (p\<lparr>px_argv := args, px_out := px_out p @ positional item, px_store := store_item item (px_store p)\<rparr>))"
proof (cases item)
  case (Assign opt v)
  with assms(2) obtain n where n: "opt \<in> set options" "long_name opt = Some n" by auto
  from assigned_arg[OF assms(1) n assms(4) number_stored] assms(2,3) Assign n show ?thesis by auto
next
  case (Text opt t)
  with assms(2) obtain n where n: "opt \<in> set options" "long_name opt = Some n" by auto
  from assigned_arg[OF assms(1) n assms(4) text_stored] assms(2,3,5) Text n show ?thesis by auto
next
  case (Flag opt on)
  with assms(2) obtain n where n: "opt \<in> set options" "long_name opt = Some n" "on \<or> negatable n"
    "on \<Longrightarrow> n \<notin> {''help'', ''help-all'', ''list-opts'', ''list-cmds''}" by (auto split: if_splits)
  have "plain_name n" by (rule plain_options_names(2)[OF assms(1) n(1,2)])
  then have body: "flag_text n on \<noteq> []" "flag_text n on \<notin> {''help'', ''help-all'', ''list-opts'', ''list-cmds''}"
    using n(4) by (auto simp: flag_text_def plain_name_def)
  have "parse_long_opt (flag_text n on) None None options p =
      Ret (0, p\<lparr>px_store := store_item item (px_store p)\<rparr>)"
    using exact_flag_wins[OF assms(1) n(1-3)] flag_stored[of options opt on p] assms(2,4) Flag by simp
  from long_option_arg[OF this body] assms(3) Flag n(2) show ?thesis by simp
next
  case (Positional t)
  with assms show ?thesis by (simp add: one_arg_def)
qed

text \<open>Items at the front are stored before the rest is looked at.\<close>

lemma args_loop_front:
  assumes "plain_options options" "list_all (item_ok options) items"
    and "px_argv p = map show_item items @ rest" "px_opt p = None" "px_prefix p = None"
    and "\<not> flag_on PARSE_OPT_STOP_AT_NON_OPTION p"
  shows "args_loop options p =
    args_loop options (p\<lparr>px_argv := rest, px_out := px_out p @ concat (map positional items),
                         px_store := fold store_item items (px_store p)\<rparr>)"
  using assms(2-)
proof (induction items arbitrary: p)
  case Nil
  then have "p\<lparr>px_argv := rest\<rparr> = p" by auto
  then show ?case by simp
next
  case (Cons item items)
  let ?p = "p\<lparr>px_argv := map show_item items @ rest, px_out := px_out p @ positional item,
              px_store := store_item item (px_store p)\<rparr>"
  have "one_arg options (show_item item) p = Ret (Inr ?p)"
    using item_arg[OF assms(1)] Cons.prems by simp
  then have "args_loop options p = args_loop options ?p"
    using Cons.prems(2) by (subst args_loop.simps) simp
  also have "args_loop options ?p = args_loop options (?p\<lparr>px_argv := rest,
      px_out := px_out ?p @ concat (map positional items), px_store := fold store_item items (px_store ?p)\<rparr>)"
    using Cons.prems by (intro Cons.IH) (simp_all add: flag_on_def)
  finally show ?case by simp
qed

lemma args_loop_items:
  assumes "plain_options options" "list_all (item_ok options) items"
    and "px_argv p = map show_item items" "px_opt p = None" "px_prefix p = None"
    and "\<not> flag_on PARSE_OPT_STOP_AT_NON_OPTION p"
  shows "args_loop options p =
    Ret (PARSE_OPT_DONE, p\<lparr>px_argv := [], px_out := px_out p @ concat (map positional items),
                            px_store := fold store_item items (px_store p)\<rparr>)"
proof -
  have "px_argv p = map show_item items @ []" using assms(3) by simp
  from args_loop_front[OF assms(1,2) this assms(4-6)] show ?thesis
    by (simp add: args_loop.simps[of _ "p\<lparr>px_argv := [], px_out := x, px_store := st\<rparr>" for x st])
qed

lemma parse_items:
  assumes "plain_options options" and "list_all (item_ok options) items"
  shows "parse_options (prog # map show_item items) options 0 store =
         Ret (concat (map positional items), fold store_item items store)"
  using args_loop_items[OF assms, of "\<lparr>px_argv = map show_item items, px_out = [], px_opt = None,
      px_flags = 0, px_prefix = None, px_store = store, px_err = []\<rparr>"]
  by (simp add: parse_options_def parse_options_start_def parse_options_step_def flag_on_def
      parse_options_end_def Let_def)

text \<open>C1. A command line printed from assignments of numbers and texts, flags (\<open>--name\<close> and \<open>--no-name\<close>)
  and positional arguments, in any order and number, is parsed back to them: every variable holds
  the last value assigned to it, the positional arguments are left in their order, and nothing else is.\<close>

theorem command_line_roundtrip:
  assumes "plain_options options" and "list_all (item_ok options) items"
  shows "parse_options (prog # map show_item items) options 0 store =
         Ret (concat (map positional items), fold store_item items store)"
  by (rule parse_items[OF assms])

definition sample_options :: "opt_spec list" where
  "sample_options =
     [\<lparr>o_type = OPTION_UINTEGER, short_name = CHR ''s'', long_name = Some ''slot'', o_value = ''slot'', o_set = None\<rparr>,
      \<lparr>o_type = OPTION_U64, short_name = CHR ''t'', long_name = Some ''slot-time'', o_value = ''time'', o_set = None\<rparr>]"

theorem command_line_roundtrip_witness:
  "parse_options (''set-timestamp'' # map show_item [Assign (sample_options ! 1) 5, Positional ''mem0'',
     Assign (sample_options ! 0) 3]) sample_options 0 (\<lambda>n. VBool False) =
   Ret ([''mem0''], (\<lambda>n. VBool False)(''time'' := VU64 5, ''slot'' := VUint 3))"
  using command_line_roundtrip[of sample_options
      "[Assign (sample_options ! 1) 5, Positional ''mem0'', Assign (sample_options ! 0) 3]"]
  by (simp add: sample_options_def plain_options_def plain_name_def)



section \<open>The types of the variables\<close>

text \<open>The C type of a value, and the type an option writes through its pointer.\<close>

datatype ctype = C_bool | C_int | C_uint | C_long | C_u64 | C_str

fun val_type :: "opt_val \<Rightarrow> ctype" where
  "val_type (VBool b) = C_bool"
| "val_type (VInt k) = C_int"
| "val_type (VUint w) = C_uint"
| "val_type (VLong k) = C_long"
| "val_type (VU64 w) = C_u64"
| "val_type (VStr s) = C_str"

fun writes :: "parse_opt_type \<Rightarrow> ctype option" where
  "writes OPTION_BOOLEAN = Some C_bool"
| "writes OPTION_INCR = Some C_int"
| "writes OPTION_INTEGER = Some C_int"
| "writes OPTION_UINTEGER = Some C_uint"
| "writes OPTION_LONG = Some C_long"
| "writes OPTION_U64 = Some C_u64"
| "writes OPTION_STRING = Some C_str"
| "writes OPTION_FILENAME = Some C_str"
| "writes t = None"

text \<open>
  Between two contexts only variables of the options change, to values of the types of the options.
\<close>

definition may_write :: "opt_spec list \<Rightarrow> var \<Rightarrow> opt_val \<Rightarrow> bool" where
  "may_write options x v \<longleftrightarrow> (\<exists>opt \<in> set options.
     x = o_value opt \<and> writes (o_type opt) = Some (val_type v) \<or> o_set opt = Some x \<and> val_type v = C_bool)"

definition typed_step :: "opt_spec list \<Rightarrow> parse_ctx \<Rightarrow> parse_ctx \<Rightarrow> bool" where
  "typed_step options p p' \<longleftrightarrow>
     (\<forall>x. px_store p' x = px_store p x \<or> may_write options x (px_store p' x))"

lemma typed_same: "px_store p' = px_store p \<Longrightarrow> typed_step options p p'"
  by (simp add: typed_step_def)

lemma typed_trans: "typed_step options p q \<Longrightarrow> typed_step options q r \<Longrightarrow> typed_step options p r"
  unfolding typed_step_def by metis

lemma typed_put:
  "typed_step options p q \<Longrightarrow> may_write options x v \<Longrightarrow> typed_step options p (put x v q)"
  by (auto simp: typed_step_def put_def)

lemma may_value:
  "opt \<in> set options \<Longrightarrow> writes (o_type opt) = Some (val_type v) \<Longrightarrow> may_write options (o_value opt) v"
  by (auto simp: may_write_def)

lemma may_set: "opt \<in> set options \<Longrightarrow> o_set opt = Some x \<Longrightarrow> may_write options x (VBool b)"
  by (auto simp: may_write_def)

lemma opterror_store: "opterror opt r sh un p = (rc, p') \<Longrightarrow> px_store p' = px_store p"
  by (auto simp: opterror_def)

lemma get_arg_store: "get_arg opt sh un p = (rc, a, p') \<Longrightarrow> px_store p' = px_store p"
  by (auto simp: get_arg_def opterror_def split: option.splits list.splits)

lemma typed_store_number:
  assumes "store_number opt sh conv hex arg p = (rc, p')" "opt \<in> set options"
    and "\<And>b s v r. conv b s = (v, r) \<Longrightarrow> writes (o_type opt) = Some (val_type v)"
  shows "typed_step options p p'"
proof -
  have put: "typed_step options p (put (o_value opt) v p)" if "conv b s = (v, r)" for b s v r
    by (rule typed_put[OF typed_same[OF refl] may_value[OF assms(2) assms(3)[OF that]]])
  have err: "typed_step options p q'"
    if "opterror opt m sh False (put (o_value opt) v p) = (k, q')" "conv b s = (v, r)" for m v k q' b s r
    by (rule typed_trans[OF put[OF that(2)] typed_same[OF opterror_store[OF that(1)]]])
  from assms(1) show ?thesis
    by (auto simp: store_number_def split: prod.splits if_splits intro: put err)
qed

lemma typed_numeric_value:
  assumes "numeric_value opt sh un z conv hex p = (rc, p')" "opt \<in> set options"
    and "writes (o_type opt) = Some (val_type z)"
    and "\<And>b s v r. conv b s = (v, r) \<Longrightarrow> writes (o_type opt) = Some (val_type v)"
  shows "typed_step options p p'"
proof (cases un)
  case True
  with assms show ?thesis
    by (auto simp: numeric_value_def intro!: typed_put[OF typed_same[OF refl]] may_value)
next
  case False
  obtain k a q where g: "get_arg opt sh un p = (k, a, q)" by (metis surj_pair)
  note q = typed_same[OF get_arg_store[OF g]]
  show ?thesis
  proof (cases "k = 0")
    case True
    with assms(1) g False have "store_number opt sh conv hex (the a) q = (rc, p')"
      by (simp add: numeric_value_def)
    then have "typed_step options q p'" using assms(2,4) by (rule typed_store_number)
    with q show ?thesis by (rule typed_trans)
  qed (use assms(1) g False q in \<open>auto simp: numeric_value_def\<close>)
qed

lemma conv_types:
  "conv_int b s = (v, r) \<Longrightarrow> val_type v = C_int" "conv_uint b s = (v, r) \<Longrightarrow> val_type v = C_uint"
  "conv_long b s = (v, r) \<Longrightarrow> val_type v = C_long" "conv_u64 b s = (v, r) \<Longrightarrow> val_type v = C_u64"
  by (auto simp: conv_int_def conv_uint_def conv_long_def conv_u64_def split: prod.splits)

lemma typed_get_value:
  assumes "get_value opt sh un p = Ret (rc, p')" "opt \<in> set options"
  shows "typed_step options p p'"
proof -
  note put = typed_put[OF typed_same[OF refl] may_value[OF assms(2)]]
  note num = typed_numeric_value[OF _ assms(2)]
  have arg: "typed_step options p q" if "get_arg opt sh un p = (k, a, q)" for k a q
    by (rule typed_same[OF get_arg_store[OF that]])
  have str: "typed_step options p (put (o_value opt) (VStr x) q)"
    if "get_arg opt sh un p = (k, a, q)" "writes (o_type opt) = Some C_str" for k a q x
    using that(2) by (intro typed_put[OF arg[OF that(1)]] may_value[OF assms(2)]) simp
  show ?thesis
  proof (cases "px_opt p \<noteq> None \<and> (un \<or> \<not> sh \<and>
      o_type opt \<in> {OPTION_CALLBACK, OPTION_BOOLEAN, OPTION_INCR, OPTION_BIT, OPTION_SET_UINT, OPTION_SET_PTR})")
    case True
    then have "get_value opt sh un p = Ret (opterror opt ''takes no value'' sh un p)"
      unfolding get_value_def by (cases un) simp_all
    then have "opterror opt ''takes no value'' sh un p = (rc, p')" using assms(1) by simp
    then show ?thesis by (rule typed_same[OF opterror_store])
  next
    case False
    then have run: "\<not> (un \<and> px_opt p \<noteq> None)" "\<not> (\<not> sh \<and> px_opt p \<noteq> None \<and>
        o_type opt \<in> {OPTION_CALLBACK, OPTION_BOOLEAN, OPTION_INCR, OPTION_BIT, OPTION_SET_UINT, OPTION_SET_PTR})"
      by blast+
    note g = assms(1)[unfolded get_value_def if_not_P[OF run(1)] if_not_P[OF run(2)]]
    show ?thesis
    proof (cases "o_type opt")
      case OPTION_BOOLEAN
      with g show ?thesis
        by (auto simp: Let_def intro!: put typed_put may_set[OF assms(2)] split: option.splits)
    next
      case OPTION_INCR
      with g show ?thesis by (auto intro!: put split: opt_val.splits)
    next
      case OPTION_STRING
      then have "writes (o_type opt) = Some C_str" by simp
      with OPTION_STRING g show ?thesis by (auto split: if_splits prod.splits intro: str arg intro!: put)
    next
      case OPTION_FILENAME
      then have "writes (o_type opt) = Some C_str" by simp
      with OPTION_FILENAME g show ?thesis by (auto split: if_splits prod.splits intro: str arg intro!: put)
    next
      case OPTION_INTEGER
      with g show ?thesis by (auto intro!: num simp: conv_types)
    next
      case OPTION_UINTEGER
      with g show ?thesis by (auto intro!: num simp: conv_types)
    next
      case OPTION_LONG
      with g show ?thesis by (auto intro!: num simp: conv_types)
    next
      case OPTION_U64
      with g show ?thesis by (auto intro!: num simp: conv_types)
    qed (use g in \<open>auto intro: typed_same\<close>)
  qed
qed

lemma typed_parse_short:
  assumes "parse_short_opt options p = Ret (rc, p')"
  shows "typed_step options p p'"
proof (cases "px_opt p")
  case (Some s)
  show ?thesis
  proof (cases s)
    case (Cons c cs)
    show ?thesis
    proof (cases "find (\<lambda>opt. short_name opt = c) options")
      case (Some opt)
      let ?q = "p\<lparr>px_opt := if cs = [] then None else Some cs\<rparr>"
      have "opt \<in> set options" using Some by (auto simp: find_Some_iff)
      moreover have "get_value opt True False ?q = Ret (rc, p')"
        using assms \<open>px_opt p = Some s\<close> Cons Some by (simp add: parse_short_opt_def)
      ultimately have "typed_step options ?q p'" by (rule typed_get_value[rotated])
      then show ?thesis by (simp add: typed_step_def)
    qed (use assms Some Cons in \<open>simp add: parse_short_opt_def typed_same\<close>)
  qed (use assms Some in \<open>simp add: parse_short_opt_def typed_same\<close>)
qed (use assms in \<open>simp add: parse_short_opt_def typed_same\<close>)

lemma typed_parse_long:
  "parse_long_opt arg ab am rest p = Ret (rc, p') \<Longrightarrow> set rest \<subseteq> set options \<Longrightarrow>
     (\<forall>o1 u. ab = Some (o1, u) \<longrightarrow> o1 \<in> set options) \<Longrightarrow> typed_step options p p'"
proof (induction rest arbitrary: ab am p)
  case Nil
  show ?case
  proof (cases ab)
    case None
    with Nil.prems(1) show ?thesis by (auto split: option.splits intro!: typed_same)
  next
    case (Some x)
    obtain o1 u where x: "x = (o1, u)" by fastforce
    with Nil.prems(3) Some have "o1 \<in> set options" by blast
    with Nil.prems(1) Some x show ?thesis
      by (cases am) (auto intro: typed_get_value intro!: typed_same[of "p\<lparr>px_err := e\<rparr>" for e])
  qed
next
  case (Cons opt rest)
  have opt: "opt \<in> set options" "set rest \<subseteq> set options" using Cons.prems(2) by simp_all
  note skip = Cons.IH[OF _ opt(2) Cons.prems(3)]
  show ?case
  proof (cases "long_name opt")
    case None
    with Cons.prems(1) show ?thesis by (auto intro: skip)
  next
    case (Some name)
    show ?thesis
    proof (cases "o_type opt = OPTION_ARGUMENT")
      case True
      with Cons.prems(1) Some show ?thesis
        by (auto simp: opterror_def split: option.splits if_splits intro: skip typed_same)
    next
      case False
      have opt_text: "typed_step options p p'" if "typed_step options (p\<lparr>px_opt := x\<rparr>) p'" for x
        using that by (simp add: typed_step_def)
      show ?thesis
      proof (cases "match_long arg name")
        case (Match r un)
        with Cons.prems(1) Some False show ?thesis
          by (auto split: if_splits intro: skip typed_get_value[OF _ opt(1)]
              opt_text[OF typed_get_value[OF _ opt(1)]])
      next
        case (Abbrev un)
        with Cons.prems(1) Some False show ?thesis
          by (auto split: if_splits intro: Cons.IH[OF _ opt(2)] opt_text[OF Cons.IH[OF _ opt(2)]] simp: opt(1))
      qed (use Cons.prems(1) Some False in \<open>auto intro: skip\<close>)
    qed
  qed
qed

lemma typed_short_group:
  "short_group options p = Ret (r, p') \<Longrightarrow> typed_step options p p'"
proof (induction options p rule: short_group.induct)
  case (1 options p)
  note run = "1.prems"[unfolded short_group.simps[of options p]]
  show ?case
  proof (cases "px_opt p")
    case None
    with run show ?thesis by (simp add: typed_same)
  next
    case (Some s)
    show ?thesis
    proof (cases "internal_help p \<and> s \<noteq> [] \<and> hd s = CHR ''h''")
      case True
      with run Some show ?thesis by (auto intro: typed_same)
    next
      case False
      show ?thesis
      proof (cases "parse_short_opt options p")
        case (Ret x)
        obtain rc p1 where x: "x = (rc, p1)" by fastforce
        have first: "typed_step options p p1" using Ret x by (auto intro: typed_parse_short)
        consider "px_store p' = px_store p1"
          | "rc \<noteq> -1" "rc \<noteq> -2" "short_group options p1 = Ret (r, p')"
          using run Some False Ret x by (auto split: if_splits)
        then show ?thesis
        proof cases
          case 2
          from typed_trans[OF first "1.IH"[OF Some False Ret x[symmetric] 2]] show ?thesis .
        qed (use first typed_trans[OF first typed_same] in auto)
      qed (use run Some False in auto)
    qed
  qed
qed

lemma typed_short_arg:
  assumes "short_arg options arg p = Ret (r, p')"
  shows "typed_step options p p'"
proof (cases "internal_help (p\<lparr>px_opt := Some (tl arg)\<rparr>) \<and> arg ! 1 = CHR ''h''")
  case True
  with assms show ?thesis by (auto simp: short_arg_def intro: typed_same)
next
  case False
  let ?p1 = "p\<lparr>px_opt := Some (tl arg)\<rparr>"
  obtain rc p2 where s: "parse_short_opt options ?p1 = Ret (rc, p2)"
    using assms False by (cases "parse_short_opt options ?p1") (auto simp: short_arg_def Let_def)
  from typed_parse_short[OF s] have first: "typed_step options p p2" by (simp add: typed_step_def)
  have "px_store p' = px_store p2 \<or> short_group options p2 = Ret (r, p')"
    using assms False s by (auto simp: short_arg_def Let_def split: if_splits run.splits)
  with first show ?thesis using typed_trans[OF first typed_short_group] typed_trans[OF first typed_same] by blast
qed

lemma typed_long_arg:
  assumes "long_arg options name p = Ret (r, p')"
  shows "typed_step options p p'"
proof -
  have "px_store p' = px_store p \<or>
      (\<exists>rc q. parse_long_opt name None None options p = Ret (rc, q) \<and> px_store p' = px_store q)"
    using assms by (auto simp: long_arg_def split: if_splits run.splits prod.splits)
  then show ?thesis
  proof
    assume "\<exists>rc q. parse_long_opt name None None options p = Ret (rc, q) \<and> px_store p' = px_store q"
    then obtain rc q where q: "parse_long_opt name None None options p = Ret (rc, q)" "px_store p' = px_store q"
      by blast
    from q(1) have "typed_step options p q" by (rule typed_parse_long) simp_all
    from typed_trans[OF this typed_same[OF q(2)]] show ?thesis .
  qed (rule typed_same)
qed

lemma typed_after_arg:
  assumes "after_arg m = Ret z" "\<And>r q. m = Ret (r, q) \<Longrightarrow> typed_step options p q"
  shows "typed_step options p (case z of Inl (res, q) \<Rightarrow> q | Inr q \<Rightarrow> q)"
proof -
  obtain r q where m: "m = Ret (r, q)" using assms(1) by (cases m) (auto simp: after_arg_def)
  have "px_store (case z of Inl (res, q) \<Rightarrow> q | Inr q \<Rightarrow> q) = px_store q"
    using assms(1) m by (auto simp: after_arg_def split: group_result.splits if_splits)
  from typed_trans[OF assms(2)[OF m] typed_same[OF this]] show ?thesis .
qed

lemma typed_one_arg:
  assumes "one_arg options arg p = Ret z"
  shows "typed_step options p (case z of Inl (res, q) \<Rightarrow> q | Inr q \<Rightarrow> q)"
proof (cases "arg = [] \<or> hd arg \<noteq> CHR ''-'' \<or> length arg = 1")
  case True
  with assms show ?thesis by (auto simp: one_arg_def intro: typed_same split: if_splits)
next
  case dash: False
  show ?thesis
  proof (cases "arg ! 1 = CHR ''-''")
    case False
    with assms dash have "after_arg (short_arg options arg p) = Ret z" by (simp add: one_arg_def)
    then show ?thesis by (rule typed_after_arg) (rule typed_short_arg)
  next
    case True
    show ?thesis
    proof (cases "length arg = 2")
      case False
      with assms dash True have "after_arg (long_arg options (drop 2 arg) p) = Ret z" by (simp add: one_arg_def)
      then show ?thesis by (rule typed_after_arg) (rule typed_long_arg)
    qed (use assms dash True in \<open>auto simp: one_arg_def intro: typed_same split: if_splits\<close>)
  qed
qed

lemma typed_args_loop:
  "args_loop options p = Ret (res, p') \<Longrightarrow> typed_step options p p'"
proof (induction options p rule: args_loop.induct)
  case (1 options p)
  note run = "1.prems"[unfolded args_loop.simps[of options p]]
  show ?case
  proof (cases "px_argv p")
    case Nil
    with run show ?thesis by (simp add: typed_same)
  next
    case (Cons arg args)
    then obtain z where z: "one_arg options arg p = Ret z" using run by (cases "one_arg options arg p") auto
    show ?thesis
    proof (cases z)
      case (Inl y)
      with run Cons z typed_one_arg[OF z] show ?thesis by auto
    next
      case (Inr q)
      with run Cons z have "args_loop options q = Ret (res, p')" by simp
      from "1.IH"[OF Cons z Inr this] typed_one_arg[OF z] Inr show ?thesis by (auto intro: typed_trans)
    qed
  qed
qed

text \<open>C8. Whatever is on the command line, the parser writes only the variables that its options name, and
  each of them with a value of the type its option declares (a negated number is a zero of that type):
  every other variable of the program is left alone.\<close>

theorem parser_writes_typed:
  assumes "parse_options argv options flags store = Ret (args, store')" "store' x \<noteq> store x"
  shows "may_write options x (store' x)"
proof -
  obtain p where p: "parse_options_start argv None flags store = Ret p" "px_store p = store"
    using assms(1)
    by (cases "parse_options_start argv None flags store")
      (auto simp: parse_options_def parse_options_start_def Let_def split: if_splits)
  obtain q where q: "parse_options_step options p = Ret (PARSE_OPT_DONE, q)" "store' = px_store q"
    using assms(1) p(1)
    by (cases "parse_options_step options p") (auto simp: parse_options_def split: step_result.splits)
  from typed_args_loop[OF q(1)[unfolded parse_options_step_def]] show ?thesis
    using assms(2) p(2) q(2) by (auto simp: typed_step_def)
qed

theorem parser_writes_typed_witness:
  "\<exists>store'. parse_options (''set-timestamp'' # map show_item [Assign (sample_options ! 0) 3])
       sample_options 0 (\<lambda>n. VBool False) = Ret ([], store') \<and> val_type (store' ''slot'') = C_uint"
proof -
  let ?st = "(\<lambda>n. VBool False)(''slot'' := VUint 3)"
  have r: "parse_options (''set-timestamp'' # map show_item [Assign (sample_options ! 0) 3])
       sample_options 0 (\<lambda>n. VBool False) = Ret ([], ?st)"
    using parse_items[of sample_options "[Assign (sample_options ! 0) 3]"]
    by (simp add: sample_options_def plain_options_def plain_name_def)
  have "?st ''slot'' \<noteq> VBool False" by simp
  from parser_writes_typed[OF r this] have "val_type (?st ''slot'') = C_uint"
    by (auto simp: may_write_def sample_options_def)
  with r show ?thesis by blast
qed

end
