(* ===== verification/Dimm_Mgmt.thy ===== *)
theory Dimm_Mgmt
  imports Dimm_Vendors Vendor_Commands
begin

text \<open>
  Decoding of a DIMM's SPD bytes, \<open>cxl/src/dimm_mgmt.c\<close>. The argument \<open>b\<close> of a decoder is the
  response buffer of 512 bytes. The transfer rate of \<open>decode_ddr4_module_speed\<close> is floating-point
  arithmetic and not modelled here.
\<close>

section \<open>Serial numbers\<close>

definition nibbles :: "bytes \<Rightarrow> bytes" where
  "nibbles xs = concat (map (\<lambda>x. [drop_bit 4 x AND 0x0F, x AND 0x0F]) xs)"

definition ascii_nibble :: "u8 \<Rightarrow> u8" where
  "ascii_nibble x = (if 0x0A \<le> x then x + 0x37 else x + 0x30)"

text \<open>
  The second loop counts to \<open>SizeInByte * 2\<close> with an 8-bit index, so it need not end; \<open>None\<close> is not
  returning.
\<close>

partial_function (option) ascii_loop :: "nat \<Rightarrow> u8 \<Rightarrow> bytes \<Rightarrow> bytes option" where
  "ascii_loop n i s =
     (if unat i < n then ascii_loop n (i + 1) (s[unat i := ascii_nibble (s ! unat i)]) else Some s)"

declare ascii_loop.simps [code]

definition IntToString :: "bytes \<Rightarrow> u8 \<Rightarrow> bytes option" where
  "IntToString Integer SizeInByte =
     (case ascii_loop (unat SizeInByte * 2) 0 (nibbles (take (unat SizeInByte) Integer)) of
        None \<Rightarrow> None
      | Some s \<Rightarrow> Some (s @ [0]))"

section \<open>Module type\<close>

definition decode_ddr4_module_type :: "bytes \<Rightarrow> string option" where
  "decode_ddr4_module_type b =
     (if b ! 3 = 0x01 then Some ''RDIMM (Registered DIMM)''
      else if b ! 3 = 0x02 then Some ''UDIMM (Unbuffered DIMM)''
      else if b ! 3 = 0x03 then Some ''SODIMM (Small Outline Unbuffered DIMM)''
      else if b ! 3 = 0x04 then Some ''LRDIMM (Load-Reduced DIMM)''
      else if b ! 3 = 0x05 then Some ''Mini-RDIMM (Mini Registered DIMM)''
      else if b ! 3 = 0x06 then Some ''Mini-UDIMM (Mini Unbuffered DIMM)''
      else if b ! 3 = 0x08 then Some ''72b-SO-RDIMM (Small Outline Registered DIMM, 72-bit data bus)''
      else if b ! 3 = 0x09 then Some ''72b-SO-UDIMM (Small Outline Unbuffered DIMM, 72-bit data bus)''
      else if b ! 3 = 0x0c then Some ''16b-SO-UDIMM (Small Outline Unbuffered DIMM, 16-bit data bus)''
      else if b ! 3 = 0x0d then Some ''32b-SO-UDIMM (Small Outline Unbuffered DIMM, 32-bit data bus)''
      else None)"

section \<open>Module size\<close>

text \<open>The products are computed in \<open>int\<close>; a product outside its range is undefined.\<close>

definition int_mul :: "int \<Rightarrow> int \<Rightarrow> int outcome" where
  "int_mul a b = (if int32_range (a * b) then Defined (a * b) else Undefined Int_overflow)"

definition decode_ddr4_module_size :: "bytes \<Rightarrow> int outcome" where
  "decode_ddr4_module_size b =
     (let sdrcap = 256 * 2 ^ unat (b ! 4 AND 15);
          buswidth = 8 * 2 ^ unat (b ! 13 AND 7);
          sdrwidth = 4 * 2 ^ unat (b ! 12 AND 7);
          signal_loading = b ! 6 AND 3;
          lranks = int (unat (drop_bit 3 (b ! 12) AND 7)) + 1;
          lranks_per_dimm =
            (if signal_loading = 2 then lranks * (int (unat (drop_bit 4 (b ! 6) AND 7)) + 1) else lranks)
      in bind_outcome (int_mul (sdrcap div 8) buswidth) (\<lambda>x.
           bind_outcome (int_mul (x div sdrwidth) lranks_per_dimm) (\<lambda>size. Defined (size div 1024))))"

section \<open>Manufacturer\<close>

definition VENDORS_BANKS :: nat where "VENDORS_BANKS = 8"
definition VENDORS_ITEMS :: nat where "VENDORS_ITEMS = 128"

text \<open>
  An entry of the table by bank and index: the items behind the names of a bank are null, an index
  outside the row is undefined.
\<close>

definition vendor_item :: "nat \<Rightarrow> int \<Rightarrow> string option outcome" where
  "vendor_item bank i =
     (if i < 0 \<or> int VENDORS_ITEMS \<le> i then Undefined Oob_read
      else Defined (if nat i < length (vendors ! bank) then Some (vendors ! bank ! nat i) else None))"

definition decode_ddr4_manufacturer :: "bytes \<Rightarrow> string option outcome" where
  "decode_ddr4_manufacturer b =
     (let count = b ! 320; code = b ! 321 in
      if code = 0x00 \<or> code = 0xFF then Defined None
      else let bank = unat (count AND 0x7f); index = unat (code AND 0x7f) in
        if VENDORS_BANKS \<le> bank then Defined None
        else vendor_item bank (int index - 1))"

section \<open>Memory type\<close>

datatype RamType =
  UNKNOWN | DIRECT_RAMBUS | RAMBUS | FPM_DRAM | EDO | PIPELINED_NIBBLE | SDR_SDRAM | MULTIPLEXED_ROM
  | DDR_SGRAM | DDR_SDRAM | DDR2_SDRAM | DDR3_SDRAM | DDR4_SDRAM

fun ram_type_number :: "RamType \<Rightarrow> nat" where
  "ram_type_number UNKNOWN = 0"
| "ram_type_number DIRECT_RAMBUS = 1"
| "ram_type_number RAMBUS = 2"
| "ram_type_number FPM_DRAM = 3"
| "ram_type_number EDO = 4"
| "ram_type_number PIPELINED_NIBBLE = 5"
| "ram_type_number SDR_SDRAM = 6"
| "ram_type_number MULTIPLEXED_ROM = 7"
| "ram_type_number DDR_SGRAM = 8"
| "ram_type_number DDR_SDRAM = 9"
| "ram_type_number DDR2_SDRAM = 10"
| "ram_type_number DDR3_SDRAM = 11"
| "ram_type_number DDR4_SDRAM = 12"

definition decode_ram_type :: "bytes \<Rightarrow> RamType" where
  "decode_ram_type b =
     (if b ! 0 < 4 then
        (if b ! 2 = 1 then DIRECT_RAMBUS else if b ! 2 = 17 then RAMBUS else UNKNOWN)
      else if b ! 2 = 1 then FPM_DRAM
      else if b ! 2 = 2 then EDO
      else if b ! 2 = 3 then PIPELINED_NIBBLE
      else if b ! 2 = 4 then SDR_SDRAM
      else if b ! 2 = 5 then MULTIPLEXED_ROM
      else if b ! 2 = 6 then DDR_SGRAM
      else if b ! 2 = 7 then DDR_SDRAM
      else if b ! 2 = 8 then DDR2_SDRAM
      else if b ! 2 = 11 then DDR3_SDRAM
      else if b ! 2 = 12 then DDR4_SDRAM
      else UNKNOWN)"

definition ram_types :: "string list" where
  "ram_types =
     [''Unknown'', ''Direct Rambus'', ''Rambus'', ''FPM DRAM'', ''EDO'', ''Pipelined Nibble'',
      ''SDR SDRAM'', ''Multiplexed ROM'', ''DDR SGRAM'', ''DDR SDRAM'', ''DDR2'', ''DDR3'', ''DDR4'']"

section \<open>Lemmas\<close>

lemma ram_type_number_bound: "ram_type_number t < 13"
  by (cases t) simp_all

lemma vendors_banks: "length vendors = VENDORS_BANKS"
  by (simp add: vendors_def VENDORS_BANKS_def)

lemma vendors_rows: "list_all (\<lambda>row. length row \<le> VENDORS_ITEMS) vendors"
  by (simp add: vendors_def VENDORS_ITEMS_def vendors_bank0_def vendors_bank1_def vendors_bank2_def
      vendors_bank3_def vendors_bank4_def vendors_bank5_def vendors_bank6_def vendors_bank7_def)

lemma length_nibbles [simp]: "length (nibbles xs) = 2 * length xs"
  by (induction xs) (simp_all add: nibbles_def)

text \<open>For less than 128 bytes the loop over the nibbles ends with all of them rewritten.\<close>

lemma ascii_loop_ends:
  assumes "n < 256" "i \<le> n" "length s = n"
  shows "ascii_loop n (of_nat i) s = Some (take i s @ map ascii_nibble (drop i s))"
  using assms(2,3)
proof (induction "n - i" arbitrary: i s)
  case 0
  with assms(1) show ?case by (subst ascii_loop.simps) (simp add: unat_of_nat)
next
  case (Suc k)
  then have i: "i < n" by simp
  have u: "unat (of_nat i :: u8) = i" using i assms(1) by (simp add: unat_of_nat)
  let ?s = "s[i := ascii_nibble (s ! i)]"
  have "ascii_loop n (of_nat (Suc i)) ?s = Some (take (Suc i) ?s @ map ascii_nibble (drop (Suc i) ?s))"
    using Suc i by (intro Suc.hyps(1)) simp_all
  moreover have "take (Suc i) ?s @ map ascii_nibble (drop (Suc i) ?s) = take i s @ map ascii_nibble (drop i s)"
    using i Suc.prems by (simp add: take_Suc_conv_app_nth Cons_nth_drop_Suc[symmetric])
  ultimately show ?case
    using i u by (subst ascii_loop.simps) (simp add: add.commute)
qed

text \<open>From 128 bytes on the index never reaches the bound.\<close>

lemma ascii_loop_bound:
  assumes "ascii_loop n i s = Some r"
  shows "n < 256"
proof (rule ascii_loop.raw_induct[where P = "\<lambda>n i s r. n < 256", OF _ assms])
  fix loop :: "nat \<Rightarrow> u8 \<Rightarrow> bytes \<Rightarrow> bytes option" and n and i :: u8 and s r :: bytes
  assume IH: "\<And>n i s r. loop n i s = Some r \<Longrightarrow> n < 256"
    and run: "(if unat i < n then loop n (i + 1) (s[unat i := ascii_nibble (s ! unat i)]) else Some s) = Some r"
  show "n < 256"
  proof (cases "unat i < n")
    case True
    with run IH show ?thesis by simp
  next
    case False
    with unat_byte_less[of i] show ?thesis by simp
  qed
qed

lemma ascii_loop_forever: "256 \<le> n \<Longrightarrow> ascii_loop n i s = None"
  using ascii_loop_bound[of n i s] by (cases "ascii_loop n i s") auto

section \<open>Properties\<close>

text \<open>C36. Printing a serial number: fewer than 128 bytes are written as the two upper-case hexadecimal
  digits of each and a terminator; from 128 bytes on the loop never ends.\<close>

theorem int_to_string_hex:
  "IntToString xs k =
    (if 128 \<le> unat k then None
     else Some (map ascii_nibble (nibbles (take (unat k) xs)) @ [0]))"
  if "unat k \<le> length xs"
proof (cases "128 \<le> unat k")
  case True
  then show ?thesis by (simp add: IntToString_def ascii_loop_forever)
next
  case False
  have "ascii_loop (unat k * 2) (of_nat 0) (nibbles (take (unat k) xs)) =
      Some (map ascii_nibble (nibbles (take (unat k) xs)))"
    using ascii_loop_ends[of "unat k * 2" 0 "nibbles (take (unat k) xs)"] False that by simp
  then show ?thesis using False by (simp add: IntToString_def)
qed

theorem int_to_string_hex_witness:
  "IntToString [0x0f, 0xa3] 2 = Some [0x30, 0x46, 0x41, 0x33, 0]"
  using int_to_string_hex[of 2 "[0x0f, 0xa3]"] by (simp add: nibbles_def ascii_nibble_def)

text \<open>C34. The manufacturer is looked up inside the table for every SPD content except one: the code
  0x80 (a parity bit alone) of a known bank is an access before the start of the row.\<close>

theorem manufacturer_lookup_in_bounds:
  "is_defined (decode_ddr4_manufacturer b) \<longleftrightarrow>
     \<not> (b ! 321 = 0x80 \<and> unat (b ! 320 AND 0x7f) < VENDORS_BANKS)"
proof -
  let ?i = "unat (b ! 321 AND 0x7f)"
  have m: "b ! 321 AND 0x7f = b ! 321 AND mask 7" by (simp add: mask_eq_exp_minus_1)
  have "?i < 128" unfolding m unat_and_mask by simp
  moreover have "b ! 321 \<noteq> 0 \<Longrightarrow> ?i = 0 \<longleftrightarrow> b ! 321 = 0x80"
  proof -
    assume nz: "b ! 321 \<noteq> 0"
    then have "unat (b ! 321) \<noteq> 0" by (simp add: unat_eq_0)
    have "?i = 0 \<longleftrightarrow> unat (b ! 321) mod 128 = 0" unfolding m unat_and_mask by simp
    also have "\<dots> \<longleftrightarrow> unat (b ! 321) = 128"
    proof
      assume "unat (b ! 321) mod 128 = 0"
      then obtain k where "unat (b ! 321) = 128 * k" by (auto elim: dvdE simp: mod_eq_0_iff_dvd)
      with \<open>unat (b ! 321) \<noteq> 0\<close> unat_byte_less[of "b ! 321"] show "unat (b ! 321) = 128" by simp
    qed simp
    also have "\<dots> \<longleftrightarrow> b ! 321 = 0x80" by (simp add: word_unat_eq_iff)
    finally show ?thesis .
  qed
  moreover define i where "i = ?i"
  ultimately have "i < 128" "b ! 321 \<noteq> 0 \<Longrightarrow> i = 0 \<longleftrightarrow> b ! 321 = 0x80" by simp_all
  then show ?thesis
    unfolding decode_ddr4_manufacturer_def Let_def i_def[symmetric] vendor_item_def VENDORS_ITEMS_def
    by auto
qed

text \<open>Every SPD content has a memory type name: the lookup never leaves the array of names, and the
  bytes of a DDR4 module give its name.\<close>

theorem ram_type_named:
  "ram_type_number (decode_ram_type b) < length ram_types \<and>
   (4 \<le> b ! 0 \<and> b ! 2 = 12 \<longrightarrow> ram_types ! ram_type_number (decode_ram_type b) = ''DDR4'')"
  using ram_type_number_bound[of "decode_ram_type b"]
  by (auto simp: ram_types_def decode_ram_type_def not_less[symmetric])

theorem ram_type_named_witness:
  "ram_types ! ram_type_number (decode_ram_type [0x23, 0x11, 12]) = ''DDR4''"
  using ram_type_named[of "[0x23, 0x11, 12]"] by simp

lemma and_low_bits [simp]:
  "unat ((x :: u8) AND 15) = unat x mod 16" "unat (x AND 7) = unat x mod 8" "unat (x AND 3) = unat x mod 4"
  using unat_and_mask[of x 4] unat_and_mask[of x 3] unat_and_mask[of x 2]
  by (simp_all add: mask_eq_exp_minus_1)

lemma int_mul_nat:
  "int_mul (int a) (int b) = (if a * b < 2 ^ 31 then Defined (int (a * b)) else Undefined Int_overflow)"
proof -
  have "int a * int b < 2 ^ 31 \<longleftrightarrow> a * b < 2 ^ 31" by (simp flip: of_nat_mult)
  moreover have "- (2 ^ 31) \<le> int a * int b" by (rule order_trans[of _ 0]) simp_all
  ultimately show ?thesis by (simp add: int_mul_def int32_range_def)
qed

definition spd_ranks :: "bytes \<Rightarrow> nat" where
  "spd_ranks b = (bitfield 3 3 (b ! 12) + 1) * (if bitfield 0 2 (b ! 6) = 2 then bitfield 4 3 (b ! 6) + 1 else 1)"

text \<open>C35. The size of a module in closed form: with the codes \<open>c\<close>, \<open>w\<close> and \<open>d\<close> of die capacity, bus
  width and device width, the module has \<open>2 ^ (8 + c + w) div 2 ^ (2 + d)\<close> MB per rank; the number
  of ranks counts the dies of a stack only for 3DS signal loading. The result is that number of GB,
  or an overflow of \<open>int\<close> when the MB of all ranks reach \<open>2 ^ 31\<close>.\<close>

theorem module_size_closed_form:
  "decode_ddr4_module_size b =
    (let mb = 2 ^ (8 + bitfield 0 4 (b ! 4) + bitfield 0 3 (b ! 13)) div 2 ^ (2 + bitfield 0 3 (b ! 12)) *
              spd_ranks b
     in if mb < 2 ^ 31 then Defined (int (mb div 1024)) else Undefined Int_overflow)"
proof -
  let ?c = "unat (b ! 4) mod 16" and ?w = "unat (b ! 13) mod 8" and ?d = "unat (b ! 12) mod 8"
  have cap: "(256 * 2 ^ ?c) div (8 :: int) = 2 ^ (5 + ?c)"
    by (simp add: power_add)
  have "?c \<le> 15" "?w \<le> 7" using pos_mod_bound by simp_all
  then have "(2 :: int) ^ (8 + ?c + ?w) \<le> 2 ^ 30" by (intro power_increasing) simp_all
  then have hi: "(2 :: int) ^ (8 + ?c + ?w) < 2 ^ 31" by simp
  have lo: "- (2 ^ 31) \<le> (2 :: int) ^ (8 + ?c + ?w)" by (rule order_trans[of _ 0]) simp_all
  have pr: "2 ^ (5 + ?c) * (8 * 2 ^ ?w) = (2 :: int) ^ (8 + ?c + ?w)" by (simp add: power_add)
  have m1: "int_mul (2 ^ (5 + ?c)) (8 * 2 ^ ?w) = Defined (2 ^ (8 + ?c + ?w))"
    by (simp only: int_mul_def int32_range_def pr lo hi simp_thms if_True)
  have q: "(2 ^ (8 + ?c + ?w) :: int) div (4 * 2 ^ ?d) = int (2 ^ (8 + ?c + ?w) div 2 ^ (2 + ?d))"
    by (simp add: zdiv_int power_add)
  have load: "b ! 6 AND 3 = 2 \<longleftrightarrow> unat (b ! 6) mod 4 = 2"
    by (simp add: word_unat_eq_iff)
  have r: "(if b ! 6 AND 3 = 2
            then (int (unat (drop_bit 3 (b ! 12) AND 7)) + 1) * (int (unat (drop_bit 4 (b ! 6) AND 7)) + 1)
            else int (unat (drop_bit 3 (b ! 12) AND 7)) + 1) = int (spd_ranks b)"
    by (simp add: spd_ranks_def load bitfield_def unat_drop_bit algebra_simps)
  show ?thesis
    unfolding decode_ddr4_module_size_def Let_def r
    unfolding and_low_bits cap m1 bind_outcome.simps q int_mul_nat
    by (simp add: bitfield_def zdiv_int)
qed

text \<open>The codes of the large DRAM makers are decoded to their names, so the table stands at the
  offset its index assumes.\<close>

theorem known_manufacturers:
  "list_all (\<lambda>(count, code, name).
      decode_ddr4_manufacturer ((replicate 512 0)[320 := count, 321 := code]) = Defined (Some name))
    [(0x80, 0x2c, ''Micron Technology''), (0x80, 0xce, ''Samsung''), (0x80, 0xad, ''SK Hynix (former Hyundai Electronics)''),
     (0x01, 0x98, ''Kingston''), (0x04, 0xcb, ''A-DATA Technology'')]"
  by (simp add: decode_ddr4_manufacturer_def vendor_item_def vendors_def VENDORS_BANKS_def VENDORS_ITEMS_def
      vendors_bank0_def vendors_bank1_def vendors_bank4_def)

end
