(* ===== verification/Display.thy ===== *)
theory Display
  imports Output
begin

text \<open>
  The printing helpers of \<open>cxl/src\<close>: \<open>ltssm_states.c\<close>, \<open>pcie_eye.c\<close>, \<open>cxl_link.c\<close>,
  \<open>membridge_err.c\<close> and the error, initialisation and training displays of \<open>ddr.c\<close>. A pointer
  argument is an option, \<open>None\<close> for the null pointer. The two-dimensional arrays of the training
  data are lists in row order.
\<close>

definition null_line :: line where
  "null_line = (''Null pointer, cannot display structure^r^n'', [])"

section \<open>Link states\<close>

definition ltssm_state_name :: "string list" where
  "ltssm_state_name = [
     ''DETECT_QUIET'', ''DETECT_ACT'',
     ''POLL_ACTIVE'', ''POLL_COMPLIANCE'',
     ''POLL_CONFIG'', ''PRE_DETECT_QUIET'',
     ''DETECT_WAIT'', ''CFG_LINKWD_START'',
     ''CFG_LINKWD_ACEPT'', ''CFG_LANENUM_WAIT'',
     ''CFG_LANENUM_ACEPT'', ''CFG_COMPLETE'',
     ''CFG_IDLE'', ''RCVRY_LOCK'',
     ''RCVRY_SPEED'', ''RCVRY_RCVRCFG'',
     ''RCVRY_IDLE'', ''L0'',
     ''L0S'', ''L123_SEND_EIDLE'',
     ''L1_IDLE'', ''L2_IDLE'',
     ''L2_WAKE'', ''DISABLED_ENTRY'',
     ''DISABLED_IDLE'', ''DISABLED'',
     ''LPBK_ENTRY'', ''LPBK_ACTIVE'',
     ''LPBK_EXIT'', ''LPBK_EXIT_TIMEOUT'',
     ''HOT_RESET_ENTRY'', ''HOT_RESET'',
     ''RCVRY_EQ0'', ''RCVRY_EQ1'',
     ''RCVRY_EQ2'', ''RCVRY_EQ3'']"

section \<open>Eye diagrams\<close>

definition display_rx_setttings :: "rx_settings option \<Rightarrow> line list" where
  "display_rx_setttings p =
     (case p of None \<Rightarrow> [null_line]
      | Some r \<Rightarrow>
         [(''rx_settings: ^n'', []),
          (''dlv0123 = [%d, %d, %d, %d],'', [I32 (rx_dlev00_signed r), I32 (rx_dlev01_signed r), I32 (rx_dlev10_signed r), I32 (rx_dlev11_signed r)]),
          (''*vga, aeq = [%d, %d],'', [I32 (rx_vga r), I32 (rx_aeq r)]),
          (''h2-9 = [%d, %d, %d, %d, %d, %d, %d, %d],'', [I32 (rx_h2 r), I32 (rx_h3 r), I32 (rx_h4 r), I32 (rx_h5 r), I32 (rx_h6 r), I32 (rx_h7 r), I32 (rx_h8 r), I32 (rx_h9 r)]),
          (''appmd, rxrt, shd, wm = [%d, %d, '' @ [CHR 0x27] @ ''g%d'' @ [CHR 0x27] @ '', %d],'', [I32 (rx_appmd r), I32 (rx_rxrt r), I32 (rx_shd r), I32 (rx_wm r)]),
          (''h1ne/0, pe/o = [%d %d %d %d],'', [I32 (rx_h1ne r), I32 (rx_h1no r), I32 (rx_h1pe r), I32 (rx_h1po r)]),
          (''iskw, qskw = [%d %d]'', [I32 (rx_iskew_signed r), I32 (rx_qskew_signed r)]),
          (''^n'', [])])"

definition display_merged_eye_results :: "eyescope_results option \<Rightarrow> line list" where
  "display_merged_eye_results p =
     (case p of None \<Rightarrow> [null_line]
      | Some r \<Rightarrow>
         [(''Merged Top (mV): %f^n'', [F64 (merged_vertical_eye_top r)]),
          (''Merged Bottom (mV): %f^n'', [F64 (merged_vertical_eye_bottom r)]),
          (''Merged Right Eye (UI): %f^n'', [F64 (merged_horizontal_eye_right r)]),
          (''Merged Left Eye (UI): %f^n'', [F64 (merged_horizontal_eye_left r)])])"

section \<open>Link errors\<close>

definition corr_errors_list :: "string list" where
  "corr_errors_list = [
     ''CORR_CACHE_DATA_ECC'', ''CORR_MEM_DATA_ECC'',
     ''CORR_CRC_THRESHOLD'', ''CORR_RETRY_THRESHOLD'',
     ''CACHE_POISON_RVD'', ''MEM_POISON_RVD'',
     ''PHY_LAYER_ERR'']"

definition uncorr_errors_list :: "string list" where
  "uncorr_errors_list = [
     ''CACHE_DATA_PAR'', ''CACHE_ADD_PAR'',
     ''CACHE_BE_PAR'', ''CACHE_DATA_ECC'',
     ''MEM_DATA_PAR'', ''MEM_ADD_PAR'',
     ''MEM_BE_PAR'', ''MEM_DATA_ECC'',
     ''REINIT_THRESHOLD'', ''ENCOD_VIOLATION'',
     ''POISON_RVD'', ''RCVR_OVERFLOW'',
     ''RSVDP_12'', ''RSVDP_13'',
     ''CXL_INTERNAL_ERR'', ''CXL_IDE_TX_ER'',
     ''CXL_IDE_RX_ER'']"

definition cxl_cfg_errors_list :: "string list" where
  "cxl_cfg_errors_list = [
     ''UNCOR_INTERNAL_ERR_STS'', ''SURPRISE_DOWN_ER_STS'',
     ''REPLAY_TIMER_TIMEOUT_ERR_STS'', ''REPLAY_NUMBER_ROLLOVER_ERR_STS'',
     ''RCVR_OVERFLOW_ERR_STS'', ''RCVR_ERR_STS'',
     ''MLF_TLP_ERR_STS'', ''FC_PROTOCOL_ERR_STS'',
     ''ECRC_ERR_STS'', ''DL_PROTOCOL_ERR_STS'',
     ''CORRECTED_INTERNAL_ERR_STS'', ''BAD_TLP_ERR_STS'',
     ''BAD_DLLP_ERR_STS'']"

definition display_cxl_error_info :: "cxl_err_cntr option \<Rightarrow> line list" where
  "display_cxl_error_info p =
     (case p of None \<Rightarrow> [null_line]
      | Some r \<Rightarrow>
         (''Correctable Error : ^n'', []) #
         map (\<lambda>i. (''cxl : %25s  : %4d ^n'', [Str (corr_errors_list ! i), I32 (corr_err r ! i)])) [0..<7] @
         (''UnCorrectable Error : ^n'', []) #
         map (\<lambda>i. (''cxl : %25s  : %4d ^n'', [Str (uncorr_errors_list ! i), I32 (uncorr_err r ! i)])) [0..<17] @
         (''Cxl Cfg status Error : ^n'', []) #
         map (\<lambda>i. (''cxl : %25s  : %4d ^n'', [Str (cxl_cfg_errors_list ! i), I32 (cxl_conf_err r ! i)])) [0..<13] @
         [(''Total count of Correctable errors %ld^n'', [I64 (total_corr_err_cnt r)]),
          (''Total count of Uncorrectable errors %ld^n'', [I64 (total_uncorr_err_cnt r)]),
          (''Total count of cxl_cfg errors %ld^n'', [I64 (total_cxl_cfg_err_cnt r)]),
          (''Total number of errors %ld^n'', [I64 (total_err_cnt r)])])"

section \<open>Memory bridge\<close>

definition ddr_parity_error_strings :: "string list" where
  "ddr_parity_error_strings = [
     ''WSTRB_PARITY_ERROR'', ''WDATA_PARITY_ERROR'',
     ''RDATA_RRESP_PARITY_ERROR'', ''RDATA_RESP_RID_PARITY_ERROR'',
     ''RDATA_PARITY_ERROR'', ''R_RESP_PARITY_ERROR'',
     ''B_RESP_PARITY_ERROR'', ''AW_QOS_PARITY_ERROR'',
     ''AW_MISC_PARITY_ERROR'', ''AW_ID_PARITY_ERROR'',
     ''AW_ADDR_RANGE_PARITY_ERROR'', ''AW_ADDR_PARITY_ERROR'',
     ''AR_QOS_PARITY_ERROR'', ''AR_MISC_PARITY_ERROR'',
     ''AR_ID_PARITY_ERROR'', ''AR_ADDR_RANGE_PARITY_ERROR'',
     ''AR_ADDR_PARITY_ERROR'', ''AXI_B_ID_PARITY_ERROR'',
     ''AXI_B_PARITY_ERROR'', ''AXI_R_ID_PARITY_ERROR'',
     ''AXI_R_DATA_PARITY_ERROR'', ''AXI_R_PARITY_ERROR'']"

definition fifo_error_strings :: "string list" where
  "fifo_error_strings = [
     ''S2M_NDR_FIFO'', ''S2M_DRC_FIFO'',
     ''M2S_RWD_FIFO'', ''M2S_REQ_FIFO'',
     ''DDR1_W_REQ_FIFO'', ''DDR1_RDATA_RESP_FIFO'',
     ''DDR1_R_RESP_FIFO'', ''DDR1_B_RESP_FIFO'',
     ''DDR1_AW_REQ_FIFO'', ''DDR1_AR_REQ_FIFO'',
     ''DDR0_W_REQ_FIFO'', ''DDR0_RDATA_RESP_FIFO'',
     ''DDR0_R_RESP_FIFO'', ''DDR0_B_RESP_FIFO'',
     ''DDR0_AW_REQ_FIFO'', ''DDR0_AR_REQ_FIFO'']"

definition parity_error_strings :: "string list" where
  "parity_error_strings = [
     ''NDR_TAG_PARITY_ERROR'', ''NDR_RESP_PARITY_ERROR'',
     ''M2S_RWD_ECC_CHECK_ERR_MULTPL_FAIL'', ''M2S_RWD_ECC_CHECK_ERR_DETECT_FAIL'',
     ''M2S_REQ_ECC_CHECK_ERR_MULTPL_FAIL'', ''M2S_REQ_ECC_CHECK_ERR_DETECT_FAIL'',
     ''DRC_TAG_PARITY_ERROR'', ''DRC_RESP_PARITY_ERROR'',
     ''DRC_DATA_PARITY_ERROR'', ''AW_MST_RWD_PARITY_ERROR'',
     ''AR_MST_REQ_PARITY_ERROR'', ''M2S_REQ_DUP_ADDR_PARITY_ERROR'',
     ''M2S_RWD_DUP_ADDR_PARITY_ERROR'']"

definition membridge_common_error_strings :: "string list" where
  "membridge_common_error_strings = [
     ''MST_M2S_RWD_ERR_MULTPL'', ''MST_M2S_RWD_ERR_DETECT'',
     ''MST_M2S_REQ_ERR_MULTPL'', ''MST_M2S_REQ_ERR_DETECT'',
     ''POISON_RECEIVED_IN_RWD'', ''RWD_ADDRESS_INVALID'',
     ''REQ_ADDRESS_INVALID'', ''DDR1_RRESP_ERROR'',
     ''DDR1_BRESP_ERROR'', ''DDR0_RRESP_ERROR'',
     ''DDR0_BRESP_ERROR'', ''DDR1_RPARITY_ERROR'',
     ''DDR1_BPARITY_ERROR'', ''DDR0_RPARITY_ERROR'',
     ''DDR0_BPARITY_ERROR'', ''HDM_DEC1_ERR_NOT_COMMITED'',
     ''RX_DEINIT_TIMEOUT'', ''TX_DEINIT_TIMEOUT'',
     ''VIRAL'', ''DDR0_BRESP_DEC_ERROR'',
     ''DDR1_BRESP_DEC_ERROR'', ''DDR0_RRESP_DEC_ERROR'',
     ''DDR1_RRESP_DEC_ERROR'']"

text \<open>A line for every counter of a table that is not 0.\<close>

definition nonzero_counters :: "string list \<Rightarrow> u32 list \<Rightarrow> nat \<Rightarrow> line list" where
  "nonzero_counters names counters n =
     concat (map (\<lambda>idx. if counters ! idx \<noteq> 0
                        then [(''%s : 0x%x^n'', [Str (names ! idx), I32 (counters ! idx)])] else []) [0..<n])"

definition display_membridge_errors :: "membridge_errors option \<Rightarrow> line list" where
  "display_membridge_errors p =
     (case p of None \<Rightarrow> [null_line]
      | Some r \<Rightarrow>
         (''fifo_overflow errors : %d^n'', [I32 (fifo_overflow r)]) #
         nonzero_counters fifo_error_strings (fifo_overflows r) 16 @
         (''fifo_underflow errors : %d^n'', [I32 (fifo_underflow r)]) #
         nonzero_counters fifo_error_strings (fifo_underflows r) 16 @
         (''ddr0 parity errors : %d^n'', [I32 (ddr0_parity_error r)]) #
         nonzero_counters ddr_parity_error_strings (ddr0_parity_errors r) 22 @
         (''ddr1 parity errors : %d^n'', [I32 (ddr1_parity_error r)]) #
         nonzero_counters ddr_parity_error_strings (ddr1_parity_errors r) 22 @
         (''membridge common errors :^n'', []) #
         nonzero_counters membridge_common_error_strings (mb_common_errors r) 23 @
         (''parity errors : %d^n'', [I32 (mb_parity_error r)]) #
         nonzero_counters parity_error_strings (mb_parity_errors r) 13)"

definition display_membridge_stats :: "membridge_stats option \<Rightarrow> line list" where
  "display_membridge_stats p =
     (case p of None \<Rightarrow> [null_line]
      | Some r \<Rightarrow>
         [(''m2s_req_count:              %lu^n'', [I64 (ms_m2s_req_count r)]),
          (''m2s_rwd_count:              %lu^n'', [I64 (ms_m2s_rwd_count r)]),
          (''s2m_drs_count:              %lu^n'', [I64 (ms_s2m_drs_count r)]),
          (''s2m_ndr_count:              %lu^n'', [I64 (ms_s2m_ndr_count r)]),
          (''rwd_first_poison_hpa:       0x%lx^n'', [I64 (ms_rwd_first_poison_hpa_log r)]),
          (''rwd_latest_poison_hpa:      0x%lx^n'', [I64 (ms_rwd_latest_poison_hpa_log r)]),
          (''req_first_hpa_log:          0x%lx^n'', [I64 (ms_req_first_hpa_log r)]),
          (''rwd_first_hpa_log:          0x%lx^n'', [I64 (ms_rwd_first_hpa_log r)]),
          (''m2s_req_corr_err_count:     %u^n'', [I32 (ms_mst_m2s_req_corr_err_count r)]),
          (''m2s_rwd_corr_err_count:     %u^n'', [I32 (ms_mst_m2s_rwd_corr_err_count r)]),
          (''fifo_full_status:           0x%x^n'', [I32 (ms_fifo_full_status r)]),
          (''fifo_empty_status:          0x%x^n'', [I32 (ms_fifo_empty_status r)]),
          (''m2s_rwd_credit_count:       %u^n'', [U8 (ms_m2s_rwd_credit_count r)]),
          (''m2s_req_credit_count:       %u^n'', [U8 (ms_m2s_req_credit_count r)]),
          (''s2m_ndr_credit_count:       %u^n'', [U8 (ms_s2m_ndr_credit_count r)]),
          (''s2m_drc_credit_count:       %u^n'', [U8 (ms_s2m_drc_credit_count r)]),
          (''rx_status_rx_deinit:        0x%x^n'', [U8 (ms_rx_fsm_status_rx_deinit r)]),
          (''rx_status_m2s_req:          0x%x^n'', [U8 (ms_rx_fsm_status_m2s_req r)]),
          (''rx_status_m2s_rwd:          0x%x^n'', [U8 (ms_rx_fsm_status_m2s_rwd r)]),
          (''rx_status_ddr0_ar_req:      0x%x^n'', [U8 (ms_rx_fsm_status_ddr0_ar_req r)]),
          (''rx_status_ddr0_aw_req:      0x%x^n'', [U8 (ms_rx_fsm_status_ddr0_aw_req r)]),
          (''rx_status_ddr0_w_req:       0x%x^n'', [U8 (ms_rx_fsm_status_ddr0_w_req r)]),
          (''rx_status_ddr1_ar_req:      0x%x^n'', [U8 (ms_rx_fsm_status_ddr1_ar_req r)]),
          (''rx_status_ddr1_aw_req:      0x%x^n'', [U8 (ms_rx_fsm_status_ddr1_aw_req r)]),
          (''rx_status_ddr1_w_req:       0x%x^n'', [U8 (ms_rx_fsm_status_ddr1_w_req r)]),
          (''tx_status_tx_deinit:        0x%x^n'', [U8 (ms_tx_fsm_status_tx_deinit r)]),
          (''tx_status_s2m_ndr:          0x%x^n'', [U8 (ms_tx_fsm_status_s2m_ndr r)]),
          (''tx_status_s2m_drc:          0x%x^n'', [U8 (ms_tx_fsm_status_s2m_drc r)]),
          (''qos_tel_dev_load_read:      %u^n'', [U8 (ms_stat_qos_tel_dev_load_read r)]),
          (''qos_tel_dev_load_type2_read:%u^n'', [U8 (ms_stat_qos_tel_dev_load_type2_read r)]),
          (''qos_tel_dev_load_write:     %u^n'', [U8 (ms_stat_qos_tel_dev_load_write r)])])"

section \<open>DDR errors and initialisation\<close>

text \<open>One test and line of \<open>display_error_count\<close>.\<close>

definition error_line :: "nat \<Rightarrow> u32 \<Rightarrow> string \<Rightarrow> line list" where
  "error_line ddr_id counter fmt = (if counter \<noteq> 0 then [(fmt, [Idx ddr_id, I32 counter])] else [])"

definition display_error_count :: "ddr_controller_errors list option \<Rightarrow> nat \<Rightarrow> line list outcome" where
  "display_error_count p ddr_id =
     (case p of None \<Rightarrow> Defined [null_line]
      | Some errs \<Rightarrow> bind_outcome (at errs ddr_id) (\<lambda>e. Defined (concat
         [error_line ddr_id (parity_crit_bit2_cnt (err_parity e))
            ''DDR-%d: FATAL: Parity error on the address/control bus (parity_crit_bit2_cnt= %u)^n'',
          error_line ddr_id (parity_crit_bit1_cnt (err_parity e))
            ''DDR-%d: FATAL: Overlapping write data parity error (parity_crit_bit1_cnt= %u)^n'',
          error_line ddr_id (parity_crit_bit0_cnt (err_parity e))
            ''DDR-%d: FATAL: Write data parity error (parity_crit_bit0_cnt= %u)^n'',
          error_line ddr_id (dfi_crit_bit5_cnt (err_dfi e))
            ''DDR-%d: FATAL: DFI tINIT_COMPLETE value has timed out (dfi_crit_bit5_cnt= %u)^n'',
          error_line ddr_id (dfi_crit_bit2_cnt (err_dfi e))
            ''DDR-%d: FATAL : Error received from the PHY on the DFI bus (dfi_crit_bit2_cnt= %u)^n'',
          error_line ddr_id (dfi_warn_bit1_cnt (err_dfi e))
            ''DDR-%d: WARN: DFI PHY Master Interface error has occurred (dfi_warn_bit1_cnt= %u)^n'',
          error_line ddr_id (dfi_warn_bit0_cnt (err_dfi e))
            ''DDR-%d: WARN: DFI update error has occurred (dfi_warn_bit0_cnt= %u)^n'',
          error_line ddr_id (crc_crit_bit1_cnt (err_crc e))
            ''DDR-%d: FATAL: CA Parity or a CRC error happened during CRC Retry (crc_crit_bit1_cnt= %u)^n'',
          error_line ddr_id (crc_crit_bit0_cnt (err_crc e))
            ''DDR-%d: FATAL: CRC error occurred on the write data bus (crc_crit_bit0_cnt= %u)^n'',
          error_line ddr_id (userif_crit_bit2_cnt (err_userif e))
            ''DDR-%d: FATAL: Error occurred on the port command channel (userif_crit_bit2_cnt= %u)^n'',
          error_line ddr_id (userif_crit_bit1_cnt (err_userif e))
            ''DDR-%d: FATAL: Multiple accesses outside the defined PHYSICAL memory space have occurred (userif_crit_bit1_cnt= %u)^n'',
          error_line ddr_id (userif_crit_bit0_cnt (err_userif e))
            ''DDR-%d: FATAL: A Memory access outside the defined PHYSICAL memory space has occurred (userif_crit_bit0_cnt= %u)^n'',
          error_line ddr_id (ecc_warn_bit6_cnt (err_ecc e))
            ''DDR-%d: WARN: One or more ECC writeback commands could not be executed (ecc_warn_bit6_cnt= %u)^n'',
          error_line ddr_id (ecc_crit_bit3_cnt (err_ecc e))
            ''DDR-%d:FATAL: Multiple uncorrectable ECC events have been detected (ecc_crit_bit3_cnt= %u)^n'',
          error_line ddr_id (ecc_crit_bit2_cnt (err_ecc e))
            ''DDR-%d: FATAL: A uncorrectable ECC event has been detected (ecc_crit_bit2_cnt= %u)^n'',
          error_line ddr_id (ecc_crit_bit8_cnt (err_ecc e))
            ''DDR-%d: CRIT: An ECC correctable error has been detected in a scrubbing read operation (ecc_crit_bit8_cnt= %u)^n'',
          error_line ddr_id (ecc_warn_bit1_cnt (err_ecc e))
            ''DDR-%d: WARN: Multiple correctable ECC events have been detected (ecc_warn_bit1_cnt= %u)^n'',
          error_line ddr_id (ecc_warn_bit0_cnt (err_ecc e))
            ''DDR-%d: WARN: A correctable ECC event has been detected (ecc_warn_bit0_cnt= %u)^n''])))"

definition display_ddr_init_status :: "ddr_init_status option \<Rightarrow> line list" where
  "display_ddr_init_status p =
     (case p of None \<Rightarrow> [null_line]
      | Some s \<Rightarrow>
         let st = init_status s; status = sint (ddr_init_code st);
             ch = S8 (failed_channel_id st); dimm = U8 (failed_dimm_silk_screen st) in
         if status = 0 then [(''DDR INIT IS IN PROGRESS^n'', [])]
         else if status = 1 then [(''DDR INIT PASSED^n'', [])]
         else if status = -1 then
           [(''DDR INIT FAILED for CH:%d DIMM:%c^n'', [ch, dimm]),
            (''RECOVERY REMEDY: REPLACE CH:%d DIMM:%c and RE-TRY^n'', [ch, dimm])]
         else if status = -2 then
           [(''DDR INIT FAILED. CH:%d DIMM:%c is NOT PLUGGED IN^n'', [ch, dimm]),
            (''RECOVERY REMEDY: PLUG IN CH:%d DIMM:%c^n'', [ch, dimm])]
         else if status = -3 then
           [(''DDR INIT FAILED. UN-SUPPORTED/UNKNOWN DIMM^n'', []),
            (''RECOVERY REMEDY: PLUG IN SUPPORTED DIMMs^n'', [])]
         else [(''DDR INIT STATUS invalid^n'', [])])"

section \<open>DIMM training\<close>

text \<open>The field \<open>fmask\<close> of a register, shifted down.\<close>

definition field :: "u32 \<Rightarrow> nat \<Rightarrow> u32 \<Rightarrow> arg" where
  "field fmask k read_data = I32 (drop_bit k (read_data AND fmask))"

definition print_ddr_phy_pll_status :: "nat \<Rightarrow> ddr_phy_pll_status option \<Rightarrow> line list" where
  "print_ddr_phy_pll_status inst p =
     (case p of None \<Rightarrow> [null_line]
      | Some s \<Rightarrow>
         [(''DDR%d PHY PLL Status: ^n'', [Idx inst]),
          (''^tOBS0: ^n'', []),
          (''^t^tPLL Lock Status   = %d ^n'', [field 1 0 (bs0_status s)]),
          (''^t^tReady^t^t^t = %d ^n'', [field 0x2 1 (bs0_status s)]),
          (''^t^tLock assert count = 0x%x ^n'', [field 0x7F8 3 (bs0_status s)]),
          (''^tOBS1: ^n'', []),
          (''^t^tPLL Lock Status   = %d ^n'', [field 1 0 (bs1_status s)]),
          (''^t^tReady^t^t^t = %d ^n'', [field 0x2 1 (bs1_status s)]),
          (''^t^tLock assert count = 0x%x ^n^n'', [field 0x7F8 3 (bs1_status s)])])"

text \<open>
  One row of nine nibble flags: the first call prints the title and the first flag, the last one
  ends the line.
\<close>

definition nibble_row :: "string \<Rightarrow> u32 \<Rightarrow> nat \<Rightarrow> u32 list \<Rightarrow> line list" where
  "nibble_row title fmask k regs =
     (title, [field fmask k (regs ! 0)]) #
     map (\<lambda>i. (''^t %d'', [field fmask k (regs ! i)])) [1..<8] @
     [(''^t %d^n'', [field fmask k (regs ! 8)])]"

definition print_write_levelling_status :: "nat \<Rightarrow> ddr_wr_levelling_status option \<Rightarrow> line list" where
  "print_write_levelling_status inst p =
     (case p of None \<Rightarrow> [null_line]
      | Some s \<Rightarrow>
         (''^t^tBYTE# ^t^t^t^t 0 ^t 1 ^t 2 ^t 3 ^t 4 ^t 5 ^t 6 ^t 7 ^t 8^n'', []) #
         nibble_row ''^t^tLOWER NIBBLE ERROR FLAG ^t %d'' 0x1000 12 (wl_lower_nibble_err s) @
         nibble_row ''^t^tUPPER NIBBLE ERROR FLAG ^t %d'' 0x4000 14 (wl_upper_nibble_err s))"

definition print_read_gate_training_status :: "nat \<Rightarrow> ddr_read_gate_training_status option \<Rightarrow> line list" where
  "print_read_gate_training_status inst p =
     (case p of None \<Rightarrow> [null_line]
      | Some s \<Rightarrow>
         (''^t^tBYTE# ^t^t^t^t 0 ^t 1 ^t 2 ^t 3 ^t 4 ^t 5 ^t 6 ^t 7 ^t 8^n'', []) #
         nibble_row ''^t^tLOWER NIBBLE MIN ERROR ^t^t %d'' 0x80 7 (lower_nibble_min_err s) @
         nibble_row ''^t^tLOWER NIBBLE MAX ERROR ^t^t %d'' 0x100 8 (lower_nibble_max_err s) @
         nibble_row ''^t^tUPPER NIBBLE MIN ERROR ^t^t %d'' 0x200 9 (upper_nibble_min_err s) @
         nibble_row ''^t^tUPPER NIBBLE MAX ERROR ^t^t %d'' 0x400 10 (upper_nibble_max_err s))"

definition print_ddr_training_status :: "nat \<Rightarrow> ddr_dimm_training_status option \<Rightarrow> line list" where
  "print_ddr_training_status inst p =
     (case p of None \<Rightarrow> [null_line]
      | Some s \<Rightarrow>
         [(''DDR%d TRAINING STATUS: ^n'', [Idx inst]),
          (''^tWRITE LEVELLING STATUS: ^n'', [])] @
         print_write_levelling_status inst (Some (wr_levl_status s)) @
         [(''^n^tREAD GATE TRAINING STATUS: ^n'', [])] @
         print_read_gate_training_status inst (Some (rd_gate_tr_status s)))"

definition print_margin_vref_low_high :: "fpu \<Rightarrow> nat \<Rightarrow> ddr_dimm_training_status option \<Rightarrow> line list" where
  "print_margin_vref_low_high fp inst p =
     (case p of None \<Rightarrow> [null_line]
      | Some s \<Rightarrow>
         let v = vref_data s; d = wdq_vref_data s; c = wdq_vref_data_cs s in
         [(''DDR%d MARGIN VALUES:^n'', [Idx inst]),
          (''^tREAD LEVEL VREF: ^n'', []),
          (''^t^t^t^t^t^t^t VREF_LOW   VREF_LOW_VOLT(mV)   VREF_HIGH   VREF_HIGH_VOLT(mV)   VREF_MARGIN(mV)^n'', [])] @
         concat (map (\<lambda>i.
           [(''^t^tSlice%d Lower Nibble:   '', [Idx i]),
            (''%04.2f^t^t^t  '', [F32 (lower_nibble_vref_low_volt v ! i)]),
            (''%04.2f^t^t^t'', [F32 (lower_nibble_vref_high_volt v ! i)]),
            (''%0.2f^n'', [F32 (f_sub fp (lower_nibble_vref_high_volt v ! i) (lower_nibble_vref_low_volt v ! i))]),
            (''^t^tSlice%d Upper Nibble:   '', [Idx i]),
            (''%04.2f^t^t^t  '', [F32 (upper_nibble_vref_low_volt v ! i)]),
            (''%04.2f^t^t^t'', [F32 (upper_nibble_vref_high_volt v ! i)]),
            (''%0.2f^n^n'', [F32 (f_sub fp (upper_nibble_vref_high_volt v ! i) (upper_nibble_vref_low_volt v ! i))])]) [0..<9]) @
         [(''^tWRITE DQ LEVEL VREF: ^n'', []),
          (''^t^t^t^t^t^t^t VREF_LOW   VREF_LOW_VOLT(mV)   VREF_HIGH   VREF_HIGH_VOLT(mV)   VREF_MARGIN(mV)^n'', [])] @
         concat (map (\<lambda>i.
           [(''^t^tCS0 Device%d :^t'', [Idx i]),
            (''%04.1f^t^t^t'', [F32 (vref_low_volt d ! i)]),
            (''%04.1f^t^t^t  '', [F32 (vref_high_volt d ! i)]),
            (''%0.1f^t^t  ^n'', [F32 (f_sub fp (vref_high_volt d ! i) (vref_low_volt d ! i))])]) [0..<18]) @
         concat (map (\<lambda>j. concat (map (\<lambda>i.
           [(''^t^tCS%d Device%d :^t'', [Idx j, Idx i]),
            (''%04.1f^t^t^t'', [F32 (vref_low_volt_cs c ! (18 * j + i))]),
            (''%04.1f^t^t^t  '', [F32 (vref_high_volt_cs c ! (18 * j + i))]),
            (''%0.1f^t^t   ^n'', [F32 (f_sub fp (vref_high_volt_cs c ! (18 * j + i)) (vref_low_volt_cs c ! (18 * j + i)))])]) [0..<18]) @
           [(''^n'', [])]) [1..<4]))"

text \<open>
  A table of delay windows: nine slices of eight bits, each with trailing and leading edge and their
  difference.
\<close>

definition delay_window ::
  "fpu \<Rightarrow> u32 list \<Rightarrow> float32 list \<Rightarrow> u32 list \<Rightarrow> float32 list \<Rightarrow> line list" where
  "delay_window fp te_data te_time le_data le_time =
     concat (map (\<lambda>j. concat (map (\<lambda>i.
       [(''^t^tSLICE%d BIT%d   '', [Idx j, Idx i]),
        (''%d^t  '', [I32 (te_data ! (8 * j + i))]),
        (''%0.03f^t^t  '', [F32 (te_time ! (8 * j + i))]),
        (''%02d^t^t'', [I32 (le_data ! (8 * j + i))]),
        (''%0.03f^t^t^t'', [F32 (le_time ! (8 * j + i))]),
        (''%0.03f^n'', [F32 (f_sub fp (te_time ! (8 * j + i)) (le_time ! (8 * j + i)))])]) [0..<8]) @
       [(''^n'', [])]) [0..<9])"

definition print_margin_wrdqlvl_delay_window :: "fpu \<Rightarrow> nat \<Rightarrow> ddr_dimm_training_status option \<Rightarrow> line list" where
  "print_margin_wrdqlvl_delay_window fp inst p =
     (case p of None \<Rightarrow> [null_line]
      | Some s \<Rightarrow>
         (''^tWRITE DQLEVEL DELAY WINDOW: ^n'', []) #
         (''^t^t^t^t   TE_DATA   TE_DELAY(ns)   LE_DATA   LE_DELAY(ns)   WRDQLVL_DELAY(ns)^n'', []) #
         delay_window fp (wrdq_te_delay_data (wrdqlvl_delay_data s)) (wrdq_te_delay_time (wrdqlvl_delay_data s))
           (wrdq_le_delay_data (wrdqlvl_delay_data s)) (wrdq_le_delay_time (wrdqlvl_delay_data s)))"

definition print_margin_rdlvl_delay_window :: "fpu \<Rightarrow> nat \<Rightarrow> ddr_dimm_training_status option \<Rightarrow> line list" where
  "print_margin_rdlvl_delay_window fp inst p =
     (case p of None \<Rightarrow> [null_line]
      | Some s \<Rightarrow>
         (''DDR%d Margin Delays: ^n'', [Idx inst]) #
         (''^tREAD DQSLEVEL RISE DELAY WINDOW: ^n'', []) #
         (''^t^t^t^t   TE_DATA   TE_DELAY(ns)   LE_DATA   LE_DELAY(ns)   RD_RISE_DELAY(ns)^n'', []) #
         delay_window fp (rise_te_delay_data (rddqslvl_rise_data s)) (rise_te_delay_time (rddqslvl_rise_data s))
           (rise_le_delay_data (rddqslvl_rise_data s)) (rise_le_delay_time (rddqslvl_rise_data s)) @
         (''^tREAD DQSLEVEL FALL DELAY WINDOW: ^n'', []) #
         (''^t^t^t^t   TE_DATA   TE_DELAY(ns)   LE_DATA   LE_DELAY(ns)   RD_FALL_DELAY(ns)^n'', []) #
         delay_window fp (fall_te_delay_data (rddqslvl_fall_data s)) (fall_te_delay_time (rddqslvl_fall_data s))
           (fall_le_delay_data (rddqslvl_fall_data s)) (fall_le_delay_time (rddqslvl_fall_data s)))"

text \<open>This one reads the status before it tests the pointer.\<close>

definition flag :: "nat \<Rightarrow> u32 \<Rightarrow> arg" where
  "flag k read_data = I32 (drop_bit k read_data AND 0x1)"

definition print_err_status :: "nat \<Rightarrow> ddr_dimm_training_status option \<Rightarrow> line list outcome" where
  "print_err_status inst p =
     (case p of None \<Rightarrow> Undefined Null_deref
      | Some s \<Rightarrow>
         let read_data = train_err_status s in Defined
         [(''DIMM %d Tranining status^n'', [Idx inst]),
          (''^tWRLVL_ERR^t = %d^n'', [flag 4 read_data]),
          (''^tGTLVL_ERR^t = %d^n'', [flag 3 read_data]),
          (''^tRDLVL_ERR^t = %d^n'', [flag 2 read_data]),
          (''^tWDQLVL_ERR^t= %d^n'', [flag 5 read_data]),
          (''^tCA PARTIY ERR = %d^n'', [flag 1 read_data])])"

end
