(* ===== verification/Cxl_Handlers.thy ===== *)
theory Cxl_Handlers
  imports Display Dimm_Mgmt
begin

text \<open>
  The handlers of the vendor commands in \<open>cxl/src/cxl_cmd.c\<close>: each builds a request from its
  arguments, runs the command, and prints the response. \<open>dev\<close> is the name of the endpoint. The
  statistics of the memory controller are in theory \<open>Ddr_Stats\<close>.
\<close>

section \<open>DIMMs and health\<close>

text \<open>
  A dump of bytes, sixteen on a line. A null string is printed as the C library of the hosts does.
\<close>

definition hex_dump :: "nat \<Rightarrow> u32 \<Rightarrow> bytes \<Rightarrow> line list" where
  "hex_dump n offset b =
     map (\<lambda>i. if i mod 16 = 0 then (''^n%04x  %02x '', [I32 (of_nat i + offset), U8 (b ! i)])
              else (''%02x '', [U8 (b ! i)])) [0..<n]"

definition StrO :: "string option \<Rightarrow> arg" where
  "StrO p = (case p of None \<Rightarrow> Str ''(null)'' | Some t \<Rightarrow> Str t)"

text \<open>
  The response buffer is allocated only when \<open>num_bytes\<close> is not 0; a successful command copies into
  it. The buffer is \<open>b\<close> in the printing function.
\<close>

definition SPD_MODULE_SERIAL_NUMBER_LEN :: u8 where "SPD_MODULE_SERIAL_NUMBER_LEN = 4"

definition show_spd ::
  "fpu \<Rightarrow> string \<Rightarrow> u32 \<Rightarrow> u32 \<Rightarrow> bytes \<Rightarrow> line list outcome" where
  "show_spd fp dev offset num_bytes b =
     (if length b < unat num_bytes then Undefined Oob_read
      else bind_outcome (decode_ddr4_module_size b) (\<lambda>size_gb.
        bind_outcome (decode_ddr4_manufacturer b) (\<lambda>manufacturer.
        bind_outcome (c_string (the (IntToString (drop 325 b) SPD_MODULE_SERIAL_NUMBER_LEN))) (\<lambda>serial.
          Defined (
            [(''=========================== DIMM SPD READ Data: %s ============================^n'', [Str dev]),
             (''Output Payload:'', [])] @
            hex_dump (unat num_bytes) offset b @
            [(''^n^n'', []),
             (''^n^n====== DIMM SPD DECODE ============^n'', []),
             (''Total Width: %s^n'', [Str ''TBD'']),
             (''Data Width: %d bits^n'', [I32 (8 * 2 ^ unat (b ! 13 AND 7))]),
             (''Size: %d GB^n'', [I32 (of_int size_gb)]),
             (''Form Factor: %s^n'', [Str ''TBD'']),
             (''Set: %s^n'', [Str ''TBD'']),
             (''Locator: %s^n'', [Str ''DIMM_X'']),
             (''Bank Locator: %s^n'', [Str ''_Node1_ChannelX_DimmX'']),
             (''Type: %s^n'', [Str (ram_types ! ram_type_number (decode_ram_type b))]),
             (''Type Detail: %s^n'', [StrO (decode_ddr4_module_type b)]),
             (''Speed: %d MT/s^n'', [I32 (of_int (f_speed fp (b ! 18) (b ! 125)))]),
             (''Manufacturer: %s^n'', [StrO manufacturer]),
             (''Serial Number: %s^n'', [Str serial]),
             (''Asset Tag: %s^n'', [Str ''TBD''])])))))"

definition cxl_cmd_dimm_spd_read ::
  "'s os \<Rightarrow> fpu \<Rightarrow> string \<Rightarrow> u32 \<Rightarrow> u32 \<Rightarrow> u32 \<Rightarrow> 's \<Rightarrow> 's printed" where
  "cxl_cmd_dimm_spd_read os fp dev spd offset num_bytes s =
     (case (if num_bytes \<noteq> 0 then os_calloc os sizeof_dimm_spd_read_rsp s else (True, s)) of (ok, s1) \<Rightarrow>
        if \<not> ok then Defined (-12, [(''Failed to allocate memory^r^n'', [])], s1)
        else report (cxlmi_cmd_dimm_spd_read os
                       \<lparr>spd_id = spd, spd_offset = offset, spd_num_bytes = num_bytes\<rparr>)
               (\<lambda>r. if num_bytes = 0 then Undefined Null_deref
                    else show_spd fp dev offset num_bytes (dimm_spd_data r)) s1)"

definition cxl_cmd_dimm_slot_info :: "'s os \<Rightarrow> string \<Rightarrow> 's \<Rightarrow> 's printed" where
  "cxl_cmd_dimm_slot_info os dev s =
     report (cxlmi_cmd_dimm_slot_info os)
       (\<lambda>r. Defined (
         [(''=========================== DIMM SLOT INFO : %s  ============================^n'', [Str dev]),
          (''Output Payload:^n'', [])] @
         hex_dump 68 0 (slot_info_bytes r) @
         [(''^n^n'', []),
          (''^n^n====== DIMM SLOTS INFO DECODE ============^n'', []),
          (''Number of DIMM Slots: %d^n'', [U8 (num_dimm_slots r)]),
          (''DIMM SPD Index: 0^n'', []),
          (''%*sDIMM Present: 0x%x^n'', [I32 4, Str '''', U8 (slot0_dimm_present r)]),
          (''%*sDIMM Silk Screen: %c^n'', [I32 4, Str '''', S8 (slot0_dimm_silk_screen r)]),
          (''%*sChannel ID: 0x%x^n'', [I32 4, Str '''', U8 (slot0_channel_id r)]),
          (''%*sI2C Address: 0x%x^n'', [I32 4, Str '''', U8 (slot0_spd_i2c_addr r)]),
          (''DIMM SPD Index: 1^n'', []),
          (''%*sDIMM Present: 0x%x^n'', [I32 4, Str '''', U8 (slot1_dimm_present r)]),
          (''%*sDIMM Silk Screen: %c^n'', [I32 4, Str '''', S8 (slot1_dimm_silk_screen r)]),
          (''%*sChannel ID: 0x%x^n'', [I32 4, Str '''', U8 (slot1_channel_id r)]),
          (''%*sI2C Address: 0x%x^n'', [I32 4, Str '''', U8 (slot1_spd_i2c_addr r)]),
          (''DIMM SPD Index: 2^n'', []),
          (''%*sDIMM Present: 0x%x^n'', [I32 4, Str '''', U8 (slot2_dimm_present r)]),
          (''%*sDIMM Silk Screen: %c^n'', [I32 4, Str '''', S8 (slot2_dimm_silk_screen r)]),
          (''%*sChannel ID: 0x%x^n'', [I32 4, Str '''', U8 (slot2_channel_id r)]),
          (''%*sI2C Address: 0x%x^n'', [I32 4, Str '''', U8 (slot2_spd_i2c_addr r)]),
          (''DIMM SPD Index: 3^n'', []),
          (''%*sDIMM Present: 0x%x^n'', [I32 4, Str '''', U8 (slot3_dimm_present r)]),
          (''%*sDIMM Silk Screen: %c^n'', [I32 4, Str '''', S8 (slot3_dimm_silk_screen r)]),
          (''%*sChannel ID: 0x%x^n'', [I32 4, Str '''', U8 (slot3_channel_id r)]),
          (''%*sI2C Address: 0x%x^n'', [I32 4, Str '''', U8 (slot3_spd_i2c_addr r)]),
          (''^n^n'', [])])) s"

definition cxl_cmd_read_ddr_temp ::
  "'s os \<Rightarrow> string \<Rightarrow> 's \<Rightarrow> 's printed" where
  "cxl_cmd_read_ddr_temp os dev s =
     report (cxlmi_cmd_read_ddr_temp os)
       (\<lambda>r. Defined ((''DDR DIMM temperature info: %s^n'', [Str dev]) #
         concat (map (\<lambda>t.
           [(''dimm_id : 0x%x^n'', [U8 (temp_dimm_id t)]),
            (''spd_idx: 0x%x^n'', [U8 (temp_spd_idx t)]),
            (''dimm temp: %f^n'', [F32 (dimm_temp t)]),
            (''ddr temperature is %s^n^n'', [Str (if ddr_temp_valid t \<noteq> 0 then ''valid'' else ''invalid'')])]) (ddr_dimm_temp_info r)))) s"

definition cxl_cmd_health_counters_clear ::
  "'s os \<Rightarrow> string \<Rightarrow> u32 \<Rightarrow> 's \<Rightarrow> 's printed" where
  "cxl_cmd_health_counters_clear os dev bitmask s =
     report (cxlmi_cmd_health_counters_clear os
       \<lparr>hc_bitmask = bitmask\<rparr>)
       (\<lambda>_. Defined []) s"

definition cxl_cmd_health_counters_get ::
  "'s os \<Rightarrow> string \<Rightarrow> 's \<Rightarrow> 's printed" where
  "cxl_cmd_health_counters_get os dev s =
     report (cxlmi_cmd_health_counters_get os)
       (\<lambda>r. Defined [
          (''============================= get health counters :%s  ==============================^n'', [Str dev]),
          (''0: CRITICAL_OVER_TEMPERATURE_EXCEEDED = %d^n'', [I32 (hc_critical_over_temperature_exceeded r)]),
          (''1: OVER_TEMPERATURE_WARNING_LEVEL_EXCEEDED = %d^n'', [I32 (hc_over_temperature_warning_level_exceeded r)]),
          (''2: CRITICAL_UNDER_TEMPERATURE_EXCEEDED = %d^n'', [I32 (hc_critical_under_temperature_exceeded r)]),
          (''3: UNDER_TEMPERATURE_WARNING_LEVEL_EXCEEDED = %d^n'', [I32 (hc_under_temperature_warning_level_exceeded r)]),
          (''4: POWER_ON_EVENTS = %d^n'', [I32 (hc_power_on_events r)]),
          (''5: POWER_ON_HOURS = %d^n'', [I32 (hc_power_on_hours r)]),
          (''6: CXL_MEM_LINK_CRC_ERRORS = %d^n'', [I32 (hc_cxl_mem_link_crc_errors r)]),
          (''7: CXL_IO_LINK_LCRC_ERRORS = %d^n'', [I32 (hc_cxl_io_link_lcrc_errors r)]),
          (''8: CXL_IO_LINK_ECRC_ERRORS = %d^n'', [I32 (hc_cxl_io_link_ecrc_errors r)]),
          (''9: NUM_DDR_COR_ECC_ERRORS = %d^n'', [I32 (hc_num_ddr_correctable_ecc_errors r)]),
          (''10: NUM_DDR_UNCOR_ECC_ERRORS = %d^n'', [I32 (hc_num_ddr_uncorrectable_ecc_errors r)]),
          (''11: LINK_RECOVERY_EVENTS = %d^n'', [I32 (hc_link_recovery_events r)]),
          (''12: TIME_IN_THROTTLED = %d^n'', [I32 (hc_time_in_throttled r)]),
          (''13: RX_RETRY_REQUEST = %d^n'', [I32 (hc_rx_retry_request r)]),
          (''14: RCMD_QS0_HI_THRESHOLD_DETECT = %d^n'', [I32 (hc_rcmd_qs0_hi_threshold_detect r)]),
          (''15: RCMD_QS1_HI_THRESHOLD_DETECT = %d^n'', [I32 (hc_rcmd_qs1_hi_threshold_detect r)]),
          (''16: NUM_PSCAN_COR_ECC_ERRORS = %d^n'', [I32 (hc_num_pscan_correctable_ecc_errors r)]),
          (''17: NUM_PSCAN_UNCOR_ECC_ERRORS = %d^n'', [I32 (hc_num_pscan_uncorrectable_ecc_errors r)]),
          (''18: NUM_DDR_DIMM0_COR_ECC_ERRORS = %d^n'', [I32 (hc_num_ddr_dimm0_correctable_ecc_errors r)]),
          (''19: NUM_DDR_DIMM0_UNCOR_ECC_ERRORS = %d^n'', [I32 (hc_num_ddr_dimm0_uncorrectable_ecc_errors r)]),
          (''20: NUM_DDR_DIMM1_COR_ECC_ERRORS = %d^n'', [I32 (hc_num_ddr_dimm1_correctable_ecc_errors r)]),
          (''21: NUM_DDR_DIMM1_UNCOR_ECC_ERRORS = %d^n'', [I32 (hc_num_ddr_dimm1_uncorrectable_ecc_errors r)]),
          (''22: NUM_DDR_DIMM2_COR_ECC_ERRORS = %d^n'', [I32 (hc_num_ddr_dimm2_correctable_ecc_errors r)]),
          (''23: NUM_DDR_DIMM2_UNCOR_ECC_ERRORS = %d^n'', [I32 (hc_num_ddr_dimm2_uncorrectable_ecc_errors r)]),
          (''24: NUM_DDR_DIMM3_COR_ECC_ERRORS = %d^n'', [I32 (hc_num_ddr_dimm3_correctable_ecc_errors r)]),
          (''25: NUM_DDR_DIMM3_UNCOR_ECC_ERRORS = %d^n'', [I32 (hc_num_ddr_dimm3_uncorrectable_ecc_errors r)])]) s"

definition cxl_cmd_pmic_vtmon_info ::
  "'s os \<Rightarrow> string \<Rightarrow> 's \<Rightarrow> 's printed" where
  "cxl_cmd_pmic_vtmon_info os dev s =
     report (cxlmi_cmd_pmic_vtmon_info os)
       (\<lambda>r. bind_outcome (each (\<lambda>p. bind_outcome (c_string (pmic_name p)) (\<lambda>nm. Defined
           [(''pmic name: %s^n'', [Str nm]),
            (''vin: %f^n'', [F32 (pmic_vin p)]),
            (''vout: %f^n'', [F32 (pmic_vout p)]),
            (''iout: %f^n'', [F32 (pmic_iout p)]),
            (''powr: %f^n'', [F32 (pmic_powr p)]),
            (''temp: %f^n'', [F32 (pmic_temp p)])])) (pmic_list r))
         (\<lambda>ls. Defined ((''=========================== PMIC VTMON SLOT INFO : %s ============================^n'', [Str dev]) # concat ls))) s"

section \<open>Link\<close>

text \<open>
  Both the test for the end of the log and the name of a state read arrays at positions that depend
  on the device: the pair at the last position, and a state without a name.
\<close>

definition LTSSM_STATE_DUMP_COUNT_MAX :: nat where "LTSSM_STATE_DUMP_COUNT_MAX = 128"

definition log_ends :: "u32 list \<Rightarrow> nat \<Rightarrow> bool outcome" where
  "log_ends ltssm_val offset =
     bind_outcome (at ltssm_val offset) (\<lambda>x. bind_outcome (at ltssm_val (offset + 1)) (\<lambda>y.
       Defined (x = y \<and> y = 0)))"

function state_lines :: "u32 list \<Rightarrow> nat \<Rightarrow> line list outcome" where
  "state_lines ltssm_val offset =
     (if LTSSM_STATE_DUMP_COUNT_MAX \<le> offset then Defined []
      else bind_outcome (log_ends ltssm_val offset) (\<lambda>stop.
        if stop then Defined []
        else bind_outcome (at ltssm_val offset) (\<lambda>curr_state.
          bind_outcome (at ltssm_state_name (unat curr_state)) (\<lambda>nm.
            bind_outcome (state_lines ltssm_val (offset + 1)) (\<lambda>ls.
              Defined ((''ltssm state val = 0x%x, %s^n'', [I32 curr_state, Str nm]) # ls))))))"
  by pat_completeness auto

termination
  by (relation "measure (\<lambda>(v, offset). LTSSM_STATE_DUMP_COUNT_MAX - offset)") auto

declare state_lines.simps [simp del]

definition cxl_cmd_read_ltssm_states :: "'s os \<Rightarrow> string \<Rightarrow> 's \<Rightarrow> 's printed" where
  "cxl_cmd_read_ltssm_states os dev s =
     report (cxlmi_cmd_read_ltssm_states os)
       (\<lambda>r. bind_outcome (log_ends (ltssm_states r) 0) (\<lambda>none.
          if none then Defined [(''LTSSM STATE CHANGES: %s ^n'', [Str dev]), (''ltssm state changes are not collected^n'', [])]
          else bind_outcome (state_lines (ltssm_states r) 0) (\<lambda>ls.
            Defined ((''LTSSM STATE CHANGES: %s ^n'', [Str dev]) # ls)))) s"

text \<open>
  When the command fails the response structure on the stack was not written, and the message
  prints its member.
\<close>

definition cxl_cmd_pcie_eye_run ::
  "'s os \<Rightarrow> string \<Rightarrow> u8 \<Rightarrow> u8 \<Rightarrow> u8 \<Rightarrow> 's \<Rightarrow> 's printed" where
  "cxl_cmd_pcie_eye_run os dev lane sw_scan ber s =
     (case cxlmi_cmd_pcie_eye_run os \<lparr>eye_lane = lane, eye_sw_scan = sw_scan, eye_ber = ber\<rparr> s of
        (rc, rsp, s') \<Rightarrow>
          if rc = 0 then Defined (rc, [(''pcie eye is running: %s^n'', [Str dev])], s')
          else (case rsp of None \<Rightarrow> Undefined Uninit_read
                | Some r \<Rightarrow> Defined (rc, [(''pcie eye already running OR fault, error : %d on %s^n'', [I32 (pcie_eye_run_status r), Str dev])], s')))"

definition cxl_cmd_pcie_eye_status ::
  "'s os \<Rightarrow> string \<Rightarrow> 's \<Rightarrow> 's printed" where
  "cxl_cmd_pcie_eye_status os dev s =
     report (cxlmi_cmd_pcie_eye_status os)
       (\<lambda>r. Defined (
         (''%s : %s^n'', [Str (if eye_status_running r \<noteq> 0 then ''PCIE EYE SW IS RUNNING'' else ''PCIE EYE SW IS NOT RUNNING/FINISHED''), Str dev]) #
         (if eye_status_error r \<noteq> 0 then [(''pcie eye run error %d:^n'', [I32 (eye_status_error r)])] else []))) s"

text \<open>
  The software scan reads the eye row by row until a read fails; the printed row is a string in the
  response. The limits of the margin test are 18 and 0.2, the bits of the largest \<open>float\<close> values not
  above them.
\<close>

definition TOTAL_EYESCOPE_VERT_VALS :: nat where "TOTAL_EYESCOPE_VERT_VALS = 511 * 2 + 1"
definition VERT_SKIP :: nat where "VERT_SKIP = 15"

function eye_scan :: "'s os \<Rightarrow> string \<Rightarrow> nat \<Rightarrow> 's \<Rightarrow> 's printed" where
  "eye_scan os dev i s =
     (if TOTAL_EYESCOPE_VERT_VALS \<le> i then Defined (0, [], s)
      else case cxlmi_cmd_pcie_eye_get_sw os \<lparr>eye_offset = of_nat i\<rparr> s of (rc, rsp, s1) \<Rightarrow>
        if rc \<noteq> 0 then Defined (rc, [(''pcie_eye_get read failed or sw_scan not enabled: %s^n'', [Str dev])], s1)
        else bind_outcome (c_string (pcie_eye_data (the rsp))) (\<lambda>row.
          bind_outcome (eye_scan os dev (i + VERT_SKIP) s1) (\<lambda>(rc', ls, s2).
            Defined (rc', (''%s^n'', [Str row]) # ls, s2))))"
  by pat_completeness auto

termination
  by (relation "measure (\<lambda>(os, dev, i, s). TOTAL_EYESCOPE_VERT_VALS - i)") (auto simp: VERT_SKIP_def)

declare eye_scan.simps [simp del]

definition eye_margins :: "'s os \<Rightarrow> string \<Rightarrow> 's \<Rightarrow> 's printed" where
  "eye_margins os dev s =
     report (cxlmi_cmd_pcie_eye_get_sw_ber os)
       (\<lambda>r. Defined ((''Extrapolation for BER at 1e-12 :%s ^n'', [Str dev]) #
          (if f32_above 0x41900000 (vert_margin r) \<and> f32_above 0x3E4CCCCC (horiz_margin r) then
             [(''Eye Height and width margins are > 0.2UI and 18mV, Test PASSED^n'', []),
              (''Eye width margin at 1e-12 is %f UI^n'', [F32 (horiz_margin r)]),
              (''Eye height margin at 1e-12 is %f mV^n'', [F32 (vert_margin r)])]
           else
             [(''Eye Height and width margins are not greater than 0.2UI and 18mV, Test FAILED^n'', [])]))) s"

definition cxl_cmd_pcie_eye_get :: "'s os \<Rightarrow> string \<Rightarrow> u32 \<Rightarrow> u32 \<Rightarrow> 's \<Rightarrow> 's printed" where
  "cxl_cmd_pcie_eye_get os dev sw_scan ber s =
     (if sw_scan \<noteq> 0 then
        bind_outcome (eye_scan os dev 0 s) (\<lambda>(rc, ls, s1).
          if rc \<noteq> 0 \<or> ber = 0 then Defined (rc, ('' PCIE_EYE SW :%s ^n'', [Str dev]) # ls, s1)
          else bind_outcome (eye_margins os dev s1) (\<lambda>(rc', ls', s2).
            Defined (rc', ('' PCIE_EYE SW :%s ^n'', [Str dev]) # ls @ ls', s2)))
      else case cxlmi_cmd_pcie_eye_get_hw os s of (rc, rsp, s1) \<Rightarrow>
        if rc \<noteq> 0 then Defined (rc, [(''pcie_eye_get read failed hw scan not enabled^n'', [])], s1)
        else Defined (rc, ('' PCIE_EYE HW :%s ^n'', [Str dev]) #
          (if eyescope_request_status (the rsp) \<noteq> 0 then
             (''eyescope request status: PASS^n'', []) #
             display_rx_setttings (Some (eye_rx_settings (the rsp))) @
             display_merged_eye_results (Some (eye_results (the rsp)))
           else [(''eyescope request status: FAIL^n'', [])]), s1))"

definition cxl_cmd_get_cxl_link_status ::
  "'s os \<Rightarrow> string \<Rightarrow> 's \<Rightarrow> 's printed" where
  "cxl_cmd_get_cxl_link_status os dev s =
     report (cxlmi_cmd_get_cxl_link_status os)
       (\<lambda>r. bind_outcome (at ltssm_state_name (unat (link_ltssm_val r))) (\<lambda>nm. Defined
         [(''CXL Link Status : %s^n'', [Str dev]),
          (''Link is in CXL%0.1f mode^n'', [F32 (cxl_link_status r)]),
          (''Negotiated link width: x%d^n'', [I32 (link_width r)]),
          (''Negotiated link speed: Gen%d^n'', [I32 (link_speed r)]),
          (''ltssm state: %s, code 0x%x^n'', [Str nm, I32 (link_ltssm_val r)])])) s"

definition cxl_cmd_get_device_info ::
  "'s os \<Rightarrow> string \<Rightarrow> 's \<Rightarrow> 's printed" where
  "cxl_cmd_get_device_info os dev s =
     report (cxlmi_cmd_get_device_info os)
       (\<lambda>r. Defined
         [(''Device Info: %s^n'', [Str dev]),
          (''Device id: 0x%x^n'', [U16 (device_id r)]),
          (''Revision id: 0x%x^n'', [U8 (revision_id r)])]) s"

section \<open>Memory\<close>

definition cxl_cmd_get_ddr_bw ::
  "'s os \<Rightarrow> fpu \<Rightarrow> string \<Rightarrow> u32 \<Rightarrow> u32 \<Rightarrow> 's \<Rightarrow> 's printed" where
  "cxl_cmd_get_ddr_bw os fp dev timeout iterations s =
     report (cxlmi_cmd_get_ddr_bw os
       \<lparr>bw_timeout = timeout, bw_iterations = iterations\<rparr>)
       (\<lambda>r. Defined ((''DDR GET BW : %s^n'', [Str dev]) #
         map (\<lambda>i. (''ddr%d peak bandwidth = %f GB/s^n'', [Idx i, F32 (peak_bw r ! i)])) [0..<2] @
         [(''total peak bandwidth = %f GB/s^n'', [F32 (fold (\<lambda>i total. f_add fp total (peak_bw r ! i)) [0..<2] 0)])])) s"

definition cxl_cmd_ddr_margin_run ::
  "'s os \<Rightarrow> string \<Rightarrow> u8 \<Rightarrow> u8 \<Rightarrow> u8 \<Rightarrow> 's \<Rightarrow> 's printed" where
  "cxl_cmd_ddr_margin_run os dev slice_num rd_wr_margin ddr_id s =
     report (cxlmi_cmd_ddr_margin_run os
       \<lparr>mr_slice_num = slice_num, mr_rd_wr_margin = rd_wr_margin, mr_ddr_id = ddr_id\<rparr>)
       (\<lambda>_. Defined [(''DDR MARGIN RUN : %s^n'', [Str dev])]) s"

definition cxl_cmd_ddr_margin_status ::
  "'s os \<Rightarrow> string \<Rightarrow> 's \<Rightarrow> 's printed" where
  "cxl_cmd_ddr_margin_status os dev s =
     report (cxlmi_cmd_ddr_margin_status os)
       (\<lambda>r. Defined
         [(''DDR MARGIN STATUS : %s^n'', [Str dev]),
          (''%s^n'', [Str (if margin_run_status r \<noteq> 0 then ''DDR MARGIN IS RUNNING'' else ''DDR MARGIN IS NOT RUNNING/FINISHED'')])]) s"

text \<open>
  The margin data is read from the caller's structure, \<open>old\<close> where the response did not reach; it has
  8192 rows.
\<close>

definition margin_row :: "bytes \<Rightarrow> nat \<Rightarrow> line" where
  "margin_row b i =
     (let m = dec_ddr_margin_info (bslice (4 + sizeof_ddr_margin_info * i) sizeof_ddr_margin_info b) in
      (''%d,%d,%d,%d,%d,%3.2f,%3.2f^n'', [I32 (slicenumber m), I32 (bitnumber m), I32 (vreflevel m), I32 (margin_low m), I32 (margin_high m), F64 (min_delay_ps m), F64 (max_delay_ps m)]))"

definition cxl_cmd_ddr_margin_get ::
  "'s os \<Rightarrow> (string \<Rightarrow> file_read) \<Rightarrow> bytes \<Rightarrow> string \<Rightarrow> 's \<Rightarrow> 's printed" where
  "cxl_cmd_ddr_margin_get os fs old dev s =
     bind_outcome (cxlmi_cmd_ddr_margin_get os fs (Some dev) old s) (\<lambda>result.
       report (\<lambda>_. result)
         (\<lambda>b. if 8192 < unat (rd32 0 b) then Undefined Oob_read
              else Defined (
                [(''DDR MARGIN GET : %s^n'', [Str dev]),
                 (''SliceNo,bitNo, VrefLv, MinDelay, MaxDelay, MinDly(ps), MaxDly(ps)^n'', [])] @
                map (margin_row b) [0..<unat (rd32 0 b)])) s)"

definition cxl_cmd_reboot_mode_set ::
  "'s os \<Rightarrow> string \<Rightarrow> u8 \<Rightarrow> 's \<Rightarrow> 's printed" where
  "cxl_cmd_reboot_mode_set os dev mode s =
     report (cxlmi_cmd_reboot_mode_set os
       \<lparr>reboot_mode = mode\<rparr>)
       (\<lambda>_. Defined [(''REBOOT MODE SET : %s^n'', [Str dev])]) s"

definition cxl_cmd_curr_cxl_boot_mode_get ::
  "'s os \<Rightarrow> string \<Rightarrow> 's \<Rightarrow> 's printed" where
  "cxl_cmd_curr_cxl_boot_mode_get os dev s =
     report (cxlmi_cmd_curr_cxl_boot_mode_get os)
       (\<lambda>r. Defined
         [(''CURR CXL BOOT MODE : %s^n'', [Str dev]),
          if curr_cxl_boot r = 0x0 then (''CXL_IO_MEM_MODE^n'', [])
          else if curr_cxl_boot r = 0xCE then (''CXL_IO_MODE^n'', [])
          else (''Invalid Mode^n'', [])]) s"

definition cxl_cmd_get_ddr_ecc_err_info ::
  "'s os \<Rightarrow> string \<Rightarrow> 's \<Rightarrow> 's printed" where
  "cxl_cmd_get_ddr_ecc_err_info os dev s =
     report (cxlmi_cmd_get_ddr_ecc_err_info os)
       (\<lambda>r. bind_outcome (each (display_error_count (Some (ddr_ctrl_err r))) [0..<2])
         (\<lambda>ls. Defined ((''GET DDR ECC ERR INFO : %s^n'', [Str dev]) # concat ls))) s"

text \<open>
  \<open>strerror\<close> is the function of the C library. The number of bytes to print is the one in the
  response.
\<close>

definition I2C_MAX_SIZE_NUM_BYTES :: nat where "I2C_MAX_SIZE_NUM_BYTES = 128"

definition cxl_cmd_i2c_read ::
  "'s os \<Rightarrow> (int \<Rightarrow> string) \<Rightarrow> string \<Rightarrow> u16 \<Rightarrow> u8 \<Rightarrow> u8 \<Rightarrow> 's \<Rightarrow> 's printed" where
  "cxl_cmd_i2c_read os strerror dev slave_addr reg_addr num_bytes s =
     (if I2C_MAX_SIZE_NUM_BYTES < unat num_bytes then
        Defined (-22, [(''%s: Max number of bytes supported is %d, cmd submission failed: %d (%s)^n'', [Str dev, Idx I2C_MAX_SIZE_NUM_BYTES, Idx 22, Str (strerror (-22))])], s)
      else report (cxlmi_cmd_i2c_read os
                     \<lparr>ir_slave_addr = slave_addr, ir_reg_addr = reg_addr, ir_num_bytes = num_bytes\<rparr>)
        (\<lambda>r. bind_outcome (each (\<lambda>i. bind_outcome (at (i2c_buf r) i) (\<lambda>x. Defined (''0x%x^t'', [U8 x])))
                 [0..<unat (i2c_num_bytes r)])
           (\<lambda>ls. Defined ([(''i2c read success : %s^n'', [Str dev]), (''i2c read output:'', [])] @ ls @ [(''^n'', [])]))) s)"

definition cxl_cmd_i2c_write ::
  "'s os \<Rightarrow> string \<Rightarrow> u16 \<Rightarrow> u8 \<Rightarrow> u8 \<Rightarrow> 's \<Rightarrow> 's printed" where
  "cxl_cmd_i2c_write os dev slave_addr reg_addr val s =
     report (cxlmi_cmd_i2c_write os
       \<lparr>iw_slave_addr = slave_addr, iw_reg_addr = reg_addr, iw_data = val\<rparr>)
       (\<lambda>_. Defined [(''i2c write success : %s^n'', [Str dev])]) s"

definition cxl_cmd_get_ddr_latency ::
  "'s os \<Rightarrow> string \<Rightarrow> u32 \<Rightarrow> 's \<Rightarrow> 's printed" where
  "cxl_cmd_get_ddr_latency os dev mtime s =
     report (cxlmi_cmd_get_ddr_latency os
       \<lparr>measure_time = mtime\<rparr>)
       (\<lambda>r. Defined ((''Get DDR Latency : %s^n'', [Str dev]) #
         concat (map (\<lambda>ddr_id. let l = lat_ops r ! ddr_id in
           [(''^nDDR%d Latency:^n'', [Idx ddr_id]),
            (''readLat: %lu, rdSampleCnt: %u^n, writeLat: %lu, wrSampleCnt: %u^n'', [I64 (readlat l), I32 (rdsamplecnt l), I64 (writelat l), I32 (wrsamplecnt l)]),
            (''Average Latency:^n'', []),
            (''Avg Read Latency  : %f ns ^n Avg Write Latency : %f ns ^n'', [F32 (avg_rdlatency l), F32 (avg_wrlatency l)])]) [0..<2]))) s"

definition cxl_cmd_get_membridge_errors ::
  "'s os \<Rightarrow> string \<Rightarrow> 's \<Rightarrow> 's printed" where
  "cxl_cmd_get_membridge_errors os dev s =
     report (cxlmi_cmd_get_membridge_errors os)
       (\<lambda>r. Defined ((''Get Membrige Errors : %s^n'', [Str dev]) # display_membridge_errors (Some r))) s"

definition cxl_cmd_hpa_to_dpa ::
  "'s os \<Rightarrow> string \<Rightarrow> u64 \<Rightarrow> 's \<Rightarrow> 's printed" where
  "cxl_cmd_hpa_to_dpa os dev hpa s =
     report (cxlmi_cmd_hpa_to_dpa os
       \<lparr>hpa_address = hpa\<rparr>)
       (\<lambda>r. Defined [(''dpa address:0x%lx^n'', [I64 (dpa_address r)])]) s"

definition cxl_cmd_start_ddr_ecc_scrub ::
  "'s os \<Rightarrow> string \<Rightarrow> 's \<Rightarrow> 's printed" where
  "cxl_cmd_start_ddr_ecc_scrub os dev s =
     report (cxlmi_cmd_start_ddr_ecc_scrub os)
       (\<lambda>_. Defined [(''DDR ECC Scrub Started: %s^n'', [Str dev])]) s"

definition cxl_cmd_ddr_ecc_scrub_status ::
  "'s os \<Rightarrow> string \<Rightarrow> 's \<Rightarrow> 's printed" where
  "cxl_cmd_ddr_ecc_scrub_status os dev s =
     report (cxlmi_cmd_ddr_ecc_scrub_status os)
       (\<lambda>r. Defined ((''DDR ECC Scrub Status: %s^n'', [Str dev]) #
         map (\<lambda>subsys. (''DDR-%d %s^n'', [Idx subsys, Str (if ecc_scrub_status r ! subsys \<noteq> 0
           then ''ECC SCRUB IS IN PROGRESS'' else ''DDR SCRUB IS NOT RUNNING/FINISHED'')])) [0..<2])) s"

definition cxl_cmd_ddr_init_status ::
  "'s os \<Rightarrow> string \<Rightarrow> 's \<Rightarrow> 's printed" where
  "cxl_cmd_ddr_init_status os dev s =
     report (cxlmi_cmd_ddr_init_status os)
       (\<lambda>r. Defined ((''DDR INIT Status: %s^n'', [Str dev]) # display_ddr_init_status (Some r))) s"

definition cxl_cmd_get_membridge_stats ::
  "'s os \<Rightarrow> string \<Rightarrow> 's \<Rightarrow> 's printed" where
  "cxl_cmd_get_membridge_stats os dev s =
     report (cxlmi_cmd_get_membridge_stats os)
       (\<lambda>r. Defined ((''Membrige Stats: %s^n'', [Str dev]) # display_membridge_stats (Some r))) s"

definition cxl_cmd_ddr_err_inj_en ::
  "'s os \<Rightarrow> string \<Rightarrow> u32 \<Rightarrow> u32 \<Rightarrow> u64 \<Rightarrow> 's \<Rightarrow> 's printed" where
  "cxl_cmd_ddr_err_inj_en os dev ddr_id err_type ecc_fwc_mask s =
     report (cxlmi_cmd_ddr_err_inj_en os
       \<lparr>ei_ddr_id = ddr_id, ei_err_type = err_type, ei_ecc_fwc_mask = ecc_fwc_mask\<rparr>)
       (\<lambda>_. Defined [(''Error injection enabled on DDR%d: %s^n'', [I32 ddr_id, Str dev])]) s"

definition cxl_cmd_trigger_coredump ::
  "'s os \<Rightarrow> string \<Rightarrow> 's \<Rightarrow> 's printed" where
  "cxl_cmd_trigger_coredump os dev s =
     report (cxlmi_cmd_trigger_coredump os)
       (\<lambda>_. Defined [(''Triggered simulated coredump: %s^n'', [Str dev])]) s"

definition cxl_cmd_ddr_stats_run ::
  "'s os \<Rightarrow> string \<Rightarrow> u8 \<Rightarrow> u32 \<Rightarrow> u32 \<Rightarrow> 's \<Rightarrow> 's printed" where
  "cxl_cmd_ddr_stats_run os dev ddr_id monitor_time loop_count s =
     report (cxlmi_cmd_ddr_stats_run os
       \<lparr>sr_ddr_id = ddr_id, sr_monitor_time = monitor_time, sr_loop_count = loop_count\<rparr>)
       (\<lambda>_. Defined [(''DDR Stats run on DDR%d: %s^n'', [U8 ddr_id, Str dev])]) s"

definition cxl_cmd_ddr_param_set ::
  "'s os \<Rightarrow> string \<Rightarrow> u32 \<Rightarrow> u32 \<Rightarrow> 's \<Rightarrow> 's printed" where
  "cxl_cmd_ddr_param_set os dev sz choice s =
     report (cxlmi_cmd_ddr_param_set os
       \<lparr>ps_interleave_sz = ucast sz, ps_interleave_ctrl_choice = ucast choice\<rparr>)
       (\<lambda>_. Defined [(''DDR param set: %s^n'', [Str dev])]) s"

definition cxl_cmd_ddr_param_get ::
  "'s os \<Rightarrow> string \<Rightarrow> 's \<Rightarrow> 's printed" where
  "cxl_cmd_ddr_param_get os dev s =
     report (cxlmi_cmd_ddr_param_get os)
       (\<lambda>r. Defined
         [(''DDR param get: %s^n'', [Str dev]),
          (''ddr_interleave_sz: %d^n'', [U8 (ddr_interleave_sz (param_inter r))]),
          (''ddr_interleave_ctrl_choice: %d^n'', [U8 (ddr_interleave_ctrl_choice (param_inter r))])]) s"

definition cxl_cmd_ddr_dimm_level_training_status ::
  "'s os \<Rightarrow> fpu \<Rightarrow> string \<Rightarrow> 's \<Rightarrow> 's printed" where
  "cxl_cmd_ddr_dimm_level_training_status os fp dev s =
     report (cxlmi_cmd_dimm_level_training_status os)
       (\<lambda>r. bind_outcome (each (\<lambda>i. let t = dimm_training_status r ! i in
           bind_outcome (print_err_status i (Some t)) (\<lambda>errs. Defined (
             (''dimm:%d level training status^n'', [Idx i]) #
             print_ddr_phy_pll_status i (Some (phy_pll_status t)) @
             print_ddr_training_status i (Some t) @
             print_margin_vref_low_high fp i (Some t) @
             print_margin_rdlvl_delay_window fp i (Some t) @
             print_margin_wrdqlvl_delay_window fp i (Some t) @
             errs))) [0..<2])
         (\<lambda>ls. Defined ((''DIMM Level Training Status: %s^n'', [Str dev]) # concat ls))) s"

section \<open>Error injection and settings\<close>

definition cxl_cmd_viral_inj_en ::
  "'s os \<Rightarrow> string \<Rightarrow> u32 \<Rightarrow> 's \<Rightarrow> 's printed" where
  "cxl_cmd_viral_inj_en os dev vtype s =
     report (cxlmi_cmd_viral_inj_en os
       \<lparr>viral_type = vtype\<rparr>)
       (\<lambda>_. Defined [(''Viral Injection enabled: %s^n'', [Str dev])]) s"

definition cxl_cmd_mem_ll_err_inj_en ::
  "'s os \<Rightarrow> string \<Rightarrow> u32 \<Rightarrow> u32 \<Rightarrow> 's \<Rightarrow> 's printed" where
  "cxl_cmd_mem_ll_err_inj_en os dev en_dis err_type s =
     report (cxlmi_cmd_mem_ll_err_inj_en os
       \<lparr>ll_en_dis = en_dis, ll_err_type = err_type\<rparr>)
       (\<lambda>_. Defined [(''Mem LL err Injection enabled: %s^n'', [Str dev])]) s"

definition cxl_cmd_pci_err_inj_en ::
  "'s os \<Rightarrow> string \<Rightarrow> u32 \<Rightarrow> u32 \<Rightarrow> u32 \<Rightarrow> u32 \<Rightarrow> u32 \<Rightarrow> u32 \<Rightarrow> 's \<Rightarrow> 's printed" where
  "cxl_cmd_pci_err_inj_en os dev en_dis etype err count opt1 opt2 s =
     report (cxlmi_cmd_pci_err_inj_en os
       \<lparr>pe_en_dis = en_dis, pe_err_type = etype, pe_err_subtype = err, pe_count = count, pe_opt_param1 = opt1, pe_opt_param2 = opt2\<rparr>)
       (\<lambda>_. Defined [(''PCI Error Injection enabled: %s^n'', [Str dev])]) s"

definition cxl_cmd_core_volt_set ::
  "'s os \<Rightarrow> string \<Rightarrow> float32 \<Rightarrow> 's \<Rightarrow> 's printed" where
  "cxl_cmd_core_volt_set os dev volt s =
     report (cxlmi_cmd_core_volt_set os
       \<lparr>cv_core_volt = volt\<rparr>)
       (\<lambda>_. Defined [(''Core Volt set: %s^n'', [Str dev])]) s"

definition cxl_cmd_core_volt_get ::
  "'s os \<Rightarrow> string \<Rightarrow> 's \<Rightarrow> 's printed" where
  "cxl_cmd_core_volt_get os dev s =
     report (cxlmi_cmd_core_volt_get os)
       (\<lambda>r. Defined
         [(''Core Volt get: %s^n'', [Str dev]),
          (''Core Voltage: %f V^n'', [F32 (core_volt r)])]) s"

definition cxl_cmd_ddr_cont_scrub_status ::
  "'s os \<Rightarrow> string \<Rightarrow> 's \<Rightarrow> 's printed" where
  "cxl_cmd_ddr_cont_scrub_status os dev s =
     report (cxlmi_cmd_ddr_cont_scrub_status os)
       (\<lambda>r. Defined
         [(''DDR cont scrub status: %s^n'', [Str dev]),
          (''%s^n'', [Str (if cont_scrub_status r \<noteq> 0 then ''CONTINUOUS SCRUB IS ON'' else ''CONTINUOUS SCRUB IS OFF'')])]) s"

definition cxl_cmd_ddr_cont_scrub_set ::
  "'s os \<Rightarrow> string \<Rightarrow> u32 \<Rightarrow> 's \<Rightarrow> 's printed" where
  "cxl_cmd_ddr_cont_scrub_set os dev status s =
     report (cxlmi_cmd_ddr_cont_scrub_set os
       \<lparr>cs_cont_scrub_status = status\<rparr>)
       (\<lambda>_. Defined [(''DDR cont scrub set: %s^n'', [Str dev])]) s"

definition cxl_cmd_ddr_page_select_set ::
  "'s os \<Rightarrow> string \<Rightarrow> u8 \<Rightarrow> 's \<Rightarrow> 's printed" where
  "cxl_cmd_ddr_page_select_set os dev opt s =
     report (cxlmi_cmd_ddr_page_select_set os
       \<lparr>pss_page_policy_reg_val = opt\<rparr>)
       (\<lambda>_. Defined [(''DDR Page Policy set: %s^n'', [Str dev])]) s"

definition cxl_cmd_ddr_page_select_get ::
  "'s os \<Rightarrow> string \<Rightarrow> 's \<Rightarrow> 's printed" where
  "cxl_cmd_ddr_page_select_get os dev s =
     report (cxlmi_cmd_ddr_page_select_get os)
       (\<lambda>r. Defined
         [(''DDR Page Policy get: %s^n'', [Str dev]),
          (''Page_Policy_Reg_Value is selected for %s^n'', [Str (if page_policy_reg_val (pp_select r) \<noteq> 0 then ''open'' else ''close'')])]) s"

definition cxl_cmd_ddr_hppr_set ::
  "'s os \<Rightarrow> string \<Rightarrow> u64 \<Rightarrow> 's \<Rightarrow> 's printed" where
  "cxl_cmd_ddr_hppr_set os dev opt s =
     report (cxlmi_cmd_ddr_hppr_set os
       \<lparr>hppr_set_enable = ucast opt\<rparr>)
       (\<lambda>_. Defined [(''DDR HPPR set: %s^n'', [Str dev])]) s"

definition cxl_cmd_ddr_hppr_get ::
  "'s os \<Rightarrow> string \<Rightarrow> 's \<Rightarrow> 's printed" where
  "cxl_cmd_ddr_hppr_get os dev s =
     report (cxlmi_cmd_ddr_hppr_get os)
       (\<lambda>r. Defined
         [(''DDR HPPR get: %s^n'', [Str dev]),
          (''DDR[0] HPPR is %s^n'', [Str (if hppr_enable r ! 0 = 1 then ''Enabled'' else ''Disabled'')]),
          (''DDR[1] HPPR is %s^n'', [Str (if hppr_enable r ! 1 = 1 then ''Enabled'' else ''Disabled'')])]) s"

definition cxl_cmd_ddr_hppr_addr_info_set ::
  "'s os \<Rightarrow> string \<Rightarrow> u8 \<Rightarrow> u8 \<Rightarrow> u8 \<Rightarrow> u8 \<Rightarrow> u32 \<Rightarrow> 's \<Rightarrow> 's printed" where
  "cxl_cmd_ddr_hppr_addr_info_set os dev ddr_id chip_select bank_group bank row s =
     report (cxlmi_cmd_ddr_hppr_addr_info_set os
       \<lparr>ai_ddr_id = ddr_id, ai_chip_select = chip_select, ai_bank = bank, ai_bank_group = bank_group, ai_row = row\<rparr>)
       (\<lambda>_. Defined [(''DDR HPPR addr info set: %s^n'', [Str dev])]) s"

definition cxl_cmd_ddr_hppr_addr_info_get ::
  "'s os \<Rightarrow> string \<Rightarrow> 's \<Rightarrow> 's printed" where
  "cxl_cmd_ddr_hppr_addr_info_get os dev s =
     report (cxlmi_cmd_ddr_hppr_addr_info_get os)
       (\<lambda>r. Defined ((''DDR HPPR addr info get: %s^n'', [Str dev]) #
         concat (map (\<lambda>i. map (\<lambda>j. let a = hppr_addr_infos r ! (8 * i + j) in
           (''DDR[%d],id[%d],ch=%d,cs=%d,bg=0x%02x,b=0x%02x,r=0x%08x,ppr_state=%d^n'', [U8 (ao_ddr_id a), Idx j, U8 (ao_channel a), U8 (ao_chip_select a), U8 (ao_bank_group a), U8 (ao_bank a), I32 (ao_row a), U8 (ao_ppr_state a)]))
           [0..<8]) [0..<2]))) s"

definition cxl_cmd_ddr_hppr_addr_info_clear ::
  "'s os \<Rightarrow> string \<Rightarrow> u8 \<Rightarrow> u8 \<Rightarrow> 's \<Rightarrow> 's printed" where
  "cxl_cmd_ddr_hppr_addr_info_clear os dev ddr_id channel_id s =
     report (cxlmi_cmd_ddr_hppr_addr_info_clear os
       \<lparr>ac_ddr_id = ddr_id, ac_channel_id = channel_id\<rparr>)
       (\<lambda>_. Defined [(''DDR HPPR addr info cleared: %s^n'', [Str dev])]) s"

definition cxl_cmd_ddr_ppr_get_status ::
  "'s os \<Rightarrow> string \<Rightarrow> 's \<Rightarrow> 's printed" where
  "cxl_cmd_ddr_ppr_get_status os dev s =
     report (cxlmi_cmd_ddr_ppr_get_status os)
       (\<lambda>r. Defined
         [(''DDR PPR status for: %s^n'', [Str dev]),
          (''DDR PPR Status is %d^n'', [U8 (ppr_status r)])]) s"

definition cxl_cmd_ddr_refresh_mode_set ::
  "'s os \<Rightarrow> string \<Rightarrow> u8 \<Rightarrow> 's \<Rightarrow> 's printed" where
  "cxl_cmd_ddr_refresh_mode_set os dev mode s =
     report (cxlmi_cmd_ddr_refresh_mode_set os
       \<lparr>rm_ddr_refresh_val = mode\<rparr>)
       (\<lambda>_. Defined [(''DDR refresh mode set: %s^n'', [Str dev])]) s"

definition cxl_cmd_ddr_refresh_mode_get ::
  "'s os \<Rightarrow> string \<Rightarrow> 's \<Rightarrow> 's printed" where
  "cxl_cmd_ddr_refresh_mode_get os dev s =
     report (cxlmi_cmd_ddr_refresh_mode_get os)
       (\<lambda>r. Defined
         [(''DDR refresh mode get: %s^n'', [Str dev]),
          (''REFRESH MODE IS SELECTED TO %dxRefresh mode^n'', [U8 (if ddr_refresh_val r = 0 then 1 else ddr_refresh_val r)])]) s"

definition cxl_cmd_cxl_err_cntr_get ::
  "'s os \<Rightarrow> string \<Rightarrow> 's \<Rightarrow> 's printed" where
  "cxl_cmd_cxl_err_cntr_get os dev s =
     report (cxlmi_cmd_cxl_err_cntr_get os)
       (\<lambda>r. Defined ((''CXL err cntr for: %s^n'', [Str dev]) # display_cxl_error_info (Some r))) s"

definition cxl_cmd_ddr_freq_get ::
  "'s os \<Rightarrow> string \<Rightarrow> 's \<Rightarrow> 's printed" where
  "cxl_cmd_ddr_freq_get os dev s =
     report (cxlmi_cmd_ddr_freq_get os)
       (\<lambda>r. Defined
         [(''DDR freq for: %s^n'', [Str dev]),
          (''DDR Operating Frequency: %f MHz^n'', [F32 (ddr_freq r)])]) s"

definition cxl_cmd_ddr_init_err_info_get ::
  "'s os \<Rightarrow> string \<Rightarrow> 's \<Rightarrow> 's printed" where
  "cxl_cmd_ddr_init_err_info_get os dev s =
     report (cxlmi_cmd_ddr_init_err_info_get os)
       (\<lambda>r. Defined ((''DDR Init error info for: %s^n'', [Str dev]) #
         concat (map (\<lambda>i. let e = ddr_bist_err_info r ! i in
           [(''BIST error details for DDR (%d) ^n'', [Idx i]),
            (''DDR BIST error count %d^n'', [I32 (bist_err_cnt e)]),
            (''DDR BIST error info (col)%d^n'', [I32 (bist_err_col e)]),
            (''DDR BIST error info (row)%d^n'', [I32 (bist_err_row e)]),
            (''DDR BIST error info (bank)%d^n'', [U16 (bist_err_bank e)]),
            (''DDR BIST error info (cs)%d^n'', [U16 (bist_err_cs e)])]) [0..<2]))) s"

end
