(* ===== verification/Ddr_Stats.thy ===== *)
theory Ddr_Stats
  imports Cxl_Handlers
begin

text \<open>
  The statistics of the memory controller: their structures in \<open>vendor_meta/inc/ddr.h\<close>, the handler
  \<open>cxl_cmd_ddr_stats_get\<close> of \<open>cxl/src/cxl_cmd.c\<close> that fetches them in pieces of at most 16 KB, and the
  four displays of \<open>cxl/src/ddr.c\<close>.
\<close>

section \<open>The structures\<close>

record ddr_pmon_data =
  pm_fr_cnt :: u64
  pm_idle_cnt :: u32
  pm_rd_ot_cnt :: u32
  pm_wr_ot_cnt :: u32
  pm_wrd_ot_cnt :: u32
  pm_rd_cmd_cnt :: u32
  pm_rd_cmd_busy_cnt :: u32
  pm_wr_cmd_cnt :: u32
  pm_wr_cmd_busy_cnt :: u32
  pm_rd_data_cnt :: u32
  pm_rd_data_busy_cnt :: u32
  pm_wr_data_cnt :: u32
  pm_wr_data_busy_cnt :: u32
  pm_rd_avg_lat :: u64
  pm_wr_avg_lat :: u64
  pm_rd_trans_smpl_cnt :: u32
  pm_wr_trans_smpl_cnt :: u32

definition sizeof_ddr_pmon_data :: nat where [layout_simps]: "sizeof_ddr_pmon_data = 80"

definition dec_ddr_pmon_data :: "bytes \<Rightarrow> ddr_pmon_data" where
  "dec_ddr_pmon_data b = \<lparr>
     pm_fr_cnt = rd64 0 b,
     pm_idle_cnt = rd32 8 b,
     pm_rd_ot_cnt = rd32 12 b,
     pm_wr_ot_cnt = rd32 16 b,
     pm_wrd_ot_cnt = rd32 20 b,
     pm_rd_cmd_cnt = rd32 24 b,
     pm_rd_cmd_busy_cnt = rd32 28 b,
     pm_wr_cmd_cnt = rd32 32 b,
     pm_wr_cmd_busy_cnt = rd32 36 b,
     pm_rd_data_cnt = rd32 40 b,
     pm_rd_data_busy_cnt = rd32 44 b,
     pm_wr_data_cnt = rd32 48 b,
     pm_wr_data_busy_cnt = rd32 52 b,
     pm_rd_avg_lat = rd64 56 b,
     pm_wr_avg_lat = rd64 64 b,
     pm_rd_trans_smpl_cnt = rd32 72 b,
     pm_wr_trans_smpl_cnt = rd32 76 b\<rparr>"

record dfi_cs_pm =
  cs_mrw_cnt :: u32
  cs_refresh_cnt :: u32
  cs_act_cnt :: u32
  cs_write_cnt :: u32
  cs_read_cnt :: u32
  cs_pre_cnt :: u32
  cs_rr_cnt :: u32
  cs_ww_cnt :: u32
  cs_rw_cnt :: u32

definition sizeof_dfi_cs_pm :: nat where [layout_simps]: "sizeof_dfi_cs_pm = 36"

definition dec_dfi_cs_pm :: "bytes \<Rightarrow> dfi_cs_pm" where
  "dec_dfi_cs_pm b = \<lparr>
     cs_mrw_cnt = rd32 0 b,
     cs_refresh_cnt = rd32 4 b,
     cs_act_cnt = rd32 8 b,
     cs_write_cnt = rd32 12 b,
     cs_read_cnt = rd32 16 b,
     cs_pre_cnt = rd32 20 b,
     cs_rr_cnt = rd32 24 b,
     cs_ww_cnt = rd32 28 b,
     cs_rw_cnt = rd32 32 b\<rparr>"

record dfi_cs_bank_pm =
  bk_bank_act_cnt :: u32
  bk_bank_wr_cnt :: u32
  bk_bank_rd_cnt :: u32
  bk_bank_pre_cnt :: u32

definition sizeof_dfi_cs_bank_pm :: nat where [layout_simps]: "sizeof_dfi_cs_bank_pm = 16"

definition dec_dfi_cs_bank_pm :: "bytes \<Rightarrow> dfi_cs_bank_pm" where
  "dec_dfi_cs_bank_pm b = \<lparr>
     bk_bank_act_cnt = rd32 0 b,
     bk_bank_wr_cnt = rd32 4 b,
     bk_bank_rd_cnt = rd32 8 b,
     bk_bank_pre_cnt = rd32 12 b\<rparr>"

record dfi_mc_pm =
  mc_cmd_queue_full_events :: u32
  mc_info_fifo_full_events :: u32
  mc_wrdata_hold_fifo_full_events :: u32
  mc_port_cmd_fifo0_full_events :: u32
  mc_port_wrresp_fifo0_full_events :: u32
  mc_port_wr_fifo0_full_events :: u32
  mc_port_rd_fifo0_full_events :: u32
  mc_port_cmd_fifo1_full_events :: u32
  mc_port_wrresp_fifo1_full_events :: u32
  mc_port_wr_fifo1_full_events :: u32
  mc_port_rd_fifo1_full_events :: u32
  mc_ecc_dataout_corrected :: u32
  mc_ecc_dataout_uncorrected :: u32
  mc_pd_ex :: u32
  mc_pd_en :: u32
  mc_srex :: u32
  mc_sren :: u32
  mc_write :: u32
  mc_read :: u32
  mc_rmw :: u32
  mc_bank_act :: u32
  mc_precharge :: u32
  mc_precharge_all :: u32
  mc_mrw :: u32
  mc_auto_ref :: u32
  mc_rw_auto_pre :: u32
  mc_zq_cal_short :: u32
  mc_zq_cal_long :: u32
  mc_same_addr_ww_collision :: u32
  mc_same_addr_wr_collision :: u32
  mc_same_addr_rw_collision :: u32
  mc_same_addr_rr_collision :: u32

definition sizeof_dfi_mc_pm :: nat where [layout_simps]: "sizeof_dfi_mc_pm = 128"

definition dec_dfi_mc_pm :: "bytes \<Rightarrow> dfi_mc_pm" where
  "dec_dfi_mc_pm b = \<lparr>
     mc_cmd_queue_full_events = rd32 0 b,
     mc_info_fifo_full_events = rd32 4 b,
     mc_wrdata_hold_fifo_full_events = rd32 8 b,
     mc_port_cmd_fifo0_full_events = rd32 12 b,
     mc_port_wrresp_fifo0_full_events = rd32 16 b,
     mc_port_wr_fifo0_full_events = rd32 20 b,
     mc_port_rd_fifo0_full_events = rd32 24 b,
     mc_port_cmd_fifo1_full_events = rd32 28 b,
     mc_port_wrresp_fifo1_full_events = rd32 32 b,
     mc_port_wr_fifo1_full_events = rd32 36 b,
     mc_port_rd_fifo1_full_events = rd32 40 b,
     mc_ecc_dataout_corrected = rd32 44 b,
     mc_ecc_dataout_uncorrected = rd32 48 b,
     mc_pd_ex = rd32 52 b,
     mc_pd_en = rd32 56 b,
     mc_srex = rd32 60 b,
     mc_sren = rd32 64 b,
     mc_write = rd32 68 b,
     mc_read = rd32 72 b,
     mc_rmw = rd32 76 b,
     mc_bank_act = rd32 80 b,
     mc_precharge = rd32 84 b,
     mc_precharge_all = rd32 88 b,
     mc_mrw = rd32 92 b,
     mc_auto_ref = rd32 96 b,
     mc_rw_auto_pre = rd32 100 b,
     mc_zq_cal_short = rd32 104 b,
     mc_zq_cal_long = rd32 108 b,
     mc_same_addr_ww_collision = rd32 112 b,
     mc_same_addr_wr_collision = rd32 116 b,
     mc_same_addr_rw_collision = rd32 120 b,
     mc_same_addr_rr_collision = rd32 124 b\<rparr>"

record ddr_stats_data =
  st_pmon :: ddr_pmon_data
  st_cs_pm :: "dfi_cs_pm list"
  st_cs_bank_pm :: "dfi_cs_bank_pm list"
  st_mc_pm :: dfi_mc_pm

definition sizeof_ddr_stats_data :: nat where [layout_simps]: "sizeof_ddr_stats_data = 1376"

definition dec_ddr_stats_data :: "bytes \<Rightarrow> ddr_stats_data" where
  "dec_ddr_stats_data b = \<lparr>
     st_pmon = (\<lambda>o1 x. dec_ddr_pmon_data (bslice o1 80 x)) 0 b,
     st_cs_pm = rd_array (\<lambda>o1 x. dec_dfi_cs_pm (bslice o1 36 x)) 36 80 4 b,
     st_cs_bank_pm = rd_array (\<lambda>o1 x. dec_dfi_cs_bank_pm (bslice o1 16 x)) 16 224 64 b,
     st_mc_pm = (\<lambda>o1 x. dec_dfi_mc_pm (bslice o1 128 x)) 1248 b\<rparr>"

section \<open>The displays\<close>

text \<open>
  \<open>mem\<close> is the memory behind the pointer; the element at \<open>k\<close> has to lie inside it.
\<close>

definition stats_at :: "bytes \<Rightarrow> nat \<Rightarrow> ddr_stats_data outcome" where
  "stats_at mem k =
     (if sizeof_ddr_stats_data * (k + 1) \<le> length mem
      then Defined (dec_ddr_stats_data (bslice (sizeof_ddr_stats_data * k) sizeof_ddr_stats_data mem))
      else Undefined Oob_read)"

definition display_pmon_stats :: "bytes option \<Rightarrow> u32 \<Rightarrow> line list outcome" where
  "display_pmon_stats p loop_count =
     (case p of None \<Rightarrow> Defined [null_line]
      | Some mem \<Rightarrow>
         bind_outcome (each (\<lambda>k. bind_outcome (stats_at mem k) (\<lambda>d. Defined
           (let x = st_pmon d in [(''[%d], %lu, %u, %u, %u, %u, %u, %u, %u, %u, %u, %u, %u, %u, %lu, %lu, %u, %u^n'',
            [Idx k, I64 (pm_fr_cnt x), I32 (pm_idle_cnt x), I32 (pm_rd_ot_cnt x),
             I32 (pm_wr_ot_cnt x), I32 (pm_wrd_ot_cnt x), I32 (pm_rd_cmd_cnt x),
             I32 (pm_rd_cmd_busy_cnt x), I32 (pm_wr_cmd_cnt x), I32 (pm_wr_cmd_busy_cnt x),
             I32 (pm_rd_data_cnt x), I32 (pm_rd_data_busy_cnt x), I32 (pm_wr_data_cnt x),
             I32 (pm_wr_data_busy_cnt x), I64 (pm_rd_avg_lat x), I64 (pm_wr_avg_lat x),
             I32 (pm_rd_trans_smpl_cnt x), I32 (pm_wr_trans_smpl_cnt x)])]))) [0..<unat loop_count])
         (\<lambda>ls. Defined ((''PMON STATS:^n'', []) #
           (''iteration, fr_cnt, idle_cnt, rd_ot_cnt, wr_ot_cnt, wrd_ot_cnt, rd_cmd_cnt, rd_cmd_busy_cnt, wr_cmd_cnt, wr_cmd_busy_cnt, rd_data_cnt, rd_data_busy_cnt, wr_data_cnt, wr_data_busy_cnt, rd_avg_lat, wr_avg_lat, rd_trans_smpl_cnt, wr_trans_smpl_cnt^n'', []) #
           concat ls @ [(''^n'', [])])))"

definition display_cs_pm_stats :: "bytes option \<Rightarrow> u32 \<Rightarrow> line list outcome" where
  "display_cs_pm_stats p loop_count =
     (case p of None \<Rightarrow> Defined [null_line]
      | Some mem \<Rightarrow>
         bind_outcome (each (\<lambda>k. bind_outcome (stats_at mem k) (\<lambda>d. Defined
           (map (\<lambda>rank. let x = st_cs_pm d ! rank in (''[%d], %d, %u, %u, %u, %u, %u, %u, %u, %u, %u^n'',
            [Idx k, Idx rank, I32 (cs_mrw_cnt x), I32 (cs_refresh_cnt x), I32 (cs_act_cnt x),
             I32 (cs_write_cnt x), I32 (cs_read_cnt x), I32 (cs_pre_cnt x), I32 (cs_rr_cnt x),
             I32 (cs_ww_cnt x), I32 (cs_rw_cnt x)])) [0..<4]))) [0..<unat loop_count])
         (\<lambda>ls. Defined ((''CS PM STATS:^n'', []) #
           (''iteration, rank, mrw_cnt, refresh_cnt, act_cnt, write_cnt, read_cnt, pre_cnt, rr_cnt, ww_cnt, rw_cnt^n '', []) #
           concat ls @ [(''^n'', [])])))"

definition display_cs_bank_pm_stats :: "bytes option \<Rightarrow> u32 \<Rightarrow> line list outcome" where
  "display_cs_bank_pm_stats p loop_count =
     bind_outcome (each (\<lambda>k. bind_outcome (case p of None \<Rightarrow> Undefined Null_deref | Some mem \<Rightarrow> stats_at mem k)
         (\<lambda>d. Defined
           (concat (map (\<lambda>rank. map (\<lambda>bank. let x = st_cs_bank_pm d ! (16 * rank + bank) in (''[%d], %d, %d, %u, %u, %u, %u^n'',
            [Idx k, Idx rank, Idx bank, I32 (bk_bank_act_cnt x), I32 (bk_bank_wr_cnt x),
             I32 (bk_bank_rd_cnt x), I32 (bk_bank_pre_cnt x)]))
              [0..<16]) [0..<4])))) [0..<unat loop_count])
       (\<lambda>ls. Defined ((''CS BANK STATS:^n'', []) #
         (''iteration, rank, bank, bank_act_cnt, bank_wr_cnt, bank_rd_cnt, bank_pre_cnt^n'', []) #
         concat ls @ [(''^n'', [])]))"

definition display_mc_pm_stats :: "bytes option \<Rightarrow> u32 \<Rightarrow> line list outcome" where
  "display_mc_pm_stats p loop_count =
     (case p of None \<Rightarrow> Defined [null_line]
      | Some mem \<Rightarrow>
         bind_outcome (each (\<lambda>k. bind_outcome (stats_at mem k) (\<lambda>d. Defined
           (let x = st_mc_pm d in [(''[%d], %u, %u, %u, %u, %u, %u, %u, %u, %u, %u, %u, %u, %u, %u, %u, %u, %u,%u, %u, %u, %u, %u, %u,%u, %u, %u, %u, %u,%u, %u, %u, %u^n'',
            [Idx k, I32 (mc_cmd_queue_full_events x), I32 (mc_info_fifo_full_events x),
             I32 (mc_wrdata_hold_fifo_full_events x), I32 (mc_port_cmd_fifo0_full_events x),
             I32 (mc_port_wrresp_fifo0_full_events x), I32 (mc_port_wr_fifo0_full_events x),
             I32 (mc_port_rd_fifo0_full_events x), I32 (mc_port_cmd_fifo1_full_events x),
             I32 (mc_port_wrresp_fifo1_full_events x), I32 (mc_port_wr_fifo1_full_events x),
             I32 (mc_port_rd_fifo1_full_events x), I32 (mc_ecc_dataout_corrected x),
             I32 (mc_ecc_dataout_uncorrected x), I32 (mc_pd_ex x), I32 (mc_pd_en x),
             I32 (mc_srex x), I32 (mc_sren x), I32 (mc_write x), I32 (mc_read x),
             I32 (mc_rmw x), I32 (mc_bank_act x), I32 (mc_precharge x),
             I32 (mc_precharge_all x), I32 (mc_mrw x), I32 (mc_auto_ref x),
             I32 (mc_rw_auto_pre x), I32 (mc_zq_cal_short x), I32 (mc_zq_cal_long x),
             I32 (mc_same_addr_ww_collision x), I32 (mc_same_addr_wr_collision x),
             I32 (mc_same_addr_rw_collision x), I32 (mc_same_addr_rr_collision x)])]))) [0..<unat loop_count])
         (\<lambda>ls. Defined ((''PM STATS:^n'', []) #
           (''iteration, cmd_queue_full_events, info_fifo_full_events, wrdata_hold_fifo_full_events, port_cmd_fifo0_full_events, port_wrresp_fifo0_full_events, port_wr_fifo0_full_events, port_rd_fifo0_full_events, port_cmd_fifo1_full_events, port_wrresp_fifo1_full_events, port_wr_fifo1_full_events, port_rd_fifo1_full_events, ecc_dataout_corrected, ecc_dataout_uncorrected, pd_ex, pd_en, srex, sren, write, read, rmw, bank_act, precharge, precharge_all, mrw, auto_ref, rw_auto_pre, zq_cal_short, zq_cal_long, same_addr_ww_collision, same_addr_wr_collision, same_addr_rw_collision, same_addr_rr_collision^n'', []) #
           concat ls @ [(''^n'', [])])))"

section \<open>The handler\<close>

definition MAX_CXL_TRANSFER_SZ :: nat where "MAX_CXL_TRANSFER_SZ = 16 * 1024"

text \<open>A response copied to its place in the buffer.\<close>

definition copy_to :: "nat \<Rightarrow> bytes \<Rightarrow> bytes \<Rightarrow> bytes" where
  "copy_to off b mem = take off mem @ b @ drop (off + length b) mem"

text \<open>
  The loop over the pieces: return code of the last one, buffer and state. A piece that fails with a
  positive code leaves its place as it was and the loop goes on.
\<close>

function get_chunks :: "'s os \<Rightarrow> nat \<Rightarrow> nat \<Rightarrow> int \<Rightarrow> bytes \<Rightarrow> 's \<Rightarrow> int \<times> bytes \<times> 's" where
  "get_chunks os total_bytes bytes_copied rc mem s =
     (if total_bytes \<le> bytes_copied then (rc, mem, s)
      else let bytes_to_cpy = (if total_bytes - bytes_copied < MAX_CXL_TRANSFER_SZ
                               then total_bytes - bytes_copied else MAX_CXL_TRANSFER_SZ) in
        case cxlmi_cmd_ddr_stats_get os
               \<lparr>sg_offset = of_nat bytes_copied, sg_transfer_sz = of_nat bytes_to_cpy\<rparr> s of (rc', rsp, s') \<Rightarrow>
          let mem' = (case rsp of None \<Rightarrow> mem | Some b \<Rightarrow> copy_to bytes_copied b mem) in
          if rc' < 0 then (rc', mem', s')
          else get_chunks os total_bytes (bytes_copied + bytes_to_cpy) rc' mem' s')"
  by pat_completeness auto

termination
  by (relation "measure (\<lambda>(os, total_bytes, bytes_copied, rc, mem, s). total_bytes - bytes_copied)")
    (auto simp: MAX_CXL_TRANSFER_SZ_def)

declare get_chunks.simps [simp del]

definition show_stats :: "bytes \<Rightarrow> u32 \<Rightarrow> line list outcome" where
  "show_stats mem loop_count =
     bind_outcome (display_pmon_stats (Some mem) loop_count) (\<lambda>a.
     bind_outcome (display_cs_pm_stats (Some mem) loop_count) (\<lambda>b.
     bind_outcome (display_cs_bank_pm_stats (Some mem) loop_count) (\<lambda>c.
     bind_outcome (display_mc_pm_stats (Some mem) loop_count) (\<lambda>d.
       Defined (a @ b @ c @ d)))))"

text \<open>
  The product is a \<open>size_t\<close> that is stored in an \<open>int\<close>, and converted back to \<open>size_t\<close> for \<open>malloc\<close>;
  \<open>junk n\<close> is what the \<open>n\<close> bytes from \<open>malloc\<close> hold.
\<close>

definition stats_bytes :: "u32 \<Rightarrow> int" where
  "stats_bytes loop_count = to_int32 (int (sizeof_ddr_stats_data * unat loop_count))"

definition cxl_cmd_ddr_stats_get :: "'s os \<Rightarrow> (nat \<Rightarrow> bytes) \<Rightarrow> string \<Rightarrow> 's \<Rightarrow> 's printed" where
  "cxl_cmd_ddr_stats_get os junk dev s =
     (case cxlmi_cmd_ddr_stats_status os s of (rc, rsp, s1) \<Rightarrow>
        if rc \<noteq> 0 then Defined (rc, [], s1)
        else let loop_count = stats_loop_count (the rsp);
                 head = [(''DDR stats get : %s^n'', [Str dev]),
                         (''%s^n'', [Str (if stats_run_status (the rsp) \<noteq> 0 then ''DDR STATS IS BUSY'' else ''DDR STATS IS NOT RUNNING/FINISHED'')]),
                         (''Loop Count = %d^n'', [I32 loop_count])] in
          if stats_run_status (the rsp) \<noteq> 0 then Defined (-16, head, s1)
          else let total_bytes = stats_bytes loop_count in
            case os_calloc os (nat (total_bytes mod 2 ^ 64)) s1 of (ok, s2) \<Rightarrow>
              if \<not> ok then Defined (-12, head @ [(''Failed to allocate memory^r^n'', [])], s2)
              else case get_chunks os (nat total_bytes) 0 0
                          (rsp_buffer (nat total_bytes) (junk (nat total_bytes))) s2 of (rc', mem, s3) \<Rightarrow>
                if rc' < 0 then Defined (rc', head, s3)
                else bind_outcome (show_stats mem loop_count) (\<lambda>ls. Defined (rc', head @ ls, s3)))"

section \<open>What the displays read\<close>

lemma stats_at_defined:
  "is_defined (stats_at mem k) \<longleftrightarrow> sizeof_ddr_stats_data * (k + 1) \<le> length mem"
  by (simp add: stats_at_def)

lemma stats_rows_defined:
  assumes "\<And>k d. is_defined (f k d)"
  shows "is_defined (each (\<lambda>k. bind_outcome (stats_at mem k) (f k)) [0..<n]) \<longleftrightarrow>
         n = 0 \<or> sizeof_ddr_stats_data * n \<le> length mem"
proof -
  have "is_defined (each (\<lambda>k. bind_outcome (stats_at mem k) (f k)) [0..<n]) \<longleftrightarrow>
      (\<forall>k < n. sizeof_ddr_stats_data * (k + 1) \<le> length mem)"
    by (auto simp: each_defined_iff is_defined_bind_total assms stats_at_defined)
  also have "\<dots> \<longleftrightarrow> n = 0 \<or> sizeof_ddr_stats_data * n \<le> length mem"
  proof (cases n)
    case (Suc m)
    have "k < n \<Longrightarrow> sizeof_ddr_stats_data * (k + 1) \<le> sizeof_ddr_stats_data * n" for k by (intro mult_le_mono2) simp
    with Suc show ?thesis by (metis Suc_eq_plus1 lessI nat.distinct(1) order_trans)
  qed simp
  finally show ?thesis .
qed

lemma display_defined:
  "is_defined (display_pmon_stats (Some mem) n) \<longleftrightarrow> n = 0 \<or> sizeof_ddr_stats_data * unat n \<le> length mem"
  "is_defined (display_cs_pm_stats (Some mem) n) \<longleftrightarrow> n = 0 \<or> sizeof_ddr_stats_data * unat n \<le> length mem"
  "is_defined (display_cs_bank_pm_stats (Some mem) n) \<longleftrightarrow> n = 0 \<or> sizeof_ddr_stats_data * unat n \<le> length mem"
  "is_defined (display_mc_pm_stats (Some mem) n) \<longleftrightarrow> n = 0 \<or> sizeof_ddr_stats_data * unat n \<le> length mem"
  unfolding display_pmon_stats_def display_cs_pm_stats_def display_cs_bank_pm_stats_def
    display_mc_pm_stats_def
  by (simp_all add: is_defined_bind_total stats_rows_defined unat_eq_0)

text \<open>The displays stay inside the buffer exactly when it holds all the elements.\<close>

lemma show_stats_defined:
  "is_defined (show_stats mem n) \<longleftrightarrow> sizeof_ddr_stats_data * unat n \<le> length mem"
proof -
  have "is_defined (show_stats mem n) \<longleftrightarrow>
      is_defined (display_pmon_stats (Some mem) n) \<and> is_defined (display_cs_pm_stats (Some mem) n) \<and>
      is_defined (display_cs_bank_pm_stats (Some mem) n) \<and> is_defined (display_mc_pm_stats (Some mem) n)"
    unfolding show_stats_def
    by (cases "display_pmon_stats (Some mem) n"; cases "display_cs_pm_stats (Some mem) n";
        cases "display_cs_bank_pm_stats (Some mem) n"; cases "display_mc_pm_stats (Some mem) n") simp_all
  then show ?thesis by (auto simp: display_defined)
qed

section \<open>What the loop fetches\<close>

lemma length_copy_to: "off + length b \<le> length mem \<Longrightarrow> length (copy_to off b mem) = length mem"
  by (simp add: copy_to_def)

lemma stats_get_response:
  assumes "cxlmi_cmd_ddr_stats_get os \<lparr>sg_offset = a, sg_transfer_sz = of_nat n\<rparr> s = (rc, Some b, s')"
    and "n < 2 ^ 32"
  shows "length b = n"
proof -
  have "unat (of_nat n :: u32) = n" using assms(2) by (simp add: unat_of_nat)
  with assms(1) show ?thesis
    by (auto simp: cxlmi_cmd_ddr_stats_get_def shape_defs split: prod.splits if_splits)
qed

text \<open>The loop never writes outside the buffer.\<close>

lemma get_chunks_length:
  assumes "tot < 2 ^ 32" "copied \<le> tot" "length mem = tot"
  shows "length (fst (snd (get_chunks os tot copied rc mem s))) = tot"
  using assms
proof (induction os tot copied rc mem s rule: get_chunks.induct)
  case (1 os tot copied rc mem s)
  define n where "n = (if tot - copied < MAX_CXL_TRANSFER_SZ then tot - copied else MAX_CXL_TRANSFER_SZ)"
  have n: "copied + n \<le> tot" "n < 2 ^ 32" using "1.prems" by (auto simp: n_def)
  obtain rc' rsp s' where send:
    "cxlmi_cmd_ddr_stats_get os \<lparr>sg_offset = of_nat copied, sg_transfer_sz = of_nat n\<rparr> s = (rc', rsp, s')"
    by (metis prod_cases3)
  define mem' where "mem' = (case rsp of None \<Rightarrow> mem | Some b \<Rightarrow> copy_to copied b mem)"
  have mem': "length mem' = tot"
    using stats_get_response[of os _ n s rc' _ s'] send n "1.prems"(3)
    by (cases rsp) (simp_all add: mem'_def length_copy_to)
  have step: "get_chunks os tot copied rc mem s =
      (if tot \<le> copied then (rc, mem, s) else if rc' < 0 then (rc', mem', s')
       else get_chunks os tot (copied + n) rc' mem' s')"
    by (subst get_chunks.simps) (simp add: Let_def send mem'_def flip: n_def)
  show ?case
  proof (cases "tot \<le> copied \<or> rc' < 0")
    case True
    with mem' "1.prems"(3) show ?thesis by (auto simp: step)
  next
    case False
    then have "length (fst (snd (get_chunks os tot (copied + n) rc' mem' s'))) = tot"
      using "1.IH"[OF _ n_def send[symmetric] _ mem'_def] mem' n "1.prems"(1) by simp
    with False show ?thesis by (simp add: step)
  qed
qed

lemma to_int32_nat: "k < 2 ^ 31 \<Longrightarrow> nat (to_int32 (int k)) = k"
  by (simp add: to_int32_id int32_range_def)

lemma stats_bytes_small:
  "sizeof_ddr_stats_data * unat n < 2 ^ 31 \<Longrightarrow> nat (stats_bytes n) = sizeof_ddr_stats_data * unat n"
  unfolding stats_bytes_def by (rule to_int32_nat)



section \<open>A device with statistics\<close>

text \<open>
  A device that holds the statistics \<open>data\<close> of \<open>n\<close> iterations, is not busy and answers every request
  for a piece with it; the state records the requests.
\<close>

definition stats_device :: "bytes \<Rightarrow> u32 \<Rightarrow> cci_req list os" where
  "stats_device data n =
     \<lparr>os_calloc = (\<lambda>k s. (True, s)),
      os_send = (\<lambda>rq s. (0,
        if rq_opcode rq = DDR_STATS_STATUS then enc32 0 @ enc32 n
        else bslice (unat (rd32 0 (rq_payload rq))) (unat (rd32 4 (rq_payload rq))) data, s @ [rq])),
      os_msg_sz = 0\<rparr>"

definition piece_req :: "nat \<Rightarrow> nat \<Rightarrow> cci_req" where
  "piece_req tot i =
     (let len = min MAX_CXL_TRANSFER_SZ (tot - MAX_CXL_TRANSFER_SZ * i) in
      \<lparr>rq_pl_sz = 8, rq_cmdset = VENDOR_CMD_OTHERS, rq_opcode = DDR_STATS_GET,
       rq_payload = enc32 (of_nat (MAX_CXL_TRANSFER_SZ * i)) @ enc32 (of_nat len), rq_rsp_cap = len\<rparr>)"

definition num_pieces :: "nat \<Rightarrow> nat" where
  "num_pieces tot = (tot + (MAX_CXL_TRANSFER_SZ - 1)) div MAX_CXL_TRANSFER_SZ"

lemma device_piece:
  assumes "a + n \<le> length data" "a < 2 ^ 32" "n < 2 ^ 32"
  shows "cxlmi_cmd_ddr_stats_get (stats_device data k) \<lparr>sg_offset = of_nat a, sg_transfer_sz = of_nat n\<rparr> s =
    (0, Some (bslice a n data),
     s @ [\<lparr>rq_pl_sz = 8, rq_cmdset = VENDOR_CMD_OTHERS, rq_opcode = DDR_STATS_GET,
           rq_payload = enc32 (of_nat a) @ enc32 (of_nat n), rq_rsp_cap = n\<rparr>])"
proof -
  have "unat (of_nat a :: u32) = a" "unat (of_nat n :: u32) = n" using assms by (simp_all add: unat_of_nat)
  moreover have "rd32 0 (enc32 x @ enc32 y) = x" "rd32 4 (enc32 x @ enc32 y) = y" for x y
    by (simp_all add: rd32_def codec_simps)
  ultimately show ?thesis using assms
    by (simp add: cxlmi_cmd_ddr_stats_get_def shape_defs stats_device_def enc_ddr_stats_get_req_def
        opcode_simps length_bslice)
qed

lemma bslice_copy:
  "copied + n \<le> length data \<Longrightarrow> length mem = length data \<Longrightarrow>
   copy_to copied (bslice copied n data) (take copied data @ drop copied mem) =
   take (copied + n) data @ drop (copied + n) mem"
  by (simp add: copy_to_def bslice_def take_add min_def)

lemma get_chunks_device:
  assumes "length data < 2 ^ 31" "length mem = length data"
    and "copied = min (length data) (MAX_CXL_TRANSFER_SZ * i)" "i \<le> num_pieces (length data)"
  shows "get_chunks (stats_device data k) (length data) copied 0 (take copied data @ drop copied mem) s =
         (0, data, s @ map (piece_req (length data)) [i..<num_pieces (length data)])"
  using assms(3,4)
proof (induction "num_pieces (length data) - i" arbitrary: i copied s)
  case 0
  then have "length data \<le> MAX_CXL_TRANSFER_SZ * i" by (simp add: num_pieces_def MAX_CXL_TRANSFER_SZ_def)
  with 0 assms(2) show ?case by (subst get_chunks.simps) simp
next
  case (Suc m)
  let ?n = "min MAX_CXL_TRANSFER_SZ (length data - copied)"
  have i: "i < num_pieces (length data)" using Suc(2) by simp
  have "MAX_CXL_TRANSFER_SZ * Suc i \<le> length data + (MAX_CXL_TRANSFER_SZ - 1)"
    using i by (simp add: num_pieces_def less_eq_div_iff_mult_less_eq Suc_le_eq[symmetric] MAX_CXL_TRANSFER_SZ_def)
  then have "MAX_CXL_TRANSFER_SZ * i < length data" by (simp add: MAX_CXL_TRANSFER_SZ_def)
  then have c: "copied < length data" "copied = MAX_CXL_TRANSFER_SZ * i" using Suc.prems(1) by simp_all
  have n: "(if length data - copied < MAX_CXL_TRANSFER_SZ then length data - copied else MAX_CXL_TRANSFER_SZ) = ?n"
    by simp
  have fit: "copied + ?n \<le> length data" using c by simp
  have dp: "cxlmi_cmd_ddr_stats_get (stats_device data k)
      \<lparr>sg_offset = of_nat copied, sg_transfer_sz = of_nat ?n\<rparr> s =
    (0, Some (bslice copied ?n data), s @ [piece_req (length data) i])"
    unfolding piece_req_def Let_def c(2)[symmetric]
    using fit assms(1) by (intro device_piece) simp_all
  have next_copied: "copied + ?n = min (length data) (MAX_CXL_TRANSFER_SZ * Suc i)"
    using c by simp
  have "get_chunks (stats_device data k) (length data) copied 0 (take copied data @ drop copied mem) s =
      get_chunks (stats_device data k) (length data) (copied + ?n) 0
        (take (copied + ?n) data @ drop (copied + ?n) mem) (s @ [piece_req (length data) i])"
    using c(1) by (subst get_chunks.simps) (simp only: n dp Let_def, simp add: bslice_copy fit assms(2))
  also have "\<dots> = (0, data, (s @ [piece_req (length data) i]) @
      map (piece_req (length data)) [Suc i..<num_pieces (length data)])"
    using Suc(2) i by (intro Suc(1) next_copied) simp_all
  also have "\<dots> = (0, data, s @ map (piece_req (length data)) [i..<num_pieces (length data)])"
    using i by (simp add: upt_conv_Cons)
  finally show ?case .
qed

text \<open>C4. From a device with \<open>n\<close> iterations of statistics, the handler requests the pieces of 16384 bytes
  in order, each once and the last one cut to the end, puts them together to exactly the data of the
  device, whatever \<open>malloc\<close> left in the buffer, and prints the four displays of it.\<close>

theorem stats_get_complete:
  assumes "length data = 1376 * unat n" and "unat n \<le> 1560671"
  shows "cxl_cmd_ddr_stats_get (stats_device data n) junk dev [] =
    bind_outcome (show_stats data n) (\<lambda>ls. Defined (0,
      [(''DDR stats get : %s^n'', [Str dev]),
       (''%s^n'', [Str ''DDR STATS IS NOT RUNNING/FINISHED'']),
       (''Loop Count = %d^n'', [I32 n])] @ ls,
      \<lparr>rq_pl_sz = 0, rq_cmdset = VENDOR_CMD_OTHERS, rq_opcode = DDR_STATS_STATUS, rq_payload = [],
       rq_rsp_cap = 8\<rparr> # map (piece_req (1376 * unat n)) [0..<num_pieces (1376 * unat n)]))
   \<and> is_defined (show_stats data n)"
proof -
  let ?st = "\<lparr>rq_pl_sz = 0, rq_cmdset = VENDOR_CMD_OTHERS, rq_opcode = DDR_STATS_STATUS,
    rq_payload = [], rq_rsp_cap = 8\<rparr> :: cci_req"
  have "rd32 0 (enc32 x @ enc32 y) = x" "rd32 4 (enc32 x @ enc32 y) = y" for x y
    by (simp_all add: rd32_def codec_simps)
  then have st: "cxlmi_cmd_ddr_stats_status (stats_device data n) [] =
      (0, Some \<lparr>stats_run_status = 0, stats_loop_count = n\<rparr>, [?st])"
    by (simp add: cxlmi_cmd_ddr_stats_status_def shape_defs stats_device_def sizeof_ddr_stats_status_def
        dec_ddr_stats_status_def)
  have b: "nat (stats_bytes n) = length data"
    using assms by (simp add: stats_bytes_small sizeof_ddr_stats_data_def)
  have ch: "get_chunks (stats_device data n) (length data) 0 0 (rsp_buffer (length data) (junk (length data))) [?st] =
      (0, data, [?st] @ map (piece_req (length data)) [0..<num_pieces (length data)])"
    using get_chunks_device[of data "rsp_buffer (length data) (junk (length data))" 0 0 n "[?st]"] assms by simp
  have al: "os_calloc (stats_device data n) k s = (True, s)" for k s by (simp add: stats_device_def)
  have "is_defined (show_stats data n)"
    using assms by (simp add: show_stats_defined sizeof_ddr_stats_data_def)
  then show ?thesis
    unfolding assms(1)[symmetric] by (simp add: cxl_cmd_ddr_stats_get_def st al b ch Let_def)
qed

theorem stats_get_complete_witness:
  "is_defined (show_stats (replicate 2752 7) 2)"
  using stats_get_complete[of "replicate 2752 7" 2 "\<lambda>n. []" "''mem0''"] by simp

end
