(* ===== verification/Cxl_Std.thy ===== *)
theory Cxl_Std
  imports Cxl_Handlers Parse_Option
begin

text \<open>
  The handlers of the commands of the CXL specification in \<open>cxl/src/cxl_cmd.c\<close>. Their commands and
  structures belong to libcxlmi: the record \<open>cxlmi\<close> is the library, a parameter, and the records
  before it hold the members the handlers read and write, with their widths. Byte order is that of
  a little-endian host: \<open>le\<close> conversions are the identity and \<open>be\<close> conversions swap the bytes.
\<close>

section \<open>The library\<close>

record identify =
  id_fw_revision :: bytes
  id_total_capacity :: u64
  id_volatile_capacity :: u64
  id_persistent_capacity :: u64
  id_partition_align :: u64
  id_info_event_log_size :: u16
  id_warning_event_log_size :: u16
  id_failure_event_log_size :: u16
  id_fatal_event_log_size :: u16
  id_lsa_size :: u32
  id_poison_list_max_mer :: bytes
  id_inject_poison_limit :: u16
  id_poison_caps :: u8
  id_qos_telemetry_caps :: u8

record supported_log =
  sl_uuid :: bytes
  sl_log_size :: u32

record supported_logs =
  sl_num :: u16
  sl_entries :: "supported_log list"

record get_log_req =
  gl_uuid :: bytes
  gl_offset :: u32
  gl_length :: u32

record alert_config =
  al_valid_alerts :: u8
  al_programmable_alerts :: u8
  al_life_used_critical :: u8
  al_life_used_warning :: u8
  al_over_temp_critical :: u16
  al_under_temp_critical :: u16
  al_over_temp_warning :: u16
  al_under_temp_warning :: u16
  al_volatile_warning :: u16
  al_persistent_warning :: u16

record set_alert_config =
  sa_valid :: u8
  sa_enable :: u8
  sa_life_used :: u8
  sa_rsvd1 :: u8
  sa_over_temp :: u16
  sa_under_temp :: u16
  sa_volatile :: u16
  sa_persistent :: u16

record health_info =
  hi_health_status :: u8
  hi_media_status :: u8
  hi_additional_status :: u8
  hi_life_used :: u8
  hi_device_temperature :: u16
  hi_dirty_shutdown_count :: u32
  hi_corrected_volatile :: u32
  hi_corrected_persistent :: u32

record fw_info =
  fi_slots_supported :: u8
  fi_slot_info :: u8
  fi_caps :: u8
  fi_rev1 :: bytes
  fi_rev2 :: bytes
  fi_rev3 :: bytes
  fi_rev4 :: bytes

record event_record =
  ev_uuid :: bytes
  ev_length :: u8
  ev_flags :: bytes
  ev_handle :: u16
  ev_related_handle :: u16
  ev_timestamp :: u64

record event_records =
  er_flags :: u8
  er_overflow_err_count :: u16
  er_first_overflow_timestamp :: u64
  er_last_overflow_timestamp :: u64
  er_record_count :: u16
  er_records :: "event_record list"

record clear_events =
  ce_event_log :: u8
  ce_nr_recs :: u8
  ce_handles :: "u16 list"

record interrupt_policy =
  ip_informational :: u8
  ip_warning :: u8
  ip_failure :: u8
  ip_fatal :: u8

text \<open>
  The sizes are those of the structures (\<open>lib_sz_data\<close> of the member \<open>data\<close> of an event record);
  \<open>lib_cel_entry\<close> reads the two members of an entry of a command effects log;
  \<open>lib_ret_input\<close> is \<open>CXLMI_RET_INPUT\<close>.
\<close>

record 's cxlmi =
  lib_identify :: "'s \<Rightarrow> (identify, 's) cmd_result"
  lib_get_supported_logs :: "'s \<Rightarrow> (supported_logs, 's) cmd_result"
  lib_get_log_cel :: "get_log_req \<Rightarrow> 's \<Rightarrow> (bytes, 's) cmd_result"
  lib_get_alert_config :: "'s \<Rightarrow> (alert_config, 's) cmd_result"
  lib_set_alert_config :: "set_alert_config \<Rightarrow> 's \<Rightarrow> (unit, 's) cmd_result"
  lib_get_health_info :: "'s \<Rightarrow> (health_info, 's) cmd_result"
  lib_get_fw_info :: "'s \<Rightarrow> (fw_info, 's) cmd_result"
  lib_dec_fw_info :: "bytes \<Rightarrow> fw_info"
  lib_get_timestamp :: "'s \<Rightarrow> (u64, 's) cmd_result"
  lib_set_timestamp :: "u64 \<Rightarrow> 's \<Rightarrow> (unit, 's) cmd_result"
  lib_get_event_records :: "u8 \<Rightarrow> 's \<Rightarrow> (event_records, 's) cmd_result"
  lib_clear_event_records :: "clear_events \<Rightarrow> 's \<Rightarrow> (unit, 's) cmd_result"
  lib_get_interrupt_policy :: "'s \<Rightarrow> (interrupt_policy, 's) cmd_result"
  lib_set_interrupt_policy :: "interrupt_policy \<Rightarrow> 's \<Rightarrow> (unit, 's) cmd_result"
  lib_cel_entry :: "bytes \<Rightarrow> u16 \<times> u16"
  lib_sz_cel :: nat
  lib_sz_identify :: u64
  lib_sz_supported_logs :: nat
  lib_sz_event_record :: u64
  lib_sz_events :: u64
  lib_sz_data :: u64
  lib_sz_clear :: nat
  lib_ret_input :: int

section \<open>Identification\<close>

definition cxl_cmd_identify ::
  "'s cxlmi \<Rightarrow> string \<Rightarrow> 's \<Rightarrow> 's printed" where
  "cxl_cmd_identify lib dev s =
     report (lib_identify lib)
       (\<lambda>r. Defined (
         [(''Identify payload info: %s^n'', [Str dev]),
          (''    out size: 0x%lx^n'', [I64 (lib_sz_identify lib)]),
          (''%s info^n'', [Str dev]),
          (''    fw revision: '', [])] @
         map (\<lambda>i. (''%02x '', [U8 (id_fw_revision r ! i)])) [0..<16] @
         [(''^n'', []),
          (''    total_capacity: %lu MB (%lu GB)^n'', [I64 (id_total_capacity r), I64 (id_total_capacity r div 4)]),
          (''    volatile_capacity: %lu MB (%lu GB)^n'', [I64 (id_volatile_capacity r), I64 (id_volatile_capacity r div 4)]),
          (''    persistent_capacity: %lu MB (%lu GB)^n'', [I64 (id_persistent_capacity r), I64 (id_persistent_capacity r div 4)]),
          (''    partition_align: %lu MB (%lu GB)^n'', [I64 (id_partition_align r), I64 (id_partition_align r div 4)]),
          (''    info_event_log_size: %d^n'', [U16 (id_info_event_log_size r)]),
          (''    warning_event_log_size: %d^n'', [U16 (id_warning_event_log_size r)]),
          (''    failure_event_log_size: %d^n'', [U16 (id_failure_event_log_size r)]),
          (''    fatal_event_log_size: %d^n'', [U16 (id_fatal_event_log_size r)]),
          (''    lsa_size: %d^n'', [I32 (id_lsa_size r)])] @
         map (\<lambda>i. (''    poison_list_max_mer[%d]: %d^n'', [Idx i, U8 (id_poison_list_max_mer r ! i)])) [0..<3] @
         [(''    inject_poison_limit: %d^n'', [U16 (id_inject_poison_limit r)]),
          (''    poison_caps: %d^n'', [U8 (id_poison_caps r)]),
          (''    qos_telemetry_caps: %d^n'', [U8 (id_qos_telemetry_caps r)])])) s"

section \<open>Logs\<close>

definition cxl_cmd_get_supported_logs ::
  "'s os \<Rightarrow> 's cxlmi \<Rightarrow> string \<Rightarrow> 's \<Rightarrow> 's printed" where
  "cxl_cmd_get_supported_logs os lib dev s =
     (case os_calloc os (lib_sz_supported_logs lib) s of (ok, s1) \<Rightarrow>
        if \<not> ok then Defined (-12, [(''Failed to allocate memory^r^n'', [])], s1)
        else report (lib_get_supported_logs lib)
          (\<lambda>r. bind_outcome (each (\<lambda>i. bind_outcome (at (sl_entries r) i) (\<lambda>e. Defined
                  (''^tentries[%d] uuid: %s, size: %d^n'', [Idx i, Str (uuid_unparse (sl_uuid e)), I32 (sl_log_size e)]))) [0..<unat (sl_num r)])
             (\<lambda>ls. Defined ([(''Get Supported Logs Response : %s^n'', [Str dev]), (''Entries: %d^n'', [U16 (sl_num r)])] @ ls))) s1)"

definition LOG_UUID_LEN :: nat where "LOG_UUID_LEN = 0x10"

definition cel_uuid :: bytes where
  "cel_uuid =
     [0x0d, 0xa9, 0xc0, 0xb5, 0xbf, 0x41, 0x4b, 0x78,
      0x8f, 0x79, 0x96, 0xb1, 0x62, 0x3b, 0x3f, 0x17]"

definition ven_dbg :: bytes where
  "ven_dbg =
     [0x5e, 0x18, 0x19, 0xd9, 0x11, 0xa9, 0x40, 0x0c,
      0x81, 0x1f, 0xd6, 0x07, 0x19, 0x40, 0x3d, 0x86]"

text \<open>
  The size of a log whose size was not given: the size of its last entry in the list of supported
  logs, with a line for each.
\<close>

definition query_log_size ::
  "'s cxlmi \<Rightarrow> bytes \<Rightarrow> u32 \<Rightarrow> 's \<Rightarrow> (u32 \<times> line list \<times> 's) outcome" where
  "query_log_size lib uuid size0 s =
     (case lib_get_supported_logs lib s of (rc, rsp, s1) \<Rightarrow>
        if rc \<noteq> 0 then Defined (size0, [], s1)
        else bind_outcome (each (at (sl_entries (the rsp))) [0..<unat (sl_num (the rsp))]) (\<lambda>es.
          let hits = filter (\<lambda>e. sl_uuid e = uuid) es in
          Defined (if hits = [] then size0 else sl_log_size (last hits),
                   map (\<lambda>e. (''Log available (using non-size size), size=%d^n'', [I32 (sl_log_size e)])) hits, s1)))"

text \<open>The buffer behind the response is \<open>b\<close>.\<close>

definition show_log :: "'s cxlmi \<Rightarrow> string \<Rightarrow> string \<Rightarrow> bytes \<Rightarrow> u32 \<Rightarrow> bytes \<Rightarrow> line list outcome" where
  "show_log lib dev log_uuid uuid max_payload b =
     (let head = [(''Log payload info: %s^n'', [Str dev]), (''    out size: 0x%x^n'', [I32 max_payload])] in
      if uuid = cel_uuid then
        let cel_size = unat max_payload div lib_sz_cel lib in
        Defined (head @ [(''    no_cel_entries size: %d^n'', [Idx cel_size])] @
          map (\<lambda>e. case lib_cel_entry lib (bslice (lib_sz_cel lib * e) (lib_sz_cel lib) b) of (opcode, effect) \<Rightarrow>
                 (''    cel_entry[%d] opcode: 0x%x, effect: 0x%x^n'', [Idx e, U16 opcode, U16 effect])) [0..<cel_size])
      else if uuid = ven_dbg then
        bind_outcome (c_string b) (\<lambda>t. Defined (head @
          [(''    number of received bytes: %d^n'', [I32 max_payload]), (''%s^n'', [Str t])]))
      else Defined (head @ [(''Invalid log UUID:%s^n'', [Str log_uuid])]))"

text \<open>
  A text that is not a UUID ends the parser early, and the rest of the UUID is not initialised when
  it is compared and sent. The code of the query for the size is dropped.
\<close>

definition cxl_cmd_get_log ::
  "'s os \<Rightarrow> 's cxlmi \<Rightarrow> string \<Rightarrow> string option \<Rightarrow> u32 \<Rightarrow> 's \<Rightarrow> 's printed" where
  "cxl_cmd_get_log os lib dev log_uuid log_size s =
     (case log_uuid of
        None \<Rightarrow> Defined (lib_ret_input lib, [(''%s: Please specify log uuid argument^n'', [Str dev])], s)
      | Some u \<Rightarrow> bind_outcome (uuid_parse u) (\<lambda>uuid.
          if length uuid < LOG_UUID_LEN then Undefined Uninit_read
          else case (if log_size = 0 then os_calloc os (lib_sz_supported_logs lib) s else (True, s)) of (ok, s1) \<Rightarrow>
            if \<not> ok then Defined (-12, [(''Failed to allocate memory^r^n'', [])], s1)
            else bind_outcome (if log_size = 0 then query_log_size lib uuid log_size s1
                               else Defined (log_size, [], s1)) (\<lambda>(max_payload, ls, s2).
              case os_calloc os (lib_sz_cel lib + unat max_payload) s2 of (ok2, s3) \<Rightarrow>
                if \<not> ok2 then Defined (-12, ls @ [(''Failed to allocate memory^r^n'', [])], s3)
                else bind_outcome (report
                       (lib_get_log_cel lib \<lparr>gl_uuid = uuid, gl_offset = 0, gl_length = max_payload\<rparr>)
                       (\<lambda>r. show_log lib dev u uuid max_payload
                              (rsp_buffer (lib_sz_cel lib + unat max_payload) r)) s3) (\<lambda>(rc, ls', s4).
                  Defined (rc, ls @ ls', s4)))))"

section \<open>Alerts and health\<close>

definition cxl_cmd_get_alert_config ::
  "'s cxlmi \<Rightarrow> string \<Rightarrow> 's \<Rightarrow> 's printed" where
  "cxl_cmd_get_alert_config lib dev s =
     report (lib_get_alert_config lib)
       (\<lambda>r. Defined
         [(''Alert Config Summary : %s^n'', [Str dev]),
          (''    valid_alerts: 0x%x^n'', [U8 (al_valid_alerts r)]),
          (''    programmable_alerts: 0x%x^n'', [U8 (al_programmable_alerts r)]),
          (''    life_used_critical_alert_threshold: 0x%x^n'', [U8 (al_life_used_critical r)]),
          (''    life_used_prog_warn_threshold: 0x%x^n'', [U8 (al_life_used_warning r)]),
          (''    dev_over_temp_crit_alert_threshold: 0x%x^n'', [U16 (al_over_temp_critical r)]),
          (''    dev_under_temp_crit_alert_threshold: 0x%x^n'', [U16 (al_under_temp_critical r)]),
          (''    dev_over_temp_prog_warn_threshold: 0x%x^n'', [U16 (al_over_temp_warning r)]),
          (''    dev_under_temp_prog_warn_threshold: 0x%x^n'', [U16 (al_under_temp_warning r)]),
          (''    corr_vol_mem_err_prog_warn_thresold: 0x%x^n'', [U16 (al_volatile_warning r)]),
          (''    corr_pers_mem_err_prog_warn_threshold: 0x%x^n'', [U16 (al_persistent_warning r)])]) s"

definition swap16 :: "u16 \<Rightarrow> u16" where
  "swap16 w = push_bit 8 w OR drop_bit 8 w"

definition swap32 :: "u32 \<Rightarrow> u32" where
  "swap32 w = push_bit 24 w OR push_bit 8 (w AND 0xFF00) OR drop_bit 8 (w AND 0xFF0000) OR drop_bit 24 w"

text \<open>The request a handler builds from the three words of the command line.\<close>

definition alert_request :: "u32 \<Rightarrow> u32 \<Rightarrow> u32 \<Rightarrow> set_alert_config" where
  "alert_request alert_prog device_temp mem_error =
     (let p = swap32 alert_prog; t = swap32 device_temp; m = swap32 mem_error in
      \<lparr>sa_valid = ucast (drop_bit 8 p AND 0xff),
       sa_enable = ucast (drop_bit 16 p AND 0xff),
       sa_life_used = ucast (drop_bit 24 p AND 0xff),
       sa_rsvd1 = 0,
       sa_over_temp = swap16 (ucast (t AND 0xffff)),
       sa_under_temp = swap16 (ucast (drop_bit 16 t AND 0xffff)),
       sa_volatile = swap16 (ucast (m AND 0xffff)),
       sa_persistent = swap16 (ucast (drop_bit 16 m AND 0xffff))\<rparr>)"

definition cxl_cmd_set_alert_config ::
  "'s cxlmi \<Rightarrow> string \<Rightarrow> u32 \<Rightarrow> u32 \<Rightarrow> u32 \<Rightarrow> 's \<Rightarrow> 's printed" where
  "cxl_cmd_set_alert_config lib dev alert_prog device_temp mem_error s =
     (let r = alert_request alert_prog device_temp mem_error;
          head =
            [(''alert_config settings: %s ^n'', [Str dev]),
             (''    valid_alert_actions: 0x%x^n'', [U8 (sa_valid r)]),
             (''    enable_alert_actions: 0x%x^n'', [U8 (sa_enable r)]),
             (''    life_used_prog_warn_threshold: 0x%x^n'', [U8 (sa_life_used r)]),
             (''    dev_over_temp_prog_warn_threshold: 0x%x^n'', [U16 (sa_over_temp r)]),
             (''    dev_under_temp_prog_warn_threshold: 0x%x^n'', [U16 (sa_under_temp r)]),
             (''    corr_vol_mem_err_prog_warn_thresold: 0x%x^n'', [U16 (sa_volatile r)]),
             (''    corr_pers_mem_err_prog_warn_threshold: 0x%x^n'', [U16 (sa_persistent r)])] in
      bind_outcome (report (lib_set_alert_config lib r) (\<lambda>_. Defined [(''command completed successfully^n'', [])]) s) (\<lambda>(rc, ls, s').
        Defined (rc, head @ ls, s')))"

definition cxl_cmd_get_health_info ::
  "'s cxlmi \<Rightarrow> string \<Rightarrow> 's \<Rightarrow> 's printed" where
  "cxl_cmd_get_health_info lib dev s =
     report (lib_get_health_info lib)
       (\<lambda>r. Defined
         [(''Device Health Info : %s^n'', [Str dev]),
          (''    health_state: 0x%x^n'', [U8 (hi_health_status r)]),
          (''    media_status: 0x%x^n'', [U8 (hi_media_status r)]),
          (''    additional_status: 0x%x^n'', [U8 (hi_additional_status r)]),
          (''    life_used: 0x%x^n'', [U8 (hi_life_used r)]),
          (''    device_temp: 0x%x^n'', [U16 (hi_device_temperature r)]),
          (''    dirty_shutdown_count: 0x%x^n'', [I32 (hi_dirty_shutdown_count r)]),
          (''    corr_vol_mem_err_count: 0x%x^n'', [I32 (hi_corrected_volatile r)]),
          (''    corr_pers_mem_err_count: 0x%x^n'', [I32 (hi_corrected_persistent r)])]) s"

section \<open>Firmware information\<close>

definition SLOT_MASK :: u8 where "SLOT_MASK = 0x07"

definition cxl_cmd_get_fw_info ::
  "'s cxlmi \<Rightarrow> string \<Rightarrow> 's \<Rightarrow> 's printed" where
  "cxl_cmd_get_fw_info lib dev s =
     report (lib_get_fw_info lib)
       (\<lambda>r. bind_outcome (each c_string [fi_rev1 r, fi_rev2 r, fi_rev3 r, fi_rev4 r]) (\<lambda>revs. Defined
         [(''================================= %s : get fw info ==================================^r^n'', [Str dev]),
          (''FW Slots Supported: %d^n'', [U8 (fi_slots_supported r)]),
          (''Active FW Slot: %x^n'', [U8 (fi_slot_info r AND SLOT_MASK)]),
          (''Staged FW Slot: %x^n'', [U8 (drop_bit 3 (fi_slot_info r) AND SLOT_MASK)]),
          (''FW Activation Capabilities: %x^n'', [U8 (fi_caps r)]),
          (''Slot 1 FW Revision: %s^n'', [Str (revs ! 0)]),
          (''Slot 2 FW Revision: %s^n'', [Str (revs ! 1)]),
          (''Slot 3 FW Revision: %s^n'', [Str (revs ! 2)]),
          (''Slot 4 FW Revision: %s^n'', [Str (revs ! 3)])])) s"

definition cxl_cmd_get_os_fw_info ::
  "'s os \<Rightarrow> 's cxlmi \<Rightarrow> string \<Rightarrow> 's \<Rightarrow> 's printed" where
  "cxl_cmd_get_os_fw_info os lib dev s =
     report (cxlmi_cmd_get_os_fw_info os (lib_dec_fw_info lib))
       (\<lambda>r. bind_outcome (each c_string [fi_rev1 r, fi_rev2 r, fi_rev3 r, fi_rev4 r]) (\<lambda>revs. Defined
         [(''================================= %s : get fw info ==================================^r^n'', [Str dev]),
          (''OS Slots Supported: %d^n'', [U8 (fi_slots_supported r)]),
          (''Active OS Slot: %x^n'', [U8 (fi_slot_info r AND SLOT_MASK)]),
          (''Staged OS Slot: %x^n'', [U8 (drop_bit 3 (fi_slot_info r) AND SLOT_MASK)]),
          (''OS Activation Capabilities: %x^n'', [U8 (fi_caps r)]),
          (''Slot 1 OS Revision: %s^n'', [Str (revs ! 0)]),
          (''Slot 2 OS Revision: %s^n'', [Str (revs ! 1)]),
          (''Slot 3 OS Revision: %s^n'', [Str (revs ! 2)]),
          (''Slot 4 OS Revision: %s^n'', [Str (revs ! 3)])])) s"

definition cxl_cmd_get_dev_fw_info ::
  "'s os \<Rightarrow> 's cxlmi \<Rightarrow> string \<Rightarrow> bool \<Rightarrow> 's \<Rightarrow> 's printed" where
  "cxl_cmd_get_dev_fw_info os lib dev is_os s =
     (if is_os then cxl_cmd_get_os_fw_info os lib dev s else cxl_cmd_get_fw_info lib dev s)"

section \<open>Timestamps\<close>

definition cxl_cmd_get_timestamp ::
  "'s cxlmi \<Rightarrow> string \<Rightarrow> 's \<Rightarrow> 's printed" where
  "cxl_cmd_get_timestamp lib dev s =
     report (lib_get_timestamp lib) (\<lambda>ts. Defined [(''timestamp: 0x%lx^n'', [I64 ts])]) s"

definition cxl_cmd_set_timestamp ::
  "'s cxlmi \<Rightarrow> string \<Rightarrow> u64 \<Rightarrow> 's \<Rightarrow> 's printed" where
  "cxl_cmd_set_timestamp lib dev timestamp s =
     bind_outcome (report (lib_set_timestamp lib timestamp) (\<lambda>_. Defined [(''command completed successfully^n'', [])]) s)
       (\<lambda>(rc, ls, s'). Defined (rc, (''setting timestamp to: 0x%lx^n'', [I64 timestamp]) # ls, s'))"

section \<open>Events\<close>

definition CXL_MAX_RECORDS_TO_DUMP :: nat where "CXL_MAX_RECORDS_TO_DUMP = 20"

definition CXL_DRAM_EVENT_GUID :: string where "CXL_DRAM_EVENT_GUID = ''601dcbb3-9c06-4eab-b8af-4e9bfb5c9624''"

definition CXL_MEM_MODULE_EVENT_GUID :: string where "CXL_MEM_MODULE_EVENT_GUID = ''fe927475-dd59-4339-a586-79bab113b774''"

definition show_event :: "nat \<Rightarrow> event_record \<Rightarrow> line list" where
  "show_event n e =
     (let uuid = uuid_unparse (ev_uuid e) in
      [if uuid = CXL_DRAM_EVENT_GUID then
         (''%*sEvent Record: %d (DRAM guid: %s)^n'', [I32 2, Str '''', Idx n, Str uuid])
       else if uuid = CXL_MEM_MODULE_EVENT_GUID then
         (''%*sEvent Record: %d (Memory Module Event guid: %s)^n'', [I32 2, Str '''', Idx n, Str uuid])
       else
         (''%*sEvent Record: %d (uuid: %s)^n'', [I32 2, Str '''', Idx n, Str uuid]),
       (''%*sevent_record_length: 0x%x^n'', [I32 4, Str '''', U8 (ev_length e)]),
       (''%*sevent_record_flags: 0x%02x%02x%02x^n'', [I32 4, Str '''', U8 (ev_flags e ! 0), U8 (ev_flags e ! 1), U8 (ev_flags e ! 2)]),
       (''%*sevent_record_handle: 0x%x^n'', [I32 4, Str '''', U16 (ev_handle e)]),
       (''%*srelated_event_record_handle: 0x%x^n'', [I32 4, Str '''', U16 (ev_related_handle e)]),
       (''%*sevent_record_ts: 0x%lx^n'', [I32 4, Str '''', I64 (ev_timestamp e)])])"

text \<open>
  The response has room for 20 records; the number of records to print is the one in the response.
\<close>

definition cxl_cmd_get_event_records ::
  "'s os \<Rightarrow> 's cxlmi \<Rightarrow> string \<Rightarrow> u8 \<Rightarrow> 's \<Rightarrow> 's printed" where
  "cxl_cmd_get_event_records os lib dev type s =
     (case os_calloc os (unat (lib_sz_events lib) + CXL_MAX_RECORDS_TO_DUMP * unat (lib_sz_event_record lib)) s of
        (ok, s1) \<Rightarrow>
        if \<not> ok then Defined (-12, [(''Failed to allocate memory^r^n'', [])], s1)
        else report (lib_get_event_records lib type)
          (\<lambda>r. bind_outcome (each (\<lambda>n. bind_outcome (at (take CXL_MAX_RECORDS_TO_DUMP (er_records r)) n)
                     (\<lambda>e. Defined (show_event n e))) [0..<unat (er_record_count r)])
             (\<lambda>ls. Defined (
               [(''cxl_dram_event_record size: 0x%lx^n'', [I64 (lib_sz_data lib)]),
                (''cxl_memory_module_record size: 0x%lx^n'', [I64 (lib_sz_data lib)]),
                (''cxl_event_record size: 0x%lx^n'', [I64 (lib_sz_event_record lib)]),
                (''cxl_get_event_record_info size: 0x%lx^n'', [I64 (lib_sz_events lib)]),
                (''========= Get Event Records Info : %s =========^n'', [Str dev]),
                (''%*sout size: 0x%lx^n'', [I32 2, Str '''', I64 (lib_sz_events lib)]),
                (''%*sflags: 0x%x^n'', [I32 2, Str '''', U8 (er_flags r)]),
                (''%*soverflow_err_cnt: 0x%x^n'', [I32 2, Str '''', U16 (er_overflow_err_count r)]),
                (''%*sfirst_overflow_evt_ts: 0x%lx^n'', [I32 2, Str '''', I64 (er_first_overflow_timestamp r)]),
                (''%*slast_overflow_evt_ts: 0x%lx^n'', [I32 2, Str '''', I64 (er_last_overflow_timestamp r)]),
                (''%*sevent_record_count: 0x%x^n'', [I32 2, Str '''', U16 (er_record_count r)])] @
               concat ls))) s1)"

definition cxl_cmd_clear_event_records ::
  "'s os \<Rightarrow> 's cxlmi \<Rightarrow> string \<Rightarrow> u8 \<Rightarrow> u8 \<Rightarrow> u16 \<Rightarrow> 's \<Rightarrow> 's printed" where
  "cxl_cmd_clear_event_records os lib dev type flags handle s =
     (case (if flags \<noteq> 0 then os_calloc os (lib_sz_clear lib) s
            else os_calloc os (lib_sz_clear lib + 2) s) of (ok, s1) \<Rightarrow>
        if \<not> ok then Defined (-12, [if flags \<noteq> 0 then (''Failed to allocate memory^r^n'', []) else (''Failed to allocate memory^r^n'', [])], s1)
        else report (lib_clear_event_records lib
               (if flags \<noteq> 0 then \<lparr>ce_event_log = type, ce_nr_recs = 0, ce_handles = []\<rparr>
                else \<lparr>ce_event_log = type, ce_nr_recs = 1, ce_handles = [handle]\<rparr>))
          (\<lambda>_. Defined [(''Clear Event Records command completed successfully^n'', [])]) s1)"

definition cxl_cmd_get_event_interrupt_policy ::
  "'s cxlmi \<Rightarrow> string \<Rightarrow> 's \<Rightarrow> 's printed" where
  "cxl_cmd_get_event_interrupt_policy lib dev s =
     report (lib_get_interrupt_policy lib)
       (\<lambda>r. Defined
         [(''Get Event Interrupt Policy payload info: %s^n'', [Str dev]),
          (''    info_event_log_int_settings: 0x%x^n'', [U8 (ip_informational r)]),
          (''    warning_event_log_int_settings: 0x%x^n'', [U8 (ip_warning r)]),
          (''    failure_event_log_int_settings: 0x%x^n'', [U8 (ip_warning r)]),
          (''    fatal_event_log_int_settings: 0x%x^n'', [U8 (ip_fatal r)])]) s"

definition cxl_cmd_set_event_interrupt_policy ::
  "'s cxlmi \<Rightarrow> string \<Rightarrow> u32 \<Rightarrow> 's \<Rightarrow> 's printed" where
  "cxl_cmd_set_event_interrupt_policy lib dev policy s =
     (let p = swap32 policy in
      report (lib_set_interrupt_policy lib
        \<lparr>ip_informational = ucast (p AND 0xff),
         ip_warning = ucast (drop_bit 8 p AND 0xff),
         ip_failure = ucast (drop_bit 16 p AND 0xff),
         ip_fatal = ucast (drop_bit 24 p AND 0xff)\<rparr>) (\<lambda>_. Defined [(''command completed successfully^n'', [])]) s)"

section \<open>The words of the command line\<close>

lemma swap32_bytes:
  "ucast (swap32 w AND 0xff) = (ucast (drop_bit 24 w) :: u8)"
  "ucast (drop_bit 8 (swap32 w) AND 0xff) = (ucast (drop_bit 16 w) :: u8)"
  "ucast (drop_bit 16 (swap32 w) AND 0xff) = (ucast (drop_bit 8 w) :: u8)"
  "ucast (drop_bit 24 (swap32 w) AND 0xff) = (ucast w :: u8)"
proof -
  have m8: "(0xff :: u32) = mask 8" by (simp add: mask_eq_exp_minus_1)
  have a: "(0xFF00 :: u32) = push_bit 8 (mask 8)" "(0xFF0000 :: u32) = push_bit 16 (mask 8)"
    by (simp_all add: mask_eq_exp_minus_1 push_bit_eq_mult)
  show "ucast (swap32 w AND 0xff) = (ucast (drop_bit 24 w) :: u8)"
    "ucast (drop_bit 8 (swap32 w) AND 0xff) = (ucast (drop_bit 16 w) :: u8)"
    "ucast (drop_bit 16 (swap32 w) AND 0xff) = (ucast (drop_bit 8 w) :: u8)"
    "ucast (drop_bit 24 (swap32 w) AND 0xff) = (ucast w :: u8)"
    unfolding swap32_def m8 a
    by (rule bit_word_eqI, auto simp: bit_simps dest: bit_imp_le_length)+
qed

lemma swap16_halves:
  "swap16 (ucast (swap32 w AND 0xffff)) = ucast (drop_bit 16 w)"
  "swap16 (ucast (drop_bit 16 (swap32 w) AND 0xffff)) = ucast w"
proof -
  have m16: "(0xffff :: u32) = mask 16" by (simp add: mask_eq_exp_minus_1)
  have a: "(0xFF00 :: u32) = push_bit 8 (mask 8)" "(0xFF0000 :: u32) = push_bit 16 (mask 8)"
    by (simp_all add: mask_eq_exp_minus_1 push_bit_eq_mult)
  show "swap16 (ucast (swap32 w AND 0xffff)) = ucast (drop_bit 16 w)"
    "swap16 (ucast (drop_bit 16 (swap32 w) AND 0xffff)) = ucast w"
    unfolding swap32_def swap16_def m16 a
    by (rule bit_word_eqI, auto simp: bit_simps dest: bit_imp_le_length)+
qed

end
