(* ===== verification/Cli.thy ===== *)
theory Cli
  imports Parse_Properties Ddr_Stats Cxl_Std Fw_Update
begin

text \<open>
  The command line: the option tables and actions of \<open>cxl/src/cmd_parser.c\<close>, the loop \<open>cmd_action\<close>
  over the endpoints, the table of commands and \<open>main\<close> of \<open>cxl/src/cxl_main.c\<close>, and the dispatcher of
  \<open>vendor_util/src/util_main.c\<close>. Messages to either stream are printed lines; what is printed before
  an exit for a wrong usage is not modelled.
\<close>

section \<open>The context\<close>

text \<open>
  libcxlmi, the C library and the host are parameters. \<open>cx_first\<close> and \<open>cx_next\<close> are the functions
  behind \<open>cxlmi_for_each_endpoint\<close>; \<open>cx_os\<close> and \<open>cx_lib\<close> send to an endpoint, \<open>cx_fw_port\<close> is the port
  of a firmware update with an opcode; \<open>cx_junk\<close> is memory nothing was written to. The rest
  is the state of \<open>stdout\<close> when the command is done.
\<close>

record ('ep, 's) cxl_ctx =
  cx_new :: "'s \<Rightarrow> bool \<times> 's"
  cx_free :: "'s \<Rightarrow> 's"
  cx_open :: "string \<Rightarrow> 's \<Rightarrow> 'ep option \<times> 's"
  cx_first :: "'s \<Rightarrow> 'ep option"
  cx_next :: "'ep option \<Rightarrow> 's \<Rightarrow> 'ep option"
  cx_close :: "'ep \<Rightarrow> 's \<Rightarrow> 's"
  cx_devname :: "'ep \<Rightarrow> string"
  cx_os :: "'ep \<Rightarrow> 's os"
  cx_lib :: "'ep \<Rightarrow> 's cxlmi"
  cx_fw_abi :: fw_abi
  cx_shl1 :: "nat \<Rightarrow> int"
  cx_std_opcode :: nat
  cx_std_transfer :: "'ep \<Rightarrow> transfer_fw \<Rightarrow> 's \<Rightarrow> int \<times> 's"
  cx_sleep :: "nat \<Rightarrow> 's \<Rightarrow> 's"
  cx_fw_hdr :: nat
  cx_rom :: "string \<Rightarrow> rom_file"
  cx_sysfs :: "string \<Rightarrow> file_read"
  cx_strerror :: "int \<Rightarrow> string"
  cx_fpu :: fpu
  cx_junk :: "nat \<Rightarrow> bytes"
  cx_fstat_fails :: bool
  cx_is_pipe :: bool
  cx_fflush_fails :: bool
  cx_ferror :: bool
  cx_fclose_fails :: bool

definition cx_fw_port :: "('ep, 's) cxl_ctx \<Rightarrow> 'ep \<Rightarrow> nat \<Rightarrow> ('s \<times> line list) fw_port" where
  "cx_fw_port C ep = fw_port_of (cx_os C ep) (cx_fw_abi C) (cx_shl1 C) (cx_std_opcode C)
     (cx_std_transfer C ep) (cx_sleep C)"

section \<open>Variables\<close>

text \<open>
  The variables the option tables point to are static, so zero before any option is read: a
  variable that holds no value of its type reads as zero, false or the null pointer.
\<close>

definition static_vars :: "var \<Rightarrow> opt_val" where "static_vars x = VUint 0"

definition uint_var :: "(var \<Rightarrow> opt_val) \<Rightarrow> var \<Rightarrow> u32" where
  "uint_var vars x = (case vars x of VUint v \<Rightarrow> v | _ \<Rightarrow> 0)"

definition u64_var :: "(var \<Rightarrow> opt_val) \<Rightarrow> var \<Rightarrow> u64" where
  "u64_var vars x = (case vars x of VU64 v \<Rightarrow> v | _ \<Rightarrow> 0)"

definition int_var :: "(var \<Rightarrow> opt_val) \<Rightarrow> var \<Rightarrow> int" where
  "int_var vars x = (case vars x of VInt v \<Rightarrow> v | _ \<Rightarrow> 0)"

definition bool_var :: "(var \<Rightarrow> opt_val) \<Rightarrow> var \<Rightarrow> bool" where
  "bool_var vars x = (case vars x of VBool v \<Rightarrow> v | _ \<Rightarrow> False)"

definition str_var :: "(var \<Rightarrow> opt_val) \<Rightarrow> var \<Rightarrow> string option" where
  "str_var vars x = (case vars x of VStr v \<Rightarrow> v | _ \<Rightarrow> None)"

section \<open>The endpoints\<close>

text \<open>
  The status of a run that may end in \<open>exit\<close> (the outer \<open>run\<close>) and may not end (\<open>None\<close>).
\<close>

type_synonym 's ran = "'s printed option run"

text \<open>\<open>sscanf\<close> with \<open>%lu\<close> or \<open>%d\<close> converts when a decimal number stands there.\<close>

definition scans_number :: "string \<Rightarrow> bool" where
  "scans_number s \<longleftrightarrow> strto_core 10 s \<noteq> None"

definition scans_mem :: "string \<Rightarrow> bool" where
  "scans_mem s \<longleftrightarrow> take 3 s = ''mem'' \<and> scans_number (drop 3 s)"

definition cxlmi_ep_filter :: "string \<Rightarrow> string \<Rightarrow> bool" where
  "cxlmi_ep_filter devname ident \<longleftrightarrow>
     ident = ''all'' \<or> ident = devname \<or> scans_number ident \<or> scans_mem ident"

definition quoted :: string where "quoted = [CHR 0x27] @ ''%s'' @ [CHR 0x27]"

text \<open>
  The inner loop: an endpoint the filter drops is skipped; after an action the endpoint is closed
  and the loop goes on from the null pointer. \<open>rc\<close> is the code of the last action, \<open>count\<close> the number
  of successful ones; the variable \<open>err\<close> of the code is never read again and left out.
\<close>

partial_function (option) ep_loop ::
  "('ep, 's) cxl_ctx \<Rightarrow> ('ep \<Rightarrow> 's \<Rightarrow> 's printed) \<Rightarrow> string \<Rightarrow> 'ep option \<Rightarrow> int \<Rightarrow> int \<Rightarrow> line list \<Rightarrow> 's \<Rightarrow>
   (int \<times> int \<times> line list \<times> 's) outcome option" where
  "ep_loop C act ident cur rc count ls s =
     (case cur of
        None \<Rightarrow> Some (Defined (rc, count, ls, s))
      | Some ep \<Rightarrow>
          if \<not> cxlmi_ep_filter (cx_devname C ep) ident
          then ep_loop C act ident (cx_next C (Some ep) s) rc count ls s
          else (case act ep s of
             Undefined u \<Rightarrow> Some (Undefined u)
           | Defined r \<Rightarrow>
               ep_loop C act ident (cx_next C None (cx_close C ep (snd (snd r)))) (fst r)
                 (if fst r = 0 then count + 1 else count) (ls @ fst (snd r)) (cx_close C ep (snd (snd r)))))"

text \<open>The outer loop over the names.\<close>

fun name_loop ::
  "('ep, 's) cxl_ctx \<Rightarrow> ('ep \<Rightarrow> 's \<Rightarrow> 's printed) \<Rightarrow> string list \<Rightarrow> int \<Rightarrow> int \<Rightarrow> line list \<Rightarrow> 's \<Rightarrow>
   's printed option" where
  "name_loop C act [] rc count ls s = Some (Defined (if count > 0 then count else rc, ls, s))"
| "name_loop C act (name # names) rc count ls s =
     (if \<not> scans_mem name \<and> name \<noteq> ''all'' then name_loop C act names rc count ls s
      else case cx_open C name s of (ep, s1) \<Rightarrow>
        if ep = None then
          name_loop C act names rc count (ls @ [(''cannot open '' @ quoted @ '' endpoint^n'', [Str name])]) s1
        else case ep_loop C act name (cx_first C s1) rc count ls s1 of
               None \<Rightarrow> None
             | Some (Undefined u) \<Rightarrow> Some (Undefined u)
             | Some (Defined (rc', count', ls', s')) \<Rightarrow> name_loop C act names rc' count' ls' s')"

text \<open>The first loop over the names: whether it stopped at \<open>all\<close>, and the names that are none.\<close>

fun bad_names :: "string list \<Rightarrow> string list \<Rightarrow> bool \<times> string list" where
  "bad_names [] bad = (False, bad)"
| "bad_names (name # names) bad =
     (if name = ''all'' then (True, bad)
      else bad_names names (if scans_mem name then bad else bad @ [name]))"

definition cmd_action ::
  "('ep, 's) cxl_ctx \<Rightarrow> string list \<Rightarrow> (('ep, 's) cxl_ctx \<Rightarrow> (var \<Rightarrow> opt_val) \<Rightarrow> 'ep \<Rightarrow> 's \<Rightarrow> 's printed) \<Rightarrow>
   opt_spec list \<Rightarrow> (var \<Rightarrow> opt_val) \<Rightarrow> 's \<Rightarrow> 's ran" where
  "cmd_action C argv act options vars s =
     (case parse_options argv options 0 vars of
        Exit n \<Rightarrow> Exit n
      | Ret (args, vars') \<Rightarrow>
          if args = [] then Exit 129
          else case bad_names args [] of (found_all, bad) \<Rightarrow>
            let names = (if found_all then [''all''] else args) in
            if length bad = length names then Exit 129
            else Ret (name_loop C (act C vars') (if names = [''all''] then [''mem0'', ''mem1''] else names) 0 0
                   (map (\<lambda>n. (quoted @ '' is not a valid ep name^n'', [Str n])) bad) s))"

text \<open>The status of a command: every code that is not negative counts as success.\<close>

definition EXIT_FAILURE :: int where "EXIT_FAILURE = 1"

definition shell_status :: "'s ran \<Rightarrow> 's ran" where
  "shell_status r =
     (case r of
        Ret (Some (Defined (rc, ls, s))) \<Rightarrow> Ret (Some (Defined (if rc \<ge> 0 then 0 else EXIT_FAILURE, ls, s)))
      | _ \<Rightarrow> r)"

section \<open>The commands\<close>

text \<open>For each command: its options, its action on an endpoint, and the command.\<close>

definition cmd_identify_options :: "opt_spec list" where
  "cmd_identify_options = []"

definition action_cmd_identify :: "('ep, 's) cxl_ctx \<Rightarrow> (var \<Rightarrow> opt_val) \<Rightarrow> 'ep \<Rightarrow> 's \<Rightarrow> 's printed" where
  "action_cmd_identify C vars ep =
     cxl_cmd_identify (cx_lib C ep) (cx_devname C ep)"

definition cmd_identify :: "('ep, 's) cxl_ctx \<Rightarrow> string list \<Rightarrow> 's \<Rightarrow> 's ran" where
  "cmd_identify C argv s = shell_status (cmd_action C argv action_cmd_identify cmd_identify_options static_vars s)"

definition cmd_get_supported_logs_options :: "opt_spec list" where
  "cmd_get_supported_logs_options = []"

definition action_cmd_get_supported_logs :: "('ep, 's) cxl_ctx \<Rightarrow> (var \<Rightarrow> opt_val) \<Rightarrow> 'ep \<Rightarrow> 's \<Rightarrow> 's printed" where
  "action_cmd_get_supported_logs C vars ep =
     cxl_cmd_get_supported_logs (cx_os C ep) (cx_lib C ep) (cx_devname C ep)"

definition cmd_get_supported_logs :: "('ep, 's) cxl_ctx \<Rightarrow> string list \<Rightarrow> 's \<Rightarrow> 's ran" where
  "cmd_get_supported_logs C argv s = shell_status (cmd_action C argv action_cmd_get_supported_logs cmd_get_supported_logs_options static_vars s)"

definition cmd_get_log_options :: "opt_spec list" where
  "cmd_get_log_options = [
     \<lparr>o_type = OPTION_STRING, short_name = CHR ''l'', long_name = Some ''log_uuid'', o_value = ''log_uuid.uuid'', o_set = None\<rparr>,
     \<lparr>o_type = OPTION_UINTEGER, short_name = CHR ''s'', long_name = Some ''log_size'', o_value = ''log_size.size'', o_set = None\<rparr>]"

definition action_cmd_get_log :: "('ep, 's) cxl_ctx \<Rightarrow> (var \<Rightarrow> opt_val) \<Rightarrow> 'ep \<Rightarrow> 's \<Rightarrow> 's printed" where
  "action_cmd_get_log C vars ep =
     cxl_cmd_get_log (cx_os C ep) (cx_lib C ep) (cx_devname C ep)
       (str_var vars ''log_uuid.uuid'')
       (uint_var vars ''log_size.size'')"

definition cmd_get_log :: "('ep, 's) cxl_ctx \<Rightarrow> string list \<Rightarrow> 's \<Rightarrow> 's ran" where
  "cmd_get_log C argv s = shell_status (cmd_action C argv action_cmd_get_log cmd_get_log_options static_vars s)"

definition cmd_get_alert_config_options :: "opt_spec list" where
  "cmd_get_alert_config_options = []"

definition action_cmd_get_alert_config :: "('ep, 's) cxl_ctx \<Rightarrow> (var \<Rightarrow> opt_val) \<Rightarrow> 'ep \<Rightarrow> 's \<Rightarrow> 's printed" where
  "action_cmd_get_alert_config C vars ep =
     cxl_cmd_get_alert_config (cx_lib C ep) (cx_devname C ep)"

definition cmd_get_alert_config :: "('ep, 's) cxl_ctx \<Rightarrow> string list \<Rightarrow> 's \<Rightarrow> 's ran" where
  "cmd_get_alert_config C argv s = shell_status (cmd_action C argv action_cmd_get_alert_config cmd_get_alert_config_options static_vars s)"

definition cmd_set_alert_config_options :: "opt_spec list" where
  "cmd_set_alert_config_options = [
     \<lparr>o_type = OPTION_UINTEGER, short_name = CHR ''a'', long_name = Some ''alert_prog_threshold'', o_value = ''alert_config_params.alert_prog_threshold'', o_set = None\<rparr>,
     \<lparr>o_type = OPTION_UINTEGER, short_name = CHR ''d'', long_name = Some ''device_temp_threshold'', o_value = ''alert_config_params.device_temp_threshold'', o_set = None\<rparr>,
     \<lparr>o_type = OPTION_UINTEGER, short_name = CHR ''m'', long_name = Some ''mem_error_threshold'', o_value = ''alert_config_params.mem_error_threshold'', o_set = None\<rparr>]"

definition action_cmd_set_alert_config :: "('ep, 's) cxl_ctx \<Rightarrow> (var \<Rightarrow> opt_val) \<Rightarrow> 'ep \<Rightarrow> 's \<Rightarrow> 's printed" where
  "action_cmd_set_alert_config C vars ep =
     cxl_cmd_set_alert_config (cx_lib C ep) (cx_devname C ep) (uint_var vars ''alert_config_params.alert_prog_threshold'')
       (uint_var vars ''alert_config_params.device_temp_threshold'')
       (uint_var vars ''alert_config_params.mem_error_threshold'')"

definition cmd_set_alert_config :: "('ep, 's) cxl_ctx \<Rightarrow> string list \<Rightarrow> 's \<Rightarrow> 's ran" where
  "cmd_set_alert_config C argv s = shell_status (cmd_action C argv action_cmd_set_alert_config cmd_set_alert_config_options static_vars s)"

definition cmd_get_health_info_options :: "opt_spec list" where
  "cmd_get_health_info_options = []"

definition action_cmd_get_health_info :: "('ep, 's) cxl_ctx \<Rightarrow> (var \<Rightarrow> opt_val) \<Rightarrow> 'ep \<Rightarrow> 's \<Rightarrow> 's printed" where
  "action_cmd_get_health_info C vars ep =
     cxl_cmd_get_health_info (cx_lib C ep) (cx_devname C ep)"

definition cmd_get_health_info :: "('ep, 's) cxl_ctx \<Rightarrow> string list \<Rightarrow> 's \<Rightarrow> 's ran" where
  "cmd_get_health_info C argv s = shell_status (cmd_action C argv action_cmd_get_health_info cmd_get_health_info_options static_vars s)"

definition cmd_get_fw_info_options :: "opt_spec list" where
  "cmd_get_fw_info_options = [
     \<lparr>o_type = OPTION_BOOLEAN, short_name = CHR ''z'', long_name = Some ''osimage'', o_value = ''fw_img_params.is_os'', o_set = None\<rparr>]"

definition action_cmd_get_fw_info :: "('ep, 's) cxl_ctx \<Rightarrow> (var \<Rightarrow> opt_val) \<Rightarrow> 'ep \<Rightarrow> 's \<Rightarrow> 's printed" where
  "action_cmd_get_fw_info C vars ep =
     cxl_cmd_get_dev_fw_info (cx_os C ep) (cx_lib C ep) (cx_devname C ep)
       (bool_var vars ''fw_img_params.is_os'')"

definition cmd_get_fw_info :: "('ep, 's) cxl_ctx \<Rightarrow> string list \<Rightarrow> 's \<Rightarrow> 's ran" where
  "cmd_get_fw_info C argv s = shell_status (cmd_action C argv action_cmd_get_fw_info cmd_get_fw_info_options static_vars s)"

definition cmd_update_fw_options :: "opt_spec list" where
  "cmd_update_fw_options = [
     \<lparr>o_type = OPTION_FILENAME, short_name = CHR ''f'', long_name = Some ''file'', o_value = ''update_fw_params.filepath'', o_set = None\<rparr>,
     \<lparr>o_type = OPTION_UINTEGER, short_name = CHR ''s'', long_name = Some ''slot'', o_value = ''update_fw_params.slot'', o_set = None\<rparr>,
     \<lparr>o_type = OPTION_BOOLEAN, short_name = CHR ''b'', long_name = Some ''background'', o_value = ''update_fw_params.hbo'', o_set = None\<rparr>,
     \<lparr>o_type = OPTION_BOOLEAN, short_name = CHR ''m'', long_name = Some ''mock'', o_value = ''update_fw_params.mock'', o_set = None\<rparr>,
     \<lparr>o_type = OPTION_BOOLEAN, short_name = CHR ''z'', long_name = Some ''osimage'', o_value = ''fw_img_params.is_os'', o_set = None\<rparr>]"

definition action_cmd_update_fw :: "('ep, 's) cxl_ctx \<Rightarrow> (var \<Rightarrow> opt_val) \<Rightarrow> 'ep \<Rightarrow> 's \<Rightarrow> 's printed" where
  "action_cmd_update_fw C vars ep s =
     (case str_var vars ''update_fw_params.filepath'' of
        None \<Rightarrow> Undefined Null_deref
      | Some path \<Rightarrow>
          let params = \<lparr>up_filepath = path, up_slot = uint_var vars ''update_fw_params.slot'',
                         up_hbo = bool_var vars ''update_fw_params.hbo'', up_mock = bool_var vars ''update_fw_params.mock''\<rparr> in
          bind_outcome (cxl_cmd_update_device_fw (cx_fw_port C ep) (cx_std_opcode C) (cx_fw_hdr C) (cx_rom C)
              (bool_var vars ''fw_img_params.is_os'') params (s, []))
            (\<lambda>(rc, s', ls). Defined (rc, ls, s')))"

definition cmd_update_fw :: "('ep, 's) cxl_ctx \<Rightarrow> string list \<Rightarrow> 's \<Rightarrow> 's ran" where
  "cmd_update_fw C argv s = shell_status (cmd_action C argv action_cmd_update_fw cmd_update_fw_options static_vars s)"

definition cmd_get_timestamp_options :: "opt_spec list" where
  "cmd_get_timestamp_options = []"

definition action_cmd_get_timestamp :: "('ep, 's) cxl_ctx \<Rightarrow> (var \<Rightarrow> opt_val) \<Rightarrow> 'ep \<Rightarrow> 's \<Rightarrow> 's printed" where
  "action_cmd_get_timestamp C vars ep =
     cxl_cmd_get_timestamp (cx_lib C ep) (cx_devname C ep)"

definition cmd_get_timestamp :: "('ep, 's) cxl_ctx \<Rightarrow> string list \<Rightarrow> 's \<Rightarrow> 's ran" where
  "cmd_get_timestamp C argv s = shell_status (cmd_action C argv action_cmd_get_timestamp cmd_get_timestamp_options static_vars s)"

definition cmd_set_timestamp_options :: "opt_spec list" where
  "cmd_set_timestamp_options = [
     \<lparr>o_type = OPTION_U64, short_name = CHR ''t'', long_name = Some ''timestamp'', o_value = ''ts_params.timestamp'', o_set = None\<rparr>]"

definition action_cmd_set_timestamp :: "('ep, 's) cxl_ctx \<Rightarrow> (var \<Rightarrow> opt_val) \<Rightarrow> 'ep \<Rightarrow> 's \<Rightarrow> 's printed" where
  "action_cmd_set_timestamp C vars ep =
     cxl_cmd_set_timestamp (cx_lib C ep) (cx_devname C ep) (u64_var vars ''ts_params.timestamp'')"

definition cmd_set_timestamp :: "('ep, 's) cxl_ctx \<Rightarrow> string list \<Rightarrow> 's \<Rightarrow> 's ran" where
  "cmd_set_timestamp C argv s = shell_status (cmd_action C argv action_cmd_set_timestamp cmd_set_timestamp_options static_vars s)"

definition cmd_get_event_records_options :: "opt_spec list" where
  "cmd_get_event_records_options = [
     \<lparr>o_type = OPTION_INTEGER, short_name = CHR ''t'', long_name = Some ''log_type'', o_value = ''get_event_records_params.event_log_type'', o_set = None\<rparr>]"

definition action_cmd_get_event_records :: "('ep, 's) cxl_ctx \<Rightarrow> (var \<Rightarrow> opt_val) \<Rightarrow> 'ep \<Rightarrow> 's \<Rightarrow> 's printed" where
  "action_cmd_get_event_records C vars ep =
     cxl_cmd_get_event_records (cx_os C ep) (cx_lib C ep) (cx_devname C ep)
       (of_int (int_var vars ''get_event_records_params.event_log_type''))"

definition cmd_get_event_records :: "('ep, 's) cxl_ctx \<Rightarrow> string list \<Rightarrow> 's \<Rightarrow> 's ran" where
  "cmd_get_event_records C argv s = shell_status (cmd_action C argv action_cmd_get_event_records cmd_get_event_records_options static_vars s)"

definition cmd_clear_event_records_options :: "opt_spec list" where
  "cmd_clear_event_records_options = [
     \<lparr>o_type = OPTION_INTEGER, short_name = CHR ''t'', long_name = Some ''log_type'', o_value = ''clear_event_records_params.event_log_type'', o_set = None\<rparr>,
     \<lparr>o_type = OPTION_INTEGER, short_name = CHR ''f'', long_name = Some ''event_flag'', o_value = ''clear_event_records_params.clear_event_flags'', o_set = None\<rparr>,
     \<lparr>o_type = OPTION_UINTEGER, short_name = CHR ''i'', long_name = Some ''event_record_handle'', o_value = ''clear_event_records_params.event_record_handle'', o_set = None\<rparr>]"

definition action_cmd_clear_event_records :: "('ep, 's) cxl_ctx \<Rightarrow> (var \<Rightarrow> opt_val) \<Rightarrow> 'ep \<Rightarrow> 's \<Rightarrow> 's printed" where
  "action_cmd_clear_event_records C vars ep =
     cxl_cmd_clear_event_records (cx_os C ep) (cx_lib C ep) (cx_devname C ep)
       (of_int (int_var vars ''clear_event_records_params.event_log_type''))
       (of_int (int_var vars ''clear_event_records_params.clear_event_flags''))
       (ucast (uint_var vars ''clear_event_records_params.event_record_handle''))"

definition cmd_clear_event_records :: "('ep, 's) cxl_ctx \<Rightarrow> string list \<Rightarrow> 's \<Rightarrow> 's ran" where
  "cmd_clear_event_records C argv s = shell_status (cmd_action C argv action_cmd_clear_event_records cmd_clear_event_records_options static_vars s)"

definition cmd_get_event_interrupt_policy_options :: "opt_spec list" where
  "cmd_get_event_interrupt_policy_options = []"

definition action_cmd_get_event_interrupt_policy :: "('ep, 's) cxl_ctx \<Rightarrow> (var \<Rightarrow> opt_val) \<Rightarrow> 'ep \<Rightarrow> 's \<Rightarrow> 's printed" where
  "action_cmd_get_event_interrupt_policy C vars ep =
     cxl_cmd_get_event_interrupt_policy (cx_lib C ep) (cx_devname C ep)"

definition cmd_get_event_interrupt_policy :: "('ep, 's) cxl_ctx \<Rightarrow> string list \<Rightarrow> 's \<Rightarrow> 's ran" where
  "cmd_get_event_interrupt_policy C argv s = shell_status (cmd_action C argv action_cmd_get_event_interrupt_policy cmd_get_event_interrupt_policy_options static_vars s)"

definition cmd_set_event_interrupt_policy_options :: "opt_spec list" where
  "cmd_set_event_interrupt_policy_options = [
     \<lparr>o_type = OPTION_UINTEGER, short_name = CHR ''i'', long_name = Some ''int_policy'', o_value = ''interrupt_policy_params.policy'', o_set = None\<rparr>]"

definition action_cmd_set_event_interrupt_policy :: "('ep, 's) cxl_ctx \<Rightarrow> (var \<Rightarrow> opt_val) \<Rightarrow> 'ep \<Rightarrow> 's \<Rightarrow> 's printed" where
  "action_cmd_set_event_interrupt_policy C vars ep =
     cxl_cmd_set_event_interrupt_policy (cx_lib C ep) (cx_devname C ep) (uint_var vars ''interrupt_policy_params.policy'')"

definition cmd_set_event_interrupt_policy :: "('ep, 's) cxl_ctx \<Rightarrow> string list \<Rightarrow> 's \<Rightarrow> 's ran" where
  "cmd_set_event_interrupt_policy C argv s = shell_status (cmd_action C argv action_cmd_set_event_interrupt_policy cmd_set_event_interrupt_policy_options static_vars s)"

definition cmd_dimm_spd_read_options :: "opt_spec list" where
  "cmd_dimm_spd_read_options = [
     \<lparr>o_type = OPTION_UINTEGER, short_name = CHR ''s'', long_name = Some ''spd_id'', o_value = ''dimm_spd_read_params.spd_id'', o_set = None\<rparr>,
     \<lparr>o_type = OPTION_UINTEGER, short_name = CHR ''o'', long_name = Some ''offset'', o_value = ''dimm_spd_read_params.offset'', o_set = None\<rparr>,
     \<lparr>o_type = OPTION_UINTEGER, short_name = CHR ''n'', long_name = Some ''num_bytes'', o_value = ''dimm_spd_read_params.num_bytes'', o_set = None\<rparr>]"

definition action_cmd_dimm_spd_read :: "('ep, 's) cxl_ctx \<Rightarrow> (var \<Rightarrow> opt_val) \<Rightarrow> 'ep \<Rightarrow> 's \<Rightarrow> 's printed" where
  "action_cmd_dimm_spd_read C vars ep =
     cxl_cmd_dimm_spd_read (cx_os C ep) (cx_fpu C) (cx_devname C ep)
       (uint_var vars ''dimm_spd_read_params.spd_id'')
       (uint_var vars ''dimm_spd_read_params.offset'')
       (uint_var vars ''dimm_spd_read_params.num_bytes'')"

definition cmd_dimm_spd_read :: "('ep, 's) cxl_ctx \<Rightarrow> string list \<Rightarrow> 's \<Rightarrow> 's ran" where
  "cmd_dimm_spd_read C argv s = shell_status (cmd_action C argv action_cmd_dimm_spd_read cmd_dimm_spd_read_options static_vars s)"

definition cmd_dimm_slot_info_options :: "opt_spec list" where
  "cmd_dimm_slot_info_options = []"

definition action_cmd_dimm_slot_info :: "('ep, 's) cxl_ctx \<Rightarrow> (var \<Rightarrow> opt_val) \<Rightarrow> 'ep \<Rightarrow> 's \<Rightarrow> 's printed" where
  "action_cmd_dimm_slot_info C vars ep =
     cxl_cmd_dimm_slot_info (cx_os C ep) (cx_devname C ep)"

definition cmd_dimm_slot_info :: "('ep, 's) cxl_ctx \<Rightarrow> string list \<Rightarrow> 's \<Rightarrow> 's ran" where
  "cmd_dimm_slot_info C argv s = shell_status (cmd_action C argv action_cmd_dimm_slot_info cmd_dimm_slot_info_options static_vars s)"

definition cmd_read_ddr_temp_options :: "opt_spec list" where
  "cmd_read_ddr_temp_options = []"

definition action_cmd_read_ddr_temp :: "('ep, 's) cxl_ctx \<Rightarrow> (var \<Rightarrow> opt_val) \<Rightarrow> 'ep \<Rightarrow> 's \<Rightarrow> 's printed" where
  "action_cmd_read_ddr_temp C vars ep =
     cxl_cmd_read_ddr_temp (cx_os C ep) (cx_devname C ep)"

definition cmd_read_ddr_temp :: "('ep, 's) cxl_ctx \<Rightarrow> string list \<Rightarrow> 's \<Rightarrow> 's ran" where
  "cmd_read_ddr_temp C argv s = shell_status (cmd_action C argv action_cmd_read_ddr_temp cmd_read_ddr_temp_options static_vars s)"

definition cmd_health_counters_clear_options :: "opt_spec list" where
  "cmd_health_counters_clear_options = [
     \<lparr>o_type = OPTION_UINTEGER, short_name = CHR ''b'', long_name = Some ''bitmask'', o_value = ''health_counters_clear_params.bitmask'', o_set = None\<rparr>]"

definition action_cmd_health_counters_clear :: "('ep, 's) cxl_ctx \<Rightarrow> (var \<Rightarrow> opt_val) \<Rightarrow> 'ep \<Rightarrow> 's \<Rightarrow> 's printed" where
  "action_cmd_health_counters_clear C vars ep =
     cxl_cmd_health_counters_clear (cx_os C ep) (cx_devname C ep) (uint_var vars ''health_counters_clear_params.bitmask'')"

definition cmd_health_counters_clear :: "('ep, 's) cxl_ctx \<Rightarrow> string list \<Rightarrow> 's \<Rightarrow> 's ran" where
  "cmd_health_counters_clear C argv s = shell_status (cmd_action C argv action_cmd_health_counters_clear cmd_health_counters_clear_options static_vars s)"

definition cmd_health_counters_get_options :: "opt_spec list" where
  "cmd_health_counters_get_options = []"

definition action_cmd_health_counters_get :: "('ep, 's) cxl_ctx \<Rightarrow> (var \<Rightarrow> opt_val) \<Rightarrow> 'ep \<Rightarrow> 's \<Rightarrow> 's printed" where
  "action_cmd_health_counters_get C vars ep =
     cxl_cmd_health_counters_get (cx_os C ep) (cx_devname C ep)"

definition cmd_health_counters_get :: "('ep, 's) cxl_ctx \<Rightarrow> string list \<Rightarrow> 's \<Rightarrow> 's ran" where
  "cmd_health_counters_get C argv s = shell_status (cmd_action C argv action_cmd_health_counters_get cmd_health_counters_get_options static_vars s)"

definition cmd_pmic_vtmon_info_options :: "opt_spec list" where
  "cmd_pmic_vtmon_info_options = []"

definition action_cmd_pmic_vtmon_info :: "('ep, 's) cxl_ctx \<Rightarrow> (var \<Rightarrow> opt_val) \<Rightarrow> 'ep \<Rightarrow> 's \<Rightarrow> 's printed" where
  "action_cmd_pmic_vtmon_info C vars ep =
     cxl_cmd_pmic_vtmon_info (cx_os C ep) (cx_devname C ep)"

definition cmd_pmic_vtmon_info :: "('ep, 's) cxl_ctx \<Rightarrow> string list \<Rightarrow> 's \<Rightarrow> 's ran" where
  "cmd_pmic_vtmon_info C argv s = shell_status (cmd_action C argv action_cmd_pmic_vtmon_info cmd_pmic_vtmon_info_options static_vars s)"

definition cmd_read_ltssm_states_options :: "opt_spec list" where
  "cmd_read_ltssm_states_options = []"

definition action_cmd_read_ltssm_states :: "('ep, 's) cxl_ctx \<Rightarrow> (var \<Rightarrow> opt_val) \<Rightarrow> 'ep \<Rightarrow> 's \<Rightarrow> 's printed" where
  "action_cmd_read_ltssm_states C vars ep =
     cxl_cmd_read_ltssm_states (cx_os C ep) (cx_devname C ep)"

definition cmd_read_ltssm_states :: "('ep, 's) cxl_ctx \<Rightarrow> string list \<Rightarrow> 's \<Rightarrow> 's ran" where
  "cmd_read_ltssm_states C argv s = shell_status (cmd_action C argv action_cmd_read_ltssm_states cmd_read_ltssm_states_options static_vars s)"

definition cmd_pcie_eye_run_options :: "opt_spec list" where
  "cmd_pcie_eye_run_options = [
     \<lparr>o_type = OPTION_UINTEGER, short_name = CHR ''l'', long_name = Some ''lane'', o_value = ''pcie_eye_run_params.lane'', o_set = None\<rparr>,
     \<lparr>o_type = OPTION_UINTEGER, short_name = CHR ''s'', long_name = Some ''sw_scan'', o_value = ''pcie_eye_run_params.sw_scan'', o_set = None\<rparr>,
     \<lparr>o_type = OPTION_UINTEGER, short_name = CHR ''b'', long_name = Some ''ber'', o_value = ''pcie_eye_run_params.ber'', o_set = None\<rparr>]"

definition action_cmd_pcie_eye_run :: "('ep, 's) cxl_ctx \<Rightarrow> (var \<Rightarrow> opt_val) \<Rightarrow> 'ep \<Rightarrow> 's \<Rightarrow> 's printed" where
  "action_cmd_pcie_eye_run C vars ep =
     cxl_cmd_pcie_eye_run (cx_os C ep) (cx_devname C ep) (ucast (uint_var vars ''pcie_eye_run_params.lane''))
       (ucast (uint_var vars ''pcie_eye_run_params.sw_scan''))
       (ucast (uint_var vars ''pcie_eye_run_params.ber''))"

definition cmd_pcie_eye_run :: "('ep, 's) cxl_ctx \<Rightarrow> string list \<Rightarrow> 's \<Rightarrow> 's ran" where
  "cmd_pcie_eye_run C argv s = shell_status (cmd_action C argv action_cmd_pcie_eye_run cmd_pcie_eye_run_options static_vars s)"

definition cmd_pcie_eye_status_options :: "opt_spec list" where
  "cmd_pcie_eye_status_options = []"

definition action_cmd_pcie_eye_status :: "('ep, 's) cxl_ctx \<Rightarrow> (var \<Rightarrow> opt_val) \<Rightarrow> 'ep \<Rightarrow> 's \<Rightarrow> 's printed" where
  "action_cmd_pcie_eye_status C vars ep =
     cxl_cmd_pcie_eye_status (cx_os C ep) (cx_devname C ep)"

definition cmd_pcie_eye_status :: "('ep, 's) cxl_ctx \<Rightarrow> string list \<Rightarrow> 's \<Rightarrow> 's ran" where
  "cmd_pcie_eye_status C argv s = shell_status (cmd_action C argv action_cmd_pcie_eye_status cmd_pcie_eye_status_options static_vars s)"

definition cmd_pcie_eye_get_options :: "opt_spec list" where
  "cmd_pcie_eye_get_options = [
     \<lparr>o_type = OPTION_UINTEGER, short_name = CHR ''s'', long_name = Some ''sw_scan'', o_value = ''pcie_eye_get_params.sw_scan'', o_set = None\<rparr>,
     \<lparr>o_type = OPTION_UINTEGER, short_name = CHR ''b'', long_name = Some ''ber'', o_value = ''pcie_eye_get_params.ber'', o_set = None\<rparr>]"

definition action_cmd_pcie_eye_get :: "('ep, 's) cxl_ctx \<Rightarrow> (var \<Rightarrow> opt_val) \<Rightarrow> 'ep \<Rightarrow> 's \<Rightarrow> 's printed" where
  "action_cmd_pcie_eye_get C vars ep =
     cxl_cmd_pcie_eye_get (cx_os C ep) (cx_devname C ep) (uint_var vars ''pcie_eye_get_params.sw_scan'')
       (uint_var vars ''pcie_eye_get_params.ber'')"

definition cmd_pcie_eye_get :: "('ep, 's) cxl_ctx \<Rightarrow> string list \<Rightarrow> 's \<Rightarrow> 's ran" where
  "cmd_pcie_eye_get C argv s = shell_status (cmd_action C argv action_cmd_pcie_eye_get cmd_pcie_eye_get_options static_vars s)"

definition cmd_get_cxl_link_status_options :: "opt_spec list" where
  "cmd_get_cxl_link_status_options = []"

definition action_cmd_get_cxl_link_status :: "('ep, 's) cxl_ctx \<Rightarrow> (var \<Rightarrow> opt_val) \<Rightarrow> 'ep \<Rightarrow> 's \<Rightarrow> 's printed" where
  "action_cmd_get_cxl_link_status C vars ep =
     cxl_cmd_get_cxl_link_status (cx_os C ep) (cx_devname C ep)"

definition cmd_get_cxl_link_status :: "('ep, 's) cxl_ctx \<Rightarrow> string list \<Rightarrow> 's \<Rightarrow> 's ran" where
  "cmd_get_cxl_link_status C argv s = shell_status (cmd_action C argv action_cmd_get_cxl_link_status cmd_get_cxl_link_status_options static_vars s)"

definition cmd_get_device_info_options :: "opt_spec list" where
  "cmd_get_device_info_options = []"

definition action_cmd_get_device_info :: "('ep, 's) cxl_ctx \<Rightarrow> (var \<Rightarrow> opt_val) \<Rightarrow> 'ep \<Rightarrow> 's \<Rightarrow> 's printed" where
  "action_cmd_get_device_info C vars ep =
     cxl_cmd_get_device_info (cx_os C ep) (cx_devname C ep)"

definition cmd_get_device_info :: "('ep, 's) cxl_ctx \<Rightarrow> string list \<Rightarrow> 's \<Rightarrow> 's ran" where
  "cmd_get_device_info C argv s = shell_status (cmd_action C argv action_cmd_get_device_info cmd_get_device_info_options static_vars s)"

definition cmd_get_ddr_bw_options :: "opt_spec list" where
  "cmd_get_ddr_bw_options = [
     \<lparr>o_type = OPTION_UINTEGER, short_name = CHR ''t'', long_name = Some ''temeout'', o_value = ''get_ddr_bw_params.timeout'', o_set = None\<rparr>,
     \<lparr>o_type = OPTION_UINTEGER, short_name = CHR ''i'', long_name = Some ''iterations'', o_value = ''get_ddr_bw_params.iterations'', o_set = None\<rparr>]"

definition action_cmd_get_ddr_bw :: "('ep, 's) cxl_ctx \<Rightarrow> (var \<Rightarrow> opt_val) \<Rightarrow> 'ep \<Rightarrow> 's \<Rightarrow> 's printed" where
  "action_cmd_get_ddr_bw C vars ep =
     cxl_cmd_get_ddr_bw (cx_os C ep) (cx_fpu C) (cx_devname C ep)
       (uint_var vars ''get_ddr_bw_params.timeout'')
       (uint_var vars ''get_ddr_bw_params.iterations'')"

definition cmd_get_ddr_bw :: "('ep, 's) cxl_ctx \<Rightarrow> string list \<Rightarrow> 's \<Rightarrow> 's ran" where
  "cmd_get_ddr_bw C argv s = shell_status (cmd_action C argv action_cmd_get_ddr_bw cmd_get_ddr_bw_options static_vars s)"

definition cmd_ddr_margin_run_options :: "opt_spec list" where
  "cmd_ddr_margin_run_options = [
     \<lparr>o_type = OPTION_UINTEGER, short_name = CHR ''s'', long_name = Some ''slice_num'', o_value = ''ddr_margin_run_params.slice_num'', o_set = None\<rparr>,
     \<lparr>o_type = OPTION_UINTEGER, short_name = CHR ''m'', long_name = Some ''rd_wr_margin'', o_value = ''ddr_margin_run_params.rd_wr_margin'', o_set = None\<rparr>,
     \<lparr>o_type = OPTION_UINTEGER, short_name = CHR ''i'', long_name = Some ''ddr_id'', o_value = ''ddr_margin_run_params.ddr_id'', o_set = None\<rparr>]"

definition action_cmd_ddr_margin_run :: "('ep, 's) cxl_ctx \<Rightarrow> (var \<Rightarrow> opt_val) \<Rightarrow> 'ep \<Rightarrow> 's \<Rightarrow> 's printed" where
  "action_cmd_ddr_margin_run C vars ep =
     cxl_cmd_ddr_margin_run (cx_os C ep) (cx_devname C ep) (ucast (uint_var vars ''ddr_margin_run_params.slice_num''))
       (ucast (uint_var vars ''ddr_margin_run_params.rd_wr_margin''))
       (ucast (uint_var vars ''ddr_margin_run_params.ddr_id''))"

definition cmd_ddr_margin_run :: "('ep, 's) cxl_ctx \<Rightarrow> string list \<Rightarrow> 's \<Rightarrow> 's ran" where
  "cmd_ddr_margin_run C argv s = shell_status (cmd_action C argv action_cmd_ddr_margin_run cmd_ddr_margin_run_options static_vars s)"

definition cmd_ddr_margin_status_options :: "opt_spec list" where
  "cmd_ddr_margin_status_options = []"

definition action_cmd_ddr_margin_status :: "('ep, 's) cxl_ctx \<Rightarrow> (var \<Rightarrow> opt_val) \<Rightarrow> 'ep \<Rightarrow> 's \<Rightarrow> 's printed" where
  "action_cmd_ddr_margin_status C vars ep =
     cxl_cmd_ddr_margin_status (cx_os C ep) (cx_devname C ep)"

definition cmd_ddr_margin_status :: "('ep, 's) cxl_ctx \<Rightarrow> string list \<Rightarrow> 's \<Rightarrow> 's ran" where
  "cmd_ddr_margin_status C argv s = shell_status (cmd_action C argv action_cmd_ddr_margin_status cmd_ddr_margin_status_options static_vars s)"

definition cmd_ddr_margin_get_options :: "opt_spec list" where
  "cmd_ddr_margin_get_options = []"

definition action_cmd_ddr_margin_get :: "('ep, 's) cxl_ctx \<Rightarrow> (var \<Rightarrow> opt_val) \<Rightarrow> 'ep \<Rightarrow> 's \<Rightarrow> 's printed" where
  "action_cmd_ddr_margin_get C vars ep =
     cxl_cmd_ddr_margin_get (cx_os C ep) (cx_sysfs C) (cx_junk C sizeof_ddr_margin_get)
       (cx_devname C ep)"

definition cmd_ddr_margin_get :: "('ep, 's) cxl_ctx \<Rightarrow> string list \<Rightarrow> 's \<Rightarrow> 's ran" where
  "cmd_ddr_margin_get C argv s = shell_status (cmd_action C argv action_cmd_ddr_margin_get cmd_ddr_margin_get_options static_vars s)"

definition cmd_reboot_mode_set_options :: "opt_spec list" where
  "cmd_reboot_mode_set_options = [
     \<lparr>o_type = OPTION_UINTEGER, short_name = CHR ''m'', long_name = Some ''reboot_mode'', o_value = ''reboot_mode_set_params.reboot_mode'', o_set = None\<rparr>]"

definition action_cmd_reboot_mode_set :: "('ep, 's) cxl_ctx \<Rightarrow> (var \<Rightarrow> opt_val) \<Rightarrow> 'ep \<Rightarrow> 's \<Rightarrow> 's printed" where
  "action_cmd_reboot_mode_set C vars ep =
     cxl_cmd_reboot_mode_set (cx_os C ep) (cx_devname C ep) (ucast (uint_var vars ''reboot_mode_set_params.reboot_mode''))"

definition cmd_reboot_mode_set :: "('ep, 's) cxl_ctx \<Rightarrow> string list \<Rightarrow> 's \<Rightarrow> 's ran" where
  "cmd_reboot_mode_set C argv s = shell_status (cmd_action C argv action_cmd_reboot_mode_set cmd_reboot_mode_set_options static_vars s)"

definition cmd_curr_cxl_boot_mode_get_options :: "opt_spec list" where
  "cmd_curr_cxl_boot_mode_get_options = []"

definition action_cmd_curr_cxl_boot_mode_get :: "('ep, 's) cxl_ctx \<Rightarrow> (var \<Rightarrow> opt_val) \<Rightarrow> 'ep \<Rightarrow> 's \<Rightarrow> 's printed" where
  "action_cmd_curr_cxl_boot_mode_get C vars ep =
     cxl_cmd_curr_cxl_boot_mode_get (cx_os C ep) (cx_devname C ep)"

definition cmd_curr_cxl_boot_mode_get :: "('ep, 's) cxl_ctx \<Rightarrow> string list \<Rightarrow> 's \<Rightarrow> 's ran" where
  "cmd_curr_cxl_boot_mode_get C argv s = shell_status (cmd_action C argv action_cmd_curr_cxl_boot_mode_get cmd_curr_cxl_boot_mode_get_options static_vars s)"

definition cmd_get_ddr_ecc_err_info_options :: "opt_spec list" where
  "cmd_get_ddr_ecc_err_info_options = []"

definition action_cmd_get_ddr_ecc_err_info :: "('ep, 's) cxl_ctx \<Rightarrow> (var \<Rightarrow> opt_val) \<Rightarrow> 'ep \<Rightarrow> 's \<Rightarrow> 's printed" where
  "action_cmd_get_ddr_ecc_err_info C vars ep =
     cxl_cmd_get_ddr_ecc_err_info (cx_os C ep) (cx_devname C ep)"

definition cmd_get_ddr_ecc_err_info :: "('ep, 's) cxl_ctx \<Rightarrow> string list \<Rightarrow> 's \<Rightarrow> 's ran" where
  "cmd_get_ddr_ecc_err_info C argv s = shell_status (cmd_action C argv action_cmd_get_ddr_ecc_err_info cmd_get_ddr_ecc_err_info_options static_vars s)"

definition cmd_i2c_read_options :: "opt_spec list" where
  "cmd_i2c_read_options = [
     \<lparr>o_type = OPTION_UINTEGER, short_name = CHR ''s'', long_name = Some ''slave_addr'', o_value = ''i2c_read_params.slave_addr'', o_set = None\<rparr>,
     \<lparr>o_type = OPTION_UINTEGER, short_name = CHR ''r'', long_name = Some ''reg_addr'', o_value = ''i2c_read_params.reg_addr'', o_set = None\<rparr>,
     \<lparr>o_type = OPTION_UINTEGER, short_name = CHR ''n'', long_name = Some ''num_bytes'', o_value = ''i2c_read_params.num_bytes'', o_set = None\<rparr>]"

definition action_cmd_i2c_read :: "('ep, 's) cxl_ctx \<Rightarrow> (var \<Rightarrow> opt_val) \<Rightarrow> 'ep \<Rightarrow> 's \<Rightarrow> 's printed" where
  "action_cmd_i2c_read C vars ep =
     cxl_cmd_i2c_read (cx_os C ep) (cx_strerror C) (cx_devname C ep)
       (ucast (uint_var vars ''i2c_read_params.slave_addr''))
       (ucast (uint_var vars ''i2c_read_params.reg_addr''))
       (ucast (uint_var vars ''i2c_read_params.num_bytes''))"

definition cmd_i2c_read :: "('ep, 's) cxl_ctx \<Rightarrow> string list \<Rightarrow> 's \<Rightarrow> 's ran" where
  "cmd_i2c_read C argv s = shell_status (cmd_action C argv action_cmd_i2c_read cmd_i2c_read_options static_vars s)"

definition cmd_i2c_write_options :: "opt_spec list" where
  "cmd_i2c_write_options = [
     \<lparr>o_type = OPTION_UINTEGER, short_name = CHR ''s'', long_name = Some ''slave_addr'', o_value = ''i2c_write_params.slave_addr'', o_set = None\<rparr>,
     \<lparr>o_type = OPTION_UINTEGER, short_name = CHR ''r'', long_name = Some ''reg_addr'', o_value = ''i2c_write_params.reg_addr'', o_set = None\<rparr>,
     \<lparr>o_type = OPTION_UINTEGER, short_name = CHR ''d'', long_name = Some ''data'', o_value = ''i2c_write_params.data'', o_set = None\<rparr>]"

definition action_cmd_i2c_write :: "('ep, 's) cxl_ctx \<Rightarrow> (var \<Rightarrow> opt_val) \<Rightarrow> 'ep \<Rightarrow> 's \<Rightarrow> 's printed" where
  "action_cmd_i2c_write C vars ep =
     cxl_cmd_i2c_write (cx_os C ep) (cx_devname C ep) (ucast (uint_var vars ''i2c_write_params.slave_addr''))
       (ucast (uint_var vars ''i2c_write_params.reg_addr''))
       (ucast (uint_var vars ''i2c_write_params.data''))"

definition cmd_i2c_write :: "('ep, 's) cxl_ctx \<Rightarrow> string list \<Rightarrow> 's \<Rightarrow> 's ran" where
  "cmd_i2c_write C argv s = shell_status (cmd_action C argv action_cmd_i2c_write cmd_i2c_write_options static_vars s)"

definition cmd_get_ddr_latency_options :: "opt_spec list" where
  "cmd_get_ddr_latency_options = [
     \<lparr>o_type = OPTION_UINTEGER, short_name = CHR ''t'', long_name = Some ''measure time'', o_value = ''get_ddr_latency_params.measure_time'', o_set = None\<rparr>]"

definition action_cmd_get_ddr_latency :: "('ep, 's) cxl_ctx \<Rightarrow> (var \<Rightarrow> opt_val) \<Rightarrow> 'ep \<Rightarrow> 's \<Rightarrow> 's printed" where
  "action_cmd_get_ddr_latency C vars ep =
     cxl_cmd_get_ddr_latency (cx_os C ep) (cx_devname C ep) (uint_var vars ''get_ddr_latency_params.measure_time'')"

definition cmd_get_ddr_latency :: "('ep, 's) cxl_ctx \<Rightarrow> string list \<Rightarrow> 's \<Rightarrow> 's ran" where
  "cmd_get_ddr_latency C argv s = shell_status (cmd_action C argv action_cmd_get_ddr_latency cmd_get_ddr_latency_options static_vars s)"

definition cmd_get_membridge_errors_options :: "opt_spec list" where
  "cmd_get_membridge_errors_options = []"

definition action_cmd_get_membridge_errors :: "('ep, 's) cxl_ctx \<Rightarrow> (var \<Rightarrow> opt_val) \<Rightarrow> 'ep \<Rightarrow> 's \<Rightarrow> 's printed" where
  "action_cmd_get_membridge_errors C vars ep =
     cxl_cmd_get_membridge_errors (cx_os C ep) (cx_devname C ep)"

definition cmd_get_membridge_errors :: "('ep, 's) cxl_ctx \<Rightarrow> string list \<Rightarrow> 's \<Rightarrow> 's ran" where
  "cmd_get_membridge_errors C argv s = shell_status (cmd_action C argv action_cmd_get_membridge_errors cmd_get_membridge_errors_options static_vars s)"

definition cmd_hpa_to_dpa_options :: "opt_spec list" where
  "cmd_hpa_to_dpa_options = [
     \<lparr>o_type = OPTION_U64, short_name = CHR ''h'', long_name = Some ''hpa'', o_value = ''hpa_address'', o_set = None\<rparr>]"

definition action_cmd_hpa_to_dpa :: "('ep, 's) cxl_ctx \<Rightarrow> (var \<Rightarrow> opt_val) \<Rightarrow> 'ep \<Rightarrow> 's \<Rightarrow> 's printed" where
  "action_cmd_hpa_to_dpa C vars ep =
     cxl_cmd_hpa_to_dpa (cx_os C ep) (cx_devname C ep) (u64_var vars ''hpa_address'')"

definition cmd_hpa_to_dpa :: "('ep, 's) cxl_ctx \<Rightarrow> string list \<Rightarrow> 's \<Rightarrow> 's ran" where
  "cmd_hpa_to_dpa C argv s = shell_status (cmd_action C argv action_cmd_hpa_to_dpa cmd_hpa_to_dpa_options static_vars s)"

definition cmd_start_ddr_ecc_scrub_options :: "opt_spec list" where
  "cmd_start_ddr_ecc_scrub_options = []"

definition action_cmd_start_ddr_ecc_scrub :: "('ep, 's) cxl_ctx \<Rightarrow> (var \<Rightarrow> opt_val) \<Rightarrow> 'ep \<Rightarrow> 's \<Rightarrow> 's printed" where
  "action_cmd_start_ddr_ecc_scrub C vars ep =
     cxl_cmd_start_ddr_ecc_scrub (cx_os C ep) (cx_devname C ep)"

definition cmd_start_ddr_ecc_scrub :: "('ep, 's) cxl_ctx \<Rightarrow> string list \<Rightarrow> 's \<Rightarrow> 's ran" where
  "cmd_start_ddr_ecc_scrub C argv s = shell_status (cmd_action C argv action_cmd_start_ddr_ecc_scrub cmd_start_ddr_ecc_scrub_options static_vars s)"

definition cmd_ddr_ecc_scrub_status_options :: "opt_spec list" where
  "cmd_ddr_ecc_scrub_status_options = []"

definition action_cmd_ddr_ecc_scrub_status :: "('ep, 's) cxl_ctx \<Rightarrow> (var \<Rightarrow> opt_val) \<Rightarrow> 'ep \<Rightarrow> 's \<Rightarrow> 's printed" where
  "action_cmd_ddr_ecc_scrub_status C vars ep =
     cxl_cmd_ddr_ecc_scrub_status (cx_os C ep) (cx_devname C ep)"

definition cmd_ddr_ecc_scrub_status :: "('ep, 's) cxl_ctx \<Rightarrow> string list \<Rightarrow> 's \<Rightarrow> 's ran" where
  "cmd_ddr_ecc_scrub_status C argv s = shell_status (cmd_action C argv action_cmd_ddr_ecc_scrub_status cmd_ddr_ecc_scrub_status_options static_vars s)"

definition cmd_ddr_init_status_options :: "opt_spec list" where
  "cmd_ddr_init_status_options = []"

definition action_cmd_ddr_init_status :: "('ep, 's) cxl_ctx \<Rightarrow> (var \<Rightarrow> opt_val) \<Rightarrow> 'ep \<Rightarrow> 's \<Rightarrow> 's printed" where
  "action_cmd_ddr_init_status C vars ep =
     cxl_cmd_ddr_init_status (cx_os C ep) (cx_devname C ep)"

definition cmd_ddr_init_status :: "('ep, 's) cxl_ctx \<Rightarrow> string list \<Rightarrow> 's \<Rightarrow> 's ran" where
  "cmd_ddr_init_status C argv s = shell_status (cmd_action C argv action_cmd_ddr_init_status cmd_ddr_init_status_options static_vars s)"

definition cmd_get_membridge_stats_options :: "opt_spec list" where
  "cmd_get_membridge_stats_options = []"

definition action_cmd_get_membridge_stats :: "('ep, 's) cxl_ctx \<Rightarrow> (var \<Rightarrow> opt_val) \<Rightarrow> 'ep \<Rightarrow> 's \<Rightarrow> 's printed" where
  "action_cmd_get_membridge_stats C vars ep =
     cxl_cmd_get_membridge_stats (cx_os C ep) (cx_devname C ep)"

definition cmd_get_membridge_stats :: "('ep, 's) cxl_ctx \<Rightarrow> string list \<Rightarrow> 's \<Rightarrow> 's ran" where
  "cmd_get_membridge_stats C argv s = shell_status (cmd_action C argv action_cmd_get_membridge_stats cmd_get_membridge_stats_options static_vars s)"

definition cmd_ddr_err_inj_en_options :: "opt_spec list" where
  "cmd_ddr_err_inj_en_options = [
     \<lparr>o_type = OPTION_UINTEGER, short_name = CHR ''d'', long_name = Some ''ddr_id'', o_value = ''ddr_err_inj_en_params.ddr_id'', o_set = None\<rparr>,
     \<lparr>o_type = OPTION_UINTEGER, short_name = CHR ''t'', long_name = Some ''err_type'', o_value = ''ddr_err_inj_en_params.err_type'', o_set = None\<rparr>,
     \<lparr>o_type = OPTION_U64, short_name = CHR ''m'', long_name = Some ''ecc_fwc_mask'', o_value = ''ddr_err_inj_en_params.ecc_fwc_mask'', o_set = None\<rparr>]"

definition action_cmd_ddr_err_inj_en :: "('ep, 's) cxl_ctx \<Rightarrow> (var \<Rightarrow> opt_val) \<Rightarrow> 'ep \<Rightarrow> 's \<Rightarrow> 's printed" where
  "action_cmd_ddr_err_inj_en C vars ep =
     cxl_cmd_ddr_err_inj_en (cx_os C ep) (cx_devname C ep) (uint_var vars ''ddr_err_inj_en_params.ddr_id'')
       (uint_var vars ''ddr_err_inj_en_params.err_type'')
       (u64_var vars ''ddr_err_inj_en_params.ecc_fwc_mask'')"

definition cmd_ddr_err_inj_en :: "('ep, 's) cxl_ctx \<Rightarrow> string list \<Rightarrow> 's \<Rightarrow> 's ran" where
  "cmd_ddr_err_inj_en C argv s = shell_status (cmd_action C argv action_cmd_ddr_err_inj_en cmd_ddr_err_inj_en_options static_vars s)"

definition cmd_trigger_coredump_options :: "opt_spec list" where
  "cmd_trigger_coredump_options = []"

definition action_cmd_trigger_coredump :: "('ep, 's) cxl_ctx \<Rightarrow> (var \<Rightarrow> opt_val) \<Rightarrow> 'ep \<Rightarrow> 's \<Rightarrow> 's printed" where
  "action_cmd_trigger_coredump C vars ep =
     cxl_cmd_trigger_coredump (cx_os C ep) (cx_devname C ep)"

definition cmd_trigger_coredump :: "('ep, 's) cxl_ctx \<Rightarrow> string list \<Rightarrow> 's \<Rightarrow> 's ran" where
  "cmd_trigger_coredump C argv s = shell_status (cmd_action C argv action_cmd_trigger_coredump cmd_trigger_coredump_options static_vars s)"

definition cmd_ddr_stats_run_options :: "opt_spec list" where
  "cmd_ddr_stats_run_options = [
     \<lparr>o_type = OPTION_UINTEGER, short_name = CHR ''i'', long_name = Some ''ddr_id'', o_value = ''ddr_stats_run_params.ddr_id'', o_set = None\<rparr>,
     \<lparr>o_type = OPTION_UINTEGER, short_name = CHR ''m'', long_name = Some ''monitor_time'', o_value = ''ddr_stats_run_params.monitor_time'', o_set = None\<rparr>,
     \<lparr>o_type = OPTION_UINTEGER, short_name = CHR ''n'', long_name = Some ''loop_count'', o_value = ''ddr_stats_run_params.loop_count'', o_set = None\<rparr>]"

definition action_cmd_ddr_stats_run :: "('ep, 's) cxl_ctx \<Rightarrow> (var \<Rightarrow> opt_val) \<Rightarrow> 'ep \<Rightarrow> 's \<Rightarrow> 's printed" where
  "action_cmd_ddr_stats_run C vars ep =
     cxl_cmd_ddr_stats_run (cx_os C ep) (cx_devname C ep) (ucast (uint_var vars ''ddr_stats_run_params.ddr_id''))
       (uint_var vars ''ddr_stats_run_params.monitor_time'')
       (uint_var vars ''ddr_stats_run_params.loop_count'')"

definition cmd_ddr_stats_run :: "('ep, 's) cxl_ctx \<Rightarrow> string list \<Rightarrow> 's \<Rightarrow> 's ran" where
  "cmd_ddr_stats_run C argv s = shell_status (cmd_action C argv action_cmd_ddr_stats_run cmd_ddr_stats_run_options static_vars s)"

definition cmd_ddr_stats_get_options :: "opt_spec list" where
  "cmd_ddr_stats_get_options = []"

definition action_cmd_ddr_stats_get :: "('ep, 's) cxl_ctx \<Rightarrow> (var \<Rightarrow> opt_val) \<Rightarrow> 'ep \<Rightarrow> 's \<Rightarrow> 's printed" where
  "action_cmd_ddr_stats_get C vars ep =
     cxl_cmd_ddr_stats_get (cx_os C ep) (cx_junk C) (cx_devname C ep)"

definition cmd_ddr_stats_get :: "('ep, 's) cxl_ctx \<Rightarrow> string list \<Rightarrow> 's \<Rightarrow> 's ran" where
  "cmd_ddr_stats_get C argv s = shell_status (cmd_action C argv action_cmd_ddr_stats_get cmd_ddr_stats_get_options static_vars s)"

definition cmd_ddr_param_set_options :: "opt_spec list" where
  "cmd_ddr_param_set_options = [
     \<lparr>o_type = OPTION_UINTEGER, short_name = CHR ''m'', long_name = Some ''ddr_interleave_sz'', o_value = ''ddr_set_params.ddr_interleave_sz'', o_set = None\<rparr>,
     \<lparr>o_type = OPTION_UINTEGER, short_name = CHR ''n'', long_name = Some ''ddr_interleave_ctrl_choice'', o_value = ''ddr_set_params.ddr_interleave_ctrl_choice'', o_set = None\<rparr>]"

definition action_cmd_ddr_param_set :: "('ep, 's) cxl_ctx \<Rightarrow> (var \<Rightarrow> opt_val) \<Rightarrow> 'ep \<Rightarrow> 's \<Rightarrow> 's printed" where
  "action_cmd_ddr_param_set C vars ep =
     cxl_cmd_ddr_param_set (cx_os C ep) (cx_devname C ep) (uint_var vars ''ddr_set_params.ddr_interleave_sz'')
       (uint_var vars ''ddr_set_params.ddr_interleave_ctrl_choice'')"

definition cmd_ddr_param_set :: "('ep, 's) cxl_ctx \<Rightarrow> string list \<Rightarrow> 's \<Rightarrow> 's ran" where
  "cmd_ddr_param_set C argv s = shell_status (cmd_action C argv action_cmd_ddr_param_set cmd_ddr_param_set_options static_vars s)"

definition cmd_ddr_param_get_options :: "opt_spec list" where
  "cmd_ddr_param_get_options = []"

definition action_cmd_ddr_param_get :: "('ep, 's) cxl_ctx \<Rightarrow> (var \<Rightarrow> opt_val) \<Rightarrow> 'ep \<Rightarrow> 's \<Rightarrow> 's printed" where
  "action_cmd_ddr_param_get C vars ep =
     cxl_cmd_ddr_param_get (cx_os C ep) (cx_devname C ep)"

definition cmd_ddr_param_get :: "('ep, 's) cxl_ctx \<Rightarrow> string list \<Rightarrow> 's \<Rightarrow> 's ran" where
  "cmd_ddr_param_get C argv s = shell_status (cmd_action C argv action_cmd_ddr_param_get cmd_ddr_param_get_options static_vars s)"

definition cmd_dimm_level_training_status_options :: "opt_spec list" where
  "cmd_dimm_level_training_status_options = []"

definition action_cmd_dimm_level_training_status :: "('ep, 's) cxl_ctx \<Rightarrow> (var \<Rightarrow> opt_val) \<Rightarrow> 'ep \<Rightarrow> 's \<Rightarrow> 's printed" where
  "action_cmd_dimm_level_training_status C vars ep =
     cxl_cmd_ddr_dimm_level_training_status (cx_os C ep) (cx_fpu C) (cx_devname C ep)"

definition cmd_ddr_dimm_level_training_status :: "('ep, 's) cxl_ctx \<Rightarrow> string list \<Rightarrow> 's \<Rightarrow> 's ran" where
  "cmd_ddr_dimm_level_training_status C argv s = shell_status (cmd_action C argv action_cmd_dimm_level_training_status cmd_dimm_level_training_status_options static_vars s)"

definition cmd_viral_inj_en_options :: "opt_spec list" where
  "cmd_viral_inj_en_options = [
     \<lparr>o_type = OPTION_UINTEGER, short_name = CHR ''l'', long_name = Some ''viral_type'', o_value = ''oem_err_inj_viral_params.viral_type'', o_set = None\<rparr>]"

definition action_cmd_viral_inj_en :: "('ep, 's) cxl_ctx \<Rightarrow> (var \<Rightarrow> opt_val) \<Rightarrow> 'ep \<Rightarrow> 's \<Rightarrow> 's printed" where
  "action_cmd_viral_inj_en C vars ep =
     cxl_cmd_viral_inj_en (cx_os C ep) (cx_devname C ep) (uint_var vars ''oem_err_inj_viral_params.viral_type'')"

definition cmd_viral_inj_en :: "('ep, 's) cxl_ctx \<Rightarrow> string list \<Rightarrow> 's \<Rightarrow> 's ran" where
  "cmd_viral_inj_en C argv s = shell_status (cmd_action C argv action_cmd_viral_inj_en cmd_viral_inj_en_options static_vars s)"

definition cmd_mem_ll_err_inj_en_options :: "opt_spec list" where
  "cmd_mem_ll_err_inj_en_options = [
     \<lparr>o_type = OPTION_UINTEGER, short_name = CHR ''e'', long_name = Some ''en_dis'', o_value = ''err_inj_ll_poison_params.en_dis'', o_set = None\<rparr>,
     \<lparr>o_type = OPTION_UINTEGER, short_name = CHR ''l'', long_name = Some ''ll_err_type'', o_value = ''err_inj_ll_poison_params.ll_err_type'', o_set = None\<rparr>]"

definition action_cmd_mem_ll_err_inj_en :: "('ep, 's) cxl_ctx \<Rightarrow> (var \<Rightarrow> opt_val) \<Rightarrow> 'ep \<Rightarrow> 's \<Rightarrow> 's printed" where
  "action_cmd_mem_ll_err_inj_en C vars ep =
     cxl_cmd_mem_ll_err_inj_en (cx_os C ep) (cx_devname C ep) (uint_var vars ''err_inj_ll_poison_params.en_dis'')
       (uint_var vars ''err_inj_ll_poison_params.ll_err_type'')"

definition cmd_mem_ll_err_inj_en :: "('ep, 's) cxl_ctx \<Rightarrow> string list \<Rightarrow> 's \<Rightarrow> 's ran" where
  "cmd_mem_ll_err_inj_en C argv s = shell_status (cmd_action C argv action_cmd_mem_ll_err_inj_en cmd_mem_ll_err_inj_en_options static_vars s)"

definition cmd_pci_err_inj_en_options :: "opt_spec list" where
  "cmd_pci_err_inj_en_options = [
     \<lparr>o_type = OPTION_UINTEGER, short_name = CHR ''e'', long_name = Some ''en_dis'', o_value = ''pci_err_inj_params.en_dis'', o_set = None\<rparr>,
     \<lparr>o_type = OPTION_UINTEGER, short_name = CHR ''l'', long_name = Some ''err_type'', o_value = ''pci_err_inj_params.err_type'', o_set = None\<rparr>,
     \<lparr>o_type = OPTION_UINTEGER, short_name = CHR ''s'', long_name = Some ''err_subtype'', o_value = ''pci_err_inj_params.err_subtype'', o_set = None\<rparr>,
     \<lparr>o_type = OPTION_UINTEGER, short_name = CHR ''c'', long_name = Some ''count'', o_value = ''pci_err_inj_params.count'', o_set = None\<rparr>,
     \<lparr>o_type = OPTION_UINTEGER, short_name = CHR ''x'', long_name = Some ''opt1'', o_value = ''pci_err_inj_params.opt_param1'', o_set = None\<rparr>,
     \<lparr>o_type = OPTION_UINTEGER, short_name = CHR ''y'', long_name = Some ''opt2'', o_value = ''pci_err_inj_params.opt_param2'', o_set = None\<rparr>]"

definition action_cmd_pci_err_inj_en :: "('ep, 's) cxl_ctx \<Rightarrow> (var \<Rightarrow> opt_val) \<Rightarrow> 'ep \<Rightarrow> 's \<Rightarrow> 's printed" where
  "action_cmd_pci_err_inj_en C vars ep =
     cxl_cmd_pci_err_inj_en (cx_os C ep) (cx_devname C ep) (uint_var vars ''pci_err_inj_params.en_dis'')
       (uint_var vars ''pci_err_inj_params.err_type'')
       (uint_var vars ''pci_err_inj_params.err_subtype'')
       (uint_var vars ''pci_err_inj_params.count'')
       (uint_var vars ''pci_err_inj_params.opt_param1'')
       (uint_var vars ''pci_err_inj_params.opt_param2'')"

definition cmd_pci_err_inj_en :: "('ep, 's) cxl_ctx \<Rightarrow> string list \<Rightarrow> 's \<Rightarrow> 's ran" where
  "cmd_pci_err_inj_en C argv s = shell_status (cmd_action C argv action_cmd_pci_err_inj_en cmd_pci_err_inj_en_options static_vars s)"

definition cmd_core_volt_set_options :: "opt_spec list" where
  "cmd_core_volt_set_options = [
     \<lparr>o_type = OPTION_UINTEGER, short_name = CHR ''i'', long_name = Some ''core_volt_val1'', o_value = ''ddr_core_volt_set_params.val1'', o_set = None\<rparr>,
     \<lparr>o_type = OPTION_UINTEGER, short_name = CHR ''m'', long_name = Some ''core_volt_val2'', o_value = ''ddr_core_volt_set_params.val2'', o_set = None\<rparr>,
     \<lparr>o_type = OPTION_UINTEGER, short_name = CHR ''n'', long_name = Some ''core_volt_val3'', o_value = ''ddr_core_volt_set_params.val3'', o_set = None\<rparr>]"

definition action_cmd_core_volt_set :: "('ep, 's) cxl_ctx \<Rightarrow> (var \<Rightarrow> opt_val) \<Rightarrow> 'ep \<Rightarrow> 's \<Rightarrow> 's printed" where
  "action_cmd_core_volt_set C vars ep =
     cxl_cmd_core_volt_set (cx_os C ep) (cx_devname C ep) (f_volt (cx_fpu C) (uint_var vars ''ddr_core_volt_set_params.val1'') (uint_var vars ''ddr_core_volt_set_params.val2'') (uint_var vars ''ddr_core_volt_set_params.val3''))"

definition cmd_core_volt_set :: "('ep, 's) cxl_ctx \<Rightarrow> string list \<Rightarrow> 's \<Rightarrow> 's ran" where
  "cmd_core_volt_set C argv s = shell_status (cmd_action C argv action_cmd_core_volt_set cmd_core_volt_set_options static_vars s)"

definition cmd_core_volt_get_options :: "opt_spec list" where
  "cmd_core_volt_get_options = []"

definition action_cmd_core_volt_get :: "('ep, 's) cxl_ctx \<Rightarrow> (var \<Rightarrow> opt_val) \<Rightarrow> 'ep \<Rightarrow> 's \<Rightarrow> 's printed" where
  "action_cmd_core_volt_get C vars ep =
     cxl_cmd_core_volt_get (cx_os C ep) (cx_devname C ep)"

definition cmd_core_volt_get :: "('ep, 's) cxl_ctx \<Rightarrow> string list \<Rightarrow> 's \<Rightarrow> 's ran" where
  "cmd_core_volt_get C argv s = shell_status (cmd_action C argv action_cmd_core_volt_get cmd_core_volt_get_options static_vars s)"

definition cmd_ddr_cont_scrub_status_options :: "opt_spec list" where
  "cmd_ddr_cont_scrub_status_options = []"

definition action_cmd_ddr_cont_scrub_status :: "('ep, 's) cxl_ctx \<Rightarrow> (var \<Rightarrow> opt_val) \<Rightarrow> 'ep \<Rightarrow> 's \<Rightarrow> 's printed" where
  "action_cmd_ddr_cont_scrub_status C vars ep =
     cxl_cmd_ddr_cont_scrub_status (cx_os C ep) (cx_devname C ep)"

definition cmd_ddr_cont_scrub_status :: "('ep, 's) cxl_ctx \<Rightarrow> string list \<Rightarrow> 's \<Rightarrow> 's ran" where
  "cmd_ddr_cont_scrub_status C argv s = shell_status (cmd_action C argv action_cmd_ddr_cont_scrub_status cmd_ddr_cont_scrub_status_options static_vars s)"

definition cmd_ddr_cont_scrub_set_options :: "opt_spec list" where
  "cmd_ddr_cont_scrub_set_options = [
     \<lparr>o_type = OPTION_UINTEGER, short_name = CHR ''i'', long_name = Some ''cont_scrub_status'', o_value = ''ddr_cont_scrub_set_params.cont_scrub_status'', o_set = None\<rparr>]"

definition action_cmd_ddr_cont_scrub_set :: "('ep, 's) cxl_ctx \<Rightarrow> (var \<Rightarrow> opt_val) \<Rightarrow> 'ep \<Rightarrow> 's \<Rightarrow> 's printed" where
  "action_cmd_ddr_cont_scrub_set C vars ep =
     cxl_cmd_ddr_cont_scrub_set (cx_os C ep) (cx_devname C ep) (uint_var vars ''ddr_cont_scrub_set_params.cont_scrub_status'')"

definition cmd_ddr_cont_scrub_set :: "('ep, 's) cxl_ctx \<Rightarrow> string list \<Rightarrow> 's \<Rightarrow> 's ran" where
  "cmd_ddr_cont_scrub_set C argv s = shell_status (cmd_action C argv action_cmd_ddr_cont_scrub_set cmd_ddr_cont_scrub_set_options static_vars s)"

definition cmd_ddr_page_select_set_options :: "opt_spec list" where
  "cmd_ddr_page_select_set_options = [
     \<lparr>o_type = OPTION_INTEGER, short_name = CHR ''p'', long_name = Some ''page_policy_reg_val'', o_value = ''_page_policy_select.page_policy_reg_val'', o_set = None\<rparr>]"

definition action_cmd_ddr_page_select_set :: "('ep, 's) cxl_ctx \<Rightarrow> (var \<Rightarrow> opt_val) \<Rightarrow> 'ep \<Rightarrow> 's \<Rightarrow> 's printed" where
  "action_cmd_ddr_page_select_set C vars ep =
     cxl_cmd_ddr_page_select_set (cx_os C ep) (cx_devname C ep) (of_int (int_var vars ''_page_policy_select.page_policy_reg_val''))"

definition cmd_ddr_page_select_set :: "('ep, 's) cxl_ctx \<Rightarrow> string list \<Rightarrow> 's \<Rightarrow> 's ran" where
  "cmd_ddr_page_select_set C argv s = shell_status (cmd_action C argv action_cmd_ddr_page_select_set cmd_ddr_page_select_set_options static_vars s)"

definition cmd_ddr_page_select_get_options :: "opt_spec list" where
  "cmd_ddr_page_select_get_options = []"

definition action_cmd_ddr_page_select_get :: "('ep, 's) cxl_ctx \<Rightarrow> (var \<Rightarrow> opt_val) \<Rightarrow> 'ep \<Rightarrow> 's \<Rightarrow> 's printed" where
  "action_cmd_ddr_page_select_get C vars ep =
     cxl_cmd_ddr_page_select_get (cx_os C ep) (cx_devname C ep)"

definition cmd_ddr_page_select_get :: "('ep, 's) cxl_ctx \<Rightarrow> string list \<Rightarrow> 's \<Rightarrow> 's ran" where
  "cmd_ddr_page_select_get C argv s = shell_status (cmd_action C argv action_cmd_ddr_page_select_get cmd_ddr_page_select_get_options static_vars s)"

definition cmd_ddr_hppr_set_options :: "opt_spec list" where
  "cmd_ddr_hppr_set_options = [
     \<lparr>o_type = OPTION_UINTEGER, short_name = CHR ''e'', long_name = Some ''ddr_hppr_en'', o_value = ''ddr_hppr_set_params.enable'', o_set = None\<rparr>]"

definition action_cmd_ddr_hppr_set :: "('ep, 's) cxl_ctx \<Rightarrow> (var \<Rightarrow> opt_val) \<Rightarrow> 'ep \<Rightarrow> 's \<Rightarrow> 's printed" where
  "action_cmd_ddr_hppr_set C vars ep =
     cxl_cmd_ddr_hppr_set (cx_os C ep) (cx_devname C ep) (ucast (uint_var vars ''ddr_hppr_set_params.enable''))"

definition cmd_ddr_hppr_set :: "('ep, 's) cxl_ctx \<Rightarrow> string list \<Rightarrow> 's \<Rightarrow> 's ran" where
  "cmd_ddr_hppr_set C argv s = shell_status (cmd_action C argv action_cmd_ddr_hppr_set cmd_ddr_hppr_set_options static_vars s)"

definition cmd_ddr_hppr_get_options :: "opt_spec list" where
  "cmd_ddr_hppr_get_options = []"

definition action_cmd_ddr_hppr_get :: "('ep, 's) cxl_ctx \<Rightarrow> (var \<Rightarrow> opt_val) \<Rightarrow> 'ep \<Rightarrow> 's \<Rightarrow> 's printed" where
  "action_cmd_ddr_hppr_get C vars ep =
     cxl_cmd_ddr_hppr_get (cx_os C ep) (cx_devname C ep)"

definition cmd_ddr_hppr_get :: "('ep, 's) cxl_ctx \<Rightarrow> string list \<Rightarrow> 's \<Rightarrow> 's ran" where
  "cmd_ddr_hppr_get C argv s = shell_status (cmd_action C argv action_cmd_ddr_hppr_get cmd_ddr_hppr_get_options static_vars s)"

definition cmd_ddr_hppr_addr_info_set_options :: "opt_spec list" where
  "cmd_ddr_hppr_addr_info_set_options = [
     \<lparr>o_type = OPTION_UINTEGER, short_name = CHR ''d'', long_name = Some ''ddr_id'', o_value = ''ddr_hppr_addr_info_set_params.ddr_id'', o_set = None\<rparr>,
     \<lparr>o_type = OPTION_UINTEGER, short_name = CHR ''c'', long_name = Some ''chip_select'', o_value = ''ddr_hppr_addr_info_set_params.chip_select'', o_set = None\<rparr>,
     \<lparr>o_type = OPTION_UINTEGER, short_name = CHR ''g'', long_name = Some ''bank_group'', o_value = ''ddr_hppr_addr_info_set_params.bank_group'', o_set = None\<rparr>,
     \<lparr>o_type = OPTION_UINTEGER, short_name = CHR ''b'', long_name = Some ''bank'', o_value = ''ddr_hppr_addr_info_set_params.bank'', o_set = None\<rparr>,
     \<lparr>o_type = OPTION_UINTEGER, short_name = CHR ''r'', long_name = Some ''row'', o_value = ''ddr_hppr_addr_info_set_params.row'', o_set = None\<rparr>]"

definition action_cmd_ddr_hppr_addr_info_set :: "('ep, 's) cxl_ctx \<Rightarrow> (var \<Rightarrow> opt_val) \<Rightarrow> 'ep \<Rightarrow> 's \<Rightarrow> 's printed" where
  "action_cmd_ddr_hppr_addr_info_set C vars ep =
     cxl_cmd_ddr_hppr_addr_info_set (cx_os C ep) (cx_devname C ep) (ucast (uint_var vars ''ddr_hppr_addr_info_set_params.ddr_id''))
       (ucast (uint_var vars ''ddr_hppr_addr_info_set_params.chip_select''))
       (ucast (uint_var vars ''ddr_hppr_addr_info_set_params.bank_group''))
       (ucast (uint_var vars ''ddr_hppr_addr_info_set_params.bank''))
       (uint_var vars ''ddr_hppr_addr_info_set_params.row'')"

definition cmd_ddr_hppr_addr_info_set :: "('ep, 's) cxl_ctx \<Rightarrow> string list \<Rightarrow> 's \<Rightarrow> 's ran" where
  "cmd_ddr_hppr_addr_info_set C argv s = shell_status (cmd_action C argv action_cmd_ddr_hppr_addr_info_set cmd_ddr_hppr_addr_info_set_options static_vars s)"

definition cmd_ddr_hppr_addr_info_get_options :: "opt_spec list" where
  "cmd_ddr_hppr_addr_info_get_options = []"

definition action_cmd_ddr_hppr_addr_info_get :: "('ep, 's) cxl_ctx \<Rightarrow> (var \<Rightarrow> opt_val) \<Rightarrow> 'ep \<Rightarrow> 's \<Rightarrow> 's printed" where
  "action_cmd_ddr_hppr_addr_info_get C vars ep =
     cxl_cmd_ddr_hppr_addr_info_get (cx_os C ep) (cx_devname C ep)"

definition cmd_ddr_hppr_addr_info_get :: "('ep, 's) cxl_ctx \<Rightarrow> string list \<Rightarrow> 's \<Rightarrow> 's ran" where
  "cmd_ddr_hppr_addr_info_get C argv s = shell_status (cmd_action C argv action_cmd_ddr_hppr_addr_info_get cmd_ddr_hppr_addr_info_get_options static_vars s)"

definition cmd_ddr_hppr_addr_info_clear_options :: "opt_spec list" where
  "cmd_ddr_hppr_addr_info_clear_options = [
     \<lparr>o_type = OPTION_UINTEGER, short_name = CHR ''d'', long_name = Some ''ddr_id'', o_value = ''ddr_hppr_addr_info_clear_params.ddr_id'', o_set = None\<rparr>,
     \<lparr>o_type = OPTION_UINTEGER, short_name = CHR ''c'', long_name = Some ''channel_id'', o_value = ''ddr_hppr_addr_info_clear_params.channel_id'', o_set = None\<rparr>]"

definition action_cmd_ddr_hppr_addr_info_clear :: "('ep, 's) cxl_ctx \<Rightarrow> (var \<Rightarrow> opt_val) \<Rightarrow> 'ep \<Rightarrow> 's \<Rightarrow> 's printed" where
  "action_cmd_ddr_hppr_addr_info_clear C vars ep =
     cxl_cmd_ddr_hppr_addr_info_clear (cx_os C ep) (cx_devname C ep) (ucast (uint_var vars ''ddr_hppr_addr_info_clear_params.ddr_id''))
       (ucast (uint_var vars ''ddr_hppr_addr_info_clear_params.channel_id''))"

definition cmd_ddr_hppr_addr_info_clear :: "('ep, 's) cxl_ctx \<Rightarrow> string list \<Rightarrow> 's \<Rightarrow> 's ran" where
  "cmd_ddr_hppr_addr_info_clear C argv s = shell_status (cmd_action C argv action_cmd_ddr_hppr_addr_info_clear cmd_ddr_hppr_addr_info_clear_options static_vars s)"

definition cmd_ddr_ppr_get_status_options :: "opt_spec list" where
  "cmd_ddr_ppr_get_status_options = []"

definition action_cmd_ddr_ppr_get_status :: "('ep, 's) cxl_ctx \<Rightarrow> (var \<Rightarrow> opt_val) \<Rightarrow> 'ep \<Rightarrow> 's \<Rightarrow> 's printed" where
  "action_cmd_ddr_ppr_get_status C vars ep =
     cxl_cmd_ddr_ppr_get_status (cx_os C ep) (cx_devname C ep)"

definition cmd_ddr_ppr_get_status :: "('ep, 's) cxl_ctx \<Rightarrow> string list \<Rightarrow> 's \<Rightarrow> 's ran" where
  "cmd_ddr_ppr_get_status C argv s = shell_status (cmd_action C argv action_cmd_ddr_ppr_get_status cmd_ddr_ppr_get_status_options static_vars s)"

definition cmd_ddr_refresh_mode_set_options :: "opt_spec list" where
  "cmd_ddr_refresh_mode_set_options = [
     \<lparr>o_type = OPTION_UINTEGER, short_name = CHR ''r'', long_name = Some ''ddr_refresh_val'', o_value = ''refresh_select.ddr_refresh_val'', o_set = None\<rparr>]"

definition action_cmd_ddr_refresh_mode_set :: "('ep, 's) cxl_ctx \<Rightarrow> (var \<Rightarrow> opt_val) \<Rightarrow> 'ep \<Rightarrow> 's \<Rightarrow> 's printed" where
  "action_cmd_ddr_refresh_mode_set C vars ep =
     cxl_cmd_ddr_refresh_mode_set (cx_os C ep) (cx_devname C ep) (ucast (uint_var vars ''refresh_select.ddr_refresh_val''))"

definition cmd_ddr_refresh_mode_set :: "('ep, 's) cxl_ctx \<Rightarrow> string list \<Rightarrow> 's \<Rightarrow> 's ran" where
  "cmd_ddr_refresh_mode_set C argv s = shell_status (cmd_action C argv action_cmd_ddr_refresh_mode_set cmd_ddr_refresh_mode_set_options static_vars s)"

definition cmd_ddr_refresh_mode_get_options :: "opt_spec list" where
  "cmd_ddr_refresh_mode_get_options = []"

definition action_cmd_ddr_refresh_mode_get :: "('ep, 's) cxl_ctx \<Rightarrow> (var \<Rightarrow> opt_val) \<Rightarrow> 'ep \<Rightarrow> 's \<Rightarrow> 's printed" where
  "action_cmd_ddr_refresh_mode_get C vars ep =
     cxl_cmd_ddr_refresh_mode_get (cx_os C ep) (cx_devname C ep)"

definition cmd_ddr_refresh_mode_get :: "('ep, 's) cxl_ctx \<Rightarrow> string list \<Rightarrow> 's \<Rightarrow> 's ran" where
  "cmd_ddr_refresh_mode_get C argv s = shell_status (cmd_action C argv action_cmd_ddr_refresh_mode_get cmd_ddr_refresh_mode_get_options static_vars s)"

definition cmd_cxl_err_cntr_get_options :: "opt_spec list" where
  "cmd_cxl_err_cntr_get_options = []"

definition action_cmd_cxl_err_cntr_get :: "('ep, 's) cxl_ctx \<Rightarrow> (var \<Rightarrow> opt_val) \<Rightarrow> 'ep \<Rightarrow> 's \<Rightarrow> 's printed" where
  "action_cmd_cxl_err_cntr_get C vars ep =
     cxl_cmd_cxl_err_cntr_get (cx_os C ep) (cx_devname C ep)"

definition cmd_cxl_err_cntr_get :: "('ep, 's) cxl_ctx \<Rightarrow> string list \<Rightarrow> 's \<Rightarrow> 's ran" where
  "cmd_cxl_err_cntr_get C argv s = shell_status (cmd_action C argv action_cmd_cxl_err_cntr_get cmd_cxl_err_cntr_get_options static_vars s)"

definition cmd_ddr_freq_get_options :: "opt_spec list" where
  "cmd_ddr_freq_get_options = []"

definition action_cmd_ddr_freq_get :: "('ep, 's) cxl_ctx \<Rightarrow> (var \<Rightarrow> opt_val) \<Rightarrow> 'ep \<Rightarrow> 's \<Rightarrow> 's printed" where
  "action_cmd_ddr_freq_get C vars ep =
     cxl_cmd_ddr_freq_get (cx_os C ep) (cx_devname C ep)"

definition cmd_ddr_freq_get :: "('ep, 's) cxl_ctx \<Rightarrow> string list \<Rightarrow> 's \<Rightarrow> 's ran" where
  "cmd_ddr_freq_get C argv s = shell_status (cmd_action C argv action_cmd_ddr_freq_get cmd_ddr_freq_get_options static_vars s)"

definition cmd_ddr_init_err_info_get_options :: "opt_spec list" where
  "cmd_ddr_init_err_info_get_options = []"

definition action_cmd_ddr_init_err_info_get :: "('ep, 's) cxl_ctx \<Rightarrow> (var \<Rightarrow> opt_val) \<Rightarrow> 'ep \<Rightarrow> 's \<Rightarrow> 's printed" where
  "action_cmd_ddr_init_err_info_get C vars ep =
     cxl_cmd_ddr_init_err_info_get (cx_os C ep) (cx_devname C ep)"

definition cmd_ddr_init_err_info_get :: "('ep, 's) cxl_ctx \<Rightarrow> string list \<Rightarrow> 's \<Rightarrow> 's ran" where
  "cmd_ddr_init_err_info_get C argv s = shell_status (cmd_action C argv action_cmd_ddr_init_err_info_get cmd_ddr_init_err_info_get_options static_vars s)"

section \<open>The table of commands and the dispatcher\<close>

definition help_lines :: "line list" where
  "help_lines =
     [(''%s^n'', [Str ''cxl COMMAND [ARGS]'']),
      (''Usage: %s <cmd> <device>^n'', [Str ''cxl'']),
      (''<device> device_name (ex: mem0)^n'', []),
      (''%s --list-cmds to see all available commands^n'', [Str ''cxl''])]"

definition cmd_print_help :: "('ep, 's) cxl_ctx \<Rightarrow> string list \<Rightarrow> 's \<Rightarrow> 's ran" where
  "cmd_print_help C argv s = Ret (Some (Defined (0, help_lines, s)))"

definition commands :: "(string \<times> (('ep, 's) cxl_ctx \<Rightarrow> string list \<Rightarrow> 's \<Rightarrow> 's ran)) list" where
  "commands =
    [(''help'', cmd_print_help),
     (''id-cmd'', cmd_identify),
     (''get-supported-logs'', cmd_get_supported_logs),
     (''get-log'', cmd_get_log),
     (''get-alert-config'', cmd_get_alert_config),
     (''set-alert-config'', cmd_set_alert_config),
     (''get-health-info'', cmd_get_health_info),
     (''get-fw-info'', cmd_get_fw_info),
     (''update-fw'', cmd_update_fw),
     (''get-timestamp'', cmd_get_timestamp),
     (''set-timestamp'', cmd_set_timestamp),
     (''get-event-records'', cmd_get_event_records),
     (''clear-event-records'', cmd_clear_event_records),
     (''get-event-interrupt-policy'', cmd_get_event_interrupt_policy),
     (''set-event-interrupt-policy'', cmd_set_event_interrupt_policy),
     (''dimm-spd-read'', cmd_dimm_spd_read),
     (''dimm-slot-info'', cmd_dimm_slot_info),
     (''read-ddr-temp'', cmd_read_ddr_temp),
     (''health-counters-clear'', cmd_health_counters_clear),
     (''health-counters-get'', cmd_health_counters_get),
     (''pmic-vtmon-info'', cmd_pmic_vtmon_info),
     (''read-ltssm-states'', cmd_read_ltssm_states),
     (''pcie-eye-run'', cmd_pcie_eye_run),
     (''pcie-eye-status'', cmd_pcie_eye_status),
     (''pcie-eye-get'', cmd_pcie_eye_get),
     (''get-cxl-link-status'', cmd_get_cxl_link_status),
     (''get-device-info'', cmd_get_device_info),
     (''get-ddr-bw'', cmd_get_ddr_bw),
     (''ddr-margin-run'', cmd_ddr_margin_run),
     (''ddr-margin-status'', cmd_ddr_margin_status),
     (''ddr-margin-get'', cmd_ddr_margin_get),
     (''reboot-mode-set'', cmd_reboot_mode_set),
     (''curr-cxl-boot-mode-get'', cmd_curr_cxl_boot_mode_get),
     (''get-ddr-ecc-err-info'', cmd_get_ddr_ecc_err_info),
     (''i2c-read'', cmd_i2c_read),
     (''i2c-write'', cmd_i2c_write),
     (''get-ddr-latency'', cmd_get_ddr_latency),
     (''get-cxl-membridge-errors'', cmd_get_membridge_errors),
     (''cxl-hpa-to-dpa'', cmd_hpa_to_dpa),
     (''start-ddr-ecc-scrub'', cmd_start_ddr_ecc_scrub),
     (''ddr-ecc-scrub-status'', cmd_ddr_ecc_scrub_status),
     (''ddr-init-status'', cmd_ddr_init_status),
     (''get-cxl-membridge-stats'', cmd_get_membridge_stats),
     (''ddr-err-inj-en'', cmd_ddr_err_inj_en),
     (''trigger-coredump'', cmd_trigger_coredump),
     (''ddr-stats-run'', cmd_ddr_stats_run),
     (''ddr-stats-get'', cmd_ddr_stats_get),
     (''ddr-param-set'', cmd_ddr_param_set),
     (''ddr-param-get'', cmd_ddr_param_get),
     (''ddr-dimm-level-training-status'', cmd_ddr_dimm_level_training_status),
     (''oem-err-inj-viral'', cmd_viral_inj_en),
     (''err-inj-ll-poison'', cmd_mem_ll_err_inj_en),
     (''pci-err-inj'', cmd_pci_err_inj_en),
     (''core-volt-set'', cmd_core_volt_set),
     (''core-volt-get'', cmd_core_volt_get),
     (''ddr-cont-scrub-status'', cmd_ddr_cont_scrub_status),
     (''ddr-cont-scrub-set'', cmd_ddr_cont_scrub_set),
     (''ddr-page-select-set'', cmd_ddr_page_select_set),
     (''ddr-page-select-get'', cmd_ddr_page_select_get),
     (''ddr-hppr-set'', cmd_ddr_hppr_set),
     (''ddr-hppr-get'', cmd_ddr_hppr_get),
     (''ddr-hppr-addr-info-set'', cmd_ddr_hppr_addr_info_set),
     (''ddr-hppr-addr-info-get'', cmd_ddr_hppr_addr_info_get),
     (''ddr-hppr-addr-info-clear'', cmd_ddr_hppr_addr_info_clear),
     (''ddr-ppr-status-get'', cmd_ddr_ppr_get_status),
     (''ddr-refresh-mode-set'', cmd_ddr_refresh_mode_set),
     (''ddr-refresh-mode-get'', cmd_ddr_refresh_mode_get),
     (''cxl-err-cnt-get'', cmd_cxl_err_cntr_get),
     (''ddr-freq-get'', cmd_ddr_freq_get),
     (''ddr-err-bist-info-get'', cmd_ddr_init_err_info_get)]"

text \<open>
  The flags before the command: \<open>Inl\<close> is the exit after listing the commands, \<open>Inr\<close> the arguments from
  the first that is no flag on. Unknown flags are reported and skipped.
\<close>

fun main_handle_options :: "string list \<Rightarrow> string list \<Rightarrow> line list + (line list \<times> string list)" where
  "main_handle_options names [] = Inr ([], [])"
| "main_handle_options names (cmd # argv) =
     (if cmd = [] \<or> hd cmd \<noteq> CHR ''-'' then Inr ([], cmd # argv)
      else if cmd = ''--version'' \<or> cmd = ''--help'' then Inr ([], cmd # argv)
      else if cmd = ''-h'' then Inr ([], ''--help'' # argv)
      else if cmd = ''-v'' then Inr ([], ''--version'' # argv)
      else if cmd = ''--list-cmds'' then Inl (map (\<lambda>n. (''%s^n'', [Str n])) names)
      else let l = (''Unknown option: %s^n'', [Str cmd]) in
        (case main_handle_options names argv of
           Inl ls \<Rightarrow> Inl (l # ls)
         | Inr (ls, argv') \<Rightarrow> Inr (l # ls, argv')))"

text \<open>The status \<open>run_builtin\<close> gives a command that returned 0.\<close>

definition stdout_status :: "('ep, 's) cxl_ctx \<Rightarrow> int" where
  "stdout_status C =
     (if cx_fstat_fails C then 0
      else if cx_is_pipe C then 0
      else if cx_fflush_fails C then 1
      else if cx_ferror C then 1
      else if cx_fclose_fails C then 1
      else 0)"

definition run_builtin ::
  "('ep, 's) cxl_ctx \<Rightarrow> (('ep, 's) cxl_ctx \<Rightarrow> string list \<Rightarrow> 's \<Rightarrow> 's ran) \<Rightarrow> string list \<Rightarrow> 's \<Rightarrow> 's ran" where
  "run_builtin C fn argv s =
     (case fn C argv s of
        Ret (Some (Defined (status, ls, s'))) \<Rightarrow>
          Ret (Some (Defined (if status \<noteq> 0 then status mod 256 else stdout_status C, ls, s')))
      | r \<Rightarrow> r)"

text \<open>
  \<open>None\<close> when no command has the name: then the caller returns. Otherwise the program has exited.
\<close>

definition main_handle_internal_command ::
  "('ep, 's) cxl_ctx \<Rightarrow> (string \<times> (('ep, 's) cxl_ctx \<Rightarrow> string list \<Rightarrow> 's \<Rightarrow> 's ran)) list \<Rightarrow> string list \<Rightarrow>
   's \<Rightarrow> 's ran option" where
  "main_handle_internal_command C cmds argv s =
     (let argv' = (if length argv > 1 \<and> argv ! 1 = ''--help'' then argv[1 := argv ! 0, 0 := ''help''] else argv) in
      case find (\<lambda>p. fst p = argv' ! 0) cmds of
        Some p \<Rightarrow> Some (run_builtin C (snd p) argv' s)
      | None \<Rightarrow> None)"

text \<open>What was printed before comes first.\<close>

definition after_lines :: "line list \<Rightarrow> 's ran \<Rightarrow> 's ran" where
  "after_lines ls r =
     (case r of
        Ret (Some (Defined (status, ls', s))) \<Rightarrow> Ret (Some (Defined (status, ls @ ls', s)))
      | _ \<Rightarrow> r)"

text \<open>
  \<open>main\<close>, with its exit status. It returns failure wherever a command did not end the program.
\<close>

definition cxl_main :: "('ep, 's) cxl_ctx \<Rightarrow> string list \<Rightarrow> 's \<Rightarrow> 's ran" where
  "cxl_main C argv s =
     (if length argv < 2 then Ret (Some (Defined (EXIT_FAILURE, help_lines, s)))
      else case cx_new C s of (ok, s1) \<Rightarrow>
        if \<not> ok then Ret (Some (Defined (EXIT_FAILURE, [(''cannot create new context object^n'', [])], s1)))
        else case main_handle_options (map fst (commands :: (string \<times> (('ep, 's) cxl_ctx \<Rightarrow> string list \<Rightarrow> 's \<Rightarrow> 's ran)) list)) (tl argv) of
          Inl ls \<Rightarrow> Ret (Some (Defined (0, ls, s1)))
        | Inr (ls, []) \<Rightarrow> Ret (Some (Defined (EXIT_FAILURE, ls @ help_lines, cx_free C s1)))
        | Inr (ls, argv') \<Rightarrow>
            (case main_handle_internal_command C commands argv' s1 of
               Some r \<Rightarrow> after_lines ls r
             | None \<Rightarrow>
                 let name = (if length argv' > 1 \<and> argv' ! 1 = ''--help'' then ''help'' else argv' ! 0) in
                 Ret (Some (Defined (EXIT_FAILURE, ls @ [(''Unknown command: '' @ quoted @ ''^r^n'', [Str name])], cx_free C s1)))))"

end
