(* ===== verification/Handler_Properties.thy ===== *)
theory Handler_Properties
  imports Cxl_Std Parse_Properties
begin

text \<open>
  What the printing handlers keep: a failed command prints nothing and its code is returned, most
  handlers are free of undefined behaviour for every device, and where one is not, when it is.
\<close>

section \<open>Failures\<close>

definition codes :: "('s \<Rightarrow> ('r, 's) cmd_result) \<Rightarrow> 's \<Rightarrow> int \<times> 's" where
  "codes run s = (ret_code (run s), ret_state (run s))"

definition passes_failure :: "('s \<Rightarrow> int \<times> 's) \<Rightarrow> ('s \<Rightarrow> 's printed) \<Rightarrow> bool" where
  "passes_failure c h \<longleftrightarrow> (\<forall>s. fst (c s) \<noteq> 0 \<longrightarrow> h s = Defined (fst (c s), [], snd (c s)))"

lemma passes_report: "(\<And>s. h s = report run show s) \<Longrightarrow> passes_failure (codes run) h"
  by (auto simp: passes_failure_def codes_def report_def ret_code_def ret_state_def split: prod.split)

lemmas report_handlers =
  cxl_cmd_dimm_slot_info_def
  cxl_cmd_read_ddr_temp_def
  cxl_cmd_health_counters_clear_def
  cxl_cmd_health_counters_get_def
  cxl_cmd_pmic_vtmon_info_def
  cxl_cmd_read_ltssm_states_def
  cxl_cmd_pcie_eye_status_def
  cxl_cmd_get_cxl_link_status_def
  cxl_cmd_get_device_info_def
  cxl_cmd_get_ddr_bw_def
  cxl_cmd_ddr_margin_run_def
  cxl_cmd_ddr_margin_status_def
  cxl_cmd_reboot_mode_set_def
  cxl_cmd_curr_cxl_boot_mode_get_def
  cxl_cmd_get_ddr_ecc_err_info_def
  cxl_cmd_i2c_write_def
  cxl_cmd_get_ddr_latency_def
  cxl_cmd_get_membridge_errors_def
  cxl_cmd_hpa_to_dpa_def
  cxl_cmd_start_ddr_ecc_scrub_def
  cxl_cmd_ddr_ecc_scrub_status_def
  cxl_cmd_ddr_init_status_def
  cxl_cmd_get_membridge_stats_def
  cxl_cmd_ddr_err_inj_en_def
  cxl_cmd_trigger_coredump_def
  cxl_cmd_ddr_stats_run_def
  cxl_cmd_ddr_param_set_def
  cxl_cmd_ddr_param_get_def
  cxl_cmd_ddr_dimm_level_training_status_def
  cxl_cmd_viral_inj_en_def
  cxl_cmd_mem_ll_err_inj_en_def
  cxl_cmd_pci_err_inj_en_def
  cxl_cmd_core_volt_set_def
  cxl_cmd_core_volt_get_def
  cxl_cmd_ddr_cont_scrub_status_def
  cxl_cmd_ddr_cont_scrub_set_def
  cxl_cmd_ddr_page_select_set_def
  cxl_cmd_ddr_page_select_get_def
  cxl_cmd_ddr_hppr_set_def
  cxl_cmd_ddr_hppr_get_def
  cxl_cmd_ddr_hppr_addr_info_set_def
  cxl_cmd_ddr_hppr_addr_info_get_def
  cxl_cmd_ddr_hppr_addr_info_clear_def
  cxl_cmd_ddr_ppr_get_status_def
  cxl_cmd_ddr_refresh_mode_set_def
  cxl_cmd_ddr_refresh_mode_get_def
  cxl_cmd_cxl_err_cntr_get_def
  cxl_cmd_ddr_freq_get_def
  cxl_cmd_ddr_init_err_info_get_def


section \<open>Handlers that are always defined\<close>

lemma report_total: "h = report run show s \<Longrightarrow> (\<And>r. is_defined (show r)) \<Longrightarrow> is_defined h"
  by (auto simp: report_def is_defined_bind_total split: prod.split)

lemma each_total: "(\<And>x. is_defined (f x)) \<Longrightarrow> is_defined (each f xs)"
  by (simp add: each_defined_iff)

lemma training_errors_total: "is_defined (print_err_status i (Some t))"
  by (simp add: print_err_status_def Let_def)

lemma ecc_rows: "ret_out (cxlmi_cmd_get_ddr_ecc_err_info os s) = Some r \<Longrightarrow> length (ddr_ctrl_err r) = 2"
  by (auto simp: cxlmi_cmd_get_ddr_ecc_err_info_def shape_defs dec_get_ddr_ecc_err_info_def split: prod.splits if_splits)

lemma ecc_total: "is_defined (cxl_cmd_get_ddr_ecc_err_info os dev s)"
proof -
  have "is_defined (each (display_error_count (Some (ddr_ctrl_err r))) [0..<2])"
    if "length (ddr_ctrl_err r) = 2" for r
    using that by (auto simp: each_defined_iff display_error_count_def at_def)
  note rows = this[OF ecc_rows[unfolded cxlmi_cmd_get_ddr_ecc_err_info_def]]
  show ?thesis
    unfolding cxl_cmd_get_ddr_ecc_err_info_def cxlmi_cmd_get_ddr_ecc_err_info_def
    by (intro get_query.report_defined) (simp only: is_defined_bind_total is_defined.simps rows)
qed


section \<open>Handlers that trust the device\<close>

text \<open>
  The log of link states is read pair by pair up to a pair of zeros, without a bound that holds for
  the second of the pair, and each state indexes the table of names.
\<close>

definition states_end :: "u32 list \<Rightarrow> nat \<Rightarrow> bool" where
  "states_end v i \<longleftrightarrow> (\<exists>k. i \<le> k \<and> k < 127 \<and> v ! k = 0 \<and> v ! Suc k = 0 \<and>
     (\<forall>j. i \<le> j \<and> j < k \<longrightarrow> unat (v ! j) < length ltssm_state_name))"

lemma log_ends_at:
  "length v = 128 \<Longrightarrow> i < 127 \<Longrightarrow> log_ends v i = Defined (v ! i = 0 \<and> v ! Suc i = 0)"
  by (auto simp: log_ends_def)

lemma states_end_step:
  "i < 127 \<Longrightarrow> states_end v i \<longleftrightarrow> v ! i = 0 \<and> v ! Suc i = 0 \<or>
     unat (v ! i) < length ltssm_state_name \<and> states_end v (Suc i)"
proof -
  assume i: "i < 127"
  show ?thesis
  proof
    assume "states_end v i"
    then obtain k where k: "i \<le> k" "k < 127" "v ! k = 0" "v ! Suc k = 0"
      "\<And>j. i \<le> j \<Longrightarrow> j < k \<Longrightarrow> unat (v ! j) < length ltssm_state_name"
      by (auto simp: states_end_def)
    show "v ! i = 0 \<and> v ! Suc i = 0 \<or> unat (v ! i) < length ltssm_state_name \<and> states_end v (Suc i)"
    proof (cases "k = i")
      case False
      with k(1) have "Suc i \<le> k" by simp
      with k show ?thesis unfolding states_end_def by (intro disjI2 conjI exI[of _ k]) auto
    qed (use k in simp)
  next
    assume "v ! i = 0 \<and> v ! Suc i = 0 \<or> unat (v ! i) < length ltssm_state_name \<and> states_end v (Suc i)"
    then show "states_end v i"
    proof
      assume "v ! i = 0 \<and> v ! Suc i = 0"
      with i show ?thesis unfolding states_end_def by (intro exI[of _ i]) auto
    next
      assume "unat (v ! i) < length ltssm_state_name \<and> states_end v (Suc i)"
      then obtain k where k: "Suc i \<le> k" "k < 127" "v ! k = 0" "v ! Suc k = 0"
        "unat (v ! i) < length ltssm_state_name"
        "\<And>j. Suc i \<le> j \<Longrightarrow> j < k \<Longrightarrow> unat (v ! j) < length ltssm_state_name"
        by (auto simp: states_end_def)
      then have "\<forall>j. i \<le> j \<and> j < k \<longrightarrow> unat (v ! j) < length ltssm_state_name"
        by (metis le_eq_less_or_eq Suc_leI)
      with k show ?thesis unfolding states_end_def by (intro exI[of _ k]) auto
    qed
  qed
qed

lemma state_lines_defined_iff:
  assumes "length v = 128"
  shows "i \<le> 127 \<Longrightarrow> is_defined (state_lines v i) \<longleftrightarrow> states_end v i"
proof (induction "127 - i" arbitrary: i)
  case 0
  then have "i = 127" by simp
  with assms show ?case
    by (subst state_lines.simps) (simp add: LTSSM_STATE_DUMP_COUNT_MAX_def log_ends_def at_def states_end_def)
next
  case (Suc n)
  then have i: "i < 127" "is_defined (state_lines v (Suc i)) \<longleftrightarrow> states_end v (Suc i)" by auto
  show ?case
    unfolding states_end_step[OF i(1)] i(2)[symmetric]
    using i(1) assms
    by (subst state_lines.simps)
      (auto simp: LTSSM_STATE_DUMP_COUNT_MAX_def log_ends_at at_def is_defined_bind_total)
qed

lemma ltssm_rows: "ret_out (cxlmi_cmd_read_ltssm_states os s) = Some r \<Longrightarrow> length (ltssm_states r) = 128"
  by (auto simp: cxlmi_cmd_read_ltssm_states_def shape_defs dec_read_ltssm_states_def split: prod.splits if_splits)

text \<open>C22. The handler of the link states is free of undefined behaviour exactly for the logs that have a
  pair of zeros in their 128 entries, with known states before it: a log that is full, or a state
  without a name, is read out of bounds.\<close>

theorem ltssm_defined_iff:
  assumes "cxlmi_cmd_read_ltssm_states os s = (0, Some r, s')"
  shows "is_defined (cxl_cmd_read_ltssm_states os dev s) \<longleftrightarrow>
    (\<exists>k. k < 127 \<and> ltssm_states r ! k = 0 \<and> ltssm_states r ! Suc k = 0 \<and>
       (\<forall>j<k. unat (ltssm_states r ! j) < length ltssm_state_name))"
proof -
  have "length (ltssm_states r) = 128" using ltssm_rows[of os s r] assms by simp
  then have "is_defined (cxl_cmd_read_ltssm_states os dev s) \<longleftrightarrow> states_end (ltssm_states r) 0"
    using assms state_lines_defined_iff[of "ltssm_states r" 0] states_end_step[of 0 "ltssm_states r"]
    by (simp add: cxl_cmd_read_ltssm_states_def report_def log_ends_at is_defined_bind_total)
  then show ?thesis by (simp add: states_end_def)
qed

theorem ltssm_defined_iff_witness:
  "is_defined (cxl_cmd_read_ltssm_states (probe True 0 []) ''mem0'' []) \<and>
   \<not> is_defined (cxl_cmd_read_ltssm_states (probe True 0 (replicate 512 1)) ''mem0'' [])"
proof
  let ?r = "\<lambda>pl. dec_read_ltssm_states (rsp_buffer 512 pl)"
  have run: "cxlmi_cmd_read_ltssm_states (probe True 0 pl) [] = (0, Some (?r pl),
      [\<lparr>rq_pl_sz = 0, rq_cmdset = VENDOR_CMD_OTHERS, rq_opcode = READ_LTSSM_STATES, rq_payload = [], rq_rsp_cap = 512\<rparr>])" for pl
    by (simp add: cxlmi_cmd_read_ltssm_states_def shape_defs sizeof_read_ltssm_states_def)
  have sl: "bslice (4 * k) 4 (replicate 512 b) = replicate 4 b" if "k < 128" for k and b :: u8
    using that by (simp add: bslice_def min_def)
  have val: "ltssm_states (dec_read_ltssm_states (replicate 512 b)) ! k = rd32 0 (replicate 4 b)" if "k < 128" for k b
    using that sl[OF that, of b] by (simp add: dec_read_ltssm_states_def rd_array_def rd32_def bslice_all)
  have full: "?r (replicate 512 b) = dec_read_ltssm_states (replicate 512 b)" for b
    by (simp only: rsp_buffer_exact length_replicate)
  have "rsp_buffer 512 [] = replicate 512 0" by (simp add: rsp_buffer_def)
  then have empty: "?r [] = dec_read_ltssm_states (replicate 512 0)" by (simp only:)
  have "rd32 0 (replicate 4 0) = 0" by code_simp
  then have "ltssm_states (?r []) ! k = 0" if "k < 128" for k
    unfolding empty using val[OF that, of 0] by (simp only:)
  from this[of 0] this[of "Suc 0"]
  have "ltssm_states (?r []) ! 0 = 0" "ltssm_states (?r []) ! Suc 0 = 0" by simp_all
  then show "is_defined (cxl_cmd_read_ltssm_states (probe True 0 []) ''mem0'' [])"
    unfolding ltssm_defined_iff[OF run] by (intro exI[of _ "0::nat"]) auto
  have "replicate 4 1 = [1, 1, 1, 1 :: u8]" by (simp add: numeral_eq_Suc)
  then have one: "rd32 0 (replicate 4 1) \<noteq> 0" by (simp add: rd32_def bslice_def)
  have "ltssm_states (?r (replicate 512 1)) ! k \<noteq> 0" if "k < 127" for k
  proof -
    from that have "k < 128" by simp
    from val[OF this, of 1] one show ?thesis unfolding full by (simp only: not_False_eq_True)
  qed
  then show "\<not> is_defined (cxl_cmd_read_ltssm_states (probe True 0 (replicate 512 1)) ''mem0'' [])"
    unfolding ltssm_defined_iff[OF run] by blast
qed

section \<open>The words of the command line\<close>

text \<open>C24. The byte swaps of the alert handler amount to taking the fields of its three words from the most
  significant end: the bytes 2, 1 and 0 of the first word and the halves of the two others, which
  is the order the options document; the same holds of the four bytes of an interrupt policy.\<close>

theorem words_taken_in_order:
  "cxl_cmd_set_alert_config lib dev p t m s = bind_outcome
     (report (lib_set_alert_config lib
       \<lparr>sa_valid = ucast (drop_bit 16 p), sa_enable = ucast (drop_bit 8 p), sa_life_used = ucast p,
        sa_rsvd1 = 0, sa_over_temp = ucast (drop_bit 16 t), sa_under_temp = ucast t,
        sa_volatile = ucast (drop_bit 16 m), sa_persistent = ucast m\<rparr>)
        (\<lambda>_. Defined [(''command completed successfully^n'', [])]) s)
     (\<lambda>(rc, ls, s'). Defined (rc,
       [(''alert_config settings: %s ^n'', [Str dev]),
        (''    valid_alert_actions: 0x%x^n'', [U8 (ucast (drop_bit 16 p))]),
        (''    enable_alert_actions: 0x%x^n'', [U8 (ucast (drop_bit 8 p))]),
        (''    life_used_prog_warn_threshold: 0x%x^n'', [U8 (ucast p)]),
        (''    dev_over_temp_prog_warn_threshold: 0x%x^n'', [U16 (ucast (drop_bit 16 t))]),
        (''    dev_under_temp_prog_warn_threshold: 0x%x^n'', [U16 (ucast t)]),
        (''    corr_vol_mem_err_prog_warn_thresold: 0x%x^n'', [U16 (ucast (drop_bit 16 m))]),
        (''    corr_pers_mem_err_prog_warn_threshold: 0x%x^n'', [U16 (ucast m)])] @ ls, s'))
   \<and> cxl_cmd_set_event_interrupt_policy lib dev w s =
     report (lib_set_interrupt_policy lib
       \<lparr>ip_informational = ucast (drop_bit 24 w), ip_warning = ucast (drop_bit 16 w),
        ip_failure = ucast (drop_bit 8 w), ip_fatal = ucast w\<rparr>)
       (\<lambda>_. Defined [(''command completed successfully^n'', [])]) s"
  unfolding cxl_cmd_set_alert_config_def alert_request_def cxl_cmd_set_event_interrupt_policy_def Let_def
  by (simp only: swap32_bytes swap16_halves set_alert_config.simps simp_thms)

section \<open>A library that fails\<close>

text \<open>Every command of the specification fails on it.\<close>

definition offline :: "'s cxlmi" where
  "offline =
     \<lparr>lib_identify = (\<lambda>s. (-1, None, s)), lib_get_supported_logs = (\<lambda>s. (-1, None, s)),
      lib_get_log_cel = (\<lambda>r s. (-1, None, s)), lib_get_alert_config = (\<lambda>s. (-1, None, s)),
      lib_set_alert_config = (\<lambda>r s. (-1, None, s)), lib_get_health_info = (\<lambda>s. (-1, None, s)),
      lib_get_fw_info = (\<lambda>s. (-1, None, s)),
      lib_dec_fw_info = (\<lambda>b. \<lparr>fi_slots_supported = 0, fi_slot_info = 0, fi_caps = 0,
        fi_rev1 = [0], fi_rev2 = [0], fi_rev3 = [0], fi_rev4 = [0]\<rparr>),
      lib_get_timestamp = (\<lambda>s. (-1, None, s)), lib_set_timestamp = (\<lambda>t s. (-1, None, s)),
      lib_get_event_records = (\<lambda>t s. (-1, None, s)), lib_clear_event_records = (\<lambda>r s. (-1, None, s)),
      lib_get_interrupt_policy = (\<lambda>s. (-1, None, s)), lib_set_interrupt_policy = (\<lambda>r s. (-1, None, s)),
      lib_cel_entry = (\<lambda>b. (0, 0)), lib_sz_cel = 4, lib_sz_identify = 69, lib_sz_supported_logs = 8,
      lib_sz_event_record = 128, lib_sz_events = 32, lib_sz_data = 80, lib_sz_clear = 6, lib_ret_input = 2\<rparr>"

section \<open>A log of a malformed UUID\<close>

definition at_most :: "string \<Rightarrow> nat \<Rightarrow> nat \<Rightarrow> bool" where
  "at_most s i n \<longleftrightarrow> (\<forall>u. uuid_parse_from s i = Defined u \<longrightarrow> length u \<le> n)"

lemma at_most_plain:
  assumes "i < 36" "i \<notin> {8, 13, 18, 23}" "at_most s (i + 2) (n - 1)" "0 < n"
  shows "at_most s i n"
  using assms unfolding at_most_def
  by (subst uuid_parse_from.simps) (auto simp: bind_outcome_Defined_iff Let_def)

lemma at_most_dash:
  assumes "i \<in> {8, 13, 18, 23}" "at_most s (i + 3) (n - 1)" "0 < n"
  shows "at_most s i n"
  using assms unfolding at_most_def
  by (subst uuid_parse_from.simps) (auto simp: bind_outcome_Defined_iff Let_def numeral_eq_Suc split: if_splits)

lemma uuid_at_most: "uuid_parse u = Defined x \<Longrightarrow> length x \<le> 16"
proof -
  have "at_most u 36 0" by (simp add: at_most_def uuid_end)
  then have "at_most u 26 5"
    using at_most_plain[of 34 u 1] at_most_plain[of 32 u 2] at_most_plain[of 30 u 3] at_most_plain[of 28 u 4]
      at_most_plain[of 26 u 5] by simp
  then have "at_most u 16 9"
    using at_most_dash[of 23 u 6] at_most_plain[of 21 u 7] at_most_dash[of 18 u 8] at_most_plain[of 16 u 9] by simp
  then have "at_most u 6 13"
    using at_most_dash[of 13 u 10] at_most_plain[of 11 u 11] at_most_dash[of 8 u 12] at_most_plain[of 6 u 13] by simp
  then have "at_most u 4 14" using at_most_plain[of 4 u 14] by simp
  then have "at_most u 2 15" using at_most_plain[of 2 u 15] by simp
  then have "at_most u 0 16" using at_most_plain[of 0 u 16] by (simp add: numeral_2_eq_2)
  then show "uuid_parse u = Defined x \<Longrightarrow> length x \<le> 16" by (simp add: at_most_def uuid_parse_def)
qed



end
