(* ===== verification/Cli_Properties.thy ===== *)
theory Cli_Properties
  imports Cli Handler_Properties Fw_Properties
begin

text \<open>
  What the command line keeps: the option tables and the table of commands are unambiguous, every
  command acts on the endpoints that were named, in order and once each, and the values on the
  command line reach the device.
\<close>

section \<open>The tables\<close>

definition option_tables :: "opt_spec list list" where
  "option_tables = [cmd_identify_options, cmd_get_supported_logs_options, cmd_get_log_options,
     cmd_get_alert_config_options, cmd_set_alert_config_options, cmd_get_health_info_options,
     cmd_get_fw_info_options, cmd_update_fw_options, cmd_get_timestamp_options,
     cmd_set_timestamp_options, cmd_get_event_records_options, cmd_clear_event_records_options,
     cmd_get_event_interrupt_policy_options, cmd_set_event_interrupt_policy_options,
     cmd_dimm_spd_read_options, cmd_dimm_slot_info_options, cmd_read_ddr_temp_options,
     cmd_health_counters_clear_options, cmd_health_counters_get_options,
     cmd_pmic_vtmon_info_options, cmd_read_ltssm_states_options, cmd_pcie_eye_run_options,
     cmd_pcie_eye_status_options, cmd_pcie_eye_get_options, cmd_get_cxl_link_status_options,
     cmd_get_device_info_options, cmd_get_ddr_bw_options, cmd_ddr_margin_run_options,
     cmd_ddr_margin_status_options, cmd_ddr_margin_get_options, cmd_reboot_mode_set_options,
     cmd_curr_cxl_boot_mode_get_options, cmd_get_ddr_ecc_err_info_options, cmd_i2c_read_options,
     cmd_i2c_write_options, cmd_get_ddr_latency_options, cmd_get_membridge_errors_options,
     cmd_hpa_to_dpa_options, cmd_start_ddr_ecc_scrub_options, cmd_ddr_ecc_scrub_status_options,
     cmd_ddr_init_status_options, cmd_get_membridge_stats_options, cmd_ddr_err_inj_en_options,
     cmd_trigger_coredump_options, cmd_ddr_stats_run_options, cmd_ddr_stats_get_options,
     cmd_ddr_param_set_options, cmd_ddr_param_get_options,
     cmd_dimm_level_training_status_options, cmd_viral_inj_en_options,
     cmd_mem_ll_err_inj_en_options, cmd_pci_err_inj_en_options, cmd_core_volt_set_options,
     cmd_core_volt_get_options, cmd_ddr_cont_scrub_status_options,
     cmd_ddr_cont_scrub_set_options, cmd_ddr_page_select_set_options,
     cmd_ddr_page_select_get_options, cmd_ddr_hppr_set_options, cmd_ddr_hppr_get_options,
     cmd_ddr_hppr_addr_info_set_options, cmd_ddr_hppr_addr_info_get_options,
     cmd_ddr_hppr_addr_info_clear_options, cmd_ddr_ppr_get_status_options,
     cmd_ddr_refresh_mode_set_options, cmd_ddr_refresh_mode_get_options,
     cmd_cxl_err_cntr_get_options, cmd_ddr_freq_get_options, cmd_ddr_init_err_info_get_options]"

lemmas option_table_defs =
  cmd_identify_options_def cmd_get_supported_logs_options_def cmd_get_log_options_def
  cmd_get_alert_config_options_def cmd_set_alert_config_options_def
  cmd_get_health_info_options_def cmd_get_fw_info_options_def cmd_update_fw_options_def
  cmd_get_timestamp_options_def cmd_set_timestamp_options_def cmd_get_event_records_options_def
  cmd_clear_event_records_options_def cmd_get_event_interrupt_policy_options_def
  cmd_set_event_interrupt_policy_options_def cmd_dimm_spd_read_options_def
  cmd_dimm_slot_info_options_def cmd_read_ddr_temp_options_def
  cmd_health_counters_clear_options_def cmd_health_counters_get_options_def
  cmd_pmic_vtmon_info_options_def cmd_read_ltssm_states_options_def cmd_pcie_eye_run_options_def
  cmd_pcie_eye_status_options_def cmd_pcie_eye_get_options_def
  cmd_get_cxl_link_status_options_def cmd_get_device_info_options_def cmd_get_ddr_bw_options_def
  cmd_ddr_margin_run_options_def cmd_ddr_margin_status_options_def
  cmd_ddr_margin_get_options_def cmd_reboot_mode_set_options_def
  cmd_curr_cxl_boot_mode_get_options_def cmd_get_ddr_ecc_err_info_options_def
  cmd_i2c_read_options_def cmd_i2c_write_options_def cmd_get_ddr_latency_options_def
  cmd_get_membridge_errors_options_def cmd_hpa_to_dpa_options_def
  cmd_start_ddr_ecc_scrub_options_def cmd_ddr_ecc_scrub_status_options_def
  cmd_ddr_init_status_options_def cmd_get_membridge_stats_options_def
  cmd_ddr_err_inj_en_options_def cmd_trigger_coredump_options_def cmd_ddr_stats_run_options_def
  cmd_ddr_stats_get_options_def cmd_ddr_param_set_options_def cmd_ddr_param_get_options_def
  cmd_dimm_level_training_status_options_def cmd_viral_inj_en_options_def
  cmd_mem_ll_err_inj_en_options_def cmd_pci_err_inj_en_options_def cmd_core_volt_set_options_def
  cmd_core_volt_get_options_def cmd_ddr_cont_scrub_status_options_def
  cmd_ddr_cont_scrub_set_options_def cmd_ddr_page_select_set_options_def
  cmd_ddr_page_select_get_options_def cmd_ddr_hppr_set_options_def cmd_ddr_hppr_get_options_def
  cmd_ddr_hppr_addr_info_set_options_def cmd_ddr_hppr_addr_info_get_options_def
  cmd_ddr_hppr_addr_info_clear_options_def cmd_ddr_ppr_get_status_options_def
  cmd_ddr_refresh_mode_set_options_def cmd_ddr_refresh_mode_get_options_def
  cmd_cxl_err_cntr_get_options_def cmd_ddr_freq_get_options_def
  cmd_ddr_init_err_info_get_options_def

text \<open>C33. The option tables of all commands are unambiguous: no two options of a command share a long
  or a short name, and every long name is one that an exact match finds before any abbreviation.
  Only the address of the command \<open>cxl-hpa-to-dpa\<close> has the short name \<open>h\<close>, which the parser
  reserves for help.\<close>

theorem tables_unambiguous:
  "list_all plain_options option_tables \<and>
   list_all (\<lambda>t. distinct (map short_name t)) option_tables \<and>
   filter (\<lambda>t. CHR ''h'' \<in> set (map short_name t)) option_tables = [cmd_hpa_to_dpa_options]"
proof (intro conjI)
  show "list_all plain_options option_tables"
    unfolding option_tables_def
    by (simp add: option_table_defs plain_options_def plain_name_def)
  show "list_all (\<lambda>t. distinct (map short_name t)) option_tables"
    unfolding option_tables_def by (simp add: option_table_defs)
  show "filter (\<lambda>t. CHR ''h'' \<in> set (map short_name t)) option_tables = [cmd_hpa_to_dpa_options]"
    unfolding option_tables_def by (simp add: option_table_defs)
qed

lemma command_names:
  "map fst (commands :: (string \<times> (('ep, 's) cxl_ctx \<Rightarrow> string list \<Rightarrow> 's \<Rightarrow> 's ran)) list) =
   [''help'', ''id-cmd'', ''get-supported-logs'', ''get-log'', ''get-alert-config'',
    ''set-alert-config'', ''get-health-info'', ''get-fw-info'', ''update-fw'',
    ''get-timestamp'', ''set-timestamp'', ''get-event-records'', ''clear-event-records'',
    ''get-event-interrupt-policy'', ''set-event-interrupt-policy'', ''dimm-spd-read'',
    ''dimm-slot-info'', ''read-ddr-temp'', ''health-counters-clear'', ''health-counters-get'',
    ''pmic-vtmon-info'', ''read-ltssm-states'', ''pcie-eye-run'', ''pcie-eye-status'',
    ''pcie-eye-get'', ''get-cxl-link-status'', ''get-device-info'', ''get-ddr-bw'',
    ''ddr-margin-run'', ''ddr-margin-status'', ''ddr-margin-get'', ''reboot-mode-set'',
    ''curr-cxl-boot-mode-get'', ''get-ddr-ecc-err-info'', ''i2c-read'', ''i2c-write'',
    ''get-ddr-latency'', ''get-cxl-membridge-errors'', ''cxl-hpa-to-dpa'',
    ''start-ddr-ecc-scrub'', ''ddr-ecc-scrub-status'', ''ddr-init-status'',
    ''get-cxl-membridge-stats'', ''ddr-err-inj-en'', ''trigger-coredump'', ''ddr-stats-run'',
    ''ddr-stats-get'', ''ddr-param-set'', ''ddr-param-get'', ''ddr-dimm-level-training-status'',
    ''oem-err-inj-viral'', ''err-inj-ll-poison'', ''pci-err-inj'', ''core-volt-set'',
    ''core-volt-get'', ''ddr-cont-scrub-status'', ''ddr-cont-scrub-set'',
    ''ddr-page-select-set'', ''ddr-page-select-get'', ''ddr-hppr-set'', ''ddr-hppr-get'',
    ''ddr-hppr-addr-info-set'', ''ddr-hppr-addr-info-get'', ''ddr-hppr-addr-info-clear'',
    ''ddr-ppr-status-get'', ''ddr-refresh-mode-set'', ''ddr-refresh-mode-get'',
    ''cxl-err-cnt-get'', ''ddr-freq-get'', ''ddr-err-bist-info-get'']"
  by (simp add: commands_def)

lemma command_names_distinct:
  "distinct (map fst (commands :: (string \<times> (('ep, 's) cxl_ctx \<Rightarrow> string list \<Rightarrow> 's \<Rightarrow> 's ran)) list))"
  unfolding command_names by simp

lemma command_name_plain:
  assumes "(name, fn) \<in> set (commands :: (string \<times> (('ep, 's) cxl_ctx \<Rightarrow> string list \<Rightarrow> 's \<Rightarrow> 's ran)) list)"
  shows "name \<noteq> [] \<and> hd name \<noteq> CHR ''-''"
proof -
  have "list_all (\<lambda>n. n \<noteq> [] \<and> hd n \<noteq> CHR ''-'') (map fst (commands :: (string \<times> (('ep, 's) cxl_ctx \<Rightarrow> string list \<Rightarrow> 's \<Rightarrow> 's ran)) list))"
    unfolding command_names by simp
  with assms show ?thesis by (auto simp: list_all_iff)
qed

lemma find_command:
  assumes "distinct (map fst cs)" "(name, fn) \<in> set cs"
  shows "find (\<lambda>p. fst p = name) cs = Some (name, fn)"
  using assms by (induction cs) force+

lemma main_dispatches:
  assumes "(name, fn) \<in> set commands" and "args = [] \<or> hd args \<noteq> ''--help''" and "cx_new C s = (True, s1)"
  shows "cxl_main C (prog # name # args) s = run_builtin C fn (name # args) s1"
proof -
  have n: "name \<noteq> []" "hd name \<noteq> CHR ''-''" using command_name_plain[OF assms(1)] by auto
  have "find (\<lambda>p. fst p = name) commands = Some (name, fn)"
    by (rule find_command[OF command_names_distinct assms(1)])
  moreover have "(args \<noteq> [] \<and> args ! 0 = ''--help'') = False" using assms(2) by (auto simp: hd_conv_nth)
  ultimately have "main_handle_internal_command C commands (name # args) s1 = Some (run_builtin C fn (name # args) s1)"
    by (simp add: main_handle_internal_command_def Let_def del: de_Morgan_conj)
  moreover have "after_lines [] r = r" for r :: "'b ran"
    by (simp add: after_lines_def split: run.split option.split outcome.split)
  ultimately show ?thesis using n assms(3) by (simp add: cxl_main_def)
qed

section \<open>The endpoints\<close>

text \<open>
  What a command does with the names, as a reference: every name that opens has its action on the
  first endpoint and is closed again. The result has the code of each action.
\<close>

fun visit ::
  "('ep, 's) cxl_ctx \<Rightarrow> ('ep \<Rightarrow> 's \<Rightarrow> 's printed) \<Rightarrow> string list \<Rightarrow> 's \<Rightarrow> (int list \<times> line list \<times> 's) outcome" where
  "visit C act [] s = Defined ([], [], s)"
| "visit C act (name # names) s =
     (case cx_open C name s of (ep, s1) \<Rightarrow>
        if ep = None then bind_outcome (visit C act names s1) (\<lambda>(rcs, ls, s').
          Defined (rcs, (''cannot open '' @ quoted @ '' endpoint^n'', [Str name]) # ls, s'))
        else case cx_first C s1 of
          None \<Rightarrow> visit C act names s1
        | Some ep \<Rightarrow> bind_outcome (act ep s1) (\<lambda>(rc, ls, s2).
            bind_outcome (visit C act names (cx_close C ep s2)) (\<lambda>(rcs, ls', s').
              Defined (rc # rcs, ls @ ls', s'))))"

text \<open>The number of successful actions, or the code of the last one.\<close>

definition verdict :: "int list \<Rightarrow> int" where
  "verdict rcs = (if 0 \<in> set rcs then int (count_list rcs 0) else last (0 # rcs))"

text \<open>The documented behaviour of the iteration: after the null pointer there is no next endpoint.\<close>

definition iteration_ends :: "('ep, 's) cxl_ctx \<Rightarrow> bool" where
  "iteration_ends C \<longleftrightarrow> (\<forall>s. cx_next C None s = None)"

lemma ep_loop_None [simp]: "ep_loop C act ident None rc count ls s = Some (Defined (rc, count, ls, s))"
  by (subst ep_loop.simps) simp

lemma ep_loop_once:
  assumes "iteration_ends C" "scans_mem ident"
  shows "ep_loop C act ident (Some ep) rc count ls s =
    Some (bind_outcome (act ep s) (\<lambda>(rc', ls', s').
      Defined (rc', if rc' = 0 then count + 1 else count, ls @ ls', cx_close C ep s')))"
  using assms
  by (subst ep_loop.simps) (simp add: cxlmi_ep_filter_def iteration_ends_def split: outcome.split prod.split)

lemma all_is_no_mem [simp]: "\<not> scans_mem ''all''" "scans_mem ''mem0''" "scans_mem ''mem1''"
  by code_simp+

lemma name_loop_visits:
  assumes "iteration_ends C" "''all'' \<notin> set names" "count \<ge> 0"
  shows "name_loop C act names rc count ls s =
    Some (bind_outcome (visit C act (filter scans_mem names) s) (\<lambda>(rcs, ls', s').
      Defined (if count + int (count_list rcs 0) > 0 then count + int (count_list rcs 0)
               else last (rc # rcs), ls @ ls', s')))"
  using assms(2,3)
proof (induction names arbitrary: rc count ls s)
  case (Cons name names)
  show ?case
  proof (cases "scans_mem name")
    case mem: True
    obtain ep s1 where op: "cx_open C name s = (ep, s1)" by fastforce
    show ?thesis
    proof (cases ep)
      case None
      with mem op Cons show ?thesis
        by (cases "visit C act (filter scans_mem names) s1") (auto split: prod.splits)
    next
      case (Some ep0)
      show ?thesis
      proof (cases "cx_first C s1")
        case None
        with mem op Some Cons show ?thesis by simp
      next
        case (Some ep1)
        show ?thesis
        proof (cases "act ep1 s1")
          case (Defined r)
          with mem op Some Cons.prems \<open>ep = Some ep0\<close> show ?thesis
            by (cases r; cases "visit C act (filter scans_mem names) (cx_close C ep1 (snd (snd r)))")
              (auto simp: ep_loop_once[OF assms(1)] Cons.IH)
        qed (simp add: mem op Some \<open>ep = Some ep0\<close> ep_loop_once[OF assms(1) mem])
      qed
    qed
  qed (use Cons in auto)
qed simp

lemma verdict_eq: "(if int (count_list rcs 0) > 0 then int (count_list rcs 0) else last (0 # rcs)) = verdict rcs"
  by (simp add: verdict_def count_list_0_iff)

lemma name_loop_verdict:
  assumes "iteration_ends C" "''all'' \<notin> set names"
  shows "name_loop C act names 0 0 ls s =
    Some (bind_outcome (visit C act (filter scans_mem names) s) (\<lambda>(rcs, ls', s').
      Defined (verdict rcs, ls @ ls', s')))"
  using name_loop_visits[OF assms order_refl, of act 0 ls s] unfolding add_0 verdict_eq .

lemma bad_names_eq:
  "bad_names names bad =
     (''all'' \<in> set names,
      bad @ filter (\<lambda>n. \<not> scans_mem n) (takeWhile (\<lambda>n. n \<noteq> ''all'') names))"
  by (induction names arbitrary: bad) auto

text \<open>
  The names a command acts on, and those it complains about: \<open>all\<close> stands for \<open>mem0\<close> and \<open>mem1\<close>,
  whatever else is named.
\<close>

definition targets :: "string list \<Rightarrow> string list" where
  "targets names = (if ''all'' \<in> set names then [''mem0'', ''mem1''] else filter scans_mem names)"

definition rejects :: "string list \<Rightarrow> string list" where
  "rejects names = filter (\<lambda>n. \<not> scans_mem n) (takeWhile (\<lambda>n. n \<noteq> ''all'') names)"

lemma cmd_action_visits:
  assumes "iteration_ends C" and "parse_options argv options 0 vars = Ret (names, vars')"
  shows "cmd_action C argv act options vars s =
    (if names = [] \<or> length (rejects names) = (if ''all'' \<in> set names then 1 else length names)
     then Exit 129
     else Ret (Some (bind_outcome (visit C (act C vars') (targets names) s) (\<lambda>(rcs, ls, s').
       Defined (verdict rcs, map (\<lambda>n. (quoted @ '' is not a valid ep name^n'', [Str n])) (rejects names) @ ls, s')))))"
proof -
  have "names = [''all''] \<Longrightarrow> ''all'' \<in> set names" by simp
  then show ?thesis
    using assms(2) name_loop_verdict[OF assms(1), of names] name_loop_verdict[OF assms(1), of "[''mem0'', ''mem1'']"]
    by (auto simp: cmd_action_def bad_names_eq rejects_def targets_def Let_def)
qed

section \<open>One endpoint, from the command line to the device\<close>

lemma command_on_one:
  assumes "iteration_ends C" "plain_options options" "list_all (item_ok options) items"
    and "concat (map positional items) = [dev]" "scans_mem dev"
    and "cx_open C dev s = (Some ep0, s1)" "cx_first C s1 = Some ep"
  shows "cmd_action C (prog # map show_item items) act options vars s =
    Ret (Some (bind_outcome (act C (fold store_item items vars) ep s1) (\<lambda>(rc, ls, s2).
      Defined (if rc = 0 then 1 else rc, ls, cx_close C ep s2))))"
proof -
  have dev: "dev \<noteq> ''all''" using assms(5) by auto
  have "parse_options (prog # map show_item items) options 0 vars = Ret ([dev], fold store_item items vars)"
    using parse_items[OF assms(2,3)] assms(4) by simp
  from cmd_action_visits[OF assms(1) this] show ?thesis
    using assms(5-7) dev
    by (cases "act C (fold store_item items vars) ep s1")
      (auto simp: rejects_def targets_def verdict_def bind_outcome_assoc split: prod.split)
qed

lemma show_item_no_help: "item_ok options item \<Longrightarrow> show_item item \<noteq> ''--help''"
proof (cases item)
  case (Assign opt v)
  have "CHR ''='' \<in> set (show_item item)" by (simp add: Assign)
  then show ?thesis by auto
next
  case (Text opt t)
  have "CHR ''='' \<in> set (show_item item)" by (simp add: Text)
  then show ?thesis by auto
qed (auto simp: flag_text_def split: if_splits)

lemma main_on_one:
  assumes "(name, fn) \<in> set commands"
    and "\<And>argv s. fn C argv s = shell_status (cmd_action C argv act options static_vars s)"
    and "iteration_ends C" "plain_options options" "list_all (item_ok options) items"
    and "concat (map positional items) = [dev]" "scans_mem dev"
    and "cx_new C s = (True, s1)" "cx_open C dev s1 = (Some ep0, s2)" "cx_first C s2 = Some ep"
  shows "cxl_main C (prog # name # map show_item items) s =
    Ret (Some (bind_outcome (act C (fold store_item items static_vars) ep s2) (\<lambda>(rc, ls, s3).
      Defined (if rc \<ge> 0 then stdout_status C else EXIT_FAILURE, ls, cx_close C ep s3))))"
proof -
  have "map show_item items = [] \<or> hd (map show_item items) \<noteq> ''--help''"
    using assms(5) show_item_no_help by (cases items) auto
  from main_dispatches[OF assms(1) this assms(8)]
  have "cxl_main C (prog # name # map show_item items) s = run_builtin C fn (name # map show_item items) s1" .
  also have "\<dots> = Ret (Some (bind_outcome (act C (fold store_item items static_vars) ep s2) (\<lambda>(rc, ls, s3).
      Defined (if rc \<ge> 0 then stdout_status C else EXIT_FAILURE, ls, cx_close C ep s3))))"
    using command_on_one[OF assms(3-7,9,10), of name act static_vars]
    by (cases "act C (fold store_item items static_vars) ep s2")
      (auto simp: run_builtin_def assms(2) shell_status_def EXIT_FAILURE_def split: prod.split)
  finally show ?thesis .
qed

section \<open>A bench\<close>

text \<open>
  A context with one endpoint, \<open>mem0\<close>, whose requests are answered by a given transport; the
  commands of the specification fail on it, as in \<open>offline\<close>.
\<close>

definition bench :: "cci_req list os \<Rightarrow> (unit, cci_req list) cxl_ctx" where
  "bench os =
     \<lparr>cx_new = (\<lambda>s. (True, s)), cx_free = id,
      cx_open = (\<lambda>n s. (if n = ''mem0'' then Some () else None, s)),
      cx_first = (\<lambda>s. Some ()), cx_next = (\<lambda>ep s. None), cx_close = (\<lambda>ep s. s),
      cx_devname = (\<lambda>ep. ''mem0''), cx_os = (\<lambda>ep. os), cx_lib = (\<lambda>ep. offline),
      cx_fw_abi = \<lparr>fw_hdr_size = 128, fw_data_size = 0, fw_hdr = (\<lambda>a sl off. replicate 128 0)\<rparr>,
      cx_shl1 = (\<lambda>n. 2 ^ (n mod 32)), cx_std_opcode = 0x201, cx_std_transfer = (\<lambda>ep rq s. (-1, s)),
      cx_sleep = (\<lambda>n s. s), cx_fw_hdr = 128,
      cx_rom = (\<lambda>p. \<lparr>rom_fopen = False, rom_error = [], rom_fstat = False, rom_st_size = 0, rom_malloc = False, rom_bytes = []\<rparr>),
      cx_sysfs = (\<lambda>p. Open_error 2), cx_strerror = (\<lambda>n. ''error''),
      cx_fpu = \<lparr>f_add = (\<lambda>a b. 0), f_sub = (\<lambda>a b. 0), f_volt = (\<lambda>a b c. 0), f_speed = (\<lambda>a b. 0)\<rparr>,
      cx_junk = (\<lambda>n. replicate n 0), cx_fstat_fails = False, cx_is_pipe = False,
      cx_fflush_fails = False, cx_ferror = False, cx_fclose_fails = False\<rparr>"

lemma bench_simps [simp]:
  "cx_new (bench os) s = (True, s)" "cx_open (bench os) ''mem0'' s = (Some (), s)"
  "cx_first (bench os) s = Some ()" "cx_close (bench os) ep s = s" "cx_os (bench os) ep = os"
  "cx_devname (bench os) ep = ''mem0''" "iteration_ends (bench os)" "stdout_status (bench os) = 0"
  by (simp_all add: bench_def iteration_ends_def stdout_status_def)

section \<open>The properties\<close>

text \<open>C20. Every command of the table is run by its name: whatever the arguments are, except a first
  argument \<open>--help\<close>, the program runs exactly the command of that row with the arguments as they
  are, and exits with the status of \<open>run_builtin\<close>.\<close>

theorem command_dispatched:
  assumes "(name, fn) \<in> set commands" and "args = [] \<or> hd args \<noteq> ''--help''" and "cx_new C s = (True, s1)"
  shows "cxl_main C (prog # name # args) s = run_builtin C fn (name # args) s1"
  by (rule main_dispatches[OF assms])

theorem command_dispatched_witness:
  "cxl_main (bench (probe True 0 [])) (''cxl'' # ''help'' # [''mem0'']) [] = Ret (Some (Defined (0, help_lines, [])))"
proof -
  have "(''help'', cmd_print_help) \<in> set commands" by (simp add: commands_def)
  from command_dispatched[OF this, of "[''mem0'']" "bench (probe True 0 [])" "[]" "[]" "''cxl''"] show ?thesis
    by (simp add: run_builtin_def cmd_print_help_def)
qed

text \<open>C5. A command implements the reference: after parsing it visits its targets in order, acting
  once on each endpoint, and returns the number of successful actions or the code of the last one.
  It ends with a usage error exactly when there is no name, when no name is valid, or when exactly
  one invalid name stands before an \<open>all\<close>.\<close>

theorem command_visits_targets:
  assumes "iteration_ends C" and "parse_options argv options 0 vars = Ret (names, vars')"
  shows "cmd_action C argv act options vars s =
    (if names = [] \<or> length (rejects names) = (if ''all'' \<in> set names then 1 else length names)
     then Exit 129
     else Ret (Some (bind_outcome (visit C (act C vars') (targets names) s) (\<lambda>(rcs, ls, s').
       Defined (verdict rcs, map (\<lambda>n. (quoted @ '' is not a valid ep name^n'', [Str n])) (rejects names) @ ls, s')))))"
  by (rule cmd_action_visits[OF assms])

theorem command_visits_targets_witness:
  "cmd_action (bench (probe True 0 [])) (''get'' # map show_item [Positional ''mem0'', Positional ''x'', Positional ''mem1''])
     (\<lambda>C vars ep s. Defined (3, [], s)) [] static_vars [] =
   Ret (Some (Defined (3, [(quoted @ '' is not a valid ep name^n'', [Str ''x'']),
     (''cannot open '' @ quoted @ '' endpoint^n'', [Str ''mem1''])], [])))"
proof -
  let ?names = "[''mem0'', ''x'', ''mem1'']"
  have mem: "scans_mem ''mem0''" "scans_mem ''mem1''" "\<not> scans_mem ''x''" by code_simp+
  have "parse_options (''get'' # map show_item [Positional ''mem0'', Positional ''x'', Positional ''mem1'']) [] 0 static_vars
      = Ret (?names, static_vars)"
    using parse_items[of "[]" "[Positional ''mem0'', Positional ''x'', Positional ''mem1'']"]
    by (simp add: plain_options_def)
  from command_visits_targets[OF _ this, of "bench (probe True 0 [])" "\<lambda>C vars ep s. Defined (3, [], s)" "[]"]
  show ?thesis using mem by (simp add: rejects_def targets_def verdict_def bench_def iteration_ends_def)
qed

lemma ddr_err_inj_en_listed: "(''ddr-err-inj-en'', cmd_ddr_err_inj_en) \<in> set commands"
  by (simp add: commands_def)

lemma ddr_stats_run_listed: "(''ddr-stats-run'', cmd_ddr_stats_run) \<in> set commands"
  by (simp add: commands_def)

lemma plain_tables:
  "plain_options cmd_ddr_err_inj_en_options" "plain_options cmd_ddr_stats_run_options"
  by (simp_all add: plain_options_def plain_name_def cmd_ddr_err_inj_en_options_def
      cmd_ddr_stats_run_options_def)

text \<open>C19. A command of the table that is given one endpoint and assignments to its options runs its
  action once on that endpoint, with the assigned values and every other variable zero, closes the
  endpoint, and ends with the status of \<open>stdout\<close> when the action returned a code that is not
  negative: the positive codes, with which the device reports an error, count as success.\<close>

theorem main_runs_action:
  assumes "(name, fn) \<in> set commands"
    and "\<And>argv s. fn C argv s = shell_status (cmd_action C argv act options static_vars s)"
    and "iteration_ends C" "plain_options options" "list_all (item_ok options) items"
    and "concat (map positional items) = [dev]" "scans_mem dev"
    and "cx_new C s = (True, s1)" "cx_open C dev s1 = (Some ep0, s2)" "cx_first C s2 = Some ep"
  shows "cxl_main C (prog # name # map show_item items) s =
    Ret (Some (bind_outcome (act C (fold store_item items static_vars) ep s2) (\<lambda>(rc, ls, s3).
      Defined (if rc \<ge> 0 then stdout_status C else EXIT_FAILURE, ls, cx_close C ep s3))))"
  by (rule main_on_one[OF assms])

theorem main_runs_action_witness:
  "cxl_main (bench (probe True 5 [])) (''cxl'' # ''trigger-coredump'' # map show_item [Positional ''mem0'']) [] =
   Ret (Some (Defined (0, [], [\<lparr>rq_pl_sz = 0, rq_cmdset = VENDOR_CMD_OTHERS, rq_opcode = TRIGGER_COREDUMP,
     rq_payload = [], rq_rsp_cap = 0\<rparr>])))"
proof -
  have "(''trigger-coredump'', cmd_trigger_coredump) \<in> set commands" by (simp add: commands_def)
  from main_runs_action[OF this cmd_trigger_coredump_def, of "bench (probe True 5 [])" "[Positional ''mem0'']"
      "''mem0''" "[]" "[]" "()" "[]" "()" "''cxl''"]
  show ?thesis
    by (simp add: cmd_trigger_coredump_options_def plain_options_def action_cmd_trigger_coredump_def
        cxl_cmd_trigger_coredump_def report_def cxlmi_cmd_trigger_coredump_def shape_defs)
qed

text \<open>C3. The values of an error injection travel from the command line to the device: one request
  with the three numbers as the little-endian fields of its payload, and nothing else is sent.\<close>

theorem err_injection_reaches_device:
  assumes "iteration_ends C" "scans_mem dev" "cx_new C s = (True, s1)"
    and "cx_open C dev s1 = (Some ep0, s2)" "cx_first C s2 = Some ep" "cx_os C ep = probe True 0 []"
    and "d < 2 ^ 32" "t < 2 ^ 32" "m < 2 ^ 64"
  shows "cxl_main C [prog, ''ddr-err-inj-en'', dev, ''--ddr_id='' @ dec_string d,
      ''--err_type='' @ dec_string t, ''--ecc_fwc_mask='' @ dec_string m] s =
    Ret (Some (Defined (stdout_status C,
      [(''Error injection enabled on DDR%d: %s^n'', [I32 (of_nat d), Str (cx_devname C ep)])],
      cx_close C ep (s2 @ [\<lparr>rq_pl_sz = 16, rq_cmdset = VENDOR_CMD_OTHERS, rq_opcode = DDR_ERR_INJ_EN,
        rq_payload = enc32 (of_nat d) @ enc32 (of_nat t) @ enc64 (of_nat m), rq_rsp_cap = 0\<rparr>]))))"
proof -
  let ?o = "\<lambda>i. cmd_ddr_err_inj_en_options ! i"
  let ?items = "[Positional dev, Assign (?o 0) d, Assign (?o 1) t, Assign (?o 2) m]"
  have "hd dev \<noteq> CHR ''-''" using assms(2) by (cases dev) (auto simp: scans_mem_def)
  then have "list_all (item_ok cmd_ddr_err_inj_en_options) ?items"
    using assms(7-9) by (simp add: cmd_ddr_err_inj_en_options_def)
  from main_on_one[OF ddr_err_inj_en_listed cmd_ddr_err_inj_en_def assms(1) plain_tables(1) this _ assms(2-5)]
  show ?thesis
    by (simp add: cmd_ddr_err_inj_en_options_def action_cmd_ddr_err_inj_en_def assms(6)
        cxl_cmd_ddr_err_inj_en_def report_def cxlmi_cmd_ddr_err_inj_en_def shape_defs
        uint_var_def u64_var_def enc_ddr_err_inj_en_req_def)
qed

theorem err_injection_reaches_device_witness:
  "cxl_main (bench (probe True 0 [])) [''cxl'', ''ddr-err-inj-en'', ''mem0'', ''--ddr_id='' @ dec_string 1,
     ''--err_type='' @ dec_string 4, ''--ecc_fwc_mask='' @ dec_string 3] [] =
   Ret (Some (Defined (0, [(''Error injection enabled on DDR%d: %s^n'', [I32 1, Str ''mem0''])],
     [\<lparr>rq_pl_sz = 16, rq_cmdset = VENDOR_CMD_OTHERS, rq_opcode = DDR_ERR_INJ_EN,
       rq_payload = enc32 1 @ enc32 4 @ enc64 3, rq_rsp_cap = 0\<rparr>])))"
  using err_injection_reaches_device[of "bench (probe True 0 [])" "''mem0''" "[]" "[]" "()" "[]" "()" 1 4 3 "''cxl''"]
  by simp

text \<open>C38. The controller of a statistics run is narrowed to 8 bits on the way: numbers that agree modulo
  256 give the same run, so that the command for controller 256 starts controller 0.\<close>

theorem stats_run_id_wraps:
  assumes "iteration_ends C" "scans_mem dev" "cx_new C s = (True, s1)"
    and "cx_open C dev s1 = (Some ep0, s2)" "cx_first C s2 = Some ep" "d < 2 ^ 32"
  shows "cxl_main C [prog, ''ddr-stats-run'', dev, ''--ddr_id='' @ dec_string d] s =
         cxl_main C [prog, ''ddr-stats-run'', dev, ''--ddr_id='' @ dec_string (d mod 256)] s"
proof -
  let ?items = "\<lambda>d. [Positional dev, Assign (cmd_ddr_stats_run_options ! 0) d]"
  have "hd dev \<noteq> CHR ''-''" using assms(2) by (cases dev) (auto simp: scans_mem_def)
  moreover have "d mod 256 < 2 ^ 32" using assms(6) by (meson le_less_trans mod_less_eq_dividend)
  ultimately have ok: "list_all (item_ok cmd_ddr_stats_run_options) (?items d)"
    "list_all (item_ok cmd_ddr_stats_run_options) (?items (d mod 256))"
    using assms(6) by (simp_all add: cmd_ddr_stats_run_options_def)
  have w: "(ucast (of_nat (d mod 256) :: u32) :: u8) = ucast (of_nat d :: u32)"
    by (rule word_unat_eq_iff[THEN iffD2]) (simp add: unsigned_ucast_eq unsigned_of_nat take_bit_eq_mod mod_mod_cancel)
  note run = main_on_one[OF ddr_stats_run_listed cmd_ddr_stats_run_def assms(1) plain_tables(2) _ _ assms(2-5)]
  show ?thesis
    using run[OF ok(1)] run[OF ok(2)]
    by (simp add: cmd_ddr_stats_run_options_def action_cmd_ddr_stats_run_def uint_var_def w)
qed

theorem stats_run_id_wraps_witness:
  "cxl_main (bench (probe True 0 [])) [''cxl'', ''ddr-stats-run'', ''mem0'', ''--ddr_id='' @ dec_string 256] [] =
   cxl_main (bench (probe True 0 [])) [''cxl'', ''ddr-stats-run'', ''mem0'', ''--ddr_id='' @ dec_string 0] []"
  using stats_run_id_wraps[of "bench (probe True 0 [])" "''mem0''" "[]" "[]" "()" "[]" "()" 256 "''cxl''"]
  by simp

section \<open>The firmware update from the command line\<close>

lemma update_fw_listed: "(''update-fw'', cmd_update_fw) \<in> set commands"
  by (simp add: commands_def)

lemma plain_update_fw: "plain_options cmd_update_fw_options"
  by (simp add: plain_options_def plain_name_def cmd_update_fw_options_def)

text \<open>The parameters of the update and its opcode, from the flags of the command line.\<close>

lemma update_from_command_line:
  assumes "iteration_ends C" "scans_mem dev" "cx_new C s = (True, s1)"
    and "cx_open C dev s1 = (Some ep0, s2)" "cx_first C s2 = Some ep" "n < 2 ^ 32"
  shows "cxl_main C [prog, ''update-fw'', dev, ''--file='' @ path, ''--slot='' @ dec_string n] s =
    Ret (Some (bind_outcome (cxl_cmd_update_device_fw (cx_fw_port C ep) (cx_std_opcode C) (cx_fw_hdr C) (cx_rom C)
        False \<lparr>up_filepath = path, up_slot = of_nat n, up_hbo = False, up_mock = False\<rparr> (s2, [])) (\<lambda>(rc, s3, ls).
      Defined (if rc \<ge> 0 then stdout_status C else EXIT_FAILURE, ls, cx_close C ep s3))))"
proof -
  let ?o = "\<lambda>i. cmd_update_fw_options ! i"
  let ?items = "[Positional dev, Text (?o 0) path, Assign (?o 1) n]"
  have "hd dev \<noteq> CHR ''-''" using assms(2) by (cases dev) (auto simp: scans_mem_def)
  then have "list_all (item_ok cmd_update_fw_options) ?items"
    using assms(6) by (simp add: cmd_update_fw_options_def)
  from main_on_one[OF update_fw_listed cmd_update_fw_def assms(1) plain_update_fw this _ assms(2-5)]
  show ?thesis
    by (simp add: cmd_update_fw_options_def action_cmd_update_fw_def str_var_def uint_var_def bool_var_def
        static_vars_def fw_opcode_def Let_def bind_outcome_assoc split_def)
qed

text \<open>C12. A firmware update that the device refuses ends the program with the status of success: whatever
  code the device gives for the blocks of a non-empty image, as long as it accepts the abort that
  follows, \<open>update-fw\<close> exits like a command that succeeded.\<close>

theorem refused_update_exits_with_success:
  assumes "iteration_ends C" "scans_mem dev" "cx_new C s = (True, s1)"
    and "cx_open C dev s1 = (Some ep0, s2)" "cx_first C s2 = Some ep" "n < 2 ^ 32"
    and "cx_rom C path = rom_ok rom" "rom \<noteq> []" "length rom < 2 ^ 31" "e \<noteq> 0"
    and "\<And>rq t. fst (cx_std_transfer C ep rq t) = (if tf_action rq = ABORT_TRANSFER then 0 else e)"
    and "\<And>k t. fst (os_calloc (cx_os C ep) k t)"
  shows "\<exists>ls s'. cxl_main C [prog, ''update-fw'', dev, ''--file='' @ path, ''--slot='' @ dec_string n] s =
    Ret (Some (Defined (stdout_status C, ls, s')))"
proof -
  let ?P = "cx_fw_port C ep (cx_std_opcode C)"
    and ?q = "\<lparr>up_filepath = path, up_slot = of_nat n, up_hbo = False, up_mock = False\<rparr>"
  have send: "fp_transfer ?P rq (t, ls) = (case cx_std_transfer C ep rq t of (rc, t') \<Rightarrow> Defined (rc, t', ls))" for rq t ls
    by (simp add: cx_fw_port_def fw_port_of_def attempt_transfer_def split: prod.split)
  have "\<exists>x. transfer_blocks ?P (cx_fw_hdr C) params rom (int (length rom)) 0 0 0 z = Defined (0, x)" for params z
  proof (rule refused_blocks_return_0[OF _ _ _ assms(10,8)])
    show "\<exists>x. fp_transfer ?P rq z = Defined (e, x)" if "tf_action rq \<noteq> ABORT_TRANSFER" for rq z
      using assms(11)[of rq "fst z"] that
      by (cases z; cases "cx_std_transfer C ep rq (fst z)") (simp add: send)
    show "\<exists>x. fp_transfer ?P rq z = Defined (0, x)" if "tf_action rq = ABORT_TRANSFER" for rq z
      using assms(11)[of rq "fst z"] that
      by (cases z; cases "cx_std_transfer C ep rq (fst z)") (simp add: send)
    show "fst (fp_calloc ?P k z)" for k z
      using assms(12)[of k "fst z"]
      by (cases z; cases "os_calloc (cx_os C ep) k (fst z)") (simp add: cx_fw_port_def fw_port_of_def)
  qed
  then obtain t' ls where t: "transfer_blocks ?P (cx_fw_hdr C) ?q rom (int (length rom)) 0 0 0
      (fp_print ?P (''Rom filepath: %s^n'', [Str path]) (s2, [])) = Defined (0, t', ls)" by (metis surj_pair)
  have "cx_rom C (up_filepath ?q) = rom_ok rom" using assms(7) by simp
  note reads = update_reads_rom[OF assms(9), of "cx_rom C" ?q, OF this]
  have opc: "fw_opcode (cx_std_opcode C) False ?q = cx_std_opcode C" by (simp add: fw_opcode_def)
  have "cxl_cmd_update_device_fw (cx_fw_port C ep) (cx_std_opcode C) (cx_fw_hdr C) (cx_rom C) False ?q (s2, []) =
      Defined (0, t', ls)"
    unfolding reads Let_def opc using t by simp
  then show ?thesis
    unfolding update_from_command_line[OF assms(1-6)] by simp
qed

text \<open>A bench whose device refuses every block with 5.\<close>

theorem refused_update_exits_with_success_witness:
  "\<exists>ls s'. cxl_main ((bench (probe True 0 []))
      \<lparr>cx_rom := (\<lambda>p. rom_ok [1, 2, 3]),
       cx_std_transfer := (\<lambda>ep rq s. (if tf_action rq = ABORT_TRANSFER then 0 else 5, s))\<rparr>)
      [''cxl'', ''update-fw'', ''mem0'', ''--file='' @ ''fw.bin'', ''--slot='' @ dec_string 1] [] =
    Ret (Some (Defined (0, ls, s')))"
proof -
  let ?C = "(bench (probe True 0 []))\<lparr>cx_rom := (\<lambda>p. rom_ok [1, 2, 3]),
       cx_std_transfer := (\<lambda>ep rq s. (if tf_action rq = ABORT_TRANSFER then 0 else 5, s))\<rparr>"
  have "iteration_ends ?C" "stdout_status ?C = 0" by (simp_all add: bench_def iteration_ends_def stdout_status_def)
  with refused_update_exits_with_success[of ?C "''mem0''" "[]" "[]" "()" "[]" "()" 1 "''fw.bin''" "[1, 2, 3]" 5 "''cxl''"]
  show ?thesis by (simp add: bench_def)
qed

end
