(* ===== verification/Strbuf.thy ===== *)
theory Strbuf
  imports Parse_Option Output
begin

text \<open>
  The growing string buffer of \<open>vendor_util/src/strbuf.c\<close> and \<open>inc/strbuf.h\<close>, with \<open>ALLOC_GROW\<close> of
  \<open>inc/util.h\<close>, and its client \<open>prefix_filename\<close> of \<open>vendor_util/src/abspath.c\<close>. Sizes are 64-bit words.
  An operation may end the program in \<open>die\<close> (the outer \<open>run\<close>) or be undefined.
\<close>

section \<open>Memory\<close>

text \<open>
  The pointer of a buffer: the shared empty buffer, the null pointer, or a block. \<open>hp_gives n\<close> says
  whether \<open>realloc\<close> to \<open>n\<close> bytes succeeds, \<open>hp_junk\<close> is what new bytes hold.
\<close>

datatype block = Slop | Null | Block bytes

record heap =
  hp_gives :: "u64 \<Rightarrow> bool"
  hp_junk :: "nat \<Rightarrow> u8"

record strbuf =
  sb_alloc :: u64
  sb_len :: u64
  sb_buf :: block

definition sb_realloc :: "heap \<Rightarrow> block \<Rightarrow> u64 \<Rightarrow> block" where
  "sb_realloc h p n =
     (if \<not> hp_gives h n then Null
      else let old = (case p of Block b \<Rightarrow> b | _ \<Rightarrow> []) in
        Block (take (unat n) (old @ map (hp_junk h) [length old..<unat n])))"

text \<open>\<open>memcpy\<close> of \<open>d\<close> to an offset.\<close>

definition poke :: "nat \<Rightarrow> bytes \<Rightarrow> strbuf \<Rightarrow> strbuf outcome" where
  "poke i d sb =
     (case sb_buf sb of
        Block b \<Rightarrow>
          if i + length d \<le> length b
          then Defined (sb\<lparr>sb_buf := Block (take i b @ d @ drop (i + length d) b)\<rparr>)
          else Undefined Oob_write
      | Null \<Rightarrow> Undefined Null_deref
      | Slop \<Rightarrow> Undefined Oob_write)"

fun and_then :: "'a outcome run \<Rightarrow> ('a \<Rightarrow> 'b outcome run) \<Rightarrow> 'b outcome run" where
  "and_then (Exit n) f = Exit n"
| "and_then (Ret (Undefined u)) f = Ret (Undefined u)"
| "and_then (Ret (Defined x)) f = f x"

section \<open>Growing\<close>

definition alloc_nr :: "u64 \<Rightarrow> u64" where "alloc_nr x = ((x + 16) * 3) div 2"

definition ALLOC_GROW :: "heap \<Rightarrow> u64 \<Rightarrow> strbuf \<Rightarrow> strbuf" where
  "ALLOC_GROW h nr sb =
     (if nr > sb_alloc sb then
        let a = (if alloc_nr (sb_alloc sb) < nr then nr else alloc_nr (sb_alloc sb)) in
        sb\<lparr>sb_alloc := a, sb_buf := sb_realloc h (sb_buf sb) a\<rparr>
      else sb)"

definition strbuf_grow :: "heap \<Rightarrow> strbuf \<Rightarrow> u64 \<Rightarrow> strbuf outcome run" where
  "strbuf_grow h sb extra =
     (if sb_len sb + extra + 1 \<le> sb_len sb then Exit 128
      else Ret (Defined (ALLOC_GROW h (sb_len sb + extra + 1)
                          (if sb_alloc sb = 0 then sb\<lparr>sb_buf := Null\<rparr> else sb))))"

definition strbuf_avail :: "strbuf \<Rightarrow> int" where
  "strbuf_avail sb = (if sb_alloc sb \<noteq> 0 then sint (sb_alloc sb - sb_len sb - 1) else 0)"

text \<open>A failed \<open>assert\<close> aborts: the status a shell sees is 134.\<close>

definition strbuf_setlen :: "heap \<Rightarrow> strbuf \<Rightarrow> u64 \<Rightarrow> strbuf outcome run" where
  "strbuf_setlen h sb len =
     and_then (if sb_alloc sb = 0 then strbuf_grow h sb 0 else Ret (Defined sb)) (\<lambda>sb1.
       if \<not> len < sb_alloc sb1 then Exit 134
       else Ret (poke (unat len) [0] (sb1\<lparr>sb_len := len\<rparr>)))"

section \<open>Life cycle\<close>

definition STRBUF_INIT :: strbuf where
  "STRBUF_INIT = \<lparr>sb_alloc = 0, sb_len = 0, sb_buf = Slop\<rparr>"

definition strbuf_init :: "heap \<Rightarrow> u64 \<Rightarrow> strbuf outcome run" where
  "strbuf_init h hint = (if hint \<noteq> 0 then strbuf_grow h STRBUF_INIT hint else Ret (Defined STRBUF_INIT))"

definition strbuf_release :: "strbuf \<Rightarrow> strbuf" where
  "strbuf_release sb = (if sb_alloc sb \<noteq> 0 then STRBUF_INIT else sb)"

text \<open>The detached pointer, the length, and the buffer that is left.\<close>

definition strbuf_detach :: "strbuf \<Rightarrow> block \<times> u64 \<times> strbuf" where
  "strbuf_detach sb = (if sb_alloc sb \<noteq> 0 then sb_buf sb else Null, sb_len sb, STRBUF_INIT)"

section \<open>Adding and removing\<close>

definition strbuf_add :: "heap \<Rightarrow> strbuf \<Rightarrow> bytes \<Rightarrow> strbuf outcome run" where
  "strbuf_add h sb data =
     and_then (strbuf_grow h sb (of_nat (length data))) (\<lambda>sb1.
     and_then (Ret (poke (unat (sb_len sb1)) data sb1)) (\<lambda>sb2.
       strbuf_setlen h sb2 (sb_len sb2 + of_nat (length data))))"

definition strbuf_addstr :: "heap \<Rightarrow> strbuf \<Rightarrow> bytes \<Rightarrow> strbuf outcome run" where
  "strbuf_addstr h sb s = strbuf_add h sb (takeWhile (\<lambda>x. x \<noteq> 0) s)"

definition strbuf_addch :: "heap \<Rightarrow> strbuf \<Rightarrow> u8 \<Rightarrow> strbuf outcome run" where
  "strbuf_addch h sb c =
     and_then (strbuf_grow h sb 1) (\<lambda>sb1.
     and_then (Ret (poke (unat (sb_len sb1)) [c] sb1)) (\<lambda>sb2.
       Ret (poke (unat (sb_len sb2 + 1)) [0] (sb2\<lparr>sb_len := sb_len sb2 + 1\<rparr>))))"

text \<open>
  The tail of the text is moved first; reading it from a null pointer is undefined. A copy of no
  bytes from a null pointer, which \<open>strbuf_remove\<close> makes, does nothing.
\<close>

definition move_tail :: "nat \<Rightarrow> nat \<Rightarrow> nat \<Rightarrow> strbuf \<Rightarrow> strbuf outcome" where
  "move_tail dst src n sb =
     (case sb_buf sb of
        Block b \<Rightarrow> if length b < src + n then Undefined Oob_read else poke dst (bslice src n b) sb
      | _ \<Rightarrow> Undefined Null_deref)"

definition strbuf_splice :: "heap \<Rightarrow> strbuf \<Rightarrow> u64 \<Rightarrow> u64 \<Rightarrow> bytes \<Rightarrow> strbuf outcome run" where
  "strbuf_splice h sb pos len data =
     (let dlen = of_nat (length data) :: u64 in
      if pos + len < pos then Exit 128
      else if pos > sb_len sb then Exit 128
      else if pos + len > sb_len sb then Exit 128
      else and_then (if dlen \<ge> len then strbuf_grow h sb (dlen - len) else Ret (Defined sb)) (\<lambda>sb1.
           and_then (Ret (move_tail (unat (pos + dlen)) (unat (pos + len)) (unat (sb_len sb1 - pos - len)) sb1)) (\<lambda>sb2.
           and_then (Ret (poke (unat pos) data sb2)) (\<lambda>sb3.
             strbuf_setlen h sb3 (sb_len sb3 + dlen - len)))))"

definition strbuf_remove :: "heap \<Rightarrow> strbuf \<Rightarrow> u64 \<Rightarrow> u64 \<Rightarrow> strbuf outcome run" where
  "strbuf_remove h sb pos len = strbuf_splice h sb pos len []"

text \<open>
  \<open>vsnprintf\<close> with the text \<open>out\<close> writes what fits into the room behind the length, with a zero byte,
  and nothing into no room. It fails (\<open>None\<close>) for a format it rejects and for a text of more bytes
  than an \<open>int\<close> counts.
\<close>

definition print_text :: "bytes \<Rightarrow> strbuf \<Rightarrow> strbuf outcome" where
  "print_text out sb =
     (let room = unat (sb_alloc sb - sb_len sb) in
      if room = 0 then Defined sb else poke (unat (sb_len sb)) (take (room - 1) out @ [0]) sb)"

definition strbuf_addf :: "heap \<Rightarrow> strbuf \<Rightarrow> bytes option \<Rightarrow> strbuf outcome run" where
  "strbuf_addf h sb out =
     and_then (if strbuf_avail sb = 0 then strbuf_grow h sb 64 else Ret (Defined sb)) (\<lambda>sb1.
       case out of
         None \<Rightarrow> Exit 128
       | Some t \<Rightarrow>
           if 2 ^ 31 \<le> length t then Exit 128
           else and_then (Ret (print_text t sb1)) (\<lambda>sb2.
             and_then (if int (length t) > strbuf_avail sb2 then
                 and_then (strbuf_grow h sb2 (of_nat (length t))) (\<lambda>sb3.
                 and_then (Ret (print_text t sb3)) (\<lambda>sb4.
                   if int (length t) > strbuf_avail sb4 then Exit 128 else Ret (Defined sb4)))
               else Ret (Defined sb2)) (\<lambda>sb5.
               strbuf_setlen h sb5 (sb_len sb5 + of_nat (length t)))))"

section \<open>Reading a file\<close>

text \<open>
  The answers of \<open>read\<close>, in order: the bytes it has, at most as many as asked for, or an error; no
  bytes, or no answer left, is the end of the file.
\<close>

fun read_loop ::
  "heap \<Rightarrow> u64 \<Rightarrow> u64 \<Rightarrow> bytes option list \<Rightarrow> strbuf \<Rightarrow> (int \<times> strbuf) outcome run" where
  "read_loop h oldlen oldalloc [] sb =
     and_then (Ret (poke (unat (sb_len sb)) [0] sb)) (\<lambda>sb1.
       Ret (Defined (sint (sb_len sb1 - oldlen), sb1)))"
| "read_loop h oldlen oldalloc (None # answers) sb =
     (if oldalloc = 0 then Ret (Defined (-1, strbuf_release sb))
      else and_then (strbuf_setlen h sb oldlen) (\<lambda>sb1. Ret (Defined (-1, sb1))))"
| "read_loop h oldlen oldalloc (Some d # answers) sb =
     (let d' = take (unat (sb_alloc sb - sb_len sb - 1)) d in
      if d' = [] then read_loop h oldlen oldalloc [] sb
      else and_then (Ret (poke (unat (sb_len sb)) d' sb)) (\<lambda>sb1.
           and_then (strbuf_grow h (sb1\<lparr>sb_len := sb_len sb1 + of_nat (length d')\<rparr>) 8192)
             (read_loop h oldlen oldalloc answers)))"

definition strbuf_read :: "heap \<Rightarrow> strbuf \<Rightarrow> bytes option list \<Rightarrow> u64 \<Rightarrow> (int \<times> strbuf) outcome run" where
  "strbuf_read h sb answers hint =
     and_then (strbuf_grow h sb (if hint \<noteq> 0 then hint else 8192))
       (read_loop h (sb_len sb) (sb_alloc sb) answers)"

section \<open>The client\<close>

text \<open>A C string as its bytes before the terminator.\<close>

definition str_bytes :: "string \<Rightarrow> bytes" where "str_bytes s = map of_char s"

text \<open>\<open>prefix_filename\<close> with the buffer it uses: the pointer it returns.\<close>

definition prefix_filename_buf :: "heap \<Rightarrow> string option \<Rightarrow> string \<Rightarrow> block outcome run" where
  "prefix_filename_buf h pfx arg =
     and_then (case pfx of
         Some q \<Rightarrow> if q \<noteq> [] \<and> \<not> is_absolute_path arg then strbuf_add h STRBUF_INIT (str_bytes q)
                   else Ret (Defined STRBUF_INIT)
       | None \<Rightarrow> Ret (Defined STRBUF_INIT)) (\<lambda>path.
     and_then (strbuf_addstr h path (str_bytes arg)) (\<lambda>path'.
       Ret (Defined (fst (strbuf_detach path')))))"

end
