(* ===== verification/Strbuf_Properties.thy ===== *)
theory Strbuf_Properties
  imports Strbuf
begin

text \<open>
  The string buffer keeps its invariant and implements a list of bytes, as long as \<open>realloc\<close> succeeds:
  its result is not checked. The laws a client needs are a locale, interpreted on the operations of
  the code; \<open>prefix_filename\<close> is its client.
\<close>

section \<open>Abstraction and invariant\<close>

definition giving :: "(nat \<Rightarrow> u8) \<Rightarrow> heap" where
  "giving junk = \<lparr>hp_gives = (\<lambda>n. True), hp_junk = junk\<rparr>"

definition sb_wf :: "strbuf \<Rightarrow> bool" where
  "sb_wf sb \<longleftrightarrow>
     (sb_alloc sb = 0 \<and> sb_len sb = 0 \<and> sb_buf sb = Slop) \<or>
     (\<exists>b. sb_buf sb = Block b \<and> length b = unat (sb_alloc sb) \<and> sb_len sb < sb_alloc sb)"

definition sb_text :: "strbuf \<Rightarrow> bytes" where
  "sb_text sb = (case sb_buf sb of Block b \<Rightarrow> take (unat (sb_len sb)) b | _ \<Rightarrow> [])"

text \<open>The buffer is a C string: a zero byte stands behind the text.\<close>

definition sb_string :: "strbuf \<Rightarrow> bool" where
  "sb_string sb \<longleftrightarrow> sb_wf sb \<and>
     (case sb_buf sb of Block b \<Rightarrow> b ! unat (sb_len sb) = 0 | _ \<Rightarrow> True)"

definition sb_fits :: "strbuf \<Rightarrow> nat \<Rightarrow> bool" where
  "sb_fits sb n \<longleftrightarrow> unat (sb_len sb) + n + 1 < 2 ^ 64"

text \<open>
  What holds of the buffer an operation leaves: it may end the program, it is never undefined.
\<close>

fun keeps :: "('a \<Rightarrow> bool) \<Rightarrow> 'a outcome run \<Rightarrow> bool" where
  "keeps P (Exit n) = True"
| "keeps P (Ret (Undefined u)) = False"
| "keeps P (Ret (Defined x)) = P x"

lemma keeps_then [simp]: "keeps P (and_then r f) \<longleftrightarrow> keeps (\<lambda>x. keeps P (f x)) r"
  by (cases "(r, f)" rule: and_then.cases) simp_all

lemma and_then_assoc: "and_then (and_then r f) g = and_then r (\<lambda>x. and_then (f x) g)"
  by (cases "(r, f)" rule: and_then.cases) simp_all

lemma keeps_mono: "keeps Q r \<Longrightarrow> (\<And>x. Q x \<Longrightarrow> P x) \<Longrightarrow> keeps P r"
  by (cases "(P, r)" rule: keeps.cases) simp_all

section \<open>Sizes\<close>

lemma unat_less_64: "unat (x :: u64) < 2 ^ 64"
  by (rule order_less_le_trans[OF unsigned_less]) simp

lemma grow_overflow:
  fixes l e :: u64
  shows "l + e + 1 \<le> l \<longleftrightarrow> 2 ^ 64 \<le> unat l + unat e + 1"
    and "\<not> l + e + 1 \<le> l \<Longrightarrow> unat (l + e + 1) = unat l + unat e + 1"
proof -
  have m: "unat (l + e + 1) = (unat l + unat e + 1) mod 2 ^ 64"
    by (simp add: unat_word_ariths mod_Suc_eq)
  have b: "unat l < 2 ^ 64" "unat e < 2 ^ 64" by (rule unat_less_64)+
  show iff: "l + e + 1 \<le> l \<longleftrightarrow> 2 ^ 64 \<le> unat l + unat e + 1"
  proof (cases "unat l + unat e + 1 < 2 ^ 64")
    case True
    then show ?thesis using m by (simp add: word_le_nat_alt)
  next
    case False
    then have "unat (l + e + 1) = unat l + unat e + 1 - 2 ^ 64"
      using m b by (simp add: mod_if)
    then show ?thesis using False b by (simp add: word_le_nat_alt)
  qed
  show "unat (l + e + 1) = unat l + unat e + 1" if "\<not> l + e + 1 \<le> l"
    using that m unfolding iff by simp
qed

section \<open>Growing\<close>

lemma realloc_giving:
  "sb_realloc (giving junk) (Block b) n = Block (take (unat n) (b @ map junk [length b..<unat n]))"
  "sb_realloc (giving junk) Null n = Block (map junk [0..<unat n])"
  by (simp_all add: sb_realloc_def giving_def)

lemma grow_ok:
  assumes "sb_wf sb" "sb_fits sb (unat n)"
  obtains sb' b where "strbuf_grow (giving junk) sb n = Ret (Defined sb')" "sb_wf sb'"
    "sb_len sb' = sb_len sb" "sb_text sb' = sb_text sb" "sb_buf sb' = Block b"
    "length b = unat (sb_alloc sb')" "unat (sb_len sb) + unat n + 1 \<le> length b"
proof -
  let ?nr = "sb_len sb + n + 1"
  have le: "\<not> ?nr \<le> sb_len sb" using assms(2) by (simp add: grow_overflow(1) sb_fits_def)
  then have nr: "unat ?nr = unat (sb_len sb) + unat n + 1" by (rule grow_overflow(2))
  let ?sb0 = "if sb_alloc sb = 0 then sb\<lparr>sb_buf := Null\<rparr> else sb"
  let ?sb' = "ALLOC_GROW (giving junk) ?nr ?sb0"
  have run: "strbuf_grow (giving junk) sb n = Ret (Defined ?sb')" using le by (simp add: strbuf_grow_def)
  have len: "sb_len ?sb' = sb_len sb" by (simp add: ALLOC_GROW_def Let_def)
  have a: "unat ?nr \<le> unat (sb_alloc ?sb')"
    by (simp add: ALLOC_GROW_def Let_def word_le_nat_alt[symmetric] not_less)
  have "\<exists>b. sb_buf ?sb' = Block b \<and> length b = unat (sb_alloc ?sb') \<and>
      take (unat (sb_len sb)) b = sb_text sb"
  proof (cases "sb_alloc sb = 0")
    case True
    then have sb: "sb_len sb = 0" "sb_buf sb = Slop" using assms(1) by (auto simp: sb_wf_def)
    have "?nr > sb_alloc ?sb0" using le True sb by (simp add: word_gt_0)
    then show ?thesis using True sb
      by (simp add: ALLOC_GROW_def Let_def realloc_giving sb_text_def)
  next
    case False
    then obtain b where b: "sb_buf sb = Block b" "length b = unat (sb_alloc sb)" "sb_len sb < sb_alloc sb"
      using assms(1) by (auto simp: sb_wf_def)
    show ?thesis
    proof (cases "?nr > sb_alloc sb")
      case True
      then have "length b \<le> unat (sb_alloc ?sb')"
        using a b by (simp add: word_less_nat_alt)
      with True False b show ?thesis
        by (auto simp: ALLOC_GROW_def Let_def realloc_giving sb_text_def word_less_nat_alt)
    qed (use False b in \<open>simp add: ALLOC_GROW_def sb_text_def\<close>)
  qed
  then obtain b where b: "sb_buf ?sb' = Block b" "length b = unat (sb_alloc ?sb')"
    "take (unat (sb_len sb)) b = sb_text sb" by blast
  have "sb_len ?sb' < sb_alloc ?sb'" unfolding len word_less_nat_alt using a nr by simp
  with b have "sb_wf ?sb'" by (simp add: sb_wf_def)
  moreover have "sb_text ?sb' = sb_text sb" using b len by (simp add: sb_text_def)
  moreover have "unat (sb_len sb) + unat n + 1 \<le> length b" using a nr b by simp
  ultimately show ?thesis using that run len b by blast
qed

lemma grow_exits: "\<not> sb_fits sb (unat n) \<Longrightarrow> strbuf_grow h sb n = Exit 128"
  by (simp add: strbuf_grow_def grow_overflow(1) sb_fits_def)

text \<open>A write into a block, and setting the length.\<close>

lemma poke_block:
  "sb_buf sb = Block b \<Longrightarrow> i + length d \<le> length b \<Longrightarrow>
     poke i d sb = Defined (sb\<lparr>sb_buf := Block (take i b @ d @ drop (i + length d) b)\<rparr>)"
  by (simp add: poke_def)

lemma setlen_block:
  assumes "sb_buf sb = Block b" "length b = unat (sb_alloc sb)" "len < sb_alloc sb"
  shows "strbuf_setlen h sb len = Ret (Defined
    (sb\<lparr>sb_len := len, sb_buf := Block (take (unat len) b @ 0 # drop (unat len + 1) b)\<rparr>))"
proof -
  have "sb_alloc sb \<noteq> 0" using assms(3) by auto
  moreover have "unat len + 1 \<le> length b" using assms by (simp add: word_less_nat_alt)
  ultimately show ?thesis using assms by (simp add: strbuf_setlen_def poke_block)
qed

lemma setlen_string:
  assumes "sb_buf sb = Block b" "length b = unat (sb_alloc sb)" "len < sb_alloc sb"
    and "strbuf_setlen h sb len = Ret (Defined sb')"
  shows "sb_string sb'" "sb_text sb' = take (unat len) b" "sb_len sb' = len"
proof -
  have l: "unat len < length b" using assms by (simp add: word_less_nat_alt)
  have sb': "sb' = sb\<lparr>sb_len := len, sb_buf := Block (take (unat len) b @ 0 # drop (unat len + 1) b)\<rparr>"
    using setlen_block[OF assms(1-3), of h] assms(4) by simp
  show "sb_string sb'" "sb_text sb' = take (unat len) b" "sb_len sb' = len"
    using l assms(2,3) by (simp_all add: sb' sb_string_def sb_wf_def sb_text_def nth_append min_def)
qed

section \<open>Replacing a part\<close>

text \<open>
  Everything that writes goes through one fact: after growing, a block has room for the new text, and
  what was written is the text behind the part that is kept.
\<close>

lemma of_nat_length [simp]: "n < 2 ^ 64 \<Longrightarrow> unat (of_nat n :: u64) = n"
  by (simp add: unsigned_of_nat take_bit_nat_eq_self)

lemma add_ok:
  assumes "sb_wf sb" "sb_fits sb (length d)"
  obtains sb' where "strbuf_add (giving junk) sb d = Ret (Defined sb')" "sb_string sb'"
    "sb_text sb' = sb_text sb @ d" "unat (sb_len sb') = unat (sb_len sb) + length d" "sb_alloc sb' \<noteq> 0"
proof -
  have n: "unat (of_nat (length d) :: u64) = length d" using assms(2) by (simp add: sb_fits_def)
  obtain sb1 b where g: "strbuf_grow (giving junk) sb (of_nat (length d)) = Ret (Defined sb1)" "sb_wf sb1"
    "sb_len sb1 = sb_len sb" "sb_text sb1 = sb_text sb" "sb_buf sb1 = Block b"
    "length b = unat (sb_alloc sb1)" "unat (sb_len sb) + length d + 1 \<le> length b"
    using grow_ok[OF assms(1), of "of_nat (length d)" junk] assms(2) n by metis
  let ?b2 = "take (unat (sb_len sb)) b @ d @ drop (unat (sb_len sb) + length d) b"
  let ?sb2 = "sb1\<lparr>sb_buf := Block ?b2\<rparr>" and ?l = "sb_len sb + of_nat (length d)"
  have p: "poke (unat (sb_len sb1)) d sb1 = Defined ?sb2" using g by (simp add: poke_block)
  have l: "unat ?l = unat (sb_len sb) + length d"
    using assms(2) n by (simp add: unat_word_ariths sb_fits_def)
  have b2: "length ?b2 = unat (sb_alloc ?sb2)" "?l < sb_alloc ?sb2"
    using g l by (simp_all add: word_less_nat_alt)
  obtain sb' where s: "strbuf_setlen (giving junk) ?sb2 ?l = Ret (Defined sb')"
    using setlen_block[of ?sb2 ?b2 ?l] b2 by simp
  have "strbuf_add (giving junk) sb d = Ret (Defined sb')" using g p s by (simp add: strbuf_add_def)
  moreover have "sb_string sb'" "sb_text sb' = take (unat ?l) ?b2" "sb_len sb' = ?l"
    using setlen_string[OF _ b2(1) b2(2) s] by simp_all
  moreover have t: "sb_text sb = take (unat (sb_len sb)) b" using g(3-5) by (simp add: sb_text_def[of sb1])
  moreover have "take (unat ?l) ?b2 = sb_text sb @ d"
    unfolding t using g(7) l by simp
  moreover have "sb_alloc sb' \<noteq> 0" using setlen_block[of ?sb2 ?b2 ?l "giving junk"] b2 s by auto
  ultimately show ?thesis using that l by simp
qed

lemma add_exits: "length d < 2 ^ 64 \<Longrightarrow> \<not> sb_fits sb (length d) \<Longrightarrow> strbuf_add h sb d = Exit 128"
  by (simp add: strbuf_add_def grow_exits)

text \<open>The bytes after the tail was moved from \<open>p + n\<close> and \<open>d\<close> written at \<open>p\<close>.\<close>

definition moved :: "nat \<Rightarrow> nat \<Rightarrow> nat \<Rightarrow> nat \<Rightarrow> bytes \<Rightarrow> bytes" where
  "moved p n m k b = take (p + k) b @ bslice (p + n) (m - p - n) b @ drop (p + k + (m - p - n)) b"

definition spliced :: "nat \<Rightarrow> nat \<Rightarrow> nat \<Rightarrow> bytes \<Rightarrow> bytes \<Rightarrow> bytes" where
  "spliced p n m d b = take p (moved p n m (length d) b) @ d @ drop (p + length d) (moved p n m (length d) b)"

lemma length_moved:
  assumes "p + n \<le> m" "m < length b" "m - n + k < length b"
  shows "length (moved p n m k b) = length b"
  using assms by (simp add: moved_def bslice_def)

lemma moved_parts:
  assumes "p + n \<le> m" "m < length b" "m - n + k < length b"
  shows "take p (moved p n m k b) = take p b"
    "drop (p + k) (moved p n m k b) = bslice (p + n) (m - p - n) b @ drop (p + k + (m - p - n)) b"
proof -
  have l: "length (take (p + k) b) = p + k" using assms by simp
  show "take p (moved p n m k b) = take p b" using l by (simp add: moved_def min_def)
  show "drop (p + k) (moved p n m k b) = bslice (p + n) (m - p - n) b @ drop (p + k + (m - p - n)) b"
    unfolding moved_def using l by (metis append_eq_conv_conj)
qed

lemma spliced_text:
  assumes "p + n \<le> m" "m < length b" "m - n + length d < length b"
  shows "length (spliced p n m d b) = length b"
    and "take (m - n + length d) (spliced p n m d b) = take p (take m b) @ d @ drop (p + n) (take m b)"
proof -
  let ?t = "bslice (p + n) (m - p - n) b"
  have s: "spliced p n m d b = (take p b @ d @ ?t) @ drop (p + length d + (m - p - n)) b"
    unfolding spliced_def moved_parts[OF assms] by simp
  have l: "length (take p b @ d @ ?t) = m - n + length d" using assms by (simp add: bslice_def)
  show "length (spliced p n m d b) = length b"
    unfolding spliced_def using assms by (simp add: length_moved[OF assms])
  have "take (m - n + length d) (spliced p n m d b) = take p b @ d @ ?t"
    unfolding s using l by (metis append_eq_conv_conj)
  also have "take p b = take p (take m b)" using assms by (simp add: min_def)
  also have "?t = drop (p + n) (take m b)" by (simp add: bslice_def drop_take)
  finally show "take (m - n + length d) (spliced p n m d b) = take p (take m b) @ d @ drop (p + n) (take m b)" .
qed

lemma splice_ok:
  assumes "sb_wf sb" "unat pos + unat len \<le> unat (sb_len sb)"
    and "unat (sb_len sb) - unat len + length d + 1 < 2 ^ 64"
  obtains sb' where "strbuf_splice (giving junk) sb pos len d = Ret (Defined sb')" "sb_string sb'"
    "sb_text sb' = take (unat pos) (sb_text sb) @ d @ drop (unat pos + unat len) (sb_text sb)"
proof -
  let ?p = "unat pos" and ?n = "unat len" and ?m = "unat (sb_len sb)" and ?dl = "of_nat (length d) :: u64"
  have m: "?m < 2 ^ 64" by (rule unat_less_64)
  have dl: "unat ?dl = length d" using assms by simp
  have pl: "unat (pos + len) = ?p + ?n" using assms(2) m by (simp add: unat_word_ariths)
  have tests: "\<not> pos + len < pos" "\<not> pos > sb_len sb" "\<not> pos + len > sb_len sb"
    using assms(2) pl by (simp_all add: word_less_nat_alt)
  define g where "g = (if ?dl \<ge> len then strbuf_grow (giving junk) sb (?dl - len) else Ret (Defined sb))"
  have "\<exists>sb1 b. g = Ret (Defined sb1) \<and> sb_len sb1 = sb_len sb \<and> sb_buf sb1 = Block b \<and>
      length b = unat (sb_alloc sb1) \<and> ?m < length b \<and> ?m - ?n + length d + 1 \<le> length b \<and>
      sb_text sb = take ?m b"
  proof (cases "?dl \<ge> len")
    case True
    then have e: "unat (?dl - len) = length d - ?n" "?n \<le> length d"
      using dl by (simp_all add: unat_sub word_le_nat_alt)
    then have "sb_fits sb (unat (?dl - len))" using assms(2,3) by (simp add: sb_fits_def)
    then obtain sb1 b where s1: "strbuf_grow (giving junk) sb (?dl - len) = Ret (Defined sb1)"
      "sb_len sb1 = sb_len sb" "sb_text sb1 = sb_text sb" "sb_buf sb1 = Block b"
      "length b = unat (sb_alloc sb1)" "?m + unat (?dl - len) + 1 \<le> length b"
      using grow_ok[OF assms(1), of "?dl - len" junk] by metis
    have "sb_text sb = take ?m b" using s1(2-4) by (simp add: sb_text_def[of sb1])
    with True s1 e assms(2) show ?thesis by (auto simp: g_def)
  next
    case False
    then have "length d < ?n" using dl by (simp add: word_le_nat_alt)
    then have "sb_len sb \<noteq> 0" using assms(2) by auto
    then obtain b where "sb_buf sb = Block b" "length b = unat (sb_alloc sb)" "sb_len sb < sb_alloc sb"
      using assms(1) by (auto simp: sb_wf_def)
    with False \<open>length d < ?n\<close> show ?thesis using assms(2)
      by (auto simp: g_def sb_text_def word_less_nat_alt)
  qed
  then obtain sb1 b where s1: "g = Ret (Defined sb1)" "sb_len sb1 = sb_len sb" "sb_buf sb1 = Block b"
    "length b = unat (sb_alloc sb1)" "?m < length b" "?m - ?n + length d + 1 \<le> length b"
    "sb_text sb = take ?m b" by blast
  have rest: "unat (sb_len sb - pos - len) = ?m - ?p - ?n"
  proof -
    have eq: "sb_len sb - pos - len = sb_len sb - (pos + len)" by (rule diff_diff_add)
    have "pos + len \<le> sb_len sb" using tests(3) by (simp only: not_less)
    from unat_sub[OF this] show ?thesis unfolding eq pl by (simp only: diff_diff_add)
  qed
  have pd: "unat (pos + ?dl) = ?p + length d"
  proof -
    have "?p + length d < 2 ^ 64" using assms(2,3) by linarith
    then show ?thesis using dl by (simp add: unat_word_ariths)
  qed
  let ?b2 = "moved ?p ?n ?m (length d) b" and ?b3 = "spliced ?p ?n ?m d b"
  have fit: "?p + ?n \<le> ?m" "?m < length b" "?m - ?n + length d < length b" using assms(2) s1(5,6) by simp_all
  have room: "?p + length d + (?m - ?p - ?n) \<le> length b" "?p + ?n + (?m - ?p - ?n) \<le> length b"
    "?p + length d \<le> length b"
    using fit by linarith+
  have tl: "length (bslice (?p + ?n) (?m - ?p - ?n) b) = ?m - ?p - ?n" using room by (simp add: bslice_def)
  have mv: "move_tail (unat (pos + ?dl)) (unat (pos + len)) (unat (sb_len sb1 - pos - len)) sb1 =
      Defined (sb1\<lparr>sb_buf := Block ?b2\<rparr>)"
    unfolding move_tail_def s1(2,3) pl pd rest moved_def
    using room poke_block[OF s1(3), of "?p + length d" "bslice (?p + ?n) (?m - ?p - ?n) b"] tl by simp
  have pk: "poke ?p d (sb1\<lparr>sb_buf := Block ?b2\<rparr>) = Defined (sb1\<lparr>sb_buf := Block ?b3\<rparr>)"
    unfolding spliced_def
    using poke_block[of "sb1\<lparr>sb_buf := Block ?b2\<rparr>" ?b2 ?p d] room(3) length_moved[OF fit] by simp
  have b3: "length ?b3 = unat (sb_alloc (sb1\<lparr>sb_buf := Block ?b3\<rparr>))"
    using spliced_text(1)[OF fit] s1(4) by simp
  let ?l = "sb_len sb + ?dl - len"
  have l: "unat ?l = ?m - ?n + length d"
  proof -
    have q: "?l = (sb_len sb - len) + ?dl" by simp
    have u: "unat (sb_len sb - len) = ?m - ?n" using assms(2) by (simp add: unat_sub word_le_nat_alt)
    then have "unat (sb_len sb - len) + unat ?dl < 2 ^ LENGTH(64)" using dl assms(3) by simp
    from this[unfolded unat_add_lem] show ?thesis unfolding q u dl .
  qed
  then have lt: "?l < sb_alloc (sb1\<lparr>sb_buf := Block ?b3\<rparr>)"
    using s1(4,6) by (simp add: word_less_nat_alt)
  obtain sb' where st: "strbuf_setlen (giving junk) (sb1\<lparr>sb_buf := Block ?b3\<rparr>) ?l = Ret (Defined sb')"
    using setlen_block[OF _ b3 lt] by simp
  show ?thesis
  proof (rule that)
    show "strbuf_splice (giving junk) sb pos len d = Ret (Defined sb')"
      unfolding strbuf_splice_def Let_def g_def[symmetric] s1(1)
      by (simp only: tests if_False and_then.simps mv pk) (simp add: s1(2) st)
    show "sb_string sb'" using setlen_string(1)[OF _ b3 lt st] by simp
    show "sb_text sb' = take ?p (sb_text sb) @ d @ drop (?p + ?n) (sb_text sb)"
      using setlen_string(2)[OF _ b3 lt st] spliced_text(2)[OF fit] l s1(7) by simp
  qed
qed

lemma splice_exits:
  assumes "length d < 2 ^ 64" "unat (sb_len sb) < unat pos + unat len"
  shows "strbuf_splice h sb pos len d = Exit 128"
proof -
  have "pos + len < pos \<or> pos > sb_len sb \<or> pos + len > sb_len sb"
  proof (cases "unat pos + unat len < 2 ^ 64")
    case True
    then have "unat (pos + len) = unat pos + unat len" by (simp add: unat_word_ariths)
    then show ?thesis using assms(2) by (simp add: word_less_nat_alt)
  next
    case False
    have "unat (pos + len) = (unat pos + unat len) mod 2 ^ 64" by (simp add: unat_word_ariths)
    also have "\<dots> = unat pos + unat len - 2 ^ 64"
      using False unat_less_64[of pos] unat_less_64[of len] by (simp add: mod_if)
    finally show ?thesis using False unat_less_64[of len] by (simp add: word_less_nat_alt) linarith
  qed
  then show ?thesis by (auto simp: strbuf_splice_def Let_def)
qed

section \<open>The contract of a sink\<close>

text \<open>
  What a client that only appends relies on: an append succeeds while there is room, the text
  grows by what was appended, and the sink can then be closed.
\<close>

locale text_sink =
  fixes put :: "'b \<Rightarrow> bytes \<Rightarrow> 'b outcome run"
    and content :: "'b \<Rightarrow> bytes"
    and good :: "'b \<Rightarrow> bool"
    and room :: "'b \<Rightarrow> nat \<Rightarrow> bool"
    and closable :: "'b \<Rightarrow> bool"
  assumes put_law: "good b \<Longrightarrow> room b (length d) \<Longrightarrow>
      \<exists>b'. put b d = Ret (Defined b') \<and> good b' \<and> content b' = content b @ d \<and> closable b' \<and>
        (\<forall>n. room b (length d + n) \<longrightarrow> room b' n)"
begin

lemma put_two:
  assumes "good b" "room b (length d)" "room b (length d + length e)"
  shows "\<exists>b'. and_then (put b d) (\<lambda>b1. put b1 e) = Ret (Defined b') \<and>
           closable b' \<and> content b' = content b @ d @ e"
proof -
  obtain b1 where b1: "put b d = Ret (Defined b1)" "good b1" "content b1 = content b @ d" "room b1 (length e)"
    using put_law[OF assms(1,2)] assms(3) by blast
  with put_law[OF b1(2,4)] show ?thesis by auto
qed

end

definition sb_closable :: "strbuf \<Rightarrow> bool" where
  "sb_closable sb \<longleftrightarrow> sb_string sb \<and> sb_alloc sb \<noteq> 0"

interpretation sb: text_sink "strbuf_add (giving junk)" sb_text sb_wf sb_fits sb_closable for junk
proof
  fix b and d :: bytes assume "sb_wf b" "sb_fits b (length d)"
  then obtain sb' where "strbuf_add (giving junk) b d = Ret (Defined sb')" "sb_string sb'"
    "sb_text sb' = sb_text b @ d" "unat (sb_len sb') = unat (sb_len b) + length d"
    "sb_alloc sb' \<noteq> 0"
    by (rule add_ok)
  then show "\<exists>b'. strbuf_add (giving junk) b d = Ret (Defined b') \<and> sb_wf b' \<and> sb_text b' = sb_text b @ d \<and>
      sb_closable b' \<and> (\<forall>n. sb_fits b (length d + n) \<longrightarrow> sb_fits b' n)"
    by (auto simp: sb_closable_def sb_string_def sb_fits_def)
qed

section \<open>Every operation keeps the invariant\<close>

lemma wf_block: "sb_wf sb \<Longrightarrow> sb_alloc sb \<noteq> 0 \<Longrightarrow>
  \<exists>b. sb_buf sb = Block b \<and> length b = unat (sb_alloc sb) \<and> sb_len sb < sb_alloc sb"
  by (auto simp: sb_wf_def)

lemma string_wf: "sb_string sb \<Longrightarrow> sb_wf sb"
  by (simp add: sb_string_def)

lemma init_string [simp]: "sb_string STRBUF_INIT" "sb_text STRBUF_INIT = []"
  by (simp_all add: sb_string_def sb_wf_def sb_text_def STRBUF_INIT_def)

lemma grow_keeps:
  assumes "sb_wf sb"
  shows "keeps (\<lambda>sb'. sb_wf sb' \<and> sb_text sb' = sb_text sb \<and> sb_len sb' = sb_len sb \<and> sb_alloc sb' \<noteq> 0 \<and>
           unat (sb_len sb) + unat n + 1 \<le> unat (sb_alloc sb')) (strbuf_grow (giving junk) sb n)"
proof (cases "sb_fits sb (unat n)")
  case True
  then obtain sb' b where "strbuf_grow (giving junk) sb n = Ret (Defined sb')" "sb_wf sb'"
    "sb_len sb' = sb_len sb" "sb_text sb' = sb_text sb" "sb_buf sb' = Block b"
    "length b = unat (sb_alloc sb')" "unat (sb_len sb) + unat n + 1 \<le> length b"
    by (rule grow_ok[OF assms])
  moreover then have "sb_alloc sb' \<noteq> 0" by auto
  ultimately show ?thesis by simp
qed (simp add: grow_exits)

lemma add_keeps:
  assumes "sb_wf sb" "length d < 2 ^ 64"
  shows "keeps (\<lambda>sb'. sb_string sb' \<and> sb_text sb' = sb_text sb @ d) (strbuf_add (giving junk) sb d)"
proof (cases "sb_fits sb (length d)")
  case True
  then show ?thesis by (rule add_ok[OF assms(1), where junk = junk]) simp
qed (simp add: add_exits[OF assms(2)])

lemma setlen_keeps:
  assumes "sb_wf sb"
  shows "keeps sb_string (strbuf_setlen (giving junk) sb len)"
proof -
  have set: "keeps sb_string (if \<not> len < sb_alloc x then Exit 134 else Ret (poke (unat len) [0] (x\<lparr>sb_len := len\<rparr>)))"
    if x: "sb_wf x" "sb_alloc x \<noteq> 0" for x
  proof (cases "len < sb_alloc x")
    case True
    obtain b where b: "sb_buf x = Block b" "length b = unat (sb_alloc x)" using wf_block[OF x] by blast
    from setlen_block[OF b True, of "giving junk"] setlen_string(1)[OF b True, of "giving junk"] x(2) True
    show ?thesis by (simp add: strbuf_setlen_def)
  qed simp
  show ?thesis
  proof (cases "sb_alloc sb = 0")
    case True
    have "keeps (\<lambda>x. keeps sb_string (if \<not> len < sb_alloc x then Exit 134
        else Ret (poke (unat len) [0] (x\<lparr>sb_len := len\<rparr>)))) (strbuf_grow (giving junk) sb 0)"
      by (rule keeps_mono[OF grow_keeps[OF assms]]) (rule set; simp)
    with True show ?thesis unfolding strbuf_setlen_def by (simp only: keeps_then refl if_True)
  qed (simp add: strbuf_setlen_def set assms del: not_less)
qed

lemma splice_too_long:
  assumes "unat pos + unat len \<le> unat (sb_len sb)" "length d < 2 ^ 64"
    and "\<not> unat (sb_len sb) - unat len + length d + 1 < 2 ^ 64"
  shows "strbuf_splice h sb pos len d = Exit 128"
proof -
  let ?dl = "of_nat (length d) :: u64"
  have len: "unat len \<le> length d" using assms(1,3) unat_less_64[of "sb_len sb"] by linarith
  then have ge: "?dl \<ge> len" using assms(2) by (simp add: word_le_nat_alt)
  have "unat (?dl - len) = length d - unat len" using unat_sub[OF ge] assms(2) by simp
  then have "\<not> sb_fits sb (unat (?dl - len))" using assms(1,3) len by (simp add: sb_fits_def)
  then have "strbuf_grow h sb (?dl - len) = Exit 128" by (rule grow_exits)
  with ge show ?thesis by (simp add: strbuf_splice_def Let_def)
qed

lemma splice_keeps:
  assumes "sb_wf sb" "length d < 2 ^ 64"
  shows "keeps sb_string (strbuf_splice (giving junk) sb pos len d)"
proof (cases "unat pos + unat len \<le> unat (sb_len sb)")
  case True
  show ?thesis
  proof (cases "unat (sb_len sb) - unat len + length d + 1 < 2 ^ 64")
    case f: True
    show ?thesis by (rule splice_ok[OF assms(1) True f, where junk = junk]) simp
  qed (simp add: splice_too_long[OF True assms(2)])
next
  case False
  then show ?thesis using splice_exits[OF assms(2), of sb pos len "giving junk"] by simp
qed

lemma addch_eq_add: "sb_wf sb \<Longrightarrow> strbuf_addch (giving junk) sb c = strbuf_add (giving junk) sb [c]"
proof -
  assume wf: "sb_wf sb"
  show ?thesis
  proof (cases "sb_fits sb 1")
    case True
    then have "sb_fits sb (unat (1 :: u64))" by simp
    then obtain sb1 b where g: "strbuf_grow (giving junk) sb 1 = Ret (Defined sb1)" "sb_wf sb1"
      "sb_len sb1 = sb_len sb" "sb_text sb1 = sb_text sb" "sb_buf sb1 = Block b"
      "length b = unat (sb_alloc sb1)" "unat (sb_len sb) + unat (1 :: u64) + 1 \<le> length b"
      by (rule grow_ok[OF wf])
    have l: "unat (sb_len sb + 1) = unat (sb_len sb) + 1"
      using True by (simp add: sb_fits_def unat_word_ariths)
    have "sb_alloc sb1 \<noteq> 0" "sb_len sb + 1 < sb_alloc sb1" using g l by (auto simp: word_less_nat_alt)
    with g l show ?thesis by (simp add: strbuf_addch_def strbuf_add_def strbuf_setlen_def poke_def)
  qed (simp add: strbuf_addch_def strbuf_add_def grow_exits)
qed

lemma nat_le_sint: "int n \<le> sint (w :: u64) \<Longrightarrow> n \<le> unat w"
proof -
  assume n: "int n \<le> sint w"
  have "sint w \<le> uint w" by (simp add: sint_uint signed_take_bit_int_less_eq_self_iff) (use uint_ge_0[of w] in linarith)
  with n have "int n \<le> uint w" by (rule order_trans)
  then have "n \<le> nat (uint w)" by (simp only: le_nat_iff uint_ge_0)
  then show ?thesis by (simp only: unat_eq_nat_uint)
qed

lemma room_unat:
  assumes "sb_len sb < sb_alloc sb"
  shows "unat (sb_alloc sb - sb_len sb) = unat (sb_alloc sb) - unat (sb_len sb)"
    and "unat (sb_alloc sb - sb_len sb - 1) = unat (sb_alloc sb) - unat (sb_len sb) - 1"
proof -
  show d: "unat (sb_alloc sb - sb_len sb) = unat (sb_alloc sb) - unat (sb_len sb)"
    using assms by (simp add: unat_sub)
  then have "1 \<le> sb_alloc sb - sb_len sb" using assms by (simp add: word_le_nat_alt word_less_nat_alt)
  from unat_sub[OF this] show "unat (sb_alloc sb - sb_len sb - 1) = unat (sb_alloc sb) - unat (sb_len sb) - 1"
    by (simp add: d)
qed

lemma print_text_ok:
  assumes "sb_wf x" "sb_alloc x \<noteq> 0"
  obtains x' b where "print_text t x = Defined x'" "sb_wf x'" "sb_text x' = sb_text x" "sb_len x' = sb_len x"
    "sb_alloc x' = sb_alloc x" "sb_buf x' = Block b" "length b = unat (sb_alloc x)"
    "unat (sb_len x) + length t < unat (sb_alloc x) \<longrightarrow> take (unat (sb_len x) + length t) b = sb_text x @ t"
proof -
  obtain b where b: "sb_buf x = Block b" "length b = unat (sb_alloc x)" "sb_len x < sb_alloc x"
    using wf_block[OF assms] by blast
  let ?l = "unat (sb_len x)" and ?room = "unat (sb_alloc x) - unat (sb_len x)"
  let ?d = "take (?room - 1) t @ [0]"
  let ?b = "take ?l b @ ?d @ drop (?l + length ?d) b"
  have l: "?l < length b" using b by (simp add: word_less_nat_alt)
  then have d: "?l + length ?d \<le> length b" using b(2) by simp
  have lb: "length ?b = unat (sb_alloc x)" using d b(2) by simp
  have p: "print_text t x = Defined (x\<lparr>sb_buf := Block ?b\<rparr>)"
    using l b(2) poke_block[OF b(1) d] by (simp add: print_text_def Let_def room_unat(1)[OF b(3)])
  have t: "sb_text x = take ?l b" using b by (simp add: sb_text_def)
  show ?thesis
  proof (rule that[OF p])
    show "sb_wf (x\<lparr>sb_buf := Block ?b\<rparr>)" using lb b(3) by (simp add: sb_wf_def)
    show "sb_text (x\<lparr>sb_buf := Block ?b\<rparr>) = sb_text x" unfolding t using l by (simp add: sb_text_def min_def)
    show "?l + length t < unat (sb_alloc x) \<longrightarrow> take (?l + length t) ?b = sb_text x @ t"
    proof
      assume "?l + length t < unat (sb_alloc x)"
      then have "take (?room - 1) t = t" by simp
      then have "?b = (take ?l b @ t) @ 0 # drop (?l + length ?d) b" by simp
      moreover have "length (take ?l b @ t) = ?l + length t" using l by simp
      ultimately show "take (?l + length t) ?b = sb_text x @ t" unfolding t by (metis append_eq_conv_conj)
    qed
  qed (use lb in simp_all)
qed

lemma addf_keeps:
  assumes "sb_wf sb"
  shows "keeps (\<lambda>sb'. sb_string sb' \<and> (\<exists>t. out = Some t \<and> sb_text sb' = sb_text sb @ t))
         (strbuf_addf (giving junk) sb out)"
proof (cases out)
  case None
  have "keeps (\<lambda>x. True) (if strbuf_avail sb = 0 then strbuf_grow (giving junk) sb 64 else Ret (Defined sb))"
    using keeps_mono[OF grow_keeps[OF assms, where junk = junk and n = 64]] by simp
  then show ?thesis by (simp add: strbuf_addf_def None)
next
  case (Some t)
  let ?P = "\<lambda>sb'. sb_string sb' \<and> sb_text sb' = sb_text sb @ t"
  let ?ok = "\<lambda>x. sb_wf x \<and> sb_alloc x \<noteq> 0 \<and> sb_text x = sb_text sb"
  have set: "keeps ?P (strbuf_setlen (giving junk) x (sb_len x + of_nat (length t)))"
    if x: "sb_wf x" "sb_text x = sb_text sb" "sb_alloc x \<noteq> 0" "sb_buf x = Block b" "length b = unat (sb_alloc x)"
      and le: "\<not> int (length t) > strbuf_avail x"
      and tk: "unat (sb_len x) + length t < unat (sb_alloc x) \<longrightarrow> take (unat (sb_len x) + length t) b = sb_text x @ t"
    for x b
  proof -
    have lt: "sb_len x < sb_alloc x" using wf_block[OF x(1,3)] by blast
    have "length t \<le> unat (sb_alloc x - sb_len x - 1)"
      using le x(3) by (intro nat_le_sint) (simp add: strbuf_avail_def)
    then have f: "unat (sb_len x) + length t < unat (sb_alloc x)"
      using lt by (simp add: room_unat(2)[OF lt] word_less_nat_alt)
    then have "length t < 2 ^ 64" using unat_less_64[of "sb_alloc x"] by linarith
    then have tl: "unat (of_nat (length t) :: u64) = length t" by simp
    have "unat (sb_len x) + unat (of_nat (length t) :: u64) < 2 ^ LENGTH(64)"
      unfolding tl using f unat_less_64[of "sb_alloc x"] by simp
    from this[unfolded unat_add_lem] have l: "unat (sb_len x + of_nat (length t)) = unat (sb_len x) + length t"
      by (simp only: tl)
    then have l': "sb_len x + of_nat (length t) < sb_alloc x" using f by (simp add: word_less_nat_alt)
    obtain y where y: "strbuf_setlen (giving junk) x (sb_len x + of_nat (length t)) = Ret (Defined y)"
      using setlen_block[OF x(4,5) l'] by blast
    show ?thesis using setlen_string(1,2)[OF x(4,5) l' y] tk f l x(2) y by simp
  qed
  have second: "keeps ?P (and_then (Ret (print_text t x)) (\<lambda>y.
      if int (length t) > strbuf_avail y then Exit 128
      else strbuf_setlen (giving junk) y (sb_len y + of_nat (length t))))" if "?ok x" for x
  proof -
    have x: "sb_wf x" "sb_alloc x \<noteq> 0" using that by simp_all
    obtain y b where y: "print_text t x = Defined y" "sb_wf y" "sb_text y = sb_text x"
      "sb_len y = sb_len x" "sb_alloc y = sb_alloc x" "sb_buf y = Block b" "length b = unat (sb_alloc x)"
      "unat (sb_len x) + length t < unat (sb_alloc x) \<longrightarrow> take (unat (sb_len x) + length t) b = sb_text x @ t"
      by (rule print_text_ok[OF x, of t])
    show ?thesis
    proof (cases "int (length t) > strbuf_avail y")
      case False
      have "keeps ?P (strbuf_setlen (giving junk) y (sb_len y + of_nat (length t)))"
        by (rule set[OF y(2) _ _ y(6) _ False]) (use y(3-5,7,8) that in auto)
      with False y(1) show ?thesis by (simp only: keeps_then keeps.simps if_False)
    qed (simp add: y(1))
  qed
  have first: "keeps ?P (and_then (Ret (print_text t x)) (\<lambda>y.
      and_then (if int (length t) > strbuf_avail y then
          and_then (strbuf_grow (giving junk) y (of_nat (length t))) (\<lambda>z.
          and_then (Ret (print_text t z)) (\<lambda>w.
            if int (length t) > strbuf_avail w then Exit 128 else Ret (Defined w)))
        else Ret (Defined y)) (\<lambda>w. strbuf_setlen (giving junk) w (sb_len w + of_nat (length t)))))"
    if x: "?ok x" for x
  proof -
    have x': "sb_wf x" "sb_alloc x \<noteq> 0" using x by simp_all
    obtain y b where y: "print_text t x = Defined y" "sb_wf y" "sb_text y = sb_text x"
      "sb_len y = sb_len x" "sb_alloc y = sb_alloc x" "sb_buf y = Block b" "length b = unat (sb_alloc x)"
      "unat (sb_len x) + length t < unat (sb_alloc x) \<longrightarrow> take (unat (sb_len x) + length t) b = sb_text x @ t"
      by (rule print_text_ok[OF x', of t])
    show ?thesis
    proof (cases "int (length t) > strbuf_avail y")
      case False
      have "keeps ?P (strbuf_setlen (giving junk) y (sb_len y + of_nat (length t)))"
        by (rule set[OF y(2) _ _ y(6) _ False]) (use y(3-5,7,8) x in auto)
      with False y(1) show ?thesis by (simp only: keeps_then keeps.simps if_False)
    next
      case True
      have "keeps (\<lambda>z. ?ok z) (strbuf_grow (giving junk) y (of_nat (length t)))"
        by (rule keeps_mono[OF grow_keeps[OF y(2)]]) (use y(3) x in simp)
      then have "keeps (\<lambda>z. keeps ?P (and_then (Ret (print_text t z)) (\<lambda>w.
          if int (length t) > strbuf_avail w then Exit 128
          else strbuf_setlen (giving junk) w (sb_len w + of_nat (length t)))))
        (strbuf_grow (giving junk) y (of_nat (length t)))"
        by (rule keeps_mono) (rule second)
      moreover have "keeps ?P (and_then (if c then Exit 128 else Ret (Defined w)) f) = keeps ?P (if c then Exit 128 else f w)"
        for c w and f :: "strbuf \<Rightarrow> strbuf outcome run" by simp
      ultimately show ?thesis using True y(1) by simp
    qed
  qed
  have "keeps ?ok (if strbuf_avail sb = 0 then strbuf_grow (giving junk) sb 64 else Ret (Defined sb))"
    using keeps_mono[OF grow_keeps[OF assms, where junk = junk and n = 64], of ?ok] assms by (auto simp: strbuf_avail_def)
  then show ?thesis
  proof (cases "2 ^ 31 \<le> length t")
    case True
    moreover have "keeps (\<lambda>x. True) (strbuf_grow (giving junk) sb 64)"
      using keeps_mono[OF grow_keeps[OF assms, where junk = junk and n = 64], of "\<lambda>x. True"] by simp
    ultimately show ?thesis by (simp add: strbuf_addf_def Some)
  next
    case False
    with keeps_mono[OF \<open>keeps ?ok _\<close> first] show ?thesis
      by (simp only: strbuf_addf_def Some option.case if_False keeps_then option.inject simp_thms)
  qed
qed

text \<open>
  What a read gives: the old text is kept, and the result is the number of bytes behind it, or it is -1
  and there are none.
\<close>

definition read_result :: "u64 \<Rightarrow> bytes \<Rightarrow> int \<times> strbuf \<Rightarrow> bool" where
  "read_result oldlen old = (\<lambda>(n, sb). sb_string sb \<and> take (unat oldlen) (sb_text sb) = old \<and>
     (n = sint (sb_len sb - oldlen) \<or> n = -1 \<and> sb_text sb = old))"

lemma read_end_keeps:
  assumes "sb_wf sb" "sb_alloc sb \<noteq> 0" "take (unat oldlen) (sb_text sb) = old"
  shows "keeps (read_result oldlen old)
         (read_loop (giving junk) oldlen oldalloc [] sb)"
proof -
  obtain b where b: "sb_buf sb = Block b" "length b = unat (sb_alloc sb)" "sb_len sb < sb_alloc sb"
    using wf_block[OF assms(1,2)] by blast
  have l: "unat (sb_len sb) + length [0 :: u8] \<le> length b" using b by (simp add: word_less_nat_alt)
  show ?thesis
    using assms(3) l b(2,3)
    by (simp add: read_result_def poke_block[OF b(1) l] sb_string_def sb_wf_def sb_text_def b(1) nth_append min_def)
qed

lemma read_loop_keeps:
  assumes "sb_wf sb" "sb_alloc sb \<noteq> 0" "take (unat oldlen) (sb_text sb) = old"
    and "length old = unat oldlen" "oldalloc = 0 \<Longrightarrow> old = []"
  shows "keeps (read_result oldlen old)
         (read_loop (giving junk) oldlen oldalloc answers sb)"
  using assms(1-3)
proof (induction answers arbitrary: sb)
  case Nil
  then show ?case by (rule read_end_keeps)
next
  case (Cons a answers)
  obtain b where b: "sb_buf sb = Block b" "length b = unat (sb_alloc sb)" "sb_len sb < sb_alloc sb"
    using wf_block[OF Cons.prems(1,2)] by blast
  let ?l = "unat (sb_len sb)"
  have l: "?l < length b" using b by (simp add: word_less_nat_alt)
  have t: "sb_text sb = take ?l b" using b(1) by (simp add: sb_text_def)
  have le: "unat oldlen \<le> ?l"
    using arg_cong[OF Cons.prems(3), of length] assms(4) l by (simp add: t)
  show ?case
  proof (cases a)
    case None
    show ?thesis
    proof (cases "oldalloc = 0")
      case True
      then show ?thesis using assms(5) by (simp add: read_result_def None strbuf_release_def Cons.prems(2))
    next
      case False
      from le have lt: "oldlen < sb_alloc sb" using b(3) by (simp add: word_less_nat_alt)
      obtain y where y: "strbuf_setlen (giving junk) sb oldlen = Ret (Defined y)"
        using setlen_block[OF b(1,2) lt] by blast
      have "take (unat oldlen) b = old" using Cons.prems(3) le by (simp add: t min_def)
      then show ?thesis using setlen_string(1,2)[OF b(1,2) lt y] False y assms(4) by (simp add: read_result_def None min_def)
    qed
  next
    case (Some d)
    define d' where "d' = take (unat (sb_alloc sb - sb_len sb - 1)) d"
    show ?thesis
    proof (cases "d' = []")
      case True
      then show ?thesis using read_end_keeps[OF Cons.prems] by (simp add: Some d'_def[symmetric])
    next
      case False
      have d: "?l + length d' < length b"
        using l by (simp add: d'_def room_unat(2)[OF b(3)] b(2)) 
      let ?b = "take ?l b @ d' @ drop (?l + length d') b"
      let ?y = "sb\<lparr>sb_buf := Block ?b, sb_len := sb_len sb + of_nat (length d')\<rparr>"
      have p: "poke ?l d' sb = Defined (sb\<lparr>sb_buf := Block ?b\<rparr>)" using d b(1) by (intro poke_block) simp_all
      have dl: "length d' < 2 ^ 64" using d b(2) unat_less_64[of "sb_alloc sb"] by linarith
      then have "unat (sb_len sb) + unat (of_nat (length d') :: u64) < 2 ^ LENGTH(64)"
        using d b(2) unat_less_64[of "sb_alloc sb"] by simp
      from this[unfolded unat_add_lem] have yl: "unat (sb_len ?y) = ?l + length d'" using dl by simp
      have "sb_len ?y < sb_alloc ?y" using yl d b(2) unfolding word_less_nat_alt by simp
      then have wf: "sb_wf ?y" using d b(2) by (simp add: sb_wf_def)
      have "sb_text ?y = take ?l b @ d'" using yl d by (simp add: sb_text_def)
      then have old: "take (unat oldlen) (sb_text ?y) = old"
        using Cons.prems(3) le l by (simp add: t)
      have "keeps (read_result oldlen old)
          (and_then (strbuf_grow (giving junk) ?y 8192) (read_loop (giving junk) oldlen oldalloc answers))"
        unfolding keeps_then
        by (rule keeps_mono[OF grow_keeps[OF wf]], rule Cons.IH) (use old in auto)
      then show ?thesis using p False by (simp add: Some d'_def[symmetric])
    qed
  qed
qed


lemma read_keeps:
  assumes "sb_wf sb"
  shows "keeps (read_result (sb_len sb) (sb_text sb)) (strbuf_read (giving junk) sb answers hint)"
proof -
  have len: "length (sb_text sb) = unat (sb_len sb)"
    using assms by (auto simp: sb_wf_def sb_text_def word_less_nat_alt)
  have zero: "sb_alloc sb = 0 \<Longrightarrow> sb_text sb = []"
    using assms by (auto simp: sb_wf_def sb_text_def)
  show ?thesis unfolding strbuf_read_def keeps_then
    by (rule keeps_mono[OF grow_keeps[OF assms]], rule read_loop_keeps) (use len zero in auto)
qed

section \<open>Reachable buffers\<close>

text \<open>The calls of the interface, and a buffer passed from one to the next.\<close>

datatype sb_call =
    Init u64 | Grow u64 | Setlen u64 | Add bytes | Addch u8 | Remove u64 u64
  | Addf "bytes option" | Read "bytes option list" u64 | Release | Detach

fun sb_do :: "heap \<Rightarrow> sb_call \<Rightarrow> strbuf \<Rightarrow> strbuf outcome run" where
  "sb_do h (Init hint) sb = strbuf_init h hint"
| "sb_do h (Grow n) sb = strbuf_grow h sb n"
| "sb_do h (Setlen n) sb = strbuf_setlen h sb n"
| "sb_do h (Add d) sb = strbuf_add h sb d"
| "sb_do h (Addch c) sb = strbuf_addch h sb c"
| "sb_do h (Remove pos n) sb = strbuf_remove h sb pos n"
| "sb_do h (Addf out) sb = strbuf_addf h sb out"
| "sb_do h (Read answers hint) sb = and_then (strbuf_read h sb answers hint) (\<lambda>r. Ret (Defined (snd r)))"
| "sb_do h Release sb = Ret (Defined (strbuf_release sb))"
| "sb_do h Detach sb = Ret (Defined (snd (snd (strbuf_detach sb))))"

text \<open>An object in memory has fewer than \<open>2 ^ 64\<close> bytes.\<close>

fun sb_legal :: "sb_call \<Rightarrow> bool" where
  "sb_legal (Add d) \<longleftrightarrow> length d < 2 ^ 64"
| "sb_legal c \<longleftrightarrow> True"

text \<open>The calls after which the buffer need not be a string: those that only grow.\<close>

fun only_grows :: "sb_call \<Rightarrow> bool" where
  "only_grows (Init hint) \<longleftrightarrow> hint \<noteq> 0"
| "only_grows (Grow n) \<longleftrightarrow> True"
| "only_grows c \<longleftrightarrow> False"

inductive sb_step :: "(nat \<Rightarrow> u8) \<Rightarrow> strbuf \<Rightarrow> strbuf \<Rightarrow> bool" for junk where
  sb_stepI: "sb_legal c \<Longrightarrow> sb_do (giving junk) c sb = Ret (Defined sb') \<Longrightarrow> sb_step junk sb sb'"

inductive_cases sb_stepE: "sb_step junk sb sb'"

lemma do_keeps:
  assumes "sb_wf sb" "sb_legal c"
  shows "keeps (\<lambda>sb'. sb_wf sb' \<and> (\<not> only_grows c \<longrightarrow> sb_string sb')) (sb_do (giving junk) c sb)"
proof -
  have string: "keeps Q r" if "keeps P r" "\<And>x. P x \<Longrightarrow> sb_string x" "\<And>x. sb_string x \<Longrightarrow> Q x"
    for P Q and r :: "strbuf outcome run"
    using keeps_mono[OF that(1), of Q] that(2,3) by blast
  show ?thesis
  proof (cases c)
    case (Init hint)
    show ?thesis
    proof (cases "hint = 0")
      case False
      have "keeps sb_wf (strbuf_grow (giving junk) STRBUF_INIT hint)"
        using keeps_mono[OF grow_keeps[OF string_wf[OF init_string(1)]]] by blast
      with Init False show ?thesis by (simp add: strbuf_init_def)
    qed (use Init in \<open>simp add: strbuf_init_def string_wf\<close>)
  next
    case (Grow n)
    show ?thesis unfolding Grow sb_do.simps by (rule keeps_mono[OF grow_keeps[OF assms(1)]]) simp
  next
    case (Setlen n)
    show ?thesis unfolding Setlen sb_do.simps by (rule string[OF setlen_keeps[OF assms(1)]]) (simp_all add: string_wf)
  next
    case (Add d)
    then have "length d < 2 ^ 64" using assms(2) by simp
    then show ?thesis unfolding Add sb_do.simps
      by (rule string[OF add_keeps[OF assms(1)]]) (simp_all add: string_wf)
  next
    case (Addch x)
    have "length [x] < 2 ^ 64" by simp
    then show ?thesis unfolding Addch sb_do.simps addch_eq_add[OF assms(1)]
      by (rule string[OF add_keeps[OF assms(1)]]) (simp_all add: string_wf)
  next
    case (Remove pos n)
    show ?thesis unfolding Remove sb_do.simps strbuf_remove_def
      by (rule string[OF splice_keeps[OF assms(1)]]) (simp_all add: string_wf)
  next
    case (Addf out)
    show ?thesis unfolding Addf sb_do.simps by (rule string[OF addf_keeps[OF assms(1)]]) (simp_all add: string_wf)
  next
    case (Read answers hint)
    show ?thesis unfolding Read sb_do.simps keeps_then
      by (rule keeps_mono[OF read_keeps[OF assms(1)]]) (auto simp: read_result_def string_wf)
  next
    case Release
    have "sb_alloc sb = 0 \<Longrightarrow> sb_string sb" using assms(1) by (auto simp: sb_wf_def sb_string_def)
    then show ?thesis using assms(1) by (simp add: Release strbuf_release_def string_wf)
  qed (simp add: strbuf_detach_def string_wf)
qed

lemma reachable_wf:
  assumes "(sb_step junk)\<^sup>*\<^sup>* STRBUF_INIT sb"
  shows "sb_wf sb"
  using assms
proof (induction rule: rtranclp_induct)
  case (step x y)
  then obtain c where "sb_legal c" "sb_do (giving junk) c x = Ret (Defined y)" by (auto elim: sb_stepE)
  then show ?case using do_keeps[OF step.IH, of c junk] by simp
qed (simp add: string_wf)



section \<open>The buffer as a list\<close>

text \<open>
  What the operations promise of the text alone, \<open>None\<close> where the program ends.
\<close>

definition list_add :: "bytes \<Rightarrow> bytes \<Rightarrow> bytes option" where
  "list_add t d = (if length t + length d + 1 < 2 ^ 64 then Some (t @ d) else None)"

definition list_splice :: "bytes \<Rightarrow> nat \<Rightarrow> nat \<Rightarrow> bytes \<Rightarrow> bytes option" where
  "list_splice t p n d =
     (if p + n \<le> length t \<and> length t - n + length d + 1 < 2 ^ 64 then Some (take p t @ d @ drop (p + n) t)
      else None)"

fun implements :: "strbuf outcome run \<Rightarrow> bytes option \<Rightarrow> bool" where
  "implements r None \<longleftrightarrow> r = Exit 128"
| "implements r (Some t) \<longleftrightarrow> (\<exists>sb. r = Ret (Defined sb) \<and> sb_string sb \<and> sb_text sb = t)"

lemma length_text: "sb_wf sb \<Longrightarrow> length (sb_text sb) = unat (sb_len sb)"
  by (auto simp: sb_wf_def sb_text_def word_less_nat_alt)

lemma add_implements:
  assumes "sb_wf sb" "length d < 2 ^ 64"
  shows "implements (strbuf_add (giving junk) sb d) (list_add (sb_text sb) d)"
proof (cases "sb_fits sb (length d)")
  case True
  from add_ok[OF assms(1) True] have
    "implements (strbuf_add (giving junk) sb d) (Some (sb_text sb @ d))" by (metis implements.simps(2))
  with True show ?thesis by (simp add: list_add_def length_text[OF assms(1)] sb_fits_def)
next
  case False
  with add_exits[OF assms(2) False] show ?thesis
    by (simp add: list_add_def length_text[OF assms(1)] sb_fits_def)
qed

lemma splice_implements:
  assumes "sb_wf sb" "length d < 2 ^ 64"
  shows "implements (strbuf_splice (giving junk) sb pos n d) (list_splice (sb_text sb) (unat pos) (unat n) d)"
proof (cases "unat pos + unat n \<le> unat (sb_len sb)")
  case True
  show ?thesis
  proof (cases "unat (sb_len sb) - unat n + length d + 1 < 2 ^ 64")
    case f: True
    from splice_ok[OF assms(1) True f] have "implements (strbuf_splice (giving junk) sb pos n d)
        (Some (take (unat pos) (sb_text sb) @ d @ drop (unat pos + unat n) (sb_text sb)))"
      by (metis implements.simps(2))
    with True f show ?thesis by (simp add: list_splice_def length_text[OF assms(1)])
  next
    case False
    with splice_too_long[OF True assms(2) False] show ?thesis
      by (simp add: list_splice_def length_text[OF assms(1)])
  qed
next
  case False
  with splice_exits[OF assms(2), of sb pos n] show ?thesis
    by (simp add: list_splice_def length_text[OF assms(1)])
qed

text \<open>C10. On a well-formed buffer, adding bytes, adding one byte, replacing a range and removing one are
  exactly the operations on lists: the result is a string with the text the list operation gives, and
  the program ends with status 128 exactly when the range is outside the text or the size of the new
  text does not fit into 64 bits.\<close>

theorem strbuf_refines_list:
  assumes "sb_wf sb" "length d < 2 ^ 64"
  shows "implements (strbuf_add (giving junk) sb d) (list_add (sb_text sb) d) \<and>
         implements (strbuf_addch (giving junk) sb c) (list_add (sb_text sb) [c]) \<and>
         implements (strbuf_splice (giving junk) sb pos n d) (list_splice (sb_text sb) (unat pos) (unat n) d) \<and>
         implements (strbuf_remove (giving junk) sb pos n) (list_splice (sb_text sb) (unat pos) (unat n) [])"
  using add_implements[OF assms] add_implements[OF assms(1), of "[c]"]
    splice_implements[OF assms] splice_implements[OF assms(1), of "[]"]
  by (simp add: addch_eq_add[OF assms(1)] strbuf_remove_def)

lemma strbuf_refines_list_witness:
  "implements (strbuf_splice (giving (\<lambda>i. 7))
     \<lparr>sb_alloc = 4, sb_len = 2, sb_buf = Block [65, 66, 0, 9]\<rparr> 1 1 [67, 68, 69]) (Some [65, 67, 68, 69])"
proof -
  let ?sb = "\<lparr>sb_alloc = 4, sb_len = 2, sb_buf = Block [65, 66, 0, 9]\<rparr>"
  have "sb_wf ?sb" by (simp add: sb_wf_def)
  from strbuf_refines_list[OF this, of "[67, 68, 69]" "\<lambda>i. 7" 0 1 1]
  show ?thesis by (simp add: list_splice_def sb_text_def del: implements.simps)
qed

section \<open>The client\<close>

lemma char_of_char_u8 [simp]: "char_of (unat (of_char c :: u8)) = c"
proof -
  have "(of_char c :: u8) = of_nat (of_char c :: nat)" by (rule of_nat_of_char[symmetric])
  then show ?thesis by (simp only: unsigned_of_nat) (simp add: take_bit_eq_mod)
qed

lemma of_char_u8_0 [simp]: "(of_char c :: u8) = 0 \<longleftrightarrow> c = CHR 0x00"
proof
  assume "(of_char c :: u8) = 0"
  then have "char_of (unat (of_char c :: u8)) = (char_of (0 :: nat) :: char)" by simp
  from this[unfolded char_of_char_u8] show "c = CHR 0x00" by (simp add: char_of_def)
qed (simp add: of_char_def)

lemma string_bytes:
  assumes "CHR 0x00 \<notin> set s"
  shows "takeWhile (\<lambda>x. x \<noteq> 0) (str_bytes s) = str_bytes s" "0 \<notin> set (str_bytes s)"
    "map (\<lambda>x. char_of (unat x)) (str_bytes s) = s"
  using assms by (induction s) (auto simp: str_bytes_def)

text \<open>The pointer of a closable buffer is a C string.\<close>

lemma detach_string:
  assumes "sb_closable sb" "sb_text sb = str_bytes s" "CHR 0x00 \<notin> set s"
  shows "\<exists>b. fst (strbuf_detach sb) = Block b \<and> c_string b = Defined s"
proof -
  obtain b where b: "sb_buf sb = Block b" "length b = unat (sb_alloc sb)" "sb_len sb < sb_alloc sb"
    using assms(1) wf_block[of sb] by (auto simp: sb_closable_def string_wf)
  let ?n = "unat (sb_len sb)"
  have n: "?n < length b" using b by (simp add: word_less_nat_alt)
  have z: "b ! ?n = 0" using assms(1) b(1) by (simp add: sb_closable_def sb_string_def)
  have "take ?n b = str_bytes s" using assms(2) b(1) by (simp add: sb_text_def)
  then have e: "b = str_bytes s @ 0 # drop (Suc ?n) b" using id_take_nth_drop[OF n] z by simp
  have "takeWhile (\<lambda>x. x \<noteq> 0) b = str_bytes s"
    by (subst e) (use string_bytes(2)[OF assms(3)] in \<open>simp add: takeWhile_append\<close>)
  moreover have "0 \<in> set b" by (subst e) simp
  ultimately have "c_string b = Defined s" by (simp add: c_string_def string_bytes(3)[OF assms(3)])
  then show ?thesis using assms(1) b(1) by (simp add: strbuf_detach_def sb_closable_def)
qed

text \<open>C25. \<open>prefix_filename\<close>, run on the buffer, gives a pointer to the C string that the parser's
  \<open>prefix_filename\<close> on strings gives, for arguments that are C strings and fit into memory together.\<close>

theorem prefix_filename_refined:
  assumes "CHR 0x00 \<notin> set arg" "\<forall>q. pfx = Some q \<longrightarrow> CHR 0x00 \<notin> set q"
    and "(case pfx of None \<Rightarrow> 0 | Some q \<Rightarrow> length q) + length arg + 1 < 2 ^ 64"
  shows "\<exists>b. prefix_filename_buf (giving junk) pfx arg = Ret (Defined (Block b)) \<and>
             c_string b = Defined (prefix_filename pfx arg)"
proof -
  have wf: "sb_wf STRBUF_INIT" by (simp add: string_wf)
  have a: "takeWhile (\<lambda>x. x \<noteq> 0) (str_bytes arg) = str_bytes arg" by (rule string_bytes(1)[OF assms(1)])
  show ?thesis
  proof (cases "\<exists>q. pfx = Some q \<and> q \<noteq> [] \<and> \<not> is_absolute_path arg")
    case True
    then obtain q where q: "pfx = Some q" "q \<noteq> []" "\<not> is_absolute_path arg" by blast
    have "sb_fits STRBUF_INIT (length (str_bytes q))"
      "sb_fits STRBUF_INIT (length (str_bytes q) + length (str_bytes arg))"
      using assms(3) q(1) by (simp_all add: sb_fits_def STRBUF_INIT_def str_bytes_def)
    from sb.put_two[OF wf this, where junk = junk] obtain sb where
      sb: "and_then (strbuf_add (giving junk) STRBUF_INIT (str_bytes q))
             (\<lambda>x. strbuf_add (giving junk) x (str_bytes arg)) = Ret (Defined sb)"
        "sb_closable sb" "sb_text sb = str_bytes (q @ arg)"
      by (auto simp: str_bytes_def)
    obtain b where "fst (strbuf_detach sb) = Block b" "c_string b = Defined (q @ arg)"
      using detach_string[OF sb(2,3)] assms(1,2) q(1) by auto
    with sb(1) q show ?thesis
      by (auto simp: prefix_filename_buf_def strbuf_addstr_def a prefix_filename_def and_then_assoc[symmetric])
  next
    case False
    have "sb_fits STRBUF_INIT (length (str_bytes arg))"
      using assms(3) by (simp add: sb_fits_def STRBUF_INIT_def str_bytes_def)
    from sb.put_law[OF wf this, where junk = junk] obtain sb where
      sb: "strbuf_add (giving junk) STRBUF_INIT (str_bytes arg) = Ret (Defined sb)"
        "sb_closable sb" "sb_text sb = str_bytes arg" by auto
    obtain b where "fst (strbuf_detach sb) = Block b" "c_string b = Defined arg"
      using detach_string[OF sb(2,3) assms(1)] by blast
    with sb(1) False show ?thesis
      by (auto simp: prefix_filename_buf_def strbuf_addstr_def a prefix_filename_def split: option.splits)
  qed
qed

lemma prefix_filename_refined_witness:
  "\<exists>b. prefix_filename_buf (giving (\<lambda>i. 7)) (Some ''etc'') ''fw'' = Ret (Defined (Block b)) \<and>
       c_string b = Defined ''etcfw''"
  using prefix_filename_refined[of "''fw''" "Some ''etc''" "\<lambda>i. 7"]
  by (simp add: prefix_filename_def is_absolute_path_def)

end
