(* ===== verification/Usage.thy ===== *)
theory Usage
  imports Parse_Properties Output
begin

text \<open>
  What the parser writes on the error stream: the usage text and the help of the options
  (\<open>vendor_util/src/parse_option.c\<close>), and the messages of \<open>vendor_util/src/usage.c\<close>. A text is the
  string of its characters; writing to the stream succeeds.
\<close>

section \<open>The help of an option\<close>

text \<open>The two members of \<open>struct option\<close> that only the help reads.\<close>

record help_option = opt_spec +
  oh_argh :: "string option"
  oh_help :: string

definition USAGE_OPTS_WIDTH :: nat where "USAGE_OPTS_WIDTH = 24"
definition USAGE_GAP :: nat where "USAGE_GAP = 2"

definition newline :: string where "newline = [CHR 0x0A]"

definition spaces :: "nat \<Rightarrow> string" where "spaces n = replicate n (CHR '' '')"

definition argument_text :: "help_option \<Rightarrow> string" where
  "argument_text opt =
     (case o_type opt of
        OPTION_LONG \<Rightarrow> '' <n>'' | OPTION_U64 \<Rightarrow> '' <n>'' | OPTION_INTEGER \<Rightarrow> '' <n>'' | OPTION_UINTEGER \<Rightarrow> '' <n>''
      | OPTION_CALLBACK \<Rightarrow> (case oh_argh opt of Some a \<Rightarrow> '' <'' @ a @ ''>'' | None \<Rightarrow> '' ...'')
      | OPTION_FILENAME \<Rightarrow> (case oh_argh opt of Some a \<Rightarrow> '' <'' @ a @ ''>'' | None \<Rightarrow> '' ...'')
      | OPTION_STRING \<Rightarrow> (case oh_argh opt of Some a \<Rightarrow> '' <'' @ a @ ''>'' | None \<Rightarrow> '' ...'')
      | _ \<Rightarrow> [])"

text \<open>What stands left of the help; its length is \<open>pos\<close>.\<close>

definition option_head :: "help_option \<Rightarrow> string" where
  "option_head opt =
     spaces 4 @ (if short_name opt \<noteq> CHR 0x00 then [CHR ''-'', short_name opt] else spaces 4) @
     (if long_name opt \<noteq> None \<and> short_name opt \<noteq> CHR 0x00 then '', '' else []) @
     (case long_name opt of None \<Rightarrow> [] | Some n \<Rightarrow> ''--'' @ n) @ argument_text opt"

definition print_option_help :: "help_option \<Rightarrow> string" where
  "print_option_help opt =
     (if o_type opt = OPTION_GROUP then newline @ (if oh_help opt \<noteq> [] then oh_help opt @ newline else [])
      else let pos = length (option_head opt) in
        option_head opt @
        (if pos \<le> USAGE_OPTS_WIDTH then spaces (USAGE_OPTS_WIDTH - pos + USAGE_GAP)
         else newline @ spaces (USAGE_OPTS_WIDTH + USAGE_GAP)) @
        oh_help opt @ newline)"

section \<open>The usage\<close>

text \<open>
  The lines of a usage, a null-terminated array: the first, the alternatives up to an empty line, the
  rest. Of an array without lines the entry behind the terminator would be read.
\<close>

fun usage_or :: "string list \<Rightarrow> string" where
  "usage_or [] = []"
| "usage_or (u # us) =
     (if u \<noteq> [] then ''    or: '' @ u @ newline @ usage_or us
      else concat (map (\<lambda>l. (if l \<noteq> [] then ''    '' else []) @ l @ newline) (u # us)))"

fun usage_head :: "string list \<Rightarrow> string outcome" where
  "usage_head [] = Undefined Oob_read"
| "usage_head (u # us) = Defined (newline @ '' usage: '' @ u @ newline @ usage_or us)"

definition usage_with_options_internal ::
  "string list option \<Rightarrow> help_option list \<Rightarrow> (step_result \<times> string) outcome" where
  "usage_with_options_internal usagestr opts =
     (case usagestr of
        None \<Rightarrow> Defined (PARSE_OPT_HELP, [])
      | Some us \<Rightarrow> bind_outcome (usage_head us) (\<lambda>h.
          Defined (PARSE_OPT_HELP,
            h @ (if opts = [] \<or> o_type (hd opts) \<noteq> OPTION_GROUP then newline else []) @
            concat (map print_option_help opts) @ newline)))"

text \<open>The option that an argument in error is about: the first one whose name it starts with.\<close>

definition concerns :: "string \<Rightarrow> bool \<Rightarrow> help_option \<Rightarrow> bool" where
  "concerns optstr short_opt opt \<longleftrightarrow>
     (if short_opt then short_name opt = (case optstr of [] \<Rightarrow> CHR 0x00 | c # cs \<Rightarrow> c)
      else case long_name opt of
        None \<Rightarrow> False
      | Some n \<Rightarrow> prefixcmp optstr n = 0 \<or> prefixcmp optstr ''no-'' = 0 \<and> prefixcmp (drop 3 optstr) n = 0)"

definition parse_options_usage ::
  "string list option \<Rightarrow> help_option list \<Rightarrow> string \<Rightarrow> bool \<Rightarrow> (step_result \<times> string) outcome" where
  "parse_options_usage usagestr opts optstr short_opt =
     (let help = (case find (concerns optstr short_opt) opts of None \<Rightarrow> [] | Some opt \<Rightarrow> print_option_help opt) in
      case usagestr of
        None \<Rightarrow> Defined (PARSE_OPT_HELP, help)
      | Some us \<Rightarrow> bind_outcome (usage_head us) (\<lambda>h. Defined (PARSE_OPT_HELP, h @ newline @ help)))"

text \<open>The status the program ends with, and what it wrote.\<close>

definition usage_with_options :: "string list option \<Rightarrow> help_option list \<Rightarrow> (int \<times> string) outcome" where
  "usage_with_options usagestr opts =
     bind_outcome (usage_with_options_internal usagestr opts) (\<lambda>(res, t). Defined (129, t))"

section \<open>Messages\<close>

text \<open>\<open>report\<close> of a formatted message: the buffer has 1024 bytes.\<close>

definition report_text :: "string \<Rightarrow> string \<Rightarrow> string" where
  "report_text prefix msg = '' '' @ prefix @ take 1023 msg @ newline"

definition usage_builtin :: "string \<Rightarrow> int \<times> string" where
  "usage_builtin err = (129, newline @ '' Usage: '' @ err @ newline)"

definition die_builtin :: "string \<Rightarrow> int \<times> string" where
  "die_builtin msg = (128, report_text '' Fatal: '' msg)"

definition error_builtin :: "string \<Rightarrow> string" where
  "error_builtin msg = report_text '' Error: '' msg"

text \<open>\<open>error\<close>: its result is the code callers pass on.\<close>

definition print_error :: "string \<Rightarrow> int \<times> string" where
  "print_error msg = (-1, error_builtin msg)"

definition warn_builtin :: "string \<Rightarrow> string" where
  "warn_builtin msg = report_text '' Warning: '' msg"

text \<open>The messages of the parser.\<close>

definition in_quotes :: "string \<Rightarrow> string" where "in_quotes s = CHR 0x60 # s @ [CHR 0x27]"

fun diag_message :: "diag \<Rightarrow> string" where
  "diag_message (Switch_error c r) = ''switch '' @ in_quotes [c] @ '' '' @ r"
| "diag_message (Option_error n r) = ''option '' @ in_quotes n @ '' '' @ r"
| "diag_message (No_option_error n r) = ''option '' @ in_quotes (''no-'' @ n) @ '' '' @ r"
| "diag_message (Ambiguous arg u1 n1 u2 n2) =
     ''Ambiguous option: '' @ arg @ '' (could be --'' @ (if u1 then ''no-'' else []) @ n1 @
     '' or --'' @ (if u2 then ''no-'' else []) @ n2 @ '')''"
| "diag_message (Did_you_mean arg) = ''did you mean '' @ in_quotes (''--'' @ arg) @ '' (with two dashes ?)''"
| "diag_message (Unknown_option arg) = ''unknown option '' @ in_quotes arg"
| "diag_message (Unknown_switch c) = ''unknown switch '' @ in_quotes [c]"

fun diag_text :: "string list option \<Rightarrow> help_option list \<Rightarrow> diag \<Rightarrow> string outcome" where
  "diag_text usagestr opts Whole_usage = bind_outcome (usage_with_options_internal usagestr opts) (\<lambda>(res, t). Defined t)"
| "diag_text usagestr opts (Usage_for arg short_opt) =
     bind_outcome (parse_options_usage usagestr opts arg short_opt) (\<lambda>(res, t). Defined t)"
| "diag_text usagestr opts d = Defined (snd (print_error (diag_message d)))"

text \<open>
  What \<open>parse_options\<close> writes before it ends the program: the status and the text, when it ends at an
  argument. An argument it does not know ends with a message and the usage.
\<close>

definition parse_end ::
  "string list option \<Rightarrow> help_option list \<Rightarrow> string list \<Rightarrow> nat \<Rightarrow> (var \<Rightarrow> opt_val) \<Rightarrow> (int \<times> string outcome) option" where
  "parse_end usagestr opts argv flags store =
     (let texts = (\<lambda>ds. bind_outcome (each (diag_text usagestr opts) ds) (\<lambda>ts. Defined (concat ts))) in
      case parse_options_start argv None flags store of
        Exit n \<Rightarrow> None
      | Ret p \<Rightarrow>
          (case parse_options_step (map opt_spec.truncate opts) p of
             Ret (PARSE_OPT_HELP, q) \<Rightarrow> Some (129, texts (px_err q))
           | Ret (PARSE_OPT_UNKNOWN, q) \<Rightarrow>
               let arg = hd (px_argv q);
                   d = (if arg ! 1 = CHR ''-'' then Unknown_option (drop 2 arg) else Unknown_switch (hd (the (px_opt q)))) in
               Some (129, texts (px_err q @ [d, Whole_usage]))
           | _ \<Rightarrow> None))"

section \<open>Properties\<close>

text \<open>The number of characters behind the last line break.\<close>

definition column :: "string \<Rightarrow> nat" where
  "column s = length (takeWhile (\<lambda>c. c \<noteq> CHR 0x0A) (rev s))"

lemma column_append: "CHR 0x0A \<notin> set t \<Longrightarrow> column (s @ t) = column s + length t"
  by (auto simp: column_def takeWhile_append)

lemma spaces_props [simp]: "length (spaces n) = n" "CHR 0x0A \<notin> set (spaces n)"
  by (auto simp: spaces_def)

text \<open>The help of an option starts in the same column for every option, whatever stands left of it: where
  the name is too long, on a line of its own.\<close>

theorem help_aligned:
  assumes "o_type opt \<noteq> OPTION_GROUP" "CHR 0x0A \<notin> set (option_head opt)"
  shows "\<exists>left. print_option_help opt = left @ oh_help opt @ newline \<and> column left = 26 \<and>
           (\<exists>pad. left = option_head opt @ pad)"
proof (cases "length (option_head opt) \<le> USAGE_OPTS_WIDTH")
  case True
  let ?pad = "spaces (USAGE_OPTS_WIDTH - length (option_head opt) + USAGE_GAP)"
  have "column ([] @ option_head opt @ ?pad) = column [] + length (option_head opt @ ?pad)"
    by (rule column_append) (use assms(2) in simp)
  with True have "column (option_head opt @ ?pad) = 26"
    by (simp add: column_def USAGE_OPTS_WIDTH_def USAGE_GAP_def)
  with True assms(1) show ?thesis
    by (intro exI[of _ "option_head opt @ ?pad"]) (simp add: print_option_help_def Let_def)
next
  case False
  let ?pad = "newline @ spaces (USAGE_OPTS_WIDTH + USAGE_GAP)"
  have "column (option_head opt @ newline) = 0" by (simp add: column_def newline_def)
  then have "column ((option_head opt @ newline) @ spaces (USAGE_OPTS_WIDTH + USAGE_GAP)) = 26"
    by (subst column_append) (simp_all add: USAGE_OPTS_WIDTH_def USAGE_GAP_def)
  with False assms(1) show ?thesis
    by (intro exI[of _ "option_head opt @ ?pad"]) (simp add: print_option_help_def Let_def)
qed

text \<open>
  A table of which no name is a prefix of another one.
\<close>

definition prefix_free :: "help_option list \<Rightarrow> bool" where
  "prefix_free opts \<longleftrightarrow> (\<forall>o1 \<in> set opts. \<forall>o2 \<in> set opts. \<forall>n1 n2.
     long_name o1 = Some n1 \<longrightarrow> long_name o2 = Some n2 \<longrightarrow> o1 \<noteq> o2 \<longrightarrow> (\<forall>r. n2 \<noteq> n1 @ r))"

lemma find_unique: "x \<in> set xs \<Longrightarrow> P x \<Longrightarrow> (\<And>y. y \<in> set xs \<Longrightarrow> P y \<Longrightarrow> y = x) \<Longrightarrow> find P xs = Some x"
proof (cases "find P xs")
  case None
  assume "x \<in> set xs" "P x"
  with None show ?thesis unfolding find_None_iff by blast
next
  case (Some y)
  assume u: "\<And>y. y \<in> set xs \<Longrightarrow> P y \<Longrightarrow> y = x"
  from Some have "y \<in> set xs" "P y" unfolding find_Some_iff by auto
  from u[OF this] Some show ?thesis by (simp only:)
qed

lemma usage_for_named:
  assumes "opt \<in> set opts" "long_name opt = Some n" "prefix_free opts"
    and "\<forall>o1 \<in> set opts. \<forall>n1. long_name o1 = Some n1 \<longrightarrow> plain_name n1"
  shows "diag_text (Some (u # us)) opts (Usage_for (n @ ''='' @ v) False) =
    Defined (newline @ '' usage: '' @ u @ newline @ usage_or us @ newline @ print_option_help opt)"
proof -
  have nul: "\<forall>c \<in> set n1. c \<noteq> CHR 0x00" if "plain_name n1" for n1 using that by (auto simp: plain_name_def)
  have n: "plain_name n" using assms by blast
  have "take 3 (n @ CHR ''='' # v) \<noteq> ''no-''"
    using n by (intro take3_append_eq) (auto simp: plain_name_def)
  then have no: "prefixcmp (n @ CHR ''='' # v) ''no-'' \<noteq> 0" by (simp add: prefixcmp_no)
  have "find (concerns (n @ ''='' @ v) False) opts = Some opt"
  proof (rule find_unique[OF assms(1)])
    show "concerns (n @ ''='' @ v) False opt"
      using assms(2) by (simp add: concerns_def prefixcmp_0_iff[OF nul[OF n]])
  next
    fix o1 assume o1: "o1 \<in> set opts" "concerns (n @ ''='' @ v) False o1"
    then obtain n1 where n1: "long_name o1 = Some n1" "prefixcmp (n @ CHR ''='' # v) n1 = 0"
      using no by (auto simp: concerns_def split: option.splits)
    have p1: "plain_name n1" using assms(4) o1(1) n1(1) by blast
    from n1(2) obtain r where "n @ CHR ''='' # v = n1 @ r" using prefixcmp_0_iff[OF nul[OF p1]] by blast
    then obtain us where "n = n1 @ us \<and> us @ CHR ''='' # v = r \<or> n @ us = n1 \<and> CHR ''='' # v = us @ r"
      by (auto simp: append_eq_append_conv2)
    then have "\<exists>us. n = n1 @ us"
    proof
      assume us: "n @ us = n1 \<and> CHR ''='' # v = us @ r"
      then have "us = []" using p1 by (cases us) (auto simp: plain_name_def)
      with us have "n = n1 @ []" by simp
      then show ?thesis by blast
    qed blast
    with assms(1-3) o1(1) n1(1) show "o1 = opt" unfolding prefix_free_def by metis
  qed
  then show ?thesis by (simp add: parse_options_usage_def Let_def)
qed

text \<open>A text that is not a number of the type of an option.\<close>

definition no_number :: "parse_opt_type \<Rightarrow> string \<Rightarrow> bool" where
  "no_number t v \<longleftrightarrow>
     (if t = OPTION_INTEGER then snd (strtol 10 v) \<noteq> []
      else if t = OPTION_UINTEGER then snd (strtol 10 v) \<noteq> [] \<and> snd (strtol 16 v) \<noteq> []
      else t = OPTION_U64 \<and> snd (strtoull 10 v) \<noteq> [] \<and> snd (strtoull 16 v) \<noteq> [])"

lemma bad_number:
  assumes "no_number (o_type opt) v" "long_name opt = Some n"
  shows "\<exists>st. get_value opt False False (p\<lparr>px_opt := Some v\<rparr>) =
    Ret (-1, p\<lparr>px_opt := None, px_store := st, px_err := px_err p @ [Option_error n ''expects a numerical value'']\<rparr>)"
  using assms
  by (auto simp: no_number_def get_value_def numeric_value_def get_arg_def store_number_def conv_int_def
      conv_uint_def conv_u64_def opterror_def put_def split: prod.splits if_splits)

lemma bad_number_stops:
  assumes "plain_options options" "opt \<in> set options" "long_name opt = Some n" "no_number (o_type opt) v"
    and "px_argv p = (''--'' @ n @ ''='' @ v) # rest"
  shows "\<exists>q. args_loop options p = Ret (PARSE_OPT_HELP, q) \<and>
    px_err q = px_err p @ [Option_error n ''expects a numerical value'', Usage_for (n @ ''='' @ v) False]"
proof -
  have eq: "CHR ''='' \<in> set (n @ CHR ''='' # v)" by simp
  have w: "n @ CHR ''='' # v \<noteq> w" if "CHR ''='' \<notin> set w" for w
    using eq that by metis
  obtain st where "parse_long_opt (n @ CHR ''='' # v) None None options p =
      Ret (-1, p\<lparr>px_opt := None, px_store := st, px_err := px_err p @ [Option_error n ''expects a numerical value'']\<rparr>)"
    using exact_name_wins[OF assms(1-3)] bad_number[OF assms(4,3)] by metis
  then have "\<exists>q. long_arg options (n @ CHR ''='' # v) p = Ret (Group_result PARSE_OPT_HELP, q) \<and>
      px_err q = px_err p @ [Option_error n ''expects a numerical value'', Usage_for (n @ ''='' @ v) False]"
    by (simp add: long_arg_def w)
  then show ?thesis
    using assms(5) by (subst args_loop.simps) (auto simp: one_arg_def after_arg_def)
qed

text \<open>C15. A value that is not a number ends the program with status 129 and three things on the error
  stream: the message that names the option, the usage, and the help of this option, for every table
  without prefixes among its names and whatever arguments stand before and behind.\<close>

theorem bad_number_reported:
  assumes "plain_options (map opt_spec.truncate opts)" "prefix_free opts"
    and "opt \<in> set opts" "long_name opt = Some n" "no_number (o_type opt) v"
    and "list_all (item_ok (map opt_spec.truncate opts)) items"
  shows "parse_end (Some (u # us)) opts (prog # map show_item items @ (''--'' @ n @ ''='' @ v) # rest) 0 store =
    Some (129, Defined (error_builtin (''option '' @ in_quotes n @ '' expects a numerical value'') @
      newline @ '' usage: '' @ u @ newline @ usage_or us @ newline @ print_option_help opt))"
proof -
  let ?os = "map opt_spec.truncate opts" and ?arg = "''--'' @ n @ ''='' @ v"
  let ?p = "\<lparr>px_argv = map show_item items @ ?arg # rest, px_out = [], px_opt = None, px_flags = 0,
             px_prefix = None, px_store = store, px_err = []\<rparr>"
  have o1: "opt_spec.truncate opt \<in> set ?os" using assms(3) by simp
  have o2: "long_name (opt_spec.truncate opt) = Some n" "no_number (o_type (opt_spec.truncate opt)) v"
    using assms(4,5) by (simp_all add: opt_spec.truncate_def)
  note opt = o1 o2
  have plain: "\<forall>o1 \<in> set opts. \<forall>n1. long_name o1 = Some n1 \<longrightarrow> plain_name n1"
    using assms(1) by (auto simp: plain_options_def list_all_iff opt_spec.truncate_def split: option.splits)
  let ?r = "?p\<lparr>px_argv := ?arg # rest, px_out := px_out ?p @ concat (map positional items),
      px_store := fold store_item items (px_store ?p)\<rparr>"
  have front: "args_loop ?os ?p = args_loop ?os ?r"
    by (rule args_loop_front[OF assms(1,6)]) (simp_all add: flag_on_def)
  have "px_argv ?r = ?arg # rest" "px_err ?r = []" by simp_all
  with bad_number_stops[OF assms(1) opt] obtain q where
    q: "args_loop ?os ?p = Ret (PARSE_OPT_HELP, q)"
      "px_err q = [Option_error n ''expects a numerical value'', Usage_for (n @ ''='' @ v) False]"
    unfolding front by (metis append_Nil)
  have "parse_options_start (prog # map show_item items @ ?arg # rest) None 0 store = Ret ?p"
    by (simp add: parse_options_start_def Let_def flag_on_def)
  moreover have "parse_options_step ?os ?p = Ret (PARSE_OPT_HELP, q)"
    using q(1) by (simp add: parse_options_step_def)
  moreover have "diag_text (Some (u # us)) opts (Option_error n ''expects a numerical value'') =
      Defined (error_builtin (''option '' @ in_quotes n @ '' expects a numerical value''))"
    by (simp add: print_error_def)
  ultimately show ?thesis
    unfolding parse_end_def Let_def
    by (simp only: run.case prod.case step_result.case q(2) each.simps usage_for_named[OF assms(3,4,2) plain]
        bind_outcome.simps) simp
qed

text \<open>The table of \<open>ddr-err-inj-en\<close> in short.\<close>

theorem bad_number_reported_witness:
  "parse_end (Some [''cxl ddr-err-inj-en''])
     [\<lparr>o_type = OPTION_UINTEGER, short_name = CHR ''d'', long_name = Some ''ddr_id'', o_value = ''ddr_id'',
        o_set = None, oh_argh = None, oh_help = ''ddr id''\<rparr>] [''cxl'', ''mem0'', ''--ddr_id=zero''] 0 (\<lambda>x. VUint 0) =
   Some (129, Defined (error_builtin (''option '' @ in_quotes ''ddr_id'' @ '' expects a numerical value'') @
     newline @ '' usage: '' @ ''cxl ddr-err-inj-en'' @ newline @ newline @ ''    -d, --ddr_id <n>      ddr id'' @ newline))"
proof -
  let ?o = "\<lparr>o_type = OPTION_UINTEGER, short_name = CHR ''d'', long_name = Some ''ddr_id'', o_value = ''ddr_id'',
        o_set = None, oh_argh = None, oh_help = ''ddr id''\<rparr> :: help_option"
  have "no_number OPTION_UINTEGER ''zero''" by code_simp
  moreover have "print_option_help ?o = ''    -d, --ddr_id <n>      ddr id'' @ newline" by code_simp
  ultimately show ?thesis
    using bad_number_reported[of "[?o]" ?o "''ddr_id''" "''zero''" "[Positional ''mem0'']" "''cxl ddr-err-inj-en''"
        "[]" "''cxl''" "[]" "\<lambda>x. VUint 0"]
    by (simp add: plain_options_def plain_name_def opt_spec.truncate_def prefix_free_def)
qed

end
