(* ===== verification/Error_Names.thy ===== *)
theory Error_Names
  imports Cxl_Handlers
begin

text \<open>
  The enumerations of \<open>vendor_meta/inc/membridge.h\<close> and \<open>cxl_link.h\<close> that number the error counters of
  the memory bridge and of the link. Device and tool share them: the device stores the counter of an
  error at its number, the tool prints it with the string at that number. The contract between the two,
  that the strings name every error at its number, is the locale \<open>counter_names\<close>; it is interpreted on
  every enumeration with its table of strings, and the reports are then lists over the errors.
\<close>

section \<open>The contract of a table of names\<close>

text \<open>The two forms of the line of a counter.\<close>

definition counted :: "('e \<Rightarrow> string) \<Rightarrow> ('e \<Rightarrow> u32) \<Rightarrow> 'e \<Rightarrow> line" where
  "counted name w e = (''%s : 0x%x^n'', [Str (name e), I32 (w e)])"

definition listed :: "('e \<Rightarrow> string) \<Rightarrow> ('e \<Rightarrow> u32) \<Rightarrow> 'e \<Rightarrow> line" where
  "listed name w e = (''cxl : %25s  : %4d ^n'', [Str (name e), I32 (w e)])"

locale counter_names =
  fixes es :: "'e list" and number :: "'e \<Rightarrow> nat" and name :: "'e \<Rightarrow> string" and strings :: "string list"
  assumes every: "e \<in> set es"
    and numbered: "map number es = [0..<length es]"
    and named: "map name es = strings"
begin

lemma by_number: "i < length es \<Longrightarrow> number (es ! i) = i \<and> strings ! i = name (es ! i)"
  using numbered named by (metis add_0 length_map nth_map nth_upt)

lemma over_errors: "map f [0..<length es] = map (\<lambda>e. f (number e)) es"
  using numbered by (metis (no_types, lifting) comp_apply map_eq_conv map_map)

lemma at_number [simp]: "es ! number e = e" "strings ! number e = name e" "number e < length es"
  using every[of e] by_number by (metis in_set_conv_nth)+

text \<open>The tables as the displays walk them, on the counters \<open>c\<close> of the errors.\<close>

lemma nonzero_report:
  "length es = n \<Longrightarrow> nonzero_counters strings (map c es) n = map (counted name c) (filter (\<lambda>e. c e \<noteq> 0) es)"
proof -
  assume n: "length es = n"
  have "concat (map (\<lambda>e. if c e \<noteq> 0 then [h e] else []) xs) = map h (filter (\<lambda>e. c e \<noteq> 0) xs)"
    for h :: "'e \<Rightarrow> line" and xs by (induction xs) auto
  then show ?thesis
    unfolding n[symmetric] by (simp add: nonzero_counters_def over_errors counted_def[abs_def])
qed

lemma full_report:
  "length es = n \<Longrightarrow>
   map (\<lambda>i. (''cxl : %25s  : %4d ^n'', [Str (strings ! i), I32 (map c es ! i)])) [0..<n] = map (listed name c) es"
  by (auto simp: over_errors listed_def)

end

section \<open>Counters on the wire\<close>

text \<open>What the device sends: the counters in the order of the numbers of their errors.\<close>

definition store_counters :: "('e \<Rightarrow> u32) \<Rightarrow> 'e list \<Rightarrow> bytes" where
  "store_counters c es = concat (map (\<lambda>e. enc32 (c e)) es)"

lemma length_store_counters [simp]: "length (store_counters c es) = 4 * length es"
  by (induction es) (simp_all add: store_counters_def)

lemma rd_array_skip [codec_simps]:
  "length xs \<le> off \<Longrightarrow> rd_array rd32 4 off n (xs @ ys) = rd_array rd32 4 (off - length xs) n ys"
  by (simp add: rd_array_def rd32_def codec_simps)

lemma rd_array_Suc: "rd_array rd w off (Suc n) b = rd off b # rd_array rd w (off + w) n b"
  by (simp add: rd_array_def upt_conv_Cons map_Suc_upt[symmetric] add_ac del: upt_Suc)

lemma rd32_enc32 [simp]: "rd32 0 (enc32 x @ ys) = x"
  by (simp add: rd32_def codec_simps)

lemma read_counters [codec_simps]:
  "length es = n \<Longrightarrow> rd_array rd32 4 0 n (store_counters c es @ ys) = map c es"
proof (induction es arbitrary: n)
  case (Cons e es)
  then show ?case
    by (auto simp: store_counters_def rd_array_Suc rd_array_skip)
qed (simp add: rd_array_def)

lemma read_counters_end [codec_simps]:
  "length es = n \<Longrightarrow> rd_array rd32 4 0 n (store_counters c es) = map c es"
  using read_counters[of es n c "[]"] by simp

section \<open>The enumerations\<close>

datatype ddr_parity_errors =
  WSTRB_PARITY_ERROR | WDATA_PARITY_ERROR | RDATA_RRESP_PARITY_ERROR |
  RDATA_RESP_RID_PARITY_ERROR | RDATA_PARITY_ERROR | R_RESP_PARITY_ERROR | B_RESP_PARITY_ERROR |
  AW_QOS_PARITY_ERROR | AW_MISC_PARITY_ERROR | AW_ID_PARITY_ERROR | AW_ADDR_RANGE_PARITY_ERROR |
  AW_ADDR_PARITY_ERROR | AR_QOS_PARITY_ERROR | AR_MISC_PARITY_ERROR | AR_ID_PARITY_ERROR |
  AR_ADDR_RANGE_PARITY_ERROR | AR_ADDR_PARITY_ERROR | AXI_B_ID_PARITY_ERROR | AXI_B_PARITY_ERROR |
  AXI_R_ID_PARITY_ERROR | AXI_R_DATA_PARITY_ERROR | AXI_R_PARITY_ERROR

definition DDR_PARITY_ERROR_COUNT :: nat where
  "DDR_PARITY_ERROR_COUNT = 22"

definition every_ddr_parity_errors :: "ddr_parity_errors list" where
  "every_ddr_parity_errors = [
     WSTRB_PARITY_ERROR, WDATA_PARITY_ERROR, RDATA_RRESP_PARITY_ERROR, RDATA_RESP_RID_PARITY_ERROR,
     RDATA_PARITY_ERROR, R_RESP_PARITY_ERROR, B_RESP_PARITY_ERROR, AW_QOS_PARITY_ERROR,
     AW_MISC_PARITY_ERROR, AW_ID_PARITY_ERROR, AW_ADDR_RANGE_PARITY_ERROR, AW_ADDR_PARITY_ERROR,
     AR_QOS_PARITY_ERROR, AR_MISC_PARITY_ERROR, AR_ID_PARITY_ERROR, AR_ADDR_RANGE_PARITY_ERROR,
     AR_ADDR_PARITY_ERROR, AXI_B_ID_PARITY_ERROR, AXI_B_PARITY_ERROR, AXI_R_ID_PARITY_ERROR,
     AXI_R_DATA_PARITY_ERROR, AXI_R_PARITY_ERROR]"

primrec value_ddr_parity_errors :: "ddr_parity_errors \<Rightarrow> nat" where
  "value_ddr_parity_errors WSTRB_PARITY_ERROR = 0" |
  "value_ddr_parity_errors WDATA_PARITY_ERROR = 1" |
  "value_ddr_parity_errors RDATA_RRESP_PARITY_ERROR = 2" |
  "value_ddr_parity_errors RDATA_RESP_RID_PARITY_ERROR = 3" |
  "value_ddr_parity_errors RDATA_PARITY_ERROR = 4" |
  "value_ddr_parity_errors R_RESP_PARITY_ERROR = 5" |
  "value_ddr_parity_errors B_RESP_PARITY_ERROR = 6" |
  "value_ddr_parity_errors AW_QOS_PARITY_ERROR = 7" |
  "value_ddr_parity_errors AW_MISC_PARITY_ERROR = 8" |
  "value_ddr_parity_errors AW_ID_PARITY_ERROR = 9" |
  "value_ddr_parity_errors AW_ADDR_RANGE_PARITY_ERROR = 10" |
  "value_ddr_parity_errors AW_ADDR_PARITY_ERROR = 11" |
  "value_ddr_parity_errors AR_QOS_PARITY_ERROR = 12" |
  "value_ddr_parity_errors AR_MISC_PARITY_ERROR = 13" |
  "value_ddr_parity_errors AR_ID_PARITY_ERROR = 14" |
  "value_ddr_parity_errors AR_ADDR_RANGE_PARITY_ERROR = 15" |
  "value_ddr_parity_errors AR_ADDR_PARITY_ERROR = 16" |
  "value_ddr_parity_errors AXI_B_ID_PARITY_ERROR = 17" |
  "value_ddr_parity_errors AXI_B_PARITY_ERROR = 18" |
  "value_ddr_parity_errors AXI_R_ID_PARITY_ERROR = 19" |
  "value_ddr_parity_errors AXI_R_DATA_PARITY_ERROR = 20" |
  "value_ddr_parity_errors AXI_R_PARITY_ERROR = 21"

primrec name_ddr_parity_errors :: "ddr_parity_errors \<Rightarrow> string" where
  "name_ddr_parity_errors WSTRB_PARITY_ERROR = ''WSTRB_PARITY_ERROR''" |
  "name_ddr_parity_errors WDATA_PARITY_ERROR = ''WDATA_PARITY_ERROR''" |
  "name_ddr_parity_errors RDATA_RRESP_PARITY_ERROR = ''RDATA_RRESP_PARITY_ERROR''" |
  "name_ddr_parity_errors RDATA_RESP_RID_PARITY_ERROR = ''RDATA_RESP_RID_PARITY_ERROR''" |
  "name_ddr_parity_errors RDATA_PARITY_ERROR = ''RDATA_PARITY_ERROR''" |
  "name_ddr_parity_errors R_RESP_PARITY_ERROR = ''R_RESP_PARITY_ERROR''" |
  "name_ddr_parity_errors B_RESP_PARITY_ERROR = ''B_RESP_PARITY_ERROR''" |
  "name_ddr_parity_errors AW_QOS_PARITY_ERROR = ''AW_QOS_PARITY_ERROR''" |
  "name_ddr_parity_errors AW_MISC_PARITY_ERROR = ''AW_MISC_PARITY_ERROR''" |
  "name_ddr_parity_errors AW_ID_PARITY_ERROR = ''AW_ID_PARITY_ERROR''" |
  "name_ddr_parity_errors AW_ADDR_RANGE_PARITY_ERROR = ''AW_ADDR_RANGE_PARITY_ERROR''" |
  "name_ddr_parity_errors AW_ADDR_PARITY_ERROR = ''AW_ADDR_PARITY_ERROR''" |
  "name_ddr_parity_errors AR_QOS_PARITY_ERROR = ''AR_QOS_PARITY_ERROR''" |
  "name_ddr_parity_errors AR_MISC_PARITY_ERROR = ''AR_MISC_PARITY_ERROR''" |
  "name_ddr_parity_errors AR_ID_PARITY_ERROR = ''AR_ID_PARITY_ERROR''" |
  "name_ddr_parity_errors AR_ADDR_RANGE_PARITY_ERROR = ''AR_ADDR_RANGE_PARITY_ERROR''" |
  "name_ddr_parity_errors AR_ADDR_PARITY_ERROR = ''AR_ADDR_PARITY_ERROR''" |
  "name_ddr_parity_errors AXI_B_ID_PARITY_ERROR = ''AXI_B_ID_PARITY_ERROR''" |
  "name_ddr_parity_errors AXI_B_PARITY_ERROR = ''AXI_B_PARITY_ERROR''" |
  "name_ddr_parity_errors AXI_R_ID_PARITY_ERROR = ''AXI_R_ID_PARITY_ERROR''" |
  "name_ddr_parity_errors AXI_R_DATA_PARITY_ERROR = ''AXI_R_DATA_PARITY_ERROR''" |
  "name_ddr_parity_errors AXI_R_PARITY_ERROR = ''AXI_R_PARITY_ERROR''"

interpretation named_ddr_parity_errors: counter_names every_ddr_parity_errors value_ddr_parity_errors name_ddr_parity_errors ddr_parity_error_strings
proof
  fix e :: ddr_parity_errors
  show "e \<in> set every_ddr_parity_errors" by (cases e) (simp_all add: every_ddr_parity_errors_def)
qed (simp_all add: every_ddr_parity_errors_def ddr_parity_error_strings_def upt_rec)

lemma length_every_ddr_parity_errors [simp]: "length every_ddr_parity_errors = 22"
  by (simp add: every_ddr_parity_errors_def)

datatype fifo_errors =
  S2M_NDR_FIFO | S2M_DRC_FIFO | M2S_RWD_FIFO | M2S_REQ_FIFO | DDR1_W_REQ_FIFO |
  DDR1_RDATA_RESP_FIFO | DDR1_R_RESP_FIFO | DDR1_B_RESP_FIFO | DDR1_AW_REQ_FIFO |
  DDR1_AR_REQ_FIFO | DDR0_W_REQ_FIFO | DDR0_RDATA_RESP_FIFO | DDR0_R_RESP_FIFO | DDR0_B_RESP_FIFO |
  DDR0_AW_REQ_FIFO | DDR0_AR_REQ_FIFO

definition FIFO_ERROR_COUNT :: nat where
  "FIFO_ERROR_COUNT = 16"

definition every_fifo_errors :: "fifo_errors list" where
  "every_fifo_errors = [
     S2M_NDR_FIFO, S2M_DRC_FIFO, M2S_RWD_FIFO, M2S_REQ_FIFO, DDR1_W_REQ_FIFO, DDR1_RDATA_RESP_FIFO,
     DDR1_R_RESP_FIFO, DDR1_B_RESP_FIFO, DDR1_AW_REQ_FIFO, DDR1_AR_REQ_FIFO, DDR0_W_REQ_FIFO,
     DDR0_RDATA_RESP_FIFO, DDR0_R_RESP_FIFO, DDR0_B_RESP_FIFO, DDR0_AW_REQ_FIFO, DDR0_AR_REQ_FIFO]"

primrec value_fifo_errors :: "fifo_errors \<Rightarrow> nat" where
  "value_fifo_errors S2M_NDR_FIFO = 0" | "value_fifo_errors S2M_DRC_FIFO = 1" |
  "value_fifo_errors M2S_RWD_FIFO = 2" | "value_fifo_errors M2S_REQ_FIFO = 3" |
  "value_fifo_errors DDR1_W_REQ_FIFO = 4" | "value_fifo_errors DDR1_RDATA_RESP_FIFO = 5" |
  "value_fifo_errors DDR1_R_RESP_FIFO = 6" | "value_fifo_errors DDR1_B_RESP_FIFO = 7" |
  "value_fifo_errors DDR1_AW_REQ_FIFO = 8" | "value_fifo_errors DDR1_AR_REQ_FIFO = 9" |
  "value_fifo_errors DDR0_W_REQ_FIFO = 10" | "value_fifo_errors DDR0_RDATA_RESP_FIFO = 11" |
  "value_fifo_errors DDR0_R_RESP_FIFO = 12" | "value_fifo_errors DDR0_B_RESP_FIFO = 13" |
  "value_fifo_errors DDR0_AW_REQ_FIFO = 14" | "value_fifo_errors DDR0_AR_REQ_FIFO = 15"

primrec name_fifo_errors :: "fifo_errors \<Rightarrow> string" where
  "name_fifo_errors S2M_NDR_FIFO = ''S2M_NDR_FIFO''" |
  "name_fifo_errors S2M_DRC_FIFO = ''S2M_DRC_FIFO''" |
  "name_fifo_errors M2S_RWD_FIFO = ''M2S_RWD_FIFO''" |
  "name_fifo_errors M2S_REQ_FIFO = ''M2S_REQ_FIFO''" |
  "name_fifo_errors DDR1_W_REQ_FIFO = ''DDR1_W_REQ_FIFO''" |
  "name_fifo_errors DDR1_RDATA_RESP_FIFO = ''DDR1_RDATA_RESP_FIFO''" |
  "name_fifo_errors DDR1_R_RESP_FIFO = ''DDR1_R_RESP_FIFO''" |
  "name_fifo_errors DDR1_B_RESP_FIFO = ''DDR1_B_RESP_FIFO''" |
  "name_fifo_errors DDR1_AW_REQ_FIFO = ''DDR1_AW_REQ_FIFO''" |
  "name_fifo_errors DDR1_AR_REQ_FIFO = ''DDR1_AR_REQ_FIFO''" |
  "name_fifo_errors DDR0_W_REQ_FIFO = ''DDR0_W_REQ_FIFO''" |
  "name_fifo_errors DDR0_RDATA_RESP_FIFO = ''DDR0_RDATA_RESP_FIFO''" |
  "name_fifo_errors DDR0_R_RESP_FIFO = ''DDR0_R_RESP_FIFO''" |
  "name_fifo_errors DDR0_B_RESP_FIFO = ''DDR0_B_RESP_FIFO''" |
  "name_fifo_errors DDR0_AW_REQ_FIFO = ''DDR0_AW_REQ_FIFO''" |
  "name_fifo_errors DDR0_AR_REQ_FIFO = ''DDR0_AR_REQ_FIFO''"

interpretation named_fifo_errors: counter_names every_fifo_errors value_fifo_errors name_fifo_errors fifo_error_strings
proof
  fix e :: fifo_errors
  show "e \<in> set every_fifo_errors" by (cases e) (simp_all add: every_fifo_errors_def)
qed (simp_all add: every_fifo_errors_def fifo_error_strings_def upt_rec)

lemma length_every_fifo_errors [simp]: "length every_fifo_errors = 16"
  by (simp add: every_fifo_errors_def)

datatype parity_errors =
  NDR_TAG_PARITY_ERROR | NDR_RESP_PARITY_ERROR | M2S_RWD_ECC_CHECK_ERR_MULTPL_FAIL |
  M2S_RWD_ECC_CHECK_ERR_DETECT_FAIL | M2S_REQ_ECC_CHECK_ERR_MULTPL_FAIL |
  M2S_REQ_ECC_CHECK_ERR_DETECT_FAIL | DRC_TAG_PARITY_ERROR | DRC_RESP_PARITY_ERROR |
  DRC_DATA_PARITY_ERROR | AW_MST_RWD_PARITY_ERROR | AR_MST_REQ_PARITY_ERROR |
  M2S_REQ_DUP_ADDR_PARITY_ERROR | M2S_RWD_DUP_ADDR_PARITY_ERROR

definition PARITY_ERROR_COUNT :: nat where
  "PARITY_ERROR_COUNT = 13"

definition every_parity_errors :: "parity_errors list" where
  "every_parity_errors = [
     NDR_TAG_PARITY_ERROR, NDR_RESP_PARITY_ERROR, M2S_RWD_ECC_CHECK_ERR_MULTPL_FAIL,
     M2S_RWD_ECC_CHECK_ERR_DETECT_FAIL, M2S_REQ_ECC_CHECK_ERR_MULTPL_FAIL,
     M2S_REQ_ECC_CHECK_ERR_DETECT_FAIL, DRC_TAG_PARITY_ERROR, DRC_RESP_PARITY_ERROR,
     DRC_DATA_PARITY_ERROR, AW_MST_RWD_PARITY_ERROR, AR_MST_REQ_PARITY_ERROR,
     M2S_REQ_DUP_ADDR_PARITY_ERROR, M2S_RWD_DUP_ADDR_PARITY_ERROR]"

primrec value_parity_errors :: "parity_errors \<Rightarrow> nat" where
  "value_parity_errors NDR_TAG_PARITY_ERROR = 0" |
  "value_parity_errors NDR_RESP_PARITY_ERROR = 1" |
  "value_parity_errors M2S_RWD_ECC_CHECK_ERR_MULTPL_FAIL = 2" |
  "value_parity_errors M2S_RWD_ECC_CHECK_ERR_DETECT_FAIL = 3" |
  "value_parity_errors M2S_REQ_ECC_CHECK_ERR_MULTPL_FAIL = 4" |
  "value_parity_errors M2S_REQ_ECC_CHECK_ERR_DETECT_FAIL = 5" |
  "value_parity_errors DRC_TAG_PARITY_ERROR = 6" |
  "value_parity_errors DRC_RESP_PARITY_ERROR = 7" |
  "value_parity_errors DRC_DATA_PARITY_ERROR = 8" |
  "value_parity_errors AW_MST_RWD_PARITY_ERROR = 9" |
  "value_parity_errors AR_MST_REQ_PARITY_ERROR = 10" |
  "value_parity_errors M2S_REQ_DUP_ADDR_PARITY_ERROR = 11" |
  "value_parity_errors M2S_RWD_DUP_ADDR_PARITY_ERROR = 12"

primrec name_parity_errors :: "parity_errors \<Rightarrow> string" where
  "name_parity_errors NDR_TAG_PARITY_ERROR = ''NDR_TAG_PARITY_ERROR''" |
  "name_parity_errors NDR_RESP_PARITY_ERROR = ''NDR_RESP_PARITY_ERROR''" |
  "name_parity_errors M2S_RWD_ECC_CHECK_ERR_MULTPL_FAIL = ''M2S_RWD_ECC_CHECK_ERR_MULTPL_FAIL''" |
  "name_parity_errors M2S_RWD_ECC_CHECK_ERR_DETECT_FAIL = ''M2S_RWD_ECC_CHECK_ERR_DETECT_FAIL''" |
  "name_parity_errors M2S_REQ_ECC_CHECK_ERR_MULTPL_FAIL = ''M2S_REQ_ECC_CHECK_ERR_MULTPL_FAIL''" |
  "name_parity_errors M2S_REQ_ECC_CHECK_ERR_DETECT_FAIL = ''M2S_REQ_ECC_CHECK_ERR_DETECT_FAIL''" |
  "name_parity_errors DRC_TAG_PARITY_ERROR = ''DRC_TAG_PARITY_ERROR''" |
  "name_parity_errors DRC_RESP_PARITY_ERROR = ''DRC_RESP_PARITY_ERROR''" |
  "name_parity_errors DRC_DATA_PARITY_ERROR = ''DRC_DATA_PARITY_ERROR''" |
  "name_parity_errors AW_MST_RWD_PARITY_ERROR = ''AW_MST_RWD_PARITY_ERROR''" |
  "name_parity_errors AR_MST_REQ_PARITY_ERROR = ''AR_MST_REQ_PARITY_ERROR''" |
  "name_parity_errors M2S_REQ_DUP_ADDR_PARITY_ERROR = ''M2S_REQ_DUP_ADDR_PARITY_ERROR''" |
  "name_parity_errors M2S_RWD_DUP_ADDR_PARITY_ERROR = ''M2S_RWD_DUP_ADDR_PARITY_ERROR''"

interpretation named_parity_errors: counter_names every_parity_errors value_parity_errors name_parity_errors parity_error_strings
proof
  fix e :: parity_errors
  show "e \<in> set every_parity_errors" by (cases e) (simp_all add: every_parity_errors_def)
qed (simp_all add: every_parity_errors_def parity_error_strings_def upt_rec)

lemma length_every_parity_errors [simp]: "length every_parity_errors = 13"
  by (simp add: every_parity_errors_def)

datatype membridge_common_errors =
  MST_M2S_RWD_ERR_MULTPL | MST_M2S_RWD_ERR_DETECT | MST_M2S_REQ_ERR_MULTPL |
  MST_M2S_REQ_ERR_DETECT | POISON_RECEIVED_IN_RWD | RWD_ADDRESS_INVALID | REQ_ADDRESS_INVALID |
  DDR1_RRESP_ERROR | DDR1_BRESP_ERROR | DDR0_RRESP_ERROR | DDR0_BRESP_ERROR | DDR1_RPARITY_ERROR |
  DDR1_BPARITY_ERROR | DDR0_RPARITY_ERROR | DDR0_BPARITY_ERROR | HDM_DEC1_ERR_NOT_COMMITED |
  RX_DEINIT_TIMEOUT | TX_DEINIT_TIMEOUT | VIRAL | DDR0_BRESP_DEC_ERROR | DDR1_BRESP_DEC_ERROR |
  DDR0_RRESP_DEC_ERROR | DDR1_RRESP_DEC_ERROR

definition MEMBRIDGE_COMMON_ERROR_COUNT :: nat where
  "MEMBRIDGE_COMMON_ERROR_COUNT = 23"

definition every_membridge_common_errors :: "membridge_common_errors list" where
  "every_membridge_common_errors = [
     MST_M2S_RWD_ERR_MULTPL, MST_M2S_RWD_ERR_DETECT, MST_M2S_REQ_ERR_MULTPL,
     MST_M2S_REQ_ERR_DETECT, POISON_RECEIVED_IN_RWD, RWD_ADDRESS_INVALID, REQ_ADDRESS_INVALID,
     DDR1_RRESP_ERROR, DDR1_BRESP_ERROR, DDR0_RRESP_ERROR, DDR0_BRESP_ERROR, DDR1_RPARITY_ERROR,
     DDR1_BPARITY_ERROR, DDR0_RPARITY_ERROR, DDR0_BPARITY_ERROR, HDM_DEC1_ERR_NOT_COMMITED,
     RX_DEINIT_TIMEOUT, TX_DEINIT_TIMEOUT, VIRAL, DDR0_BRESP_DEC_ERROR, DDR1_BRESP_DEC_ERROR,
     DDR0_RRESP_DEC_ERROR, DDR1_RRESP_DEC_ERROR]"

primrec value_membridge_common_errors :: "membridge_common_errors \<Rightarrow> nat" where
  "value_membridge_common_errors MST_M2S_RWD_ERR_MULTPL = 0" |
  "value_membridge_common_errors MST_M2S_RWD_ERR_DETECT = 1" |
  "value_membridge_common_errors MST_M2S_REQ_ERR_MULTPL = 2" |
  "value_membridge_common_errors MST_M2S_REQ_ERR_DETECT = 3" |
  "value_membridge_common_errors POISON_RECEIVED_IN_RWD = 4" |
  "value_membridge_common_errors RWD_ADDRESS_INVALID = 5" |
  "value_membridge_common_errors REQ_ADDRESS_INVALID = 6" |
  "value_membridge_common_errors DDR1_RRESP_ERROR = 7" |
  "value_membridge_common_errors DDR1_BRESP_ERROR = 8" |
  "value_membridge_common_errors DDR0_RRESP_ERROR = 9" |
  "value_membridge_common_errors DDR0_BRESP_ERROR = 10" |
  "value_membridge_common_errors DDR1_RPARITY_ERROR = 11" |
  "value_membridge_common_errors DDR1_BPARITY_ERROR = 12" |
  "value_membridge_common_errors DDR0_RPARITY_ERROR = 13" |
  "value_membridge_common_errors DDR0_BPARITY_ERROR = 14" |
  "value_membridge_common_errors HDM_DEC1_ERR_NOT_COMMITED = 15" |
  "value_membridge_common_errors RX_DEINIT_TIMEOUT = 16" |
  "value_membridge_common_errors TX_DEINIT_TIMEOUT = 17" |
  "value_membridge_common_errors VIRAL = 18" |
  "value_membridge_common_errors DDR0_BRESP_DEC_ERROR = 19" |
  "value_membridge_common_errors DDR1_BRESP_DEC_ERROR = 20" |
  "value_membridge_common_errors DDR0_RRESP_DEC_ERROR = 21" |
  "value_membridge_common_errors DDR1_RRESP_DEC_ERROR = 22"

primrec name_membridge_common_errors :: "membridge_common_errors \<Rightarrow> string" where
  "name_membridge_common_errors MST_M2S_RWD_ERR_MULTPL = ''MST_M2S_RWD_ERR_MULTPL''" |
  "name_membridge_common_errors MST_M2S_RWD_ERR_DETECT = ''MST_M2S_RWD_ERR_DETECT''" |
  "name_membridge_common_errors MST_M2S_REQ_ERR_MULTPL = ''MST_M2S_REQ_ERR_MULTPL''" |
  "name_membridge_common_errors MST_M2S_REQ_ERR_DETECT = ''MST_M2S_REQ_ERR_DETECT''" |
  "name_membridge_common_errors POISON_RECEIVED_IN_RWD = ''POISON_RECEIVED_IN_RWD''" |
  "name_membridge_common_errors RWD_ADDRESS_INVALID = ''RWD_ADDRESS_INVALID''" |
  "name_membridge_common_errors REQ_ADDRESS_INVALID = ''REQ_ADDRESS_INVALID''" |
  "name_membridge_common_errors DDR1_RRESP_ERROR = ''DDR1_RRESP_ERROR''" |
  "name_membridge_common_errors DDR1_BRESP_ERROR = ''DDR1_BRESP_ERROR''" |
  "name_membridge_common_errors DDR0_RRESP_ERROR = ''DDR0_RRESP_ERROR''" |
  "name_membridge_common_errors DDR0_BRESP_ERROR = ''DDR0_BRESP_ERROR''" |
  "name_membridge_common_errors DDR1_RPARITY_ERROR = ''DDR1_RPARITY_ERROR''" |
  "name_membridge_common_errors DDR1_BPARITY_ERROR = ''DDR1_BPARITY_ERROR''" |
  "name_membridge_common_errors DDR0_RPARITY_ERROR = ''DDR0_RPARITY_ERROR''" |
  "name_membridge_common_errors DDR0_BPARITY_ERROR = ''DDR0_BPARITY_ERROR''" |
  "name_membridge_common_errors HDM_DEC1_ERR_NOT_COMMITED = ''HDM_DEC1_ERR_NOT_COMMITED''" |
  "name_membridge_common_errors RX_DEINIT_TIMEOUT = ''RX_DEINIT_TIMEOUT''" |
  "name_membridge_common_errors TX_DEINIT_TIMEOUT = ''TX_DEINIT_TIMEOUT''" |
  "name_membridge_common_errors VIRAL = ''VIRAL''" |
  "name_membridge_common_errors DDR0_BRESP_DEC_ERROR = ''DDR0_BRESP_DEC_ERROR''" |
  "name_membridge_common_errors DDR1_BRESP_DEC_ERROR = ''DDR1_BRESP_DEC_ERROR''" |
  "name_membridge_common_errors DDR0_RRESP_DEC_ERROR = ''DDR0_RRESP_DEC_ERROR''" |
  "name_membridge_common_errors DDR1_RRESP_DEC_ERROR = ''DDR1_RRESP_DEC_ERROR''"

interpretation named_membridge_common_errors: counter_names every_membridge_common_errors value_membridge_common_errors name_membridge_common_errors membridge_common_error_strings
proof
  fix e :: membridge_common_errors
  show "e \<in> set every_membridge_common_errors" by (cases e) (simp_all add: every_membridge_common_errors_def)
qed (simp_all add: every_membridge_common_errors_def membridge_common_error_strings_def upt_rec)

lemma length_every_membridge_common_errors [simp]: "length every_membridge_common_errors = 23"
  by (simp add: every_membridge_common_errors_def)

datatype cxl_corr_errors =
  CORR_CACHE_DATA_ECC | CORR_MEM_DATA_ECC | CORR_CRC_THRESHOLD | CORR_RETRY_THRESHOLD |
  CACHE_POISON_RVD | MEM_POISON_RVD | PHY_LAYER_ERR

definition MAX_CORR_ERR_COUNT :: nat where
  "MAX_CORR_ERR_COUNT = 7"

definition every_cxl_corr_errors :: "cxl_corr_errors list" where
  "every_cxl_corr_errors = [
     CORR_CACHE_DATA_ECC, CORR_MEM_DATA_ECC, CORR_CRC_THRESHOLD, CORR_RETRY_THRESHOLD,
     CACHE_POISON_RVD, MEM_POISON_RVD, PHY_LAYER_ERR]"

primrec value_cxl_corr_errors :: "cxl_corr_errors \<Rightarrow> nat" where
  "value_cxl_corr_errors CORR_CACHE_DATA_ECC = 0" | "value_cxl_corr_errors CORR_MEM_DATA_ECC = 1" |
  "value_cxl_corr_errors CORR_CRC_THRESHOLD = 2" |
  "value_cxl_corr_errors CORR_RETRY_THRESHOLD = 3" | "value_cxl_corr_errors CACHE_POISON_RVD = 4" |
  "value_cxl_corr_errors MEM_POISON_RVD = 5" | "value_cxl_corr_errors PHY_LAYER_ERR = 6"

primrec name_cxl_corr_errors :: "cxl_corr_errors \<Rightarrow> string" where
  "name_cxl_corr_errors CORR_CACHE_DATA_ECC = ''CORR_CACHE_DATA_ECC''" |
  "name_cxl_corr_errors CORR_MEM_DATA_ECC = ''CORR_MEM_DATA_ECC''" |
  "name_cxl_corr_errors CORR_CRC_THRESHOLD = ''CORR_CRC_THRESHOLD''" |
  "name_cxl_corr_errors CORR_RETRY_THRESHOLD = ''CORR_RETRY_THRESHOLD''" |
  "name_cxl_corr_errors CACHE_POISON_RVD = ''CACHE_POISON_RVD''" |
  "name_cxl_corr_errors MEM_POISON_RVD = ''MEM_POISON_RVD''" |
  "name_cxl_corr_errors PHY_LAYER_ERR = ''PHY_LAYER_ERR''"

interpretation named_cxl_corr_errors: counter_names every_cxl_corr_errors value_cxl_corr_errors name_cxl_corr_errors corr_errors_list
proof
  fix e :: cxl_corr_errors
  show "e \<in> set every_cxl_corr_errors" by (cases e) (simp_all add: every_cxl_corr_errors_def)
qed (simp_all add: every_cxl_corr_errors_def corr_errors_list_def upt_rec)

lemma length_every_cxl_corr_errors [simp]: "length every_cxl_corr_errors = 7"
  by (simp add: every_cxl_corr_errors_def)

datatype cxl_uncorr_errors =
  CACHE_DATA_PAR | CACHE_ADD_PAR | CACHE_BE_PAR | CACHE_DATA_ECC | MEM_DATA_PAR | MEM_ADD_PAR |
  MEM_BE_PAR | MEM_DATA_ECC | REINIT_THRESHOLD | ENCOD_VIOLATION | POISON_RVD | RCVR_OVERFLOW |
  RSVDP_12 | RSVDP_13 | CXL_INTERNAL_ERR | CXL_IDE_TX_ER | CXL_IDE_RX_ER

definition MAX_UNCORR_ERR_COUNT :: nat where
  "MAX_UNCORR_ERR_COUNT = 17"

definition every_cxl_uncorr_errors :: "cxl_uncorr_errors list" where
  "every_cxl_uncorr_errors = [
     CACHE_DATA_PAR, CACHE_ADD_PAR, CACHE_BE_PAR, CACHE_DATA_ECC, MEM_DATA_PAR, MEM_ADD_PAR,
     MEM_BE_PAR, MEM_DATA_ECC, REINIT_THRESHOLD, ENCOD_VIOLATION, POISON_RVD, RCVR_OVERFLOW,
     RSVDP_12, RSVDP_13, CXL_INTERNAL_ERR, CXL_IDE_TX_ER, CXL_IDE_RX_ER]"

primrec value_cxl_uncorr_errors :: "cxl_uncorr_errors \<Rightarrow> nat" where
  "value_cxl_uncorr_errors CACHE_DATA_PAR = 0" | "value_cxl_uncorr_errors CACHE_ADD_PAR = 1" |
  "value_cxl_uncorr_errors CACHE_BE_PAR = 2" | "value_cxl_uncorr_errors CACHE_DATA_ECC = 3" |
  "value_cxl_uncorr_errors MEM_DATA_PAR = 4" | "value_cxl_uncorr_errors MEM_ADD_PAR = 5" |
  "value_cxl_uncorr_errors MEM_BE_PAR = 6" | "value_cxl_uncorr_errors MEM_DATA_ECC = 7" |
  "value_cxl_uncorr_errors REINIT_THRESHOLD = 8" | "value_cxl_uncorr_errors ENCOD_VIOLATION = 9" |
  "value_cxl_uncorr_errors POISON_RVD = 10" | "value_cxl_uncorr_errors RCVR_OVERFLOW = 11" |
  "value_cxl_uncorr_errors RSVDP_12 = 12" | "value_cxl_uncorr_errors RSVDP_13 = 13" |
  "value_cxl_uncorr_errors CXL_INTERNAL_ERR = 14" | "value_cxl_uncorr_errors CXL_IDE_TX_ER = 15" |
  "value_cxl_uncorr_errors CXL_IDE_RX_ER = 16"

primrec name_cxl_uncorr_errors :: "cxl_uncorr_errors \<Rightarrow> string" where
  "name_cxl_uncorr_errors CACHE_DATA_PAR = ''CACHE_DATA_PAR''" |
  "name_cxl_uncorr_errors CACHE_ADD_PAR = ''CACHE_ADD_PAR''" |
  "name_cxl_uncorr_errors CACHE_BE_PAR = ''CACHE_BE_PAR''" |
  "name_cxl_uncorr_errors CACHE_DATA_ECC = ''CACHE_DATA_ECC''" |
  "name_cxl_uncorr_errors MEM_DATA_PAR = ''MEM_DATA_PAR''" |
  "name_cxl_uncorr_errors MEM_ADD_PAR = ''MEM_ADD_PAR''" |
  "name_cxl_uncorr_errors MEM_BE_PAR = ''MEM_BE_PAR''" |
  "name_cxl_uncorr_errors MEM_DATA_ECC = ''MEM_DATA_ECC''" |
  "name_cxl_uncorr_errors REINIT_THRESHOLD = ''REINIT_THRESHOLD''" |
  "name_cxl_uncorr_errors ENCOD_VIOLATION = ''ENCOD_VIOLATION''" |
  "name_cxl_uncorr_errors POISON_RVD = ''POISON_RVD''" |
  "name_cxl_uncorr_errors RCVR_OVERFLOW = ''RCVR_OVERFLOW''" |
  "name_cxl_uncorr_errors RSVDP_12 = ''RSVDP_12''" |
  "name_cxl_uncorr_errors RSVDP_13 = ''RSVDP_13''" |
  "name_cxl_uncorr_errors CXL_INTERNAL_ERR = ''CXL_INTERNAL_ERR''" |
  "name_cxl_uncorr_errors CXL_IDE_TX_ER = ''CXL_IDE_TX_ER''" |
  "name_cxl_uncorr_errors CXL_IDE_RX_ER = ''CXL_IDE_RX_ER''"

interpretation named_cxl_uncorr_errors: counter_names every_cxl_uncorr_errors value_cxl_uncorr_errors name_cxl_uncorr_errors uncorr_errors_list
proof
  fix e :: cxl_uncorr_errors
  show "e \<in> set every_cxl_uncorr_errors" by (cases e) (simp_all add: every_cxl_uncorr_errors_def)
qed (simp_all add: every_cxl_uncorr_errors_def uncorr_errors_list_def upt_rec)

lemma length_every_cxl_uncorr_errors [simp]: "length every_cxl_uncorr_errors = 17"
  by (simp add: every_cxl_uncorr_errors_def)

datatype cxl_err_sts =
  UNCOR_INTERNAL_ERR_STS | SURPRISE_DOWN_ER_STS | REPLAY_TIMER_TIMEOUT_ERR_STS |
  REPLAY_NUMBER_ROLLOVER_ERR_STS | RCVR_OVERFLOW_ERR_STS | RCVR_ERR_STS | MLF_TLP_ERR_STS |
  FC_PROTOCOL_ERR_STS | ECRC_ERR_STS | DL_PROTOCOL_ERR_STS | CORRECTED_INTERNAL_ERR_STS |
  BAD_TLP_ERR_STS | BAD_DLLP_ERR_STS

definition MAX_CXL_CFG_ERR_COUNT :: nat where
  "MAX_CXL_CFG_ERR_COUNT = 13"

definition every_cxl_err_sts :: "cxl_err_sts list" where
  "every_cxl_err_sts = [
     UNCOR_INTERNAL_ERR_STS, SURPRISE_DOWN_ER_STS, REPLAY_TIMER_TIMEOUT_ERR_STS,
     REPLAY_NUMBER_ROLLOVER_ERR_STS, RCVR_OVERFLOW_ERR_STS, RCVR_ERR_STS, MLF_TLP_ERR_STS,
     FC_PROTOCOL_ERR_STS, ECRC_ERR_STS, DL_PROTOCOL_ERR_STS, CORRECTED_INTERNAL_ERR_STS,
     BAD_TLP_ERR_STS, BAD_DLLP_ERR_STS]"

primrec value_cxl_err_sts :: "cxl_err_sts \<Rightarrow> nat" where
  "value_cxl_err_sts UNCOR_INTERNAL_ERR_STS = 0" | "value_cxl_err_sts SURPRISE_DOWN_ER_STS = 1" |
  "value_cxl_err_sts REPLAY_TIMER_TIMEOUT_ERR_STS = 2" |
  "value_cxl_err_sts REPLAY_NUMBER_ROLLOVER_ERR_STS = 3" |
  "value_cxl_err_sts RCVR_OVERFLOW_ERR_STS = 4" | "value_cxl_err_sts RCVR_ERR_STS = 5" |
  "value_cxl_err_sts MLF_TLP_ERR_STS = 6" | "value_cxl_err_sts FC_PROTOCOL_ERR_STS = 7" |
  "value_cxl_err_sts ECRC_ERR_STS = 8" | "value_cxl_err_sts DL_PROTOCOL_ERR_STS = 9" |
  "value_cxl_err_sts CORRECTED_INTERNAL_ERR_STS = 10" | "value_cxl_err_sts BAD_TLP_ERR_STS = 11" |
  "value_cxl_err_sts BAD_DLLP_ERR_STS = 12"

primrec name_cxl_err_sts :: "cxl_err_sts \<Rightarrow> string" where
  "name_cxl_err_sts UNCOR_INTERNAL_ERR_STS = ''UNCOR_INTERNAL_ERR_STS''" |
  "name_cxl_err_sts SURPRISE_DOWN_ER_STS = ''SURPRISE_DOWN_ER_STS''" |
  "name_cxl_err_sts REPLAY_TIMER_TIMEOUT_ERR_STS = ''REPLAY_TIMER_TIMEOUT_ERR_STS''" |
  "name_cxl_err_sts REPLAY_NUMBER_ROLLOVER_ERR_STS = ''REPLAY_NUMBER_ROLLOVER_ERR_STS''" |
  "name_cxl_err_sts RCVR_OVERFLOW_ERR_STS = ''RCVR_OVERFLOW_ERR_STS''" |
  "name_cxl_err_sts RCVR_ERR_STS = ''RCVR_ERR_STS''" |
  "name_cxl_err_sts MLF_TLP_ERR_STS = ''MLF_TLP_ERR_STS''" |
  "name_cxl_err_sts FC_PROTOCOL_ERR_STS = ''FC_PROTOCOL_ERR_STS''" |
  "name_cxl_err_sts ECRC_ERR_STS = ''ECRC_ERR_STS''" |
  "name_cxl_err_sts DL_PROTOCOL_ERR_STS = ''DL_PROTOCOL_ERR_STS''" |
  "name_cxl_err_sts CORRECTED_INTERNAL_ERR_STS = ''CORRECTED_INTERNAL_ERR_STS''" |
  "name_cxl_err_sts BAD_TLP_ERR_STS = ''BAD_TLP_ERR_STS''" |
  "name_cxl_err_sts BAD_DLLP_ERR_STS = ''BAD_DLLP_ERR_STS''"

interpretation named_cxl_err_sts: counter_names every_cxl_err_sts value_cxl_err_sts name_cxl_err_sts cxl_cfg_errors_list
proof
  fix e :: cxl_err_sts
  show "e \<in> set every_cxl_err_sts" by (cases e) (simp_all add: every_cxl_err_sts_def)
qed (simp_all add: every_cxl_err_sts_def cxl_cfg_errors_list_def upt_rec)

lemma length_every_cxl_err_sts [simp]: "length every_cxl_err_sts = 13"
  by (simp add: every_cxl_err_sts_def)

section \<open>The reports\<close>

text \<open>A device that answers a query with the bytes \<open>pl\<close>.\<close>

lemma answered_report:
  assumes "\<And>n. os_calloc os n s = (True, s)" "\<And>rq. opcode_of rq = (cs, opc) \<Longrightarrow> os_send os rq s = (0, pl, s')"
    and "length pl = n"
  shows "report (get_cmd os cs opc n dec) show s = bind_outcome (show (dec pl)) (\<lambda>ls. Defined (0, ls, s'))"
  using assms by (simp add: report_def get_cmd_def exchange_def opcode_of_def)

definition membridge_payload ::
  "u32 list \<Rightarrow> (fifo_errors \<Rightarrow> u32) \<Rightarrow> (fifo_errors \<Rightarrow> u32) \<Rightarrow> (ddr_parity_errors \<Rightarrow> u32) \<Rightarrow>
   (ddr_parity_errors \<Rightarrow> u32) \<Rightarrow> (parity_errors \<Rightarrow> u32) \<Rightarrow> (membridge_common_errors \<Rightarrow> u32) \<Rightarrow> bytes" where
  "membridge_payload sums ovf unf ddr0 ddr1 par com =
     enc32 (sums ! 0) @ store_counters ovf every_fifo_errors @
     enc32 (sums ! 1) @ store_counters unf every_fifo_errors @
     enc32 (sums ! 2) @ store_counters ddr0 every_ddr_parity_errors @
     enc32 (sums ! 3) @ store_counters ddr1 every_ddr_parity_errors @
     enc32 (sums ! 4) @ store_counters par every_parity_errors @
     store_counters com every_membridge_common_errors"

lemma length_membridge_payload: "length (membridge_payload sums ovf unf ddr0 ddr1 par com) = 468"
  by (simp add: membridge_payload_def)

lemma dec_membridge_payload:
  "dec_membridge_errors (membridge_payload sums ovf unf ddr0 ddr1 par com) =
   \<lparr>fifo_overflow = sums ! 0, fifo_overflows = map ovf every_fifo_errors,
    fifo_underflow = sums ! 1, fifo_underflows = map unf every_fifo_errors,
    ddr0_parity_error = sums ! 2, ddr0_parity_errors = map ddr0 every_ddr_parity_errors,
    ddr1_parity_error = sums ! 3, ddr1_parity_errors = map ddr1 every_ddr_parity_errors,
    mb_parity_error = sums ! 4, mb_parity_errors = map par every_parity_errors,
    mb_common_errors = map com every_membridge_common_errors\<rparr>"
  by (simp add: dec_membridge_errors_def membridge_payload_def rd32_def codec_simps)

text \<open>C23. Of the errors of the memory bridge, the tool reports exactly those the device counted, each by
  the name of its number and with its counter: when the device stores the counters of the six tables in
  the order of the enumerations, the handler prints, under the five sums, a line for every error whose
  counter is not 0 and no other, in the order of the enumerations. No error of an enumeration is without a
  name, and no counter is read from the place of another.\<close>

theorem membridge_errors_named:
  assumes "\<And>n. os_calloc os n s = (True, s)"
    and "\<And>rq. opcode_of rq = (VENDOR_CMD_OTHERS, GET_MEMBRIDGE_ERRORS) \<Longrightarrow>
      os_send os rq s = (0, membridge_payload sums ovf unf ddr0 ddr1 par com, s')"
  shows "cxl_cmd_get_membridge_errors os dev s = Defined (0,
    [(''Get Membrige Errors : %s^n'', [Str dev]),
     (''fifo_overflow errors : %d^n'', [I32 (sums ! 0)])] @
    map (counted name_fifo_errors ovf) (filter (\<lambda>e. ovf e \<noteq> 0) every_fifo_errors) @
    [(''fifo_underflow errors : %d^n'', [I32 (sums ! 1)])] @
    map (counted name_fifo_errors unf) (filter (\<lambda>e. unf e \<noteq> 0) every_fifo_errors) @
    [(''ddr0 parity errors : %d^n'', [I32 (sums ! 2)])] @
    map (counted name_ddr_parity_errors ddr0) (filter (\<lambda>e. ddr0 e \<noteq> 0) every_ddr_parity_errors) @
    [(''ddr1 parity errors : %d^n'', [I32 (sums ! 3)])] @
    map (counted name_ddr_parity_errors ddr1) (filter (\<lambda>e. ddr1 e \<noteq> 0) every_ddr_parity_errors) @
    [(''membridge common errors :^n'', [])] @
    map (counted name_membridge_common_errors com) (filter (\<lambda>e. com e \<noteq> 0) every_membridge_common_errors) @
    [(''parity errors : %d^n'', [I32 (sums ! 4)])] @
    map (counted name_parity_errors par) (filter (\<lambda>e. par e \<noteq> 0) every_parity_errors), s')"
  unfolding cxl_cmd_get_membridge_errors_def cxlmi_cmd_get_membridge_errors_def[abs_def]
  by (subst answered_report[OF assms])
    (simp_all add: length_membridge_payload sizeof_membridge_errors_def dec_membridge_payload
      display_membridge_errors_def named_fifo_errors.nonzero_report named_ddr_parity_errors.nonzero_report
      named_membridge_common_errors.nonzero_report named_parity_errors.nonzero_report)

definition counting_device :: "unit os" where
  "counting_device = \<lparr>os_calloc = (\<lambda>n s. (True, s)), os_send = (\<lambda>rq s. (0, membridge_payload [7, 0, 0, 1, 0]
      (\<lambda>e. if e = M2S_REQ_FIFO then 4 else if e = DDR0_AR_REQ_FIFO then 3 else 0) (\<lambda>e. 0) (\<lambda>e. 0)
      (\<lambda>e. if e = AXI_R_PARITY_ERROR then 1 else 0) (\<lambda>e. 0) (\<lambda>e. if e = VIRAL then 258 else 0), s)),
      os_msg_sz = 0\<rparr>"

lemma counting_device_simps:
  "os_calloc counting_device n s = (True, s)"
  "os_send counting_device rq s = (0, membridge_payload [7, 0, 0, 1, 0]
      (\<lambda>e. if e = M2S_REQ_FIFO then 4 else if e = DDR0_AR_REQ_FIFO then 3 else 0) (\<lambda>e. 0) (\<lambda>e. 0)
      (\<lambda>e. if e = AXI_R_PARITY_ERROR then 1 else 0) (\<lambda>e. 0) (\<lambda>e. if e = VIRAL then 258 else 0), s)"
  by (simp_all add: counting_device_def)

lemma membridge_errors_named_witness:
  "cxl_cmd_get_membridge_errors counting_device ''mem0'' () = Defined (0,
    [(''Get Membrige Errors : %s^n'', [Str ''mem0'']),
     (''fifo_overflow errors : %d^n'', [I32 7]),
     (''%s : 0x%x^n'', [Str ''M2S_REQ_FIFO'', I32 4]),
     (''%s : 0x%x^n'', [Str ''DDR0_AR_REQ_FIFO'', I32 3]),
     (''fifo_underflow errors : %d^n'', [I32 0]),
     (''ddr0 parity errors : %d^n'', [I32 0]),
     (''ddr1 parity errors : %d^n'', [I32 1]),
     (''%s : 0x%x^n'', [Str ''AXI_R_PARITY_ERROR'', I32 1]),
     (''membridge common errors :^n'', []),
     (''%s : 0x%x^n'', [Str ''VIRAL'', I32 258]),
     (''parity errors : %d^n'', [I32 0])], ())"
  by (subst membridge_errors_named[OF counting_device_simps])
    (simp_all add: every_fifo_errors_def every_ddr_parity_errors_def every_parity_errors_def
      every_membridge_common_errors_def counted_def)

text \<open>The link reports every counter, with the four sums at the end.\<close>

definition cxl_err_payload ::
  "u64 list \<Rightarrow> (cxl_corr_errors \<Rightarrow> u32) \<Rightarrow> (cxl_uncorr_errors \<Rightarrow> u32) \<Rightarrow> (cxl_err_sts \<Rightarrow> u32) \<Rightarrow> bytes" where
  "cxl_err_payload sums corr uncorr cfg =
     enc64 (sums ! 0) @ enc64 (sums ! 1) @ enc64 (sums ! 2) @ enc64 (sums ! 3) @
     store_counters corr every_cxl_corr_errors @ store_counters uncorr every_cxl_uncorr_errors @
     store_counters cfg every_cxl_err_sts"

lemma length_cxl_err_payload: "length (cxl_err_payload sums corr uncorr cfg) = 180"
  by (simp add: cxl_err_payload_def)

lemma dec_cxl_err_payload:
  "dec_cxl_err_cntr (cxl_err_payload sums corr uncorr cfg) =
   \<lparr>total_err_cnt = sums ! 0, total_corr_err_cnt = sums ! 1, total_uncorr_err_cnt = sums ! 2,
    total_cxl_cfg_err_cnt = sums ! 3, corr_err = map corr every_cxl_corr_errors,
    uncorr_err = map uncorr every_cxl_uncorr_errors, cxl_conf_err = map cfg every_cxl_err_sts\<rparr>"
  by (simp add: dec_cxl_err_cntr_def cxl_err_payload_def rd64_def codec_simps)

theorem cxl_errors_named:
  assumes "\<And>n. os_calloc os n s = (True, s)"
    and "\<And>rq. opcode_of rq = (VENDOR_CMD_OTHERS, CXL_ERR_CNTR_GET) \<Longrightarrow>
      os_send os rq s = (0, cxl_err_payload sums corr uncorr cfg, s')"
  shows "cxl_cmd_cxl_err_cntr_get os dev s = Defined (0,
    [(''CXL err cntr for: %s^n'', [Str dev]),
     (''Correctable Error : ^n'', [])] @
    map (listed name_cxl_corr_errors corr) every_cxl_corr_errors @
    [(''UnCorrectable Error : ^n'', [])] @
    map (listed name_cxl_uncorr_errors uncorr) every_cxl_uncorr_errors @
    [(''Cxl Cfg status Error : ^n'', [])] @
    map (listed name_cxl_err_sts cfg) every_cxl_err_sts @
    [(''Total count of Correctable errors %ld^n'', [I64 (sums ! 1)]),
     (''Total count of Uncorrectable errors %ld^n'', [I64 (sums ! 2)]),
     (''Total count of cxl_cfg errors %ld^n'', [I64 (sums ! 3)]),
     (''Total number of errors %ld^n'', [I64 (sums ! 0)])], s')"
  unfolding cxl_cmd_cxl_err_cntr_get_def cxlmi_cmd_cxl_err_cntr_get_def[abs_def]
  by (subst answered_report[OF assms])
    (simp_all add: length_cxl_err_payload sizeof_cxl_err_cntr_def dec_cxl_err_payload
      display_cxl_error_info_def named_cxl_corr_errors.full_report named_cxl_uncorr_errors.full_report
      named_cxl_err_sts.full_report del: upt_Suc)

end
