(* ===== verification/Spec2Isabelle.thy ===== *)
theory Spec2Isabelle
  imports Vendor_Properties Fw_Properties Parse_Properties Dimm_Mgmt Cli_Properties Strbuf_Properties
    Usage Error_Names
begin

text \<open>
  A verification library for \<open>libcxlmi-meta\<close>, the command-line tool for the vendor mailbox commands of
  a CXL memory device.

  \<^bold>\<open>The program.\<close> \<open>main\<close> (\<open>cxl/src/cxl_main.c\<close>) looks the first argument up in a table of 69 commands
  and runs it (\<open>vendor_util/src/util_main.c\<close>). A command (\<open>cxl/src/cmd_parser.c\<close>) parses the rest with
  its table of options (\<open>vendor_util/src/parse_option.c\<close>), opens the endpoints named on the command
  line and runs a handler on each of them (\<open>cxl/src/cxl_cmd.c\<close>). A handler calls a command of the
  mailbox: a vendor command (\<open>vendor_meta/src/vendor_commands.c\<close>, over the structures of
  \<open>vendor_meta/inc\<close>) or one of the CXL specification in the library libcxlmi; it prints the response,
  with the helpers of \<open>ddr.c\<close>, \<open>cxl_link.c\<close>, \<open>pcie_eye.c\<close>, \<open>membridge_err.c\<close>, \<open>ltssm_states.c\<close> and
  \<open>dimm_mgmt.c\<close>. The firmware update is the one handler that runs a protocol.

  \<^bold>\<open>The theories.\<close>
  \<^item> \<open>Prelude\<close>: words, bytes, little-endian reading and writing, the type \<open>outcome\<close> of what may be
    undefined in C. \<open>Cstdlib\<close>: \<open>strtol\<close>, \<open>strtoull\<close> and the prefix tests.
  \<^item> \<open>Transport\<close>: the mailbox (\<open>arm_cci_request\<close>, \<open>send_cmd_cci\<close>, \<open>calloc\<close>) as a parameter, the shapes of
    a vendor command, and the contract of a query as the locale \<open>query\<close>.
  \<^item> \<open>Vendor_Types\<close>: opcodes, and a record with its layout for every structure. \<open>Vendor_Commands\<close>: a
    definition per function of \<open>vendor_commands.c\<close>. \<open>Vendor_Properties\<close>: requests determine their
    input, responses are read in bounds, out-parameters are written exactly on success, opcodes are
    distinct; the status of background operations; the payload limit read from sysfs.
  \<^item> \<open>Fw_Update\<close>: \<open>cxl_cmd_update_device_fw\<close>. \<open>Fw_Properties\<close>: the protocol as an inductive relation on
    logs of requests, the refinement of the loop to it, and its completion on a device that recovers.
  \<^item> \<open>Parse_Option\<close>: the parser, with its exits and diagnostics, and the text form of UUIDs.
    \<open>Parse_Properties\<close>: round trips of command lines and UUIDs, and the types of the values stored.
    \<open>Usage\<close>: the usage and help texts and the messages, and what the parser writes before it exits.
  \<^item> \<open>Output\<close>: a printed line is its format and arguments. \<open>Display\<close>, \<open>Ddr_Stats\<close>: the display helpers,
    and the statistics with their chunked transfer. \<open>Dimm_Vendors\<close>, \<open>Dimm_Mgmt\<close>: decoding of SPD bytes.
  \<^item> \<open>Cxl_Handlers\<close>: the handlers of the vendor commands. \<open>Cxl_Std\<close>: those of the specification.
    \<open>Handler_Properties\<close>: failures, and where reading the response is undefined. \<open>Error_Names\<close>: the
    enumerations of errors, and that the reports name every error the device counted.
  \<^item> \<open>Cli\<close>: tables, actions, the loop over endpoints, dispatch and \<open>main\<close>. \<open>Cli_Properties\<close>: the command
    line down to the bytes of the request.
  \<^item> \<open>Strbuf\<close>, \<open>Strbuf_Properties\<close>: the growing string buffer, its invariant over all calls, its
    refinement to lists, and its client \<open>prefix_filename\<close>.

  \<^bold>\<open>How the code is translated.\<close> A C structure is a record, an \<open>n\<close>-bit integer a word of that width;
  a result that is negative for an error is an \<open>int\<close>. State that is not the program's own (device, heap,
  time) is a type variable passed from call to call. \<open>Undefined\<close> marks a read or write outside of an
  object, the use of a null pointer or of a value that was never written, and signed overflow. \<open>Exit\<close> is
  the end of the program with its status. What is printed is a list of formats with their arguments;
  since a string of this logic has no backslash, the escapes of the formats are written with a caret.
  Variables that options write are named by the C expression they stand for.

  \<^bold>\<open>Interfaces.\<close> \<open>query\<close> is what a handler relies on of a command (interpreted on both shapes of
  \<open>Transport\<close>); \<open>total_port\<close> what the update loop relies on of a port (interpreted on the port of the
  specification and on a logging port); \<open>text_sink\<close> what a client of the string buffer relies on
  (interpreted on \<open>strbuf_add\<close>); \<open>counter_names\<close> what device and tool agree on for a table of error
  counters (interpreted on the seven enumerations).

  \<^bold>\<open>Bounds and termination.\<close> Loops over blocks, pieces, rows, arguments and characters are functions with
  a termination proof. The retries of the update are bounded by the code (12 attempts). The loop over
  endpoints asks the library for the next one and need not end: it is a \<open>partial_function\<close>, and the
  theorems about it prove that it returns, from the list of endpoints the library holds. The second
  loop of \<open>IntToString\<close> counts with 8 bits and need not end: its result is an option, and when it
  returns is proved.

  \<^bold>\<open>Assumptions.\<close> The host is x86-64: little-endian, with the layout of that ABI. \<open>int\<close> has 32 bits,
  \<open>size_t\<close> 64. Shifting an \<open>int\<close> by at least 32 is undefined in C; \<open>shl1\<close> is a parameter for it. Where a
  theorem is about a device or library that answers as specified, the assumption is a premise of the
  theorem, and a witness satisfies it.

  \<^bold>\<open>Not modelled.\<close> libcxlmi, the kernel and the C library beyond the functions above (parameters).
  Floating-point arithmetic: the conversions are the parameters of a record. The help strings of the
  option tables: the texts of \<open>Usage\<close> hold for any. Building a usage from subcommands, which no caller
  asks for. Prototypes in the headers declare and compute nothing.
\<close>

end
